(* ===== verification/Prelude.thy ===== *)
theory Prelude
  imports Complex_Main "HOL-Library.Multiset" "HOL-Library.Sublist"
begin

text \<open>
  Shared vocabulary of the development: the named collections that the component
  theories fill, the type names of the model, and generic lemmas on lists and folds
  that the component proofs use (JavaScript's \<open>Array.prototype.reduce\<close>,
  \<open>splice\<close>, \<open>filter\<close> by index and \<open>find\<close>).
\<close>

named_theorems js_simps "evaluation rules of the JavaScript number model"
named_theorems card_simps "rules that compute the fields of an invoice card"

type_synonym price_id = nat
type_synonym entity_id = nat

text \<open>The three measurement fields \<open>{a, b, c}\<close> of a card, as the input fields hold them.\<close>

type_synonym measurements = "string \<times> string \<times> string"

text \<open>
  Lower case of an ASCII letter, the case mapping both \<open>String.prototype.toLowerCase\<close>
  (on the byte strings of the model) and SQLite's \<open>LIKE\<close> apply.
\<close>

definition ascii_lower :: "char \<Rightarrow> char" where
  "ascii_lower c =
     (if 65 \<le> (of_char c :: nat) \<and> (of_char c :: nat) \<le> 90 then char_of ((of_char c :: nat) + 32) else c)"

subsection \<open>Array operations\<close>

text \<open>
  \<open>arr.splice(i, 1)\<close> removes the element at \<open>i\<close>, and \<open>arr.splice(j, 0, x)\<close>
  inserts \<open>x\<close> before position \<open>j\<close>; both clamp an index beyond the end to the
  end, as \<open>take\<close> and \<open>drop\<close> do.
\<close>

definition remove_at :: "nat \<Rightarrow> 'a list \<Rightarrow> 'a list" where
  "remove_at i xs = take i xs @ drop (Suc i) xs"

definition insert_at :: "nat \<Rightarrow> 'a \<Rightarrow> 'a list \<Rightarrow> 'a list" where
  "insert_at j x xs = take j xs @ x # drop j xs"

text \<open>\<open>arr.filter((_, k) => k !== i)\<close>.\<close>

definition filter_index :: "nat \<Rightarrow> 'a list \<Rightarrow> 'a list" where
  "filter_index i xs = map snd (filter (\<lambda>(k, _). k \<noteq> i) (zip [0..<length xs] xs))"

subsection \<open>Folds\<close>

text \<open>\<open>xs.reduce((s, x) => s + f(x), z)\<close> is a left fold; over a commutative monoid it is a sum.\<close>

lemma foldl_plus_sum_list:
  "foldl (\<lambda>s x. s + f x) z xs = z + sum_list (map f xs)"
  for z :: "'a::comm_monoid_add"
  by (induction xs arbitrary: z) (simp_all add: add.assoc)

lemma sum_list_map_mset_eq:
  "mset xs = mset ys \<Longrightarrow> sum_list (map f xs) = sum_list (map f ys)"
  for f :: "'b \<Rightarrow> 'a::comm_monoid_add"
  by (metis mset_map sum_mset_sum_list)

lemma mset_remove_at:
  "i < length xs \<Longrightarrow> mset (remove_at i xs) + {#xs ! i#} = mset xs"
proof -
  assume i: "i < length xs"
  have "xs = take i xs @ xs ! i # drop (Suc i) xs"
    using i by (simp add: id_take_nth_drop)
  then have "mset xs = mset (take i xs) + mset (drop (Suc i) xs) + {#xs ! i#}"
    by (metis mset.simps(2) mset_append add_mset_add_single union_assoc union_commute)
  then show ?thesis by (simp add: remove_at_def)
qed

lemma mset_insert_at: "mset (insert_at j x xs) = mset xs + {#x#}"
proof -
  have "mset (insert_at j x xs) = mset (take j xs) + mset (drop j xs) + {#x#}"
    by (simp add: insert_at_def)
  moreover have "mset (take j xs) + mset (drop j xs) = mset xs"
    by (metis append_take_drop_id mset_append)
  ultimately show ?thesis by simp
qed

lemma length_remove_at [simp]:
  "i < length xs \<Longrightarrow> length (remove_at i xs) = length xs - 1"
  by (simp add: remove_at_def)

lemma filter_index_eq_remove_at:
  "i < length xs \<Longrightarrow> filter_index i xs = remove_at i xs"
proof (induction xs arbitrary: i rule: rev_induct)
  case Nil
  then show ?case by simp
next
  case (snoc x xs)
  show ?case
  proof (cases "i = length xs")
    case True
    have "filter (\<lambda>(k, _). k \<noteq> length xs) (zip [0..<length xs] xs) = zip [0..<length xs] xs"
      by (auto simp: filter_id_conv set_zip)
    with True show ?thesis
      by (simp add: filter_index_def remove_at_def)
  next
    case False
    with snoc.prems have i: "i < length xs" by simp
    then have "filter_index i (xs @ [x]) = filter_index i xs @ [x]"
      by (simp add: filter_index_def)
    with snoc.IH[OF i] i show ?thesis
      by (simp add: remove_at_def)
  qed
qed


lemma foldl_append_concat: "foldl (\<lambda>res y. res @ f y) acc ys = acc @ concat (map f ys)"
  by (induction ys arbitrary: acc) simp_all


lemma filter_concat_distinct:
  assumes "distinct (map fst ps)" "(i, y) \<in> set ps"
  shows "filter (\<lambda>(j, x). j = i) (concat (map (\<lambda>(j, it). map (Pair j) (f it)) ps)) = map (Pair i) (f y)"
  using assms
proof (induction ps)
  case (Cons q ps)
  obtain j z where q: "q = (j, z)" by (cases q)
  show ?case
  proof (cases "j = i")
    case True
    with Cons.prems q have "y = z" and "i \<notin> fst ` set ps" by force+
    hence "filter (\<lambda>(j, x). j = i) (concat (map (\<lambda>(j, it). map (Pair j) (f it)) ps)) = []"
      by (force simp: filter_empty_conv)
    with True q \<open>y = z\<close> show ?thesis by (simp add: comp_def)
  next
    case False
    with Cons q show ?thesis by (simp add: comp_def)
  qed
qed simp


lemma map_snd_filter_zip:
  "length ns = length xs \<Longrightarrow>
     map (\<lambda>(k, x). h x) (filter (\<lambda>(k, x). Q x) (zip ns xs)) = map h (filter Q xs)"
  by (induction ns xs rule: list_induct2) auto


lemma find_append_skip: "\<forall>y \<in> set xs. \<not> P y \<Longrightarrow> find P (xs @ ys) = find P ys"
  by (induction xs) simp_all


lemma map_case_prod_zip_snd:
  "length as = length bs \<Longrightarrow> map (\<lambda>(a, b). f b) (zip as bs) = map f bs"
  by (induction as bs rule: list_induct2) simp_all



lemma ex_le_Suc: "(\<exists>k \<le> Suc n. P k) \<longleftrightarrow> P 0 \<or> (\<exists>k \<le> n. P (Suc k))"
proof
  assume "\<exists>k \<le> Suc n. P k"
  then obtain k where "k \<le> Suc n" "P k" by blast
  then show "P 0 \<or> (\<exists>k \<le> n. P (Suc k))" by (cases k) auto
qed auto

lemma sublist_take_drop:
  "sublist xs ys \<longleftrightarrow> (\<exists>k. k + length xs \<le> length ys \<and> take (length xs) (drop k ys) = xs)"
proof
  assume "sublist xs ys"
  then obtain ps ss where "ys = ps @ xs @ ss" by (auto simp: sublist_def)
  then show "\<exists>k. k + length xs \<le> length ys \<and> take (length xs) (drop k ys) = xs"
    by (intro exI [of _ "length ps"]) simp
next
  assume "\<exists>k. k + length xs \<le> length ys \<and> take (length xs) (drop k ys) = xs"
  then obtain k where k: "k + length xs \<le> length ys" "take (length xs) (drop k ys) = xs" by blast
  have "ys = take k ys @ take (length xs) (drop k ys) @ drop (length xs) (drop k ys)"
    by (simp only: append_take_drop_id)
  with k(2) show "sublist xs ys" unfolding sublist_def by metis
qed

end
