(* ===== verification/JsNum.thy ===== *)
theory JsNum
  imports Prelude
begin

text \<open>
  JavaScript numbers. A finite double is modelled by its exact rational value
  (\<open>Fin\<close>); \<open>Infinity\<close>, \<open>-Infinity\<close> and \<open>NaN\<close> are constructors of their own.
  Rounding to 53 bits, overflow to \<open>Infinity\<close> and the sign of zero are not modelled:
  every finite result is exact and there is one zero.  The operators follow
  ECMA-262 \<open>Number::add\<close>, \<open>::multiply\<close>, \<open>::divide\<close>, \<open>::remainder\<close> and
  \<open>::unaryMinus\<close>; truthiness and \<open>x || y\<close> follow \<open>ToBoolean\<close>.
  Addition makes \<open>jsnum\<close> a commutative monoid, so \<open>sum_list\<close> and the multiset
  lemmas of the library apply to the totals of the program.
\<close>

datatype jsnum = Fin rat | PInf | NInf | NaN

instantiation jsnum :: comm_monoid_add
begin

definition zero_jsnum :: jsnum where
  "zero_jsnum = Fin 0"

fun plus_jsnum :: "jsnum \<Rightarrow> jsnum \<Rightarrow> jsnum" where
  "plus_jsnum (Fin a) (Fin b) = Fin (a + b)"
| "plus_jsnum NaN y = NaN"
| "plus_jsnum x NaN = NaN"
| "plus_jsnum PInf NInf = NaN"
| "plus_jsnum NInf PInf = NaN"
| "plus_jsnum PInf y = PInf"
| "plus_jsnum x PInf = PInf"
| "plus_jsnum NInf y = NInf"
| "plus_jsnum x NInf = NInf"

instance
proof
  fix x y z :: jsnum
  show "x + y + z = x + (y + z)"
    by (induction x y rule: plus_jsnum.induct) (cases z, simp_all)+
  show "x + y = y + x"
    by (cases y) (induction x y rule: plus_jsnum.induct, simp_all)+
  show "0 + x = x"
    unfolding zero_jsnum_def by (cases x) simp_all
qed

end

declare zero_jsnum_def [js_simps]

text \<open>The sign of a number, used by the rules for infinities.\<close>

definition inf_of_sign :: "bool \<Rightarrow> jsnum" where
  "inf_of_sign pos = (if pos then PInf else NInf)"

fun js_neg :: "jsnum \<Rightarrow> jsnum" where
  "js_neg (Fin a) = Fin (- a)"
| "js_neg PInf = NInf"
| "js_neg NInf = PInf"
| "js_neg NaN = NaN"

definition js_sub :: "jsnum \<Rightarrow> jsnum \<Rightarrow> jsnum" where
  "js_sub x y = x + js_neg y"

text \<open>\<open>Number::multiply\<close>: an infinity times zero is NaN, otherwise the signs multiply.\<close>

fun js_mul :: "jsnum \<Rightarrow> jsnum \<Rightarrow> jsnum" where
  "js_mul (Fin a) (Fin b) = Fin (a * b)"
| "js_mul NaN y = NaN"
| "js_mul x NaN = NaN"
| "js_mul PInf PInf = PInf"
| "js_mul PInf NInf = NInf"
| "js_mul NInf PInf = NInf"
| "js_mul NInf NInf = PInf"
| "js_mul (Fin a) PInf = (if a = 0 then NaN else inf_of_sign (0 < a))"
| "js_mul (Fin a) NInf = (if a = 0 then NaN else inf_of_sign (a < 0))"
| "js_mul PInf (Fin b) = (if b = 0 then NaN else inf_of_sign (0 < b))"
| "js_mul NInf (Fin b) = (if b = 0 then NaN else inf_of_sign (b < 0))"

text \<open>
  \<open>Number::divide\<close>: a finite number over zero is an infinity (zero is taken as
  \<open>+0\<close>), zero over zero and infinity over infinity are NaN.
\<close>

fun js_div :: "jsnum \<Rightarrow> jsnum \<Rightarrow> jsnum" where
  "js_div (Fin a) (Fin b) =
     (if b \<noteq> 0 then Fin (a / b) else if a = 0 then NaN else inf_of_sign (0 < a))"
| "js_div NaN y = NaN"
| "js_div x NaN = NaN"
| "js_div (Fin a) PInf = Fin 0"
| "js_div (Fin a) NInf = Fin 0"
| "js_div PInf (Fin b) = inf_of_sign (0 \<le> b)"
| "js_div NInf (Fin b) = inf_of_sign (b < 0)"
| "js_div x y = NaN"

text \<open>\<open>Number::remainder\<close>: truncating division, the result has the dividend's sign.\<close>

definition rat_trunc :: "rat \<Rightarrow> int" where
  "rat_trunc q = (if 0 \<le> q then \<lfloor>q\<rfloor> else - \<lfloor>- q\<rfloor>)"

fun js_rem :: "jsnum \<Rightarrow> jsnum \<Rightarrow> jsnum" where
  "js_rem (Fin a) (Fin b) =
     (if b = 0 then NaN else Fin (a - b * of_int (rat_trunc (a / b))))"
| "js_rem (Fin a) PInf = Fin a"
| "js_rem (Fin a) NInf = Fin a"
| "js_rem x y = NaN"

text \<open>\<open>ToBoolean\<close> of a number, \<open>isNaN\<close>, and \<open>x || y\<close> on numbers.\<close>

fun js_truthy :: "jsnum \<Rightarrow> bool" where
  "js_truthy (Fin a) = (a \<noteq> 0)"
| "js_truthy NaN = False"
| "js_truthy PInf = True"
| "js_truthy NInf = True"

fun is_nan :: "jsnum \<Rightarrow> bool" where
  "is_nan NaN = True"
| "is_nan _ = False"

definition js_or :: "jsnum \<Rightarrow> jsnum \<Rightarrow> jsnum" where
  "js_or x y = (if js_truthy x then x else y)"

text \<open>\<open>x <= y\<close> and \<open>x < y\<close> on numbers: false when either side is NaN.\<close>

fun js_le :: "jsnum \<Rightarrow> jsnum \<Rightarrow> bool" where
  "js_le (Fin a) (Fin b) = (a \<le> b)"
| "js_le NaN y = False"
| "js_le x NaN = False"
| "js_le NInf y = True"
| "js_le x PInf = True"
| "js_le x y = False"

text \<open>A finite number: what \<open>Number.isFinite\<close> accepts.\<close>

fun js_finite :: "jsnum \<Rightarrow> bool" where
  "js_finite (Fin a) = True"
| "js_finite _ = False"

text \<open>A positive number: neither NaN nor \<open><= 0\<close>.\<close>

fun js_positive :: "jsnum \<Rightarrow> bool" where
  "js_positive (Fin a) = (0 < a)"
| "js_positive PInf = True"
| "js_positive _ = False"

text \<open>
  A number through JSON (\<open>JSON.stringify\<close>, then \<open>JSON.parse\<close> or a \<open>DOUBLE\<close>
  column): a finite number is kept, \<open>Infinity\<close>, \<open>-Infinity\<close> and NaN become
  \<open>null\<close>, which every later use reads as 0 (\<open>null || 0\<close>, \<open>null * x\<close>,
  SQL \<open>SUM\<close>).
\<close>

fun json_number :: "jsnum \<Rightarrow> jsnum" where
  "json_number (Fin q) = Fin q"
| "json_number _ = 0"

declare inf_of_sign_def [js_simps] js_sub_def [js_simps] js_or_def [js_simps]
  rat_trunc_def [js_simps]

subsection \<open>Laws\<close>

lemma js_or_not_nan [simp]: "\<not> is_nan y \<Longrightarrow> \<not> is_nan (js_or x y)"
  by (cases x) (auto simp: js_or_def)

lemma js_or_zero_not_nan [simp]: "js_or x 0 \<noteq> NaN"
  by (cases x) (auto simp: js_or_def zero_jsnum_def)

lemma js_or_truthy [simp]: "js_truthy x \<Longrightarrow> js_or x y = x"
  by (simp add: js_or_def)

lemma js_or_falsy [simp]: "\<not> js_truthy x \<Longrightarrow> js_or x y = y"
  by (simp add: js_or_def)

lemma js_truthy_iff: "js_truthy x \<longleftrightarrow> x \<noteq> Fin 0 \<and> x \<noteq> NaN"
  by (cases x) auto

lemma js_or_zero_eq: "js_or x 0 = (if x = NaN then 0 else x)"
  by (cases x) (auto simp: js_or_def zero_jsnum_def)

lemma js_mul_comm: "js_mul x y = js_mul y x"
  by (cases x; cases y) (simp_all add: mult.commute)

lemma js_mul_Fin_one [simp]: "js_mul (Fin 1) x = x"
  by (cases x) (simp_all add: inf_of_sign_def)

lemma js_mul_NaN_right [simp]: "js_mul x NaN = NaN"
  by (cases x) simp_all

lemma plus_NaN_right [simp]: "x + NaN = NaN"
  by (cases x) simp_all

lemma plus_Fin_zero_left [simp]: "Fin 0 + x = x"
  by (cases x) simp_all

lemma plus_Fin_zero_right [simp]: "x + Fin 0 = x"
  by (cases x) simp_all

lemma js_finite_iff: "js_finite x \<longleftrightarrow> (\<exists>q. x = Fin q)"
  by (cases x) auto

lemma json_number_idem [simp]: "json_number (json_number x) = json_number x"
  by (cases x) (simp_all add: zero_jsnum_def)

lemma json_number_finite [simp]: "js_finite (json_number x)"
  by (cases x) (simp_all add: zero_jsnum_def)

lemma js_neg_neg [simp]: "js_neg (js_neg x) = x"
  by (cases x) simp_all

end
