(* ===== verification/ParseFloat.thy ===== *)
theory ParseFloat
  imports JsNum
begin

text \<open>
  The two conversions between strings and numbers that the invoice page relies on:
  \<open>parseFloat\<close> (ECMA-262 \<section>19.2.4), which reads the measurement fields, and
  \<open>Number::toString\<close> with radix 10 (\<section>6.1.6.1.20), which \<open>String.prototype.replace\<close>
  applies to a number when it substitutes a measurement into a formula.  Strings are
  byte strings: the Unicode white space beyond ASCII (no-break space and the like) is
  not modelled.  \<open>toString\<close> is exact on the values \<open>parseFloat\<close> produces, which
  are decimal fractions; a rational that is not one (a result of division) is printed
  truncated after as many digits as the powers of 2 and 5 in its denominator ask for,
  where a double would print its shortest round-trip form.
\<close>

subsection \<open>Characters\<close>

definition is_digit :: "char \<Rightarrow> bool" where
  "is_digit c \<longleftrightarrow> c \<in> set ''0123456789''"

definition digit_value :: "char \<Rightarrow> nat" where
  "digit_value c = of_char c - 48"

definition digit_char :: "nat \<Rightarrow> char" where
  "digit_char n = char_of (48 + n)"

text \<open>StrWhiteSpaceChar restricted to ASCII: tab, line feed, vertical tab, form feed,
  carriage return and space.\<close>

definition is_js_space :: "char \<Rightarrow> bool" where
  "is_js_space c \<longleftrightarrow> c \<in> {CHR 0x09, CHR 0x0A, CHR 0x0B, CHR 0x0C, CHR 0x0D, CHR 0x20}"

definition digits_val :: "string \<Rightarrow> nat" where
  "digits_val ds = foldl (\<lambda>n d. 10 * n + digit_value d) 0 ds"

definition pow10 :: "int \<Rightarrow> rat" where
  "pow10 e = (if 0 \<le> e then 10 ^ nat e else 1 / 10 ^ nat (- e))"

subsection \<open>parseFloat\<close>

text \<open>An optional sign in front of the literal.\<close>

definition take_sign :: "string \<Rightarrow> bool \<times> string" where
  "take_sign s = (case s of
       c # r \<Rightarrow> if c = CHR ''-'' then (True, r) else if c = CHR ''+'' then (False, r) else (False, s)
     | [] \<Rightarrow> (False, []))"

text \<open>
  The exponent part after the digits: \<open>e\<close> or \<open>E\<close>, an optional sign and at least
  one digit.  Without a digit the longest valid prefix ends before the \<open>e\<close> and the
  exponent is 0.
\<close>

definition parse_exponent :: "string \<Rightarrow> int" where
  "parse_exponent r = (case r of
       c # r' \<Rightarrow>
         if c = CHR ''e'' \<or> c = CHR ''E'' then
           (case take_sign r' of (neg, r'') \<Rightarrow>
              let ds = takeWhile is_digit r'' in
              if ds = [] then 0 else if neg then - int (digits_val ds) else int (digits_val ds))
         else 0
     | [] \<Rightarrow> 0)"

definition decimal_value :: "string \<Rightarrow> string \<Rightarrow> int \<Rightarrow> rat" where
  "decimal_value ip fp e = of_nat (digits_val (ip @ fp)) * pow10 (e - int (length fp))"

text \<open>The fraction digits after a decimal point, and what follows them.\<close>

definition split_fraction :: "string \<Rightarrow> string \<times> string" where
  "split_fraction r = (case r of
       c # r' \<Rightarrow> if c = CHR ''.'' then (takeWhile is_digit r', dropWhile is_digit r') else ([], r)
     | [] \<Rightarrow> ([], []))"

definition parse_float :: "string \<Rightarrow> jsnum" where
  "parse_float s =
     (let s1 = dropWhile is_js_space s;
          (neg, s2) = take_sign s1
      in if take 8 s2 = ''Infinity'' then inf_of_sign (\<not> neg)
         else
           let ip = takeWhile is_digit s2;
               (fp, r) = split_fraction (dropWhile is_digit s2)
           in if ip = [] \<and> fp = [] then NaN
              else let v = Fin (decimal_value ip fp (parse_exponent r))
                   in if neg then js_neg v else v)"

text \<open>\<open>parseFloat(x) || 0\<close>, the way the invoice page reads every measurement.\<close>

definition measure_value :: "string \<Rightarrow> jsnum" where
  "measure_value s = js_or (parse_float s) 0"

subsection \<open>Number::toString\<close>

fun digits_of_nat :: "nat \<Rightarrow> string" where
  "digits_of_nat n =
     (if n < 10 then [digit_char n] else digits_of_nat (n div 10) @ [digit_char (n mod 10)])"

declare digits_of_nat.simps [simp del]

text \<open>How often the prime \<open>p\<close> divides \<open>d\<close>.\<close>

function multiplicity_of :: "nat \<Rightarrow> nat \<Rightarrow> nat" where
  "multiplicity_of p d =
     (if 1 < p \<and> 0 < d \<and> d mod p = 0 then Suc (multiplicity_of p (d div p)) else 0)"
  by pat_completeness auto
termination
  by (relation "measure (\<lambda>(p, d). d)") auto

declare multiplicity_of.simps [simp del]

text \<open>\<open>strip_tens n = (s, t)\<close> with \<open>n = s * 10 ^ t\<close> and \<open>s\<close> not divisible by 10.\<close>

function strip_tens :: "nat \<Rightarrow> nat \<times> nat" where
  "strip_tens n =
     (if n \<noteq> 0 \<and> n mod 10 = 0 then (case strip_tens (n div 10) of (s, t) \<Rightarrow> (s, Suc t))
      else (n, 0))"
  by pat_completeness auto
termination
  by (relation "measure id") auto

declare strip_tens.simps [simp del]

text \<open>
  The digits \<open>s\<close> (\<open>k\<close> of them) and the exponent \<open>n\<close> of \<open>Number::toString\<close>:
  the value is \<open>s \<times> 10 ^ (n - k)\<close>.
\<close>

definition decimal_digits :: "rat \<Rightarrow> string \<times> int" where
  "decimal_digits q =
     (case quotient_of q of (num, den) \<Rightarrow>
        let m = max (multiplicity_of 2 (nat den)) (multiplicity_of 5 (nat den));
            (s, t) = strip_tens (nat (num * 10 ^ m div den));
            ds = digits_of_nat s
        in (ds, int (length ds) + int t - int m))"

definition exponent_string :: "int \<Rightarrow> string" where
  "exponent_string e =
     CHR ''e'' # (if 0 \<le> e then CHR ''+'' else CHR ''-'') # digits_of_nat (nat \<bar>e\<bar>)"

text \<open>The four layouts of Number::toString for a positive value, in the order of the standard.\<close>

definition positive_to_string :: "rat \<Rightarrow> string" where
  "positive_to_string q =
     (case decimal_digits q of (ds, n) \<Rightarrow>
        let k = int (length ds) in
        if k \<le> n \<and> n \<le> 21 then ds @ replicate (nat (n - k)) (CHR ''0'')
        else if 0 < n \<and> n \<le> 21 then take (nat n) ds @ CHR ''.'' # drop (nat n) ds
        else if - 6 < n \<and> n \<le> 0 then ''0.'' @ replicate (nat (- n)) (CHR ''0'') @ ds
        else if k = 1 then ds @ exponent_string (n - 1)
        else [hd ds] @ CHR ''.'' # tl ds @ exponent_string (n - 1))"

fun number_to_string :: "jsnum \<Rightarrow> string" where
  "number_to_string NaN = ''NaN''"
| "number_to_string PInf = ''Infinity''"
| "number_to_string NInf = ''-Infinity''"
| "number_to_string (Fin q) =
     (if q = 0 then ''0''
      else if q < 0 then CHR ''-'' # positive_to_string (- q)
      else positive_to_string q)"


subsection \<open>Properties\<close>

text \<open>
  \<open>parseFloat(x) || 0\<close> is never NaN: an input that is not a number (an empty
  field, a word) reads as 0, and every other input reads as what \<open>parseFloat\<close>
  returns.
\<close>

theorem measure_value_total:
  "measure_value s = (if is_nan (parse_float s) then 0 else parse_float s)"
  by (cases "parse_float s") (auto simp: measure_value_def js_or_def zero_jsnum_def)

lemma of_char_digit_char: "n < 10 \<Longrightarrow> of_char (digit_char n) = 48 + n"
  by (simp add: digit_char_def)

lemma digit_char_nth: "n < 10 \<Longrightarrow> digit_char n = ''0123456789'' ! n"
proof -
  assume "n < 10"
  then have "n \<in> {0, 1, 2, 3, 4, 5, 6, 7, 8, 9}" by auto
  then have "of_char (''0123456789'' ! n) = (48 + n :: nat)" by auto
  then have "char_of (48 + n) = char_of (of_char (''0123456789'' ! n) :: nat)" by simp
  then show ?thesis by (simp add: digit_char_def)
qed

lemma digit_char_props:
  assumes "n < 10"
  shows "is_digit (digit_char n)" and "digit_value (digit_char n) = n"
    and "\<not> is_js_space (digit_char n)" and "digit_char n \<notin> {CHR ''-'', CHR ''+'', CHR ''I''}"
proof -
  show "is_digit (digit_char n)"
    unfolding is_digit_def digit_char_nth [OF assms] by (rule nth_mem) (use assms in simp)
  from assms show "digit_value (digit_char n) = n"
    by (simp add: digit_value_def of_char_digit_char)
  from assms have o: "of_char (digit_char n) = (48 + n :: nat)" by (rule of_char_digit_char)
  show "\<not> is_js_space (digit_char n)"
    using o by (auto simp: is_js_space_def)
  show "digit_char n \<notin> {CHR ''-'', CHR ''+'', CHR ''I''}"
    using o assms by auto
qed

lemma digits_val_snoc: "digits_val (xs @ [c]) = 10 * digits_val xs + digit_value c"
  by (simp add: digits_val_def)

lemma digits_of_nat_props:
  "digits_of_nat n \<noteq> [] \<and> (\<forall>c \<in> set (digits_of_nat n). is_digit c) \<and>
   digits_val (digits_of_nat n) = n \<and> (\<exists>k < 10. hd (digits_of_nat n) = digit_char k)"
proof (induction n rule: digits_of_nat.induct)
  case (1 n)
  show ?case
  proof (cases "n < 10")
    case True
    then show ?thesis
      by (auto simp: digits_of_nat.simps [of n] digit_char_props digits_val_def)
  next
    case False
    with 1 show ?thesis
      by (simp add: digits_of_nat.simps [of n] digit_char_props digits_val_snoc)
  qed
qed

text \<open>
  Printing a natural number in decimal and reading it back with \<open>parseFloat\<close>
  gives the number: the digit strings \<open>digits_of_nat\<close> prints are the numerals
  \<open>parseFloat\<close> reads.
\<close>

theorem parse_float_digits_of_nat: "parse_float (digits_of_nat n) = Fin (of_nat n)"
proof -
  obtain k where k: "k < 10" "hd (digits_of_nat n) = digit_char k"
    using digits_of_nat_props [of n] by blast
  obtain c cs where cs: "digits_of_nat n = c # cs" and c: "c = digit_char k"
    using digits_of_nat_props [of n] k(2) by (cases "digits_of_nat n") auto
  have all: "\<forall>c \<in> set (digits_of_nat n). is_digit c" and v: "digits_val (digits_of_nat n) = n"
    using digits_of_nat_props [of n] by blast+
  have "take 8 (digits_of_nat n) \<noteq> ''Infinity''"
    using digit_char_props(4) [OF k(1)] by (auto simp: cs c)
  moreover from all have tw: "takeWhile is_digit cs = cs" and dw: "dropWhile is_digit cs = []"
    by (simp_all add: cs takeWhile_eq_all_conv dropWhile_eq_Nil_conv)
  ultimately show ?thesis using digit_char_props [OF k(1)] v
    unfolding parse_float_def
    by (simp add: cs c tw dw take_sign_def split_fraction_def parse_exponent_def decimal_value_def
        pow10_def del: digits_of_nat.simps)
qed

end
