(* ===== verification/Entities.thy ===== *)
theory Entities
  imports ParseFloat
begin

text \<open>
  The entities of \<open>src/server/db/model.js\<close> as the client receives them in JSON.
  A \<open>DOUBLE\<close> column is a \<open>jsnum\<close>, an \<open>INTEGER\<close> an \<open>int\<close>, a \<open>STRING\<close> a
  \<open>string\<close>, a foreign key a \<open>nat\<close> (\<open>option\<close> where the column may be null).
  The many-to-many price tables (\<open>extraPrice\<close>, \<open>extraProductPrice\<close>) reach the
  client as the list of the join rows of one entity: pairs of the tier id
  (\<open>priceId\<close>) and the override price.  A product carries its linked extra products
  (\<open>extraProducts\<close>, each with its own join rows), as \<open>GET /api/products\<close> includes
  them.
\<close>

record price =
  price_id :: price_id
  price_name :: string

record customer =
  customer_id :: entity_id
  customer_name :: string
  phoneNumber :: string
  address :: string
  defaultPriceId :: "price_id option"

record extra_product =
  ep_id :: entity_id
  ep_name :: string
  ep_price :: jsnum
  ep_measure :: string
  calculationType :: string
  ep_extraPrices :: "(price_id \<times> jsnum) list"

record product =
  product_id :: entity_id
  product_name :: string
  barcode :: string
  product_price :: jsnum
  product_measure :: string
  countOfSides :: int
  extraPrices :: "(price_id \<times> jsnum) list"
  extraProducts :: "extra_product list"

text \<open>
  The body of \<open>POST /api/invoices\<close>, the interface between the invoice page and the
  server: \<open>invoiceData\<close> of \<open>handleCreateInvoice\<close>, which the route stores as an
  invoice row, item rows and extra item rows.
\<close>

record extra_item_payload =
  xi_extraProductId :: entity_id
  xi_calculatedQuantity :: jsnum
  xi_calculatedUnitPrice :: jsnum
  xi_calculatedTotalPrice :: jsnum

record item_payload =
  it_productId :: entity_id
  it_measurements :: measurements
  it_quantity :: jsnum
  calculatedPricePerUnit :: jsnum
  totalItemPrice :: jsnum
  extraItems :: "extra_item_payload list"
  it_notes :: string

record invoice_payload =
  inv_customerId :: entity_id
  inv_defaultPriceId :: "price_id option"
  totalAmount :: jsnum
  items :: "item_payload list"


subsection \<open>The seed data of \<open>initDb\<close>\<close>

text \<open>
  \<open>initDb\<close> (\<open>src/server/index.js\<close>) fills an empty database with two price tiers,
  two extra products, three products and three customers, with their join rows;
  here every row as the client receives it, the join rows folded into it.
\<close>

definition seed_price_diller :: price where
  "seed_price_diller = \<lparr>price_id = 1, price_name = ''Diller''\<rparr>"

definition seed_price_adaty :: price where
  "seed_price_adaty = \<lparr>price_id = 2, price_name = ''Adaty''\<rparr>"

definition seed_extra_secek :: extra_product where
  "seed_extra_secek =
     \<lparr>ep_id = 1, ep_name = ''Secek (Base: 10, Diller: 15, Adaty: 20)'', ep_price = Fin 10,
      ep_measure = ''m'', calculationType = ''a'', ep_extraPrices = [(1, Fin 15), (2, Fin 20)]\<rparr>"

definition seed_extra_selpe :: extra_product where
  "seed_extra_selpe =
     \<lparr>ep_id = 2, ep_name = ''Selpe (Base: 16, Diller: 30)'', ep_price = Fin 16,
      ep_measure = ''m'', calculationType = ''a'', ep_extraPrices = [(1, Fin 30)]\<rparr>"

definition seed_product_h1 :: product where
  "seed_product_h1 =
     \<lparr>product_id = 1, product_name = ''H-1 (Base: 50, Diller: 40)'', barcode = ''1'',
      product_price = Fin 50, product_measure = ''m'', countOfSides = 1,
      extraPrices = [(1, Fin 40)], extraProducts = []\<rparr>"

definition seed_product_h2 :: product where
  "seed_product_h2 =
     \<lparr>product_id = 2, product_name = ''H-2 (Base: 60, Adaty: 70)'', barcode = ''2'',
      product_price = Fin 60, product_measure = ''mkw'', countOfSides = 2,
      extraPrices = [(2, Fin 70)], extraProducts = [seed_extra_secek]\<rparr>"

definition seed_product_h3 :: product where
  "seed_product_h3 =
     \<lparr>product_id = 3, product_name = ''H-3 (Base: 80, DIller: 90, Adaty: 100)'', barcode = ''3'',
      product_price = Fin 80, product_measure = ''mkb'', countOfSides = 3,
      extraPrices = [(1, Fin 90), (2, Fin 100)], extraProducts = [seed_extra_selpe]\<rparr>"

definition seed_customer_maksat :: customer where
  "seed_customer_maksat =
     \<lparr>customer_id = 1, customer_name = ''Maksat (Diller)'', phoneNumber = ''+99363038652'',
      address = ''Mary'', defaultPriceId = Some 1\<rparr>"

definition seed_customer_aman :: customer where
  "seed_customer_aman =
     \<lparr>customer_id = 2, customer_name = ''Aman (Adaty)'', phoneNumber = ''+99363038652'',
      address = ''Mary'', defaultPriceId = Some 2\<rparr>"

definition seed_customer_serdar :: customer where
  "seed_customer_serdar =
     \<lparr>customer_id = 3, customer_name = ''Serdar'', phoneNumber = ''+99363038652'',
      address = ''Mary'', defaultPriceId = None\<rparr>"

end
