(* ===== verification/Formula.thy ===== *)
theory Formula
  imports Entities
begin

text \<open>
  \<open>calculateExtraProductQuantity\<close> (\<open>src/client/src/pages/invoice/index.js\<close>, lines
  42--66): the formula text of an extra product is lower-cased, every letter \<open>a\<close>,
  \<open>b\<close>, \<open>c\<close> is replaced by the text of the measurement's number, and the result is
  handed to \<open>eval\<close>.  The model of \<open>eval\<close> is the numeric fragment of JavaScript in
  strict mode (the client is compiled from ES modules): white space and comments,
  decimal literals (a literal with a leading \<open>0\<close> followed by a digit is a
  SyntaxError in strict code), identifiers, the operators \<open>+ - * / %\<close> binary and
  \<open>+ -\<close> unary, parentheses.  The lexer (maximal munch, so \<open>--\<close>, \<open>++\<close> and
  \<open>**\<close> are single tokens) is \<open>lex\<close>; the parser is a shunting-yard automaton
  \<open>parse_tokens\<close> that builds an expression tree; \<open>eval_expr\<close> evaluates it, with
  \<open>Infinity\<close> the only bound identifier.  Outside the fragment (\<open>**\<close>, hexadecimal
  literals, comparisons, commas, statements, keywords such as \<open>true\<close>) the model
  answers SyntaxError, where real \<open>eval\<close> may return a value.
\<close>

datatype eval_error = SyntaxError | ReferenceError

datatype token =
  TNum rat | TIdent string | TPlus | TMinus | TStar | TStarStar | TSlash | TPercent
  | TLParen | TRParen | TInc | TDec

datatype binop = Add | Sub | Mul | Div | Rem

datatype expr = Num rat | Ident string | Neg expr | Pos expr | Bin binop expr expr

text \<open>What \<open>eval\<close> returns: a thrown error, \<open>undefined\<close> (an empty program) or a number.\<close>

datatype eval_result = EvalError eval_error | EvalUndefined | EvalNum jsnum

subsection \<open>Lexer\<close>

definition is_ident_start :: "char \<Rightarrow> bool" where
  "is_ident_start c \<longleftrightarrow>
     c \<in> set ''abcdefghijklmnopqrstuvwxyzABCDEFGHIJKLMNOPQRSTUVWXYZ$_''"

definition is_ident_char :: "char \<Rightarrow> bool" where
  "is_ident_char c \<longleftrightarrow> is_ident_start c \<or> is_digit c"

definition is_line_terminator :: "char \<Rightarrow> bool" where
  "is_line_terminator c \<longleftrightarrow> c = CHR 0x0A \<or> c = CHR 0x0D"

text \<open>ExponentPart: after \<open>e\<close> a digit is required, unlike in \<open>parseFloat\<close>.\<close>

definition lex_exponent :: "string \<Rightarrow> eval_error + (int \<times> string)" where
  "lex_exponent r = (case r of
       c # r' \<Rightarrow>
         if c = CHR ''e'' \<or> c = CHR ''E'' then
           (case take_sign r' of (neg, r'') \<Rightarrow>
              let ds = takeWhile is_digit r'' in
              if ds = [] then Inl SyntaxError
              else Inr (if neg then - int (digits_val ds) else int (digits_val ds),
                        dropWhile is_digit r''))
         else Inr (0, r)
     | [] \<Rightarrow> Inr (0, []))"

text \<open>
  A DecimalLiteral at the front of the input and the input after it.  The source
  character after a numeric literal must not be an IdentifierStart or a digit.
\<close>

definition lex_number :: "string \<Rightarrow> eval_error + (rat \<times> string)" where
  "lex_number s =
     (let ip = takeWhile is_digit s;
          (fp, r) = split_fraction (dropWhile is_digit s)
      in if 2 \<le> length ip \<and> hd ip = CHR ''0'' then Inl SyntaxError
         else if ip = [] \<and> fp = [] then Inl SyntaxError
         else (case lex_exponent r of
                 Inl e \<Rightarrow> Inl e
               | Inr (ex, rest) \<Rightarrow>
                   if rest \<noteq> [] \<and> (is_ident_start (hd rest) \<or> is_digit (hd rest))
                   then Inl SyntaxError
                   else Inr (decimal_value ip fp ex, rest)))"

text \<open>The text after a block comment's \<open>*/\<close>, if it is closed.\<close>

fun skip_block_comment :: "string \<Rightarrow> string option" where
  "skip_block_comment [] = None"
| "skip_block_comment [c] = None"
| "skip_block_comment (c # d # s) =
     (if c = CHR ''*'' \<and> d = CHR ''/'' then Some s else skip_block_comment (d # s))"

definition cons_token :: "token \<Rightarrow> eval_error + token list \<Rightarrow> eval_error + token list" where
  "cons_token t r = (case r of Inl e \<Rightarrow> Inl e | Inr ts \<Rightarrow> Inr (t # ts))"

definition starts_with_digit :: "string \<Rightarrow> bool" where
  "starts_with_digit s \<longleftrightarrow> s \<noteq> [] \<and> is_digit (hd s)"

function lex :: "string \<Rightarrow> eval_error + token list" where
  "lex [] = Inr []"
| "lex (c # s) =
     (if is_js_space c then lex s
      else if is_digit c \<or> (c = CHR ''.'' \<and> starts_with_digit s) then
        (case lex_number (c # s) of
           Inl e \<Rightarrow> Inl e
         | Inr (v, rest) \<Rightarrow> cons_token (TNum v) (lex rest))
      else if is_ident_start c then
        cons_token (TIdent (c # takeWhile is_ident_char s)) (lex (dropWhile is_ident_char s))
      else if c = CHR ''/'' \<and> s \<noteq> [] \<and> hd s = CHR ''/'' then
        lex (dropWhile (\<lambda>x. \<not> is_line_terminator x) s)
      else if c = CHR ''/'' \<and> s \<noteq> [] \<and> hd s = CHR ''*'' then
        (case skip_block_comment (tl s) of None \<Rightarrow> Inl SyntaxError | Some r \<Rightarrow> lex r)
      else if c = CHR ''+'' then
        (if s \<noteq> [] \<and> hd s = CHR ''+'' then cons_token TInc (lex (tl s)) else cons_token TPlus (lex s))
      else if c = CHR ''-'' then
        (if s \<noteq> [] \<and> hd s = CHR ''-'' then cons_token TDec (lex (tl s)) else cons_token TMinus (lex s))
      else if c = CHR ''*'' then
        (if s \<noteq> [] \<and> hd s = CHR ''*'' then cons_token TStarStar (lex (tl s)) else cons_token TStar (lex s))
      else if c = CHR ''/'' then cons_token TSlash (lex s)
      else if c = CHR ''%'' then cons_token TPercent (lex s)
      else if c = CHR ''('' then cons_token TLParen (lex s)
      else if c = CHR '')'' then cons_token TRParen (lex s)
      else Inl SyntaxError)"
  by pat_completeness auto
termination
  apply (relation "measure length")
     apply (simp_all add: less_Suc_eq_le length_dropWhile_le)
   subgoal for c s b v rest
   proof -
     assume start: "is_digit c \<or> c = CHR ''.'' \<and> starts_with_digit s"
       and num: "lex_number (c # s) = Inr b" and b: "(v, rest) = b"
     obtain fp r where sf: "split_fraction (dropWhile is_digit (c # s)) = (fp, r)"
       by (cases "split_fraction (dropWhile is_digit (c # s))")
     have sf_le: "split_fraction x = (fp', r') \<Longrightarrow> length r' \<le> length x" for x fp' r'
       by (cases x) (auto simp: split_fraction_def split: if_splits
           intro: le_SucI order.trans [OF length_dropWhile_le])
     have r_le: "length r \<le> length (dropWhile is_digit (c # s))"
       using sf_le [OF sf] .
     have r_lt: "length r \<le> length s"
     proof (cases "is_digit c")
       case True
       then show ?thesis using r_le length_dropWhile_le [of is_digit s] by simp
     next
       case False
       with start obtain d s' where s: "s = d # s'" and "c = CHR ''.''"
         by (auto simp: starts_with_digit_def neq_Nil_conv)
       with False sf show ?thesis
         using length_dropWhile_le [of is_digit s'] by (auto simp: split_fraction_def)
     qed
     have "length rest \<le> length r"
       using num b sf
       by (auto simp: lex_number_def lex_exponent_def take_sign_def Let_def
           split: list.splits if_splits sum.splits prod.splits
           intro: order.trans [OF length_dropWhile_le])
     with r_lt show ?thesis by simp
   qed
  subgoal for s r
  proof -
    have skip: "skip_block_comment t = Some r \<Longrightarrow> length r \<le> length t" for t
      by (induction t rule: skip_block_comment.induct) (auto split: if_splits)
    assume "s \<noteq> [] \<and> hd s = CHR ''*''" and "skip_block_comment (tl s) = Some r"
    then show ?thesis using skip [of "tl s"] by simp
  qed
  done


subsection \<open>Parser\<close>

text \<open>
  A shunting-yard automaton over the tokens.  The flag says whether an operand is
  expected; the operator stack holds pending operators and open parentheses; the
  operand stack holds the trees built so far.  Unary operators bind tighter than
  \<open>* / %\<close>, which bind tighter than \<open>+ -\<close>; binary operators are left-associative.
\<close>

datatype sy_op = OpBin binop | OpNeg | OpPos | OpParen

fun op_prec :: "sy_op \<Rightarrow> nat" where
  "op_prec OpParen = 0"
| "op_prec (OpBin b) = (if b = Add \<or> b = Sub then 1 else 2)"
| "op_prec OpNeg = 3"
| "op_prec OpPos = 3"

fun apply_op :: "sy_op \<Rightarrow> expr list \<Rightarrow> expr list option" where
  "apply_op OpNeg (x # vs) = Some (Neg x # vs)"
| "apply_op OpPos (x # vs) = Some (Pos x # vs)"
| "apply_op (OpBin b) (y # x # vs) = Some (Bin b x y # vs)"
| "apply_op _ _ = None"

text \<open>Pop and apply the operators of precedence at least \<open>p\<close>, down to an open parenthesis.\<close>

fun reduce_ops :: "nat \<Rightarrow> sy_op list \<Rightarrow> expr list \<Rightarrow> (sy_op list \<times> expr list) option" where
  "reduce_ops p [] vs = Some ([], vs)"
| "reduce_ops p (x # os) vs =
     (if x \<noteq> OpParen \<and> p \<le> op_prec x then
        (case apply_op x vs of None \<Rightarrow> None | Some vs' \<Rightarrow> reduce_ops p os vs')
      else Some (x # os, vs))"

fun binop_of_token :: "token \<Rightarrow> binop option" where
  "binop_of_token TPlus = Some Add"
| "binop_of_token TMinus = Some Sub"
| "binop_of_token TStar = Some Mul"
| "binop_of_token TSlash = Some Div"
| "binop_of_token TPercent = Some Rem"
| "binop_of_token _ = None"

text \<open>\<open>Inr None\<close> is the empty program, \<open>Inr (Some e)\<close> one expression statement.\<close>

fun parse_sy :: "bool \<Rightarrow> token list \<Rightarrow> sy_op list \<Rightarrow> expr list \<Rightarrow> eval_error + expr option" where
  "parse_sy True [] os vs = (if os = [] \<and> vs = [] then Inr None else Inl SyntaxError)"
| "parse_sy True (t # ts) os vs =
     (case t of
        TNum q \<Rightarrow> parse_sy False ts os (Num q # vs)
      | TIdent w \<Rightarrow> parse_sy False ts os (Ident w # vs)
      | TLParen \<Rightarrow> parse_sy True ts (OpParen # os) vs
      | TMinus \<Rightarrow> parse_sy True ts (OpNeg # os) vs
      | TPlus \<Rightarrow> parse_sy True ts (OpPos # os) vs
      | _ \<Rightarrow> Inl SyntaxError)"
| "parse_sy False [] os vs =
     (case reduce_ops 0 os vs of Some ([], [e]) \<Rightarrow> Inr (Some e) | _ \<Rightarrow> Inl SyntaxError)"
| "parse_sy False (t # ts) os vs =
     (if t = TRParen then
        (case reduce_ops 1 os vs of
           Some (OpParen # os', vs') \<Rightarrow> parse_sy False ts os' vs'
         | _ \<Rightarrow> Inl SyntaxError)
      else
        (case binop_of_token t of
           None \<Rightarrow> Inl SyntaxError
         | Some b \<Rightarrow>
             (case reduce_ops (op_prec (OpBin b)) os vs of
                None \<Rightarrow> Inl SyntaxError
              | Some (os', vs') \<Rightarrow> parse_sy True ts (OpBin b # os') vs')))"

definition parse_tokens :: "token list \<Rightarrow> eval_error + expr option" where
  "parse_tokens ts = parse_sy True ts [] []"

subsection \<open>Evaluation\<close>

fun binop_sem :: "binop \<Rightarrow> jsnum \<Rightarrow> jsnum \<Rightarrow> jsnum" where
  "binop_sem Add x y = x + y"
| "binop_sem Sub x y = js_sub x y"
| "binop_sem Mul x y = js_mul x y"
| "binop_sem Div x y = js_div x y"
| "binop_sem Rem x y = js_rem x y"

text \<open>Operands are evaluated left to right; an unbound identifier throws ReferenceError.\<close>

fun eval_expr :: "expr \<Rightarrow> eval_error + jsnum" where
  "eval_expr (Num q) = Inr (Fin q)"
| "eval_expr (Ident w) = (if w = ''Infinity'' then Inr PInf else Inl ReferenceError)"
| "eval_expr (Neg e) = (case eval_expr e of Inl err \<Rightarrow> Inl err | Inr v \<Rightarrow> Inr (js_neg v))"
| "eval_expr (Pos e) = eval_expr e"
| "eval_expr (Bin b e1 e2) =
     (case eval_expr e1 of
        Inl err \<Rightarrow> Inl err
      | Inr v1 \<Rightarrow> (case eval_expr e2 of Inl err \<Rightarrow> Inl err | Inr v2 \<Rightarrow> Inr (binop_sem b v1 v2)))"

definition js_eval :: "string \<Rightarrow> eval_result" where
  "js_eval s =
     (case lex s of
        Inl err \<Rightarrow> EvalError err
      | Inr ts \<Rightarrow>
          (case parse_tokens ts of
             Inl err \<Rightarrow> EvalError err
           | Inr None \<Rightarrow> EvalUndefined
           | Inr (Some e) \<Rightarrow>
               (case eval_expr e of Inl err \<Rightarrow> EvalError err | Inr v \<Rightarrow> EvalNum v)))"

subsection \<open>The formula of an extra product\<close>

text \<open>\<open>String.prototype.toLowerCase\<close> on ASCII letters.\<close>

definition js_to_lower :: "string \<Rightarrow> string" where
  "js_to_lower s = map ascii_lower s"

text \<open>\<open>s.replace(/x/g, r)\<close> for a one-character pattern and a replacement without \<open>$\<close>.\<close>

definition replace_all :: "char \<Rightarrow> string \<Rightarrow> string \<Rightarrow> string" where
  "replace_all x r s = concat (map (\<lambda>y. if y = x then r else [y]) s)"

text \<open>
  The formula after substitution, as \<open>eval\<close> receives it: lower-cased, then
  \<open>a\<close>, \<open>b\<close>, \<open>c\<close> replaced in this order by the texts of the three numbers.
\<close>

definition substitute_formula :: "string \<Rightarrow> jsnum \<Rightarrow> jsnum \<Rightarrow> jsnum \<Rightarrow> string" where
  "substitute_formula f a b c =
     replace_all (CHR ''c'') (number_to_string c)
       (replace_all (CHR ''b'') (number_to_string b)
         (replace_all (CHR ''a'') (number_to_string a) (js_to_lower f)))"

text \<open>
  \<open>calculateExtraProductQuantity(extraProduct, productMeasurements)\<close>: no formula
  gives 0; a thrown error, \<open>undefined\<close> and NaN give 0; any other number, the
  infinities included, is returned.
\<close>

definition calculateExtraProductQuantity :: "extra_product \<Rightarrow> measurements \<Rightarrow> jsnum" where
  "calculateExtraProductQuantity ep m =
     (if calculationType ep = [] then 0
      else (case m of (ma, mb, mc) \<Rightarrow>
        let a = measure_value ma; b = measure_value mb; c = measure_value mc
        in (case js_eval (substitute_formula (calculationType ep) a b c) of
              EvalNum v \<Rightarrow> if is_nan v then 0 else v
            | _ \<Rightarrow> 0)))"

subsection \<open>Properties of the formula evaluation\<close>

lemma js_eval_cases:
  "(case js_eval s of EvalNum v \<Rightarrow> if is_nan v then 0 else v | _ \<Rightarrow> 0) \<noteq> NaN"
  by (cases "js_eval s") (auto simp: zero_jsnum_def)

text \<open>
  C6. The quantity of an extra product is never NaN: an empty formula, a thrown error,
  \<open>undefined\<close> and NaN all give 0 (the \<open>isNaN\<close> guard and the \<open>catch\<close>).
\<close>

theorem calculateExtraProductQuantity_not_nan:
  "calculateExtraProductQuantity ep m \<noteq> NaN"
  using js_eval_cases
  by (auto simp: calculateExtraProductQuantity_def zero_jsnum_def Let_def split: prod.splits)

text \<open>
  The example of the specification: the formula \<open>a\<close> with measurement
  \<open>a = 5\<close> gives the quantity 5.
\<close>

theorem formula_single_variable_example:
  "calculateExtraProductQuantity seed_extra_secek (''5'', '''', '''') = Fin 5"
  by code_simp

text \<open>
  Substitution is textual: a formula \<open>2a\<close> (meant as \<open>2 * a\<close>) with
  \<open>a = 3\<close> is evaluated as the literal \<open>23\<close>.
\<close>

theorem formula_digit_concatenation:
  "calculateExtraProductQuantity (seed_extra_secek\<lparr>calculationType := ''2a''\<rparr>) (''3'', '''', '''') = Fin 23"
  by code_simp

text \<open>
  A negative measurement breaks a subtraction: \<open>b-a\<close> with \<open>a = -3\<close>,
  \<open>b = 4\<close> becomes \<open>4--3\<close>, whose \<open>--\<close> is a decrement and a SyntaxError, so the
  quantity is 0 and not 7.  Likewise a measurement 0 in front of a digit makes a
  strict-mode SyntaxError (\<open>ab\<close> with \<open>a = 0\<close>, \<open>b = 7\<close> is \<open>07\<close>).
\<close>

theorem formula_negative_operand:
  "calculateExtraProductQuantity (seed_extra_secek\<lparr>calculationType := ''b-a''\<rparr>) (''-3'', ''4'', '''') = 0 \<and>
   calculateExtraProductQuantity (seed_extra_secek\<lparr>calculationType := ''ab''\<rparr>) (''0'', ''7'', '''') = 0"
  by code_simp

text \<open>
  Division by a missing measurement is not caught: \<open>a/b\<close> with \<open>b\<close> empty
  evaluates \<open>3/0\<close> to \<open>Infinity\<close>, which passes the \<open>isNaN\<close> guard.
\<close>

theorem formula_division_by_missing:
  "calculateExtraProductQuantity (seed_extra_secek\<lparr>calculationType := ''a/b''\<rparr>) (''3'', '''', '''') = PInf"
  by code_simp

end
