(* ===== verification/InvoiceLine.thy ===== *)
theory InvoiceLine
  imports Formula
begin

text \<open>
  The arithmetic of one invoice card (\<open>src/client/src/pages/invoice/index.js\<close>):
  the quantity from the sides (\<open>calculateProductQuantity\<close>), the tier price
  (\<open>calculateProductCardPrice\<close>, and the same lookup written inline for extra
  products), the recomputation of a card that \<open>updateProductItem\<close> performs, and
  the invoice total of the \<open>useEffect\<close> that sums the cards.  A card is the product
  object spread with the card's own fields, so it is a record holding the product.
\<close>

record selected_extra =
  extraProductId :: entity_id
  calculatedQuantity :: jsnum
  calculatedUnitPrice :: jsnum
  calculatedTotalPrice :: jsnum

record card =
  card_product :: product
  measurements :: measurements
  quantity :: jsnum
  selectedExtraProducts :: "selected_extra list"
  card_notes :: string
  calculatedPrice :: jsnum
  totalCardPrice :: jsnum
  localId :: nat

subsection \<open>Quantities and prices\<close>

text \<open>\<open>switch (countOfSides)\<close> with strict equality on the number of sides.\<close>

definition calculateProductQuantity :: "int \<Rightarrow> measurements \<Rightarrow> jsnum" where
  "calculateProductQuantity sides m =
     (case m of (ma, mb, mc) \<Rightarrow>
        let a = measure_value ma; b = measure_value mb; c = measure_value mc
        in if sides = 1 then a
           else if sides = 2 then js_mul a b
           else if sides = 3 then js_mul (js_mul a b) c
           else 0)"

text \<open>
  \<open>product.extraPrices.find(p => p.extraPrice.priceId === invoiceDefaultPriceId)\<close>,
  then \<open>price?.extraPrice?.price || product.price\<close>.  A null tier id matches no row.
\<close>

definition tier_row :: "price_id option \<Rightarrow> (price_id \<times> jsnum) list \<Rightarrow> (price_id \<times> jsnum) option" where
  "tier_row tier rows = find (\<lambda>(pid, _). Some pid = tier) rows"

definition calculateProductCardPrice :: "product \<Rightarrow> price_id option \<Rightarrow> jsnum" where
  "calculateProductCardPrice p tier =
     (case tier_row tier (extraPrices p) of
        Some (_, pr) \<Rightarrow> js_or pr (product_price p)
      | None \<Rightarrow> product_price p)"

text \<open>The unit price of an extra product under the invoice's tier (inline in \<open>updateProductItem\<close>).\<close>

definition extraProductUnitPrice :: "extra_product \<Rightarrow> price_id option \<Rightarrow> jsnum" where
  "extraProductUnitPrice e tier =
     (case tier_row tier (ep_extraPrices e) of
        Some (_, pr) \<Rightarrow> js_or pr (ep_price e)
      | None \<Rightarrow> ep_price e)"

subsection \<open>Recomputing a card\<close>

text \<open>One selected extra product: looked up among the product's linked extra products.\<close>

definition recalc_extra :: "price_id option \<Rightarrow> measurements \<Rightarrow> product \<Rightarrow> selected_extra \<Rightarrow> selected_extra" where
  "recalc_extra tier m p s =
     (case find (\<lambda>e. ep_id e = extraProductId s) (extraProducts p) of
        Some e \<Rightarrow>
          let q = calculateExtraProductQuantity e m; up = extraProductUnitPrice e tier
          in s\<lparr>calculatedQuantity := q, calculatedUnitPrice := up,
               calculatedTotalPrice := js_mul q up\<rparr>
      | None \<Rightarrow> s)"

text \<open>\<open>selectedExtraProducts.reduce((sum, ep) => sum + (ep.calculatedTotalPrice || 0), 0)\<close>.\<close>

definition extras_total :: "selected_extra list \<Rightarrow> jsnum" where
  "extras_total sel = foldl (\<lambda>sum e. sum + js_or (calculatedTotalPrice e) 0) 0 sel"

text \<open>The body of the state updater in \<open>updateProductItem\<close> for one card.\<close>

definition recalculate_card :: "price_id option \<Rightarrow> card \<Rightarrow> card" where
  "recalculate_card tier it =
     (let p = card_product it;
          q = calculateProductQuantity (countOfSides p) (measurements it);
          sel = map (recalc_extra tier (measurements it) p) (selectedExtraProducts it);
          cp = calculateProductCardPrice p tier
      in it\<lparr>quantity := q, selectedExtraProducts := sel, calculatedPrice := cp,
            totalCardPrice := js_mul q cp + extras_total sel\<rparr>)"

text \<open>
  \<open>updateProductItem(index, {})\<close>: the updater reads \<open>updatedProducts[index]\<close>; out of
  range that is \<open>undefined\<close>, and reading \<open>measurements.a\<close> of it throws (\<open>None\<close>).
\<close>

definition updateProductItem :: "price_id option \<Rightarrow> nat \<Rightarrow> card list \<Rightarrow> card list option" where
  "updateProductItem tier i cards =
     (if i < length cards then Some (cards[i := recalculate_card tier (cards ! i)]) else None)"

text \<open>The \<open>useEffect\<close> on \<open>addedProducts\<close>: \<open>total += (item.totalCardPrice || 0)\<close>.\<close>

definition invoice_total :: "card list \<Rightarrow> jsnum" where
  "invoice_total cards = foldl (\<lambda>total it. total + js_or (totalCardPrice it) 0) 0 cards"


subsection \<open>The contract of tier pricing\<close>

text \<open>
  The tier resolution the specification promises (\<section>4.2): the override of the
  invoice's tier when the entity has one, the base price otherwise.
\<close>

definition tier_price :: "jsnum \<Rightarrow> (price_id \<times> jsnum) list \<Rightarrow> price_id option \<Rightarrow> jsnum" where
  "tier_price base rows tier =
     (case tier of
        None \<Rightarrow> base
      | Some t \<Rightarrow> (case map_of rows t of Some v \<Rightarrow> v | None \<Rightarrow> base))"

text \<open>A card whose fields are what recomputation under the tier makes of them.\<close>

definition card_current :: "price_id option \<Rightarrow> card \<Rightarrow> bool" where
  "card_current tier c \<longleftrightarrow> recalculate_card tier c = c"

subsection \<open>Sums\<close>

lemma extras_total_sum:
  "extras_total sel = sum_list (map (\<lambda>e. js_or (calculatedTotalPrice e) 0) sel)"
  unfolding extras_total_def by (rule foldl_plus_sum_list [THEN trans]) simp

lemma invoice_total_sum:
  "invoice_total cards = sum_list (map (\<lambda>it. js_or (totalCardPrice it) 0) cards)"
  unfolding invoice_total_def by (rule foldl_plus_sum_list [THEN trans]) simp

lemma invoice_total_mset_eq:
  "mset xs = mset ys \<Longrightarrow> invoice_total xs = invoice_total ys"
  unfolding invoice_total_sum by (rule sum_list_map_mset_eq)

lemma invoice_total_append:
  "invoice_total (xs @ ys) = invoice_total xs + invoice_total ys"
  by (simp add: invoice_total_sum)

subsection \<open>Tier lookup\<close>

lemma tier_row_Some_map_of:
  "tier_row (Some t) rows = (case map_of rows t of None \<Rightarrow> None | Some v \<Rightarrow> Some (t, v))"
  by (induction rows) (auto simp: tier_row_def)

lemma tier_row_None [simp]: "tier_row None rows = None"
  by (induction rows) (auto simp: tier_row_def)

subsection \<open>Recomputation\<close>

lemma recalc_extra_id [simp]: "extraProductId (recalc_extra tier m p s) = extraProductId s"
  by (simp add: recalc_extra_def Let_def split: option.splits)

lemma recalc_extra_idem [simp]:
  "recalc_extra tier m p (recalc_extra tier m p s) = recalc_extra tier m p s"
  by (simp add: recalc_extra_def Let_def split: option.splits)

lemma recalculate_card_idem [simp]:
  "recalculate_card tier (recalculate_card tier it) = recalculate_card tier it"
  by (simp add: recalculate_card_def Let_def comp_def)

lemma card_current_recalculate [simp]: "card_current tier (recalculate_card tier c)"
  by (simp add: card_current_def)

lemma recalculate_card_inputs [simp]:
  "card_product (recalculate_card tier c) = card_product c"
  "measurements (recalculate_card tier c) = measurements c"
  "localId (recalculate_card tier c) = localId c"
  "card_notes (recalculate_card tier c) = card_notes c"
  "map extraProductId (selectedExtraProducts (recalculate_card tier c)) =
     map extraProductId (selectedExtraProducts c)"
  by (simp_all add: recalculate_card_def Let_def comp_def)

lemma recalc_extra_linked:
  "find (\<lambda>e. ep_id e = extraProductId s) (extraProducts p) = Some e \<Longrightarrow>
   calculatedTotalPrice (recalc_extra tier m p s) =
     js_mul (calculateExtraProductQuantity e m) (extraProductUnitPrice e tier)"
  by (simp add: recalc_extra_def Let_def)

subsection \<open>Properties of a card\<close>

text \<open>
  The total of a recomputed card is the quantity times the tier unit price plus the
  sum of the totals of its selected extra products, each read with \<open>|| 0\<close>; the
  extras' totals are those recomputed for the card's measurements and tier.
\<close>

theorem recalculate_card_total:
  "totalCardPrice (recalculate_card tier it) =
     js_mul (calculateProductQuantity (countOfSides (card_product it)) (measurements it))
            (calculateProductCardPrice (card_product it) tier)
     + sum_list (map (\<lambda>s. js_or (calculatedTotalPrice
                        (recalc_extra tier (measurements it) (card_product it) s)) 0)
                  (selectedExtraProducts it))"
  by (simp add: recalculate_card_def Let_def extras_total_sum comp_def)

text \<open>
  C3. With measurements that read as finite numbers \<open>x, y, z\<close>, the quantity is
  \<open>x\<close> for one side, \<open>x*y\<close> for two, \<open>x*y*z\<close> for three and 0 for any other
  number of sides.
\<close>

theorem calculateProductQuantity_finite:
  assumes "measure_value ma = Fin x" "measure_value mb = Fin y" "measure_value mc = Fin z"
  shows "calculateProductQuantity sides (ma, mb, mc) =
           (if sides = 1 then Fin x else if sides = 2 then Fin (x * y)
            else if sides = 3 then Fin (x * y * z) else Fin 0)"
  using assms by (simp add: calculateProductQuantity_def zero_jsnum_def)

theorem calculateProductQuantity_finite_witness:
  "measure_value ''3'' = Fin 3 \<and> measure_value ''4'' = Fin 4 \<and> measure_value '''' = Fin 0 \<and>
   calculateProductQuantity 2 (''3'', ''4'', '''') = Fin 12"
proof -
  have a: "measure_value ''3'' = Fin 3" and b: "measure_value ''4'' = Fin 4"
    and c: "measure_value '''' = Fin 0" by code_simp+
  show ?thesis using calculateProductQuantity_finite [OF a b c, of 2] a b c by simp
qed

text \<open>
  C4. Refinement of the tier contract: when no override of the product is 0 or NaN,
  \<open>calculateProductCardPrice\<close> is the specification's tier resolution: the override
  for the invoice's tier if the product has one, the base price otherwise.
\<close>

theorem calculateProductCardPrice_refines:
  assumes "\<forall>(t, v) \<in> set (extraPrices p). js_truthy v"
  shows "calculateProductCardPrice p tier = tier_price (product_price p) (extraPrices p) tier"
proof (cases tier)
  case None
  then show ?thesis by (simp add: calculateProductCardPrice_def tier_price_def)
next
  case (Some t)
  show ?thesis
  proof (cases "map_of (extraPrices p) t")
    case None
    with Some show ?thesis
      by (simp add: calculateProductCardPrice_def tier_price_def tier_row_Some_map_of)
  next
    case (Some v)
    then have "(t, v) \<in> set (extraPrices p)" by (rule map_of_SomeD)
    with assms have "js_truthy v" by auto
    with Some \<open>tier = Some t\<close> show ?thesis
      by (simp add: calculateProductCardPrice_def tier_price_def tier_row_Some_map_of)
  qed
qed

theorem calculateProductCardPrice_refines_witness:
  "calculateProductCardPrice seed_product_h2 (Some 2) =
     tier_price (product_price seed_product_h2) (extraPrices seed_product_h2) (Some 2) \<and>
   calculateProductCardPrice seed_product_h2 (Some 2) = Fin 70"
proof -
  have h: "\<forall>(t, v) \<in> set (extraPrices seed_product_h2). js_truthy v"
    by (simp add: seed_product_h2_def)
  have "tier_price (product_price seed_product_h2) (extraPrices seed_product_h2) (Some 2) = Fin 70"
    by (simp add: seed_product_h2_def tier_price_def)
  with calculateProductCardPrice_refines [OF h, of "Some 2"] show ?thesis by simp
qed

text \<open>
  The worked example of the specification: a two-sided product with base price
  60 and tier-2 override 70, measured 3 by 4 on an invoice of tier 2, has quantity 12,
  unit price 70 and total 840.
\<close>

theorem spec_example_item_total:
  "let r = recalculate_card (Some 2)
             \<lparr>card_product = seed_product_h2, measurements = (''3'', ''4'', ''''),
              quantity = 0, selectedExtraProducts = [], card_notes = '''',
              calculatedPrice = 0, totalCardPrice = 0, localId = 0\<rparr>
   in quantity r = Fin 12 \<and> calculatedPrice r = Fin 70 \<and> totalCardPrice r = Fin 840"
  by code_simp

text \<open>
  C12. An override price of 0 is not used: \<open>price || product.price\<close> treats it as
  missing and the card is charged the base price, although the specification says the
  override applies whenever the invoice's tier has one.
\<close>

theorem override_zero_ignored:
  assumes "map_of (extraPrices p) t = Some (Fin 0)"
  shows "calculateProductCardPrice p (Some t) = product_price p"
  using assms by (simp add: calculateProductCardPrice_def tier_row_Some_map_of)

theorem override_zero_ignored_witness:
  "map_of (extraPrices (seed_product_h2\<lparr>extraPrices := [(2, Fin 0)]\<rparr>)) 2 = Some (Fin 0) \<and>
   calculateProductCardPrice (seed_product_h2\<lparr>extraPrices := [(2, Fin 0)]\<rparr>) (Some 2) = Fin 60"
proof -
  have h: "map_of (extraPrices (seed_product_h2\<lparr>extraPrices := [(2, Fin 0)]\<rparr>)) 2 = Some (Fin 0)"
    by simp
  show ?thesis using override_zero_ignored [OF h] h by (simp add: seed_product_h2_def)
qed

text \<open>
  A measurement of \<open>Infinity\<close> (which \<open>parseFloat\<close> accepts) against a
  measurement 0 gives the quantity NaN: \<open>Infinity * 0\<close>.
\<close>

theorem quantity_infinity_times_zero:
  "calculateProductQuantity 2 (''Infinity'', ''0'', '''') = NaN"
  by code_simp

end
