(* ===== verification/InvoiceEditor.thy ===== *)
theory InvoiceEditor
  imports InvoiceLine
begin

text \<open>
  The invoice page \<open>CreateInvoice\<close> (\<open>src/client/src/pages/invoice/index.js\<close>) as a
  state machine.  The state is the page's \<open>useState\<close> hooks (messages and dialog
  flags that no handler reads are left out); an event is one handler call; after it the
  \<open>useEffect\<close>s run to a fixed point (\<open>settle\<close>): the customer effect sets the tier
  from the customer's default price, the tier effect recomputes every card when the tier
  differs from the one last used, and the total effect sums the cards.  A handler that
  would throw (an index out of range read by an updater) has no successor state.
  \<open>Date.now() + Math.random()\<close> for a card's \<open>localId\<close> is a counter.  The server's
  answer to the final POST is part of the event.
\<close>

record editor =
  selectedCustomer :: "customer option"
  invoiceDefaultPriceId :: "price_id option"
  invoiceDefaultPriceIdForChecking :: "price_id option"
  invoiceDefaultPriceName :: string
  invoiceTotal :: jsnum
  productSearchTerm :: string
  addedProducts :: "card list"
  editingProductIndex :: "nat option"
  currentProductIndexForExtraProducts :: "nat option"
  availableCustomers :: "customer list"
  availablePrices :: "price list"
  availableProducts :: "product list"
  editor_error :: "string option"
  nextLocalId :: nat

datatype measure_field = FieldA | FieldB | FieldC

datatype editor_event =
    SelectCustomer entity_id
  | SelectInvoicePrice price_id
  | EditSearchTerm string
  | SearchBarcode
  | SelectProductFromDialog entity_id
  | OpenMeasurements nat
  | ChangeMeasurement measure_field string
  | CloseMeasurements
  | OpenExtraDialog nat
  | AddExtraFromDialog entity_id
  | RemoveExtra nat nat
  | RemoveCard nat bool
  | ChangeNote nat string
  | DuplicateCard nat
  | DropCard nat nat
  | CreateInvoice "entity_id option"

subsection \<open>Effects\<close>

text \<open>The two Russian tier labels of the page ("not found", "not chosen"), transliterated.\<close>

definition label_not_found :: string where
  "label_not_found = ''Ne najdena''"

definition label_not_chosen :: string where
  "label_not_chosen = ''Ne vybrana''"

text \<open>The customer effect (lines 162--177): the tier follows the selected customer's default price.\<close>

definition customer_effect :: "editor \<Rightarrow> editor" where
  "customer_effect s =
     (case selectedCustomer s of
        Some cu \<Rightarrow>
          (case defaultPriceId cu of
             Some pid \<Rightarrow>
               if pid \<noteq> 0 then
                 (case find (\<lambda>p. price_id p = pid) (availablePrices s) of
                    Some p \<Rightarrow> s\<lparr>invoiceDefaultPriceId := Some (price_id p),
                                 invoiceDefaultPriceName := price_name p\<rparr>
                  | None \<Rightarrow> s\<lparr>invoiceDefaultPriceId := None,
                              invoiceDefaultPriceName := label_not_found\<rparr>)
               else s\<lparr>invoiceDefaultPriceId := None, invoiceDefaultPriceName := label_not_chosen\<rparr>
           | None \<Rightarrow> s\<lparr>invoiceDefaultPriceId := None, invoiceDefaultPriceName := label_not_chosen\<rparr>)
      | None \<Rightarrow> s\<lparr>invoiceDefaultPriceId := None, invoiceDefaultPriceName := label_not_chosen\<rparr>)"

text \<open>
  The tier effect (lines 136--141): when the tier differs from the one last used, every
  card is recomputed by \<open>addedProducts.forEach((_, index) => updateProductItem(index))\<close>.
\<close>

definition update_all_cards :: "price_id option \<Rightarrow> card list \<Rightarrow> card list" where
  "update_all_cards tier cards =
     foldl (\<lambda>cs i. case updateProductItem tier i cs of Some cs' \<Rightarrow> cs' | None \<Rightarrow> cs)
       cards [0..<length cards]"

definition tier_effect :: "editor \<Rightarrow> editor" where
  "tier_effect s =
     (if invoiceDefaultPriceId s \<noteq> invoiceDefaultPriceIdForChecking s then
        s\<lparr>addedProducts := update_all_cards (invoiceDefaultPriceId s) (addedProducts s),
          invoiceDefaultPriceIdForChecking := invoiceDefaultPriceId s\<rparr>
      else s)"

text \<open>The total effect (lines 179--186).\<close>

definition total_effect :: "editor \<Rightarrow> editor" where
  "total_effect s = s\<lparr>invoiceTotal := invoice_total (addedProducts s)\<rparr>"

text \<open>
  The effects after a handler turned \<open>old\<close> into \<open>new\<close>: the customer effect when
  the selected customer changed, then the tier effect, then the total.
\<close>

definition settle :: "editor \<Rightarrow> editor \<Rightarrow> editor" where
  "settle old new =
     total_effect (tier_effect
       (if selectedCustomer new \<noteq> selectedCustomer old then customer_effect new else new))"

subsection \<open>Handlers\<close>

definition handleCustomerSelected :: "entity_id \<Rightarrow> editor \<Rightarrow> editor" where
  "handleCustomerSelected cid s =
     s\<lparr>selectedCustomer := find (\<lambda>c. customer_id c = cid) (availableCustomers s)\<rparr>"

definition handleInvoicePriceSelected :: "price_id \<Rightarrow> editor \<Rightarrow> editor" where
  "handleInvoicePriceSelected pid s =
     (case find (\<lambda>p. price_id p = pid) (availablePrices s) of
        Some p \<Rightarrow> s\<lparr>invoiceDefaultPriceId := Some (price_id p),
                     invoiceDefaultPriceName := price_name p\<rparr>
      | None \<Rightarrow> s)"

text \<open>The card \<open>addProductToInvoice\<close> appends (lines 220--233).\<close>

definition new_card :: "product \<Rightarrow> price_id option \<Rightarrow> nat \<Rightarrow> card" where
  "new_card p tier lid =
     \<lparr>card_product = p, measurements = ('''', '''', ''''), quantity = 0,
      selectedExtraProducts = [], card_notes = '''',
      calculatedPrice = calculateProductCardPrice p tier, totalCardPrice = 0, localId = lid\<rparr>"

text \<open>A product already on the invoice is refused (a message, no change).\<close>

definition addProductToInvoice :: "product \<Rightarrow> editor \<Rightarrow> editor" where
  "addProductToInvoice p s =
     (if \<exists>c \<in> set (addedProducts s). product_id (card_product c) = product_id p then s
      else s\<lparr>editingProductIndex := Some (length (addedProducts s)),
             addedProducts := addedProducts s @ [new_card p (invoiceDefaultPriceId s) (nextLocalId s)],
             nextLocalId := Suc (nextLocalId s),
             productSearchTerm := ''''\<rparr>)"

text \<open>\<open>String.prototype.trim\<close> on ASCII white space.\<close>

definition js_trim :: "string \<Rightarrow> string" where
  "js_trim s = rev (dropWhile is_js_space (rev (dropWhile is_js_space s)))"

definition msg_barcode_not_found :: string where
  "msg_barcode_not_found = ''Produkt s takim shtrih-kodom ne najden.''"

text \<open>\<open>handleProductSearch\<close> on Enter (lines 240--256).\<close>

definition handleProductSearch :: "editor \<Rightarrow> editor" where
  "handleProductSearch s =
     (let term = js_trim (productSearchTerm s) in
      if term = [] then s
      else
        let s0 = s\<lparr>editor_error := None\<rparr> in
        (case find (\<lambda>p. barcode p = term) (availableProducts s) of
           Some p \<Rightarrow> addProductToInvoice p s0
         | None \<Rightarrow> s0\<lparr>editor_error := Some msg_barcode_not_found\<rparr>))"

definition handleProductSelectedFromDialog :: "entity_id \<Rightarrow> editor \<Rightarrow> editor" where
  "handleProductSelectedFromDialog pid s =
     (case find (\<lambda>p. product_id p = pid) (availableProducts s) of
        Some p \<Rightarrow> addProductToInvoice p s
      | None \<Rightarrow> s)"

fun set_measurement :: "measure_field \<Rightarrow> string \<Rightarrow> measurements \<Rightarrow> measurements" where
  "set_measurement FieldA v (a, b, c) = (v, b, c)"
| "set_measurement FieldB v (a, b, c) = (a, v, c)"
| "set_measurement FieldC v (a, b, c) = (a, b, v)"

text \<open>
  \<open>handleMeasurementsChange\<close> (lines 325--342): store the field in the edited card,
  then \<open>updateProductItem(editingProductIndex, {})\<close>.  Without an edited card in
  range the updater reads \<open>selectedExtraProducts\<close> of a partial object and throws.
\<close>

definition handleMeasurementsChange :: "measure_field \<Rightarrow> string \<Rightarrow> editor \<Rightarrow> editor option" where
  "handleMeasurementsChange f v s =
     (case editingProductIndex s of
        None \<Rightarrow> None
      | Some i \<Rightarrow>
          if i < length (addedProducts s) then
            let c = addedProducts s ! i;
                cs = (addedProducts s)[i := c\<lparr>measurements := set_measurement f v (measurements c)\<rparr>]
            in map_option (\<lambda>cs'. s\<lparr>addedProducts := cs'\<rparr>)
                 (updateProductItem (invoiceDefaultPriceId s) i cs)
          else None)"

text \<open>
  \<open>handleAddExtraProductFromDialog\<close> (lines 350--376), called with the id of the
  extra product clicked in \<open>ExtraProductSelectionDialog\<close>, which lists the card's own
  \<open>extraProducts\<close>.  A duplicate leaves the card as it is; the card is recomputed
  either way.
\<close>

definition handleAddExtraProductFromDialog :: "entity_id \<Rightarrow> editor \<Rightarrow> editor option" where
  "handleAddExtraProductFromDialog eid s =
     (case currentProductIndexForExtraProducts s of
        None \<Rightarrow> Some s
      | Some i \<Rightarrow>
          if i < length (addedProducts s) then
            let c = addedProducts s ! i;
                cs = (if \<exists>e \<in> set (selectedExtraProducts c). extraProductId e = eid
                      then addedProducts s
                      else (addedProducts s)[i := c\<lparr>selectedExtraProducts :=
                             selectedExtraProducts c @
                               [\<lparr>extraProductId = eid, calculatedQuantity = 0,
                                 calculatedUnitPrice = 0, calculatedTotalPrice = 0\<rparr>]\<rparr>])
            in map_option (\<lambda>cs'. s\<lparr>addedProducts := cs'\<rparr>)
                 (updateProductItem (invoiceDefaultPriceId s) i cs)
          else None)"

definition handleRemoveExtraProductFromCard :: "nat \<Rightarrow> nat \<Rightarrow> editor \<Rightarrow> editor option" where
  "handleRemoveExtraProductFromCard k ei s =
     (if k < length (addedProducts s) then
        let c = addedProducts s ! k;
            cs = (addedProducts s)[k := c\<lparr>selectedExtraProducts :=
                                            filter_index ei (selectedExtraProducts c)\<rparr>]
        in map_option (\<lambda>cs'. s\<lparr>addedProducts := cs'\<rparr>)
             (updateProductItem (invoiceDefaultPriceId s) k cs)
      else None)"

text \<open>\<open>handleRemoveProductCard\<close>: only after \<open>window.confirm\<close> answers yes.\<close>

definition handleRemoveProductCard :: "nat \<Rightarrow> bool \<Rightarrow> editor \<Rightarrow> editor" where
  "handleRemoveProductCard lid confirmed s =
     (if confirmed then s\<lparr>addedProducts := filter (\<lambda>c. localId c \<noteq> lid) (addedProducts s)\<rparr>
      else s)"

definition handleNoteChange :: "nat \<Rightarrow> string \<Rightarrow> editor \<Rightarrow> editor option" where
  "handleNoteChange k v s =
     (if k < length (addedProducts s) then
        Some (s\<lparr>addedProducts := (addedProducts s)[k := (addedProducts s ! k)\<lparr>card_notes := v\<rparr>]\<rparr>)
      else None)"

text \<open>\<open>JSON.parse(JSON.stringify(x))\<close>: every number through \<open>json_number\<close>.\<close>

definition json_copy_extra_product :: "extra_product \<Rightarrow> extra_product" where
  "json_copy_extra_product e =
     e\<lparr>ep_price := json_number (ep_price e),
       ep_extraPrices := map (\<lambda>(t, v). (t, json_number v)) (ep_extraPrices e)\<rparr>"

definition json_copy_product :: "product \<Rightarrow> product" where
  "json_copy_product p =
     p\<lparr>product_price := json_number (product_price p),
       extraPrices := map (\<lambda>(t, v). (t, json_number v)) (extraPrices p),
       extraProducts := map json_copy_extra_product (extraProducts p)\<rparr>"

definition json_copy_selected :: "selected_extra \<Rightarrow> selected_extra" where
  "json_copy_selected e =
     e\<lparr>calculatedQuantity := json_number (calculatedQuantity e),
       calculatedUnitPrice := json_number (calculatedUnitPrice e),
       calculatedTotalPrice := json_number (calculatedTotalPrice e)\<rparr>"

definition json_copy_card :: "card \<Rightarrow> card" where
  "json_copy_card c =
     c\<lparr>card_product := json_copy_product (card_product c),
       quantity := json_number (quantity c),
       selectedExtraProducts := map json_copy_selected (selectedExtraProducts c),
       calculatedPrice := json_number (calculatedPrice c),
       totalCardPrice := json_number (totalCardPrice c)\<rparr>"

text \<open>\<open>handleDuplicateProductCard\<close> (lines 408--421): the copy goes right after the original.\<close>

definition handleDuplicateProductCard :: "nat \<Rightarrow> editor \<Rightarrow> editor option" where
  "handleDuplicateProductCard k s =
     (if k < length (addedProducts s) then
        Some (s\<lparr>addedProducts := insert_at (Suc k)
                   ((json_copy_card (addedProducts s ! k))\<lparr>localId := nextLocalId s\<rparr>)
                   (addedProducts s),
                nextLocalId := Suc (nextLocalId s)\<rparr>)
      else None)"

text \<open>
  \<open>handleDrop\<close> (lines 451--469): the dragged card is spliced out and spliced in at the
  drop position.  Both indices come from rendered cards.
\<close>

definition handleDrop :: "nat \<Rightarrow> nat \<Rightarrow> editor \<Rightarrow> editor option" where
  "handleDrop di oi s =
     (if di < length (addedProducts s) \<and> oi < length (addedProducts s) then
        if di = oi then Some s
        else Some (s\<lparr>addedProducts :=
                      insert_at oi (addedProducts s ! di) (remove_at di (addedProducts s))\<rparr>)
      else None)"

subsection \<open>Creating the invoice\<close>

definition msg_choose_customer :: string where
  "msg_choose_customer = ''Pozhalujsta, vyberite klienta.''"

definition msg_add_product :: string where
  "msg_add_product = ''Pozhalujsta, dobavte hotya by odin tovar v schet.''"

definition msg_save_failed :: string where
  "msg_save_failed = ''Oshibka pri sohranenii scheta-faktury''"

definition msg_fill :: "string \<Rightarrow> string \<Rightarrow> string" where
  "msg_fill dims name = ''Pozhalujsta, zapolnite korrektnuyu '' @ dims @ '' dlya tovara '' @ name"

text \<open>\<open>isNaN(x) || x <= 0\<close> for \<open>x = parseFloat(m)\<close> (no \<open>|| 0\<close> here).\<close>

definition measurement_invalid :: "string \<Rightarrow> bool" where
  "measurement_invalid m \<longleftrightarrow> (let v = parse_float m in is_nan v \<or> js_le v 0)"

text \<open>The validation loop of \<open>handleCreateInvoice\<close> (lines 483--504): the first card
  whose required measurements are not positive numbers stops it.\<close>

fun first_invalid_card :: "card list \<Rightarrow> string option" where
  "first_invalid_card [] = None"
| "first_invalid_card (c # cs) =
     (case measurements c of (ma, mb, mc) \<Rightarrow>
        let sides = countOfSides (card_product c); name = product_name (card_product c) in
        if sides = 1 then
          (if measurement_invalid ma then Some (msg_fill ''A'' name) else first_invalid_card cs)
        else if sides = 2 then
          (if measurement_invalid ma \<or> measurement_invalid mb then Some (msg_fill ''A, B'' name)
           else first_invalid_card cs)
        else if sides = 3 then
          (if measurement_invalid ma \<or> measurement_invalid mb \<or> measurement_invalid mc
           then Some (msg_fill ''A, B, C'' name) else first_invalid_card cs)
        else first_invalid_card cs)"

definition extra_item_of :: "selected_extra \<Rightarrow> extra_item_payload" where
  "extra_item_of e =
     \<lparr>xi_extraProductId = extraProductId e, xi_calculatedQuantity = calculatedQuantity e,
      xi_calculatedUnitPrice = calculatedUnitPrice e,
      xi_calculatedTotalPrice = calculatedTotalPrice e\<rparr>"

definition item_of :: "card \<Rightarrow> item_payload" where
  "item_of c =
     \<lparr>it_productId = product_id (card_product c), it_measurements = measurements c,
      it_quantity = quantity c, calculatedPricePerUnit = calculatedPrice c,
      totalItemPrice = totalCardPrice c,
      extraItems = map extra_item_of (selectedExtraProducts c),
      it_notes = js_trim (card_notes c)\<rparr>"

text \<open>\<open>invoiceData\<close> (lines 507--525).\<close>

definition invoiceData :: "customer \<Rightarrow> editor \<Rightarrow> invoice_payload" where
  "invoiceData cu s =
     \<lparr>inv_customerId = customer_id cu, inv_defaultPriceId = invoiceDefaultPriceId s,
      totalAmount = invoiceTotal s, items = map item_of (addedProducts s)\<rparr>"

text \<open>
  What \<open>handleCreateInvoice\<close> sends, or the message that stops it before the request.
\<close>

definition create_request :: "editor \<Rightarrow> string + invoice_payload" where
  "create_request s =
     (case selectedCustomer s of
        None \<Rightarrow> Inl msg_choose_customer
      | Some cu \<Rightarrow>
          if addedProducts s = [] then Inl msg_add_product
          else (case first_invalid_card (addedProducts s) of
                  Some m \<Rightarrow> Inl m
                | None \<Rightarrow> Inr (invoiceData cu s)))"

text \<open>
  \<open>handleCreateInvoice\<close> with the server's answer: the id of the stored invoice, or
  \<open>None\<close> when the request failed.  Success clears the form.
\<close>

definition handleCreateInvoice :: "entity_id option \<Rightarrow> editor \<Rightarrow> editor" where
  "handleCreateInvoice resp s =
     (case create_request s of
        Inl m \<Rightarrow> s\<lparr>editor_error := Some m\<rparr>
      | Inr _ \<Rightarrow>
          (case resp of
             Some _ \<Rightarrow> s\<lparr>editor_error := None, selectedCustomer := None,
                          invoiceDefaultPriceId := None,
                          invoiceDefaultPriceName := label_not_chosen,
                          addedProducts := [], invoiceTotal := 0, productSearchTerm := ''''\<rparr>
           | None \<Rightarrow> s\<lparr>editor_error := Some msg_save_failed\<rparr>))"

subsection \<open>Steps and reachable states\<close>

text \<open>
  One event.  The extra-product dialog lists \<open>addedProducts[current].extraProducts\<close>;
  its event carries the position clicked, and it cannot be shown without a card.
\<close>

fun editor_handle :: "editor \<Rightarrow> editor_event \<Rightarrow> editor option" where
  "editor_handle s (SelectCustomer cid) = Some (handleCustomerSelected cid s)"
| "editor_handle s (SelectInvoicePrice pid) = Some (handleInvoicePriceSelected pid s)"
| "editor_handle s (EditSearchTerm t) = Some (s\<lparr>productSearchTerm := t\<rparr>)"
| "editor_handle s SearchBarcode = Some (handleProductSearch s)"
| "editor_handle s (SelectProductFromDialog pid) = Some (handleProductSelectedFromDialog pid s)"
| "editor_handle s (OpenMeasurements i) = Some (s\<lparr>editingProductIndex := Some i\<rparr>)"
| "editor_handle s (ChangeMeasurement f v) = handleMeasurementsChange f v s"
| "editor_handle s CloseMeasurements = Some (s\<lparr>editingProductIndex := None\<rparr>)"
| "editor_handle s (OpenExtraDialog i) = Some (s\<lparr>currentProductIndexForExtraProducts := Some i\<rparr>)"
| "editor_handle s (AddExtraFromDialog k) =
     (case currentProductIndexForExtraProducts s of
        Some i \<Rightarrow>
          if i < length (addedProducts s) \<and> k < length (extraProducts (card_product (addedProducts s ! i)))
          then handleAddExtraProductFromDialog (ep_id (extraProducts (card_product (addedProducts s ! i)) ! k)) s
          else None
      | None \<Rightarrow> None)"
| "editor_handle s (RemoveExtra k ei) = handleRemoveExtraProductFromCard k ei s"
| "editor_handle s (RemoveCard lid confirmed) = Some (handleRemoveProductCard lid confirmed s)"
| "editor_handle s (ChangeNote k v) = handleNoteChange k v s"
| "editor_handle s (DuplicateCard k) = handleDuplicateProductCard k s"
| "editor_handle s (DropCard di oi) = handleDrop di oi s"
| "editor_handle s (CreateInvoice resp) = Some (handleCreateInvoice resp s)"

definition editor_step :: "editor \<Rightarrow> editor_event \<Rightarrow> editor option" where
  "editor_step s e = map_option (settle s) (editor_handle s e)"

text \<open>The page after the initial fetch of customers, prices and products.\<close>

definition editor_init :: "customer list \<Rightarrow> price list \<Rightarrow> product list \<Rightarrow> editor" where
  "editor_init cs ps prods =
     \<lparr>selectedCustomer = None, invoiceDefaultPriceId = None,
      invoiceDefaultPriceIdForChecking = None, invoiceDefaultPriceName = label_not_chosen,
      invoiceTotal = 0, productSearchTerm = '''', addedProducts = [],
      editingProductIndex = None, currentProductIndexForExtraProducts = None,
      availableCustomers = cs, availablePrices = ps, availableProducts = prods,
      editor_error = None, nextLocalId = 0\<rparr>"

text \<open>A product whose base and tier prices are finite numbers.\<close>

definition product_prices_finite :: "product \<Rightarrow> bool" where
  "product_prices_finite p \<longleftrightarrow>
     js_finite (product_price p) \<and> list_all (\<lambda>(t, v). js_finite v) (extraPrices p)"

inductive editor_reachable :: "editor \<Rightarrow> bool" where
  init: "list_all product_prices_finite prods \<Longrightarrow> editor_reachable (editor_init cs ps prods)"
| step: "editor_reachable s \<Longrightarrow> editor_step s e = Some s' \<Longrightarrow> editor_reachable s'"

text \<open>
  A card is settled under a tier when recomputation leaves it as it is, or when it is
  the JSON copy of such a card (a duplicate of a card with an infinite field).
\<close>

definition card_settled :: "price_id option \<Rightarrow> card \<Rightarrow> bool" where
  "card_settled tier c \<longleftrightarrow>
     card_current tier c \<or> (\<exists>c0. card_current tier c0 \<and> c = json_copy_card c0)"

definition editor_inv :: "editor \<Rightarrow> bool" where
  "editor_inv s \<longleftrightarrow>
     invoiceTotal s = invoice_total (addedProducts s) \<and>
     invoiceDefaultPriceIdForChecking s = invoiceDefaultPriceId s \<and>
     list_all product_prices_finite (availableProducts s) \<and>
     (\<forall>c \<in> set (addedProducts s). card_settled (invoiceDefaultPriceId s) c)"

text \<open>A run: events applied one after another; \<open>None\<close> if a handler throws on the way.\<close>

fun editor_run :: "editor \<Rightarrow> editor_event list \<Rightarrow> editor option" where
  "editor_run s [] = Some s"
| "editor_run s (e # es) = (case editor_step s e of None \<Rightarrow> None | Some s' \<Rightarrow> editor_run s' es)"

text \<open>
  What a handler leaves for the effects: the tier last used and the catalog unchanged,
  and every card settled under the tier last used.
\<close>

definition handled_ok :: "editor \<Rightarrow> editor \<Rightarrow> bool" where
  "handled_ok s t \<longleftrightarrow>
     invoiceDefaultPriceIdForChecking t = invoiceDefaultPriceIdForChecking s \<and>
     availableProducts t = availableProducts s \<and>
     (\<forall>c \<in> set (addedProducts t). card_settled (invoiceDefaultPriceIdForChecking t) c)"



subsection \<open>Lemmas: recomputation of all cards, new cards, settled cards\<close>

lemma update_all_prefix:
  "k \<le> length cards \<Longrightarrow>
   foldl (\<lambda>cs i. case updateProductItem tier i cs of Some cs' \<Rightarrow> cs' | None \<Rightarrow> cs) cards [0..<k] =
   map (recalculate_card tier) (take k cards) @ drop k cards"
proof (induction k)
  case 0
  then show ?case by simp
next
  case (Suc k)
  then have k: "k < length cards" by simp
  have d: "drop k cards = cards ! k # drop (Suc k) cards"
    using k by (rule Cons_nth_drop_Suc [symmetric])
  have "updateProductItem tier k (map (recalculate_card tier) (take k cards) @ drop k cards) =
        Some (map (recalculate_card tier) (take (Suc k) cards) @ drop (Suc k) cards)"
    using k by (simp add: updateProductItem_def d nth_append list_update_append take_Suc_conv_app_nth)
  with Suc show ?case by simp
qed

lemma update_all_cards_map: "update_all_cards tier cards = map (recalculate_card tier) cards"
  using update_all_prefix [of "length cards" cards tier] by (simp add: update_all_cards_def)

lemma tier_row_in_set: "tier_row tier rows = Some r \<Longrightarrow> r \<in> set rows"
  by (induction rows) (auto simp: tier_row_def split: if_splits)

lemma card_price_finite:
  "product_prices_finite p \<Longrightarrow> \<exists>q. calculateProductCardPrice p tier = Fin q"
  by (cases "product_price p")
     (fastforce simp: calculateProductCardPrice_def product_prices_finite_def list_all_iff js_or_def
       js_finite_iff dest!: tier_row_in_set split: option.splits prod.splits)+

lemma measure_value_empty [simp]: "measure_value [] = 0"
  by code_simp

lemma quantity_empty [simp]: "calculateProductQuantity sides ([], [], []) = 0"
  by (simp add: calculateProductQuantity_def zero_jsnum_def Let_def)

lemma new_card_current:
  "product_prices_finite p \<Longrightarrow> card_current tier (new_card p tier lid)"
  using card_price_finite [of p tier]
  by (auto simp: card_current_def recalculate_card_def new_card_def extras_total_def zero_jsnum_def Let_def)

lemma json_copy_card_idem [simp]: "json_copy_card (json_copy_card c) = json_copy_card c"
  by (simp add: json_copy_card_def json_copy_product_def json_copy_selected_def
      json_copy_extra_product_def comp_def case_prod_beta)

lemma card_settled_recalculate [simp]: "card_settled tier (recalculate_card tier c)"
  by (simp add: card_settled_def)

lemma card_current_settled: "card_current tier c \<Longrightarrow> card_settled tier c"
  by (simp add: card_settled_def)

lemma card_settled_json_copy: "card_settled tier c \<Longrightarrow> card_settled tier (json_copy_card c)"
  by (auto simp: card_settled_def)

lemma card_settled_localId:
  "card_settled tier c \<Longrightarrow> card_settled tier (c\<lparr>localId := n\<rparr>)"
proof -
  have r: "recalculate_card tier (d\<lparr>localId := n\<rparr>) = (recalculate_card tier d)\<lparr>localId := n\<rparr>" for d
    by (simp add: recalculate_card_def Let_def)
  have j: "json_copy_card (d\<lparr>localId := n\<rparr>) = (json_copy_card d)\<lparr>localId := n\<rparr>" for d
    by (simp add: json_copy_card_def)
  assume "card_settled tier c"
  then show ?thesis
    unfolding card_settled_def card_current_def
    by (metis r j)
qed

lemma card_settled_notes:
  "card_settled tier c \<Longrightarrow> card_settled tier (c\<lparr>card_notes := v\<rparr>)"
proof -
  have r: "recalculate_card tier (d\<lparr>card_notes := v\<rparr>) = (recalculate_card tier d)\<lparr>card_notes := v\<rparr>" for d
    by (simp add: recalculate_card_def Let_def)
  have j: "json_copy_card (d\<lparr>card_notes := v\<rparr>) = (json_copy_card d)\<lparr>card_notes := v\<rparr>" for d
    by (simp add: json_copy_card_def)
  assume "card_settled tier c"
  then show ?thesis
    unfolding card_settled_def card_current_def
    by (metis r j)
qed

lemma updateProductItem_Some:
  "updateProductItem tier i cs = Some cs' \<Longrightarrow> i < length cs \<and> cs' = cs[i := recalculate_card tier (cs ! i)]"
  by (simp add: updateProductItem_def split: if_splits)

lemma set_updateProductItem:
  assumes "updateProductItem tier i (cards[i := m]) = Some cs'"
  shows "set cs' \<subseteq> insert (recalculate_card tier m) (set cards)"
proof -
  from updateProductItem_Some [OF assms] have i: "i < length cards"
    and cs': "cs' = cards[i := recalculate_card tier m]" by simp_all
  show ?thesis using cs' by (simp add: set_update_subset_insert)
qed

lemma handled_ok_same_cards:
  "editor_inv s \<Longrightarrow> invoiceDefaultPriceIdForChecking t = invoiceDefaultPriceIdForChecking s \<Longrightarrow>
   availableProducts t = availableProducts s \<Longrightarrow> set (addedProducts t) \<subseteq> set (addedProducts s) \<Longrightarrow>
   handled_ok s t"
  by (auto simp: handled_ok_def editor_inv_def)

lemma handled_ok_update:
  assumes inv: "editor_inv s"
    and upd: "updateProductItem (invoiceDefaultPriceId s) i ((addedProducts s)[i := m]) = Some cs'"
  shows "handled_ok s (s\<lparr>addedProducts := cs'\<rparr>)"
proof -
  have "set cs' \<subseteq> insert (recalculate_card (invoiceDefaultPriceId s) m) (set (addedProducts s))"
    using upd by (rule set_updateProductItem)
  with inv show ?thesis by (auto simp: handled_ok_def editor_inv_def)
qed

lemma addProductToInvoice_ok:
  "editor_inv s \<Longrightarrow> p \<in> set (availableProducts s) \<Longrightarrow> handled_ok s (addProductToInvoice p s)"
  by (auto simp: addProductToInvoice_def handled_ok_def editor_inv_def list_all_iff
      intro!: card_current_settled new_card_current)

lemma editor_inv_error [simp]: "editor_inv (s\<lparr>editor_error := x\<rparr>) = editor_inv s"
  by (simp add: editor_inv_def)

lemma handled_ok_error [simp]: "handled_ok (s\<lparr>editor_error := x\<rparr>) t = handled_ok s t"
  by (simp add: handled_ok_def)

lemma find_in_set: "find P xs = Some x \<Longrightarrow> x \<in> set xs"
  by (induction xs) (auto split: if_splits)

lemma set_insert_at [simp]: "set (insert_at j x xs) = insert x (set xs)"
  by (metis mset_insert_at set_mset_mset set_mset_add_mset_insert add_mset_add_single)

lemma set_drop_subset: "di < length xs \<Longrightarrow> set (insert_at oi (xs ! di) (remove_at di xs)) = set xs"
  by (metis mset_insert_at mset_remove_at set_mset_mset)

lemma handleMeasurementsChange_ok:
  "editor_inv s \<Longrightarrow> handleMeasurementsChange f v s = Some t \<Longrightarrow> handled_ok s t"
  by (auto simp: handleMeasurementsChange_def Let_def split: option.splits if_splits
      intro: handled_ok_update)

lemma handleAddExtraProductFromDialog_ok:
  assumes inv: "editor_inv s" and h: "handleAddExtraProductFromDialog eid s = Some t"
  shows "handled_ok s t"
proof (cases "currentProductIndexForExtraProducts s")
  case None
  with h inv show ?thesis by (auto simp: handleAddExtraProductFromDialog_def handled_ok_def editor_inv_def)
next
  case (Some i)
  let ?c = "addedProducts s ! i"
  let ?m = "if \<exists>e \<in> set (selectedExtraProducts ?c). extraProductId e = eid then ?c
            else ?c\<lparr>selectedExtraProducts := selectedExtraProducts ?c @
                    [\<lparr>extraProductId = eid, calculatedQuantity = 0,
                      calculatedUnitPrice = 0, calculatedTotalPrice = 0\<rparr>]\<rparr>"
  from h Some obtain cs' where i: "i < length (addedProducts s)"
    and u: "updateProductItem (invoiceDefaultPriceId s) i ((addedProducts s)[i := ?m]) = Some cs'"
    and t: "t = s\<lparr>addedProducts := cs'\<rparr>"
    by (auto simp: handleAddExtraProductFromDialog_def Let_def split: if_splits)
  show ?thesis using handled_ok_update [OF inv u] t by simp
qed

lemma handleRemoveExtraProductFromCard_ok:
  "editor_inv s \<Longrightarrow> handleRemoveExtraProductFromCard k ei s = Some t \<Longrightarrow> handled_ok s t"
  by (auto simp: handleRemoveExtraProductFromCard_def Let_def split: if_splits
      intro: handled_ok_update)

lemma handleNoteChange_ok:
  assumes inv: "editor_inv s" and h: "handleNoteChange k v s = Some t"
  shows "handled_ok s t"
proof -
  from h have k: "k < length (addedProducts s)"
    and t: "t = s\<lparr>addedProducts := (addedProducts s)[k := (addedProducts s ! k)\<lparr>card_notes := v\<rparr>]\<rparr>"
    by (auto simp: handleNoteChange_def split: if_splits)
  have "card_settled (invoiceDefaultPriceId s) ((addedProducts s ! k)\<lparr>card_notes := v\<rparr>)"
    using inv k by (auto simp: editor_inv_def intro!: card_settled_notes)
  with inv t show ?thesis
    by (auto simp: handled_ok_def editor_inv_def dest: set_update_subset_insert [THEN subsetD])
qed

lemma handleDuplicateProductCard_ok:
  assumes inv: "editor_inv s" and h: "handleDuplicateProductCard k s = Some t"
  shows "handled_ok s t"
proof -
  from h have k: "k < length (addedProducts s)"
    and t: "t = s\<lparr>addedProducts := insert_at (Suc k)
                   ((json_copy_card (addedProducts s ! k))\<lparr>localId := nextLocalId s\<rparr>)
                   (addedProducts s), nextLocalId := Suc (nextLocalId s)\<rparr>"
    by (auto simp: handleDuplicateProductCard_def split: if_splits)
  have "card_settled (invoiceDefaultPriceId s)
          ((json_copy_card (addedProducts s ! k))\<lparr>localId := nextLocalId s\<rparr>)"
    using inv k by (auto simp: editor_inv_def intro!: card_settled_localId card_settled_json_copy)
  with inv t show ?thesis by (auto simp: handled_ok_def editor_inv_def)
qed

lemma handleDrop_ok:
  assumes inv: "editor_inv s" and h: "handleDrop di oi s = Some t"
  shows "handled_ok s t"
proof (rule handled_ok_same_cards [OF inv])
  from h have di: "di < length (addedProducts s)"
    and t: "t = s \<or> t = s\<lparr>addedProducts :=
                       insert_at oi (addedProducts s ! di) (remove_at di (addedProducts s))\<rparr>"
    by (auto simp: handleDrop_def split: if_splits)
  show "set (addedProducts t) \<subseteq> set (addedProducts s)"
    using t set_drop_subset [OF di, of oi] by (auto simp del: set_insert_at)
  show "invoiceDefaultPriceIdForChecking t = invoiceDefaultPriceIdForChecking s"
    and "availableProducts t = availableProducts s" using t by auto
qed

lemma handleCreateInvoice_ok:
  "editor_inv s \<Longrightarrow> handled_ok s (handleCreateInvoice resp s)"
  by (auto simp: handleCreateInvoice_def handled_ok_def editor_inv_def
      split: sum.splits option.splits)

lemma handleProductSearch_ok:
  assumes inv: "editor_inv s"
  shows "handled_ok s (handleProductSearch s)"
proof (cases "find (\<lambda>p. barcode p = js_trim (productSearchTerm s)) (availableProducts s)")
  case None
  with inv show ?thesis
    by (auto simp: handleProductSearch_def Let_def intro: handled_ok_same_cards)
next
  case (Some p)
  then have p: "p \<in> set (availableProducts (s\<lparr>editor_error := None\<rparr>))"
    by (simp add: find_in_set)
  have "handled_ok (s\<lparr>editor_error := None\<rparr>) (addProductToInvoice p (s\<lparr>editor_error := None\<rparr>))"
    using inv p by (intro addProductToInvoice_ok) simp_all
  with Some inv show ?thesis
    by (auto simp: handleProductSearch_def Let_def intro: handled_ok_same_cards)
qed

lemma editor_handle_ok:
  assumes inv: "editor_inv s" and h: "editor_handle s e = Some t"
  shows "handled_ok s t"
proof (cases e)
  case (SelectInvoicePrice pid)
  with h inv show ?thesis
    by (auto simp: handleInvoicePriceSelected_def split: option.splits intro: handled_ok_same_cards)
next
  case (SearchBarcode)
  with h inv show ?thesis by (auto intro: handleProductSearch_ok)
next
  case (SelectProductFromDialog pid)
  with h inv show ?thesis
    by (auto simp: handleProductSelectedFromDialog_def split: option.splits
        intro: handled_ok_same_cards addProductToInvoice_ok dest: find_in_set)
next
  case (ChangeMeasurement f v)
  with h inv show ?thesis by (auto intro: handleMeasurementsChange_ok)
next
  case (AddExtraFromDialog k)
  with h inv show ?thesis
    by (auto split: option.splits if_splits intro: handleAddExtraProductFromDialog_ok)
next
  case (RemoveExtra k ei)
  with h inv show ?thesis by (auto intro: handleRemoveExtraProductFromCard_ok)
next
  case (RemoveCard lid confirmed)
  with h inv show ?thesis
    by (cases confirmed) (auto simp: handleRemoveProductCard_def intro!: handled_ok_same_cards)
next
  case (ChangeNote k v)
  with h inv show ?thesis by (auto intro: handleNoteChange_ok)
next
  case (DuplicateCard k)
  with h inv show ?thesis by (auto intro: handleDuplicateProductCard_ok)
next
  case (DropCard di oi)
  with h inv show ?thesis by (auto intro: handleDrop_ok)
next
  case (CreateInvoice resp)
  with h inv show ?thesis by (auto intro: handleCreateInvoice_ok)
qed (use h inv in \<open>auto simp: handleCustomerSelected_def intro: handled_ok_same_cards\<close>)

lemma customer_effect_fields [simp]:
  "addedProducts (customer_effect s) = addedProducts s"
  "invoiceDefaultPriceIdForChecking (customer_effect s) = invoiceDefaultPriceIdForChecking s"
  "availableProducts (customer_effect s) = availableProducts s"
  by (simp_all add: customer_effect_def split: option.splits)

lemma tier_effect_settled:
  assumes "\<forall>c \<in> set (addedProducts u). card_settled (invoiceDefaultPriceIdForChecking u) c"
  shows "invoiceDefaultPriceIdForChecking (tier_effect u) = invoiceDefaultPriceId (tier_effect u) \<and>
         (\<forall>c \<in> set (addedProducts (tier_effect u)). card_settled (invoiceDefaultPriceId (tier_effect u)) c)"
  using assms by (auto simp: tier_effect_def update_all_cards_map)

lemma settle_inv:
  assumes ok: "handled_ok s t" and inv: "editor_inv s"
  shows "editor_inv (settle s t)"
proof -
  define u where "u = (if selectedCustomer t \<noteq> selectedCustomer s then customer_effect t else t)"
  have u_cards: "\<forall>c \<in> set (addedProducts u). card_settled (invoiceDefaultPriceIdForChecking u) c"
    and u_cat: "availableProducts u = availableProducts s"
    using ok unfolding u_def handled_ok_def by auto
  have cat: "availableProducts (tier_effect u) = availableProducts s"
    using u_cat by (simp add: tier_effect_def)
  have "settle s t = total_effect (tier_effect u)" by (simp add: settle_def u_def)
  with tier_effect_settled [OF u_cards] cat inv show ?thesis
    by (simp add: editor_inv_def total_effect_def)
qed

lemma editor_step_inv: "editor_inv s \<Longrightarrow> editor_step s e = Some s' \<Longrightarrow> editor_inv s'"
  by (auto simp: editor_step_def intro: settle_inv editor_handle_ok)

lemma editor_init_inv:
  "list_all product_prices_finite prods \<Longrightarrow> editor_inv (editor_init cs ps prods)"
  by (simp add: editor_inv_def editor_init_def invoice_total_def)

lemma reachable_editor_inv: "editor_reachable s \<Longrightarrow> editor_inv s"
proof (induction rule: editor_reachable.induct)
  case (init prods cs ps)
  then show ?case by (rule editor_init_inv)
next
  case (step s e s')
  then show ?case by (blast intro: editor_step_inv)
qed

lemma editor_run_reachable:
  "editor_reachable s \<Longrightarrow> editor_run s es = Some t \<Longrightarrow> editor_reachable t"
proof (induction es arbitrary: s)
  case Nil
  then show ?case by simp
next
  case (Cons e es)
  then obtain s' where s': "editor_step s e = Some s'" and r: "editor_run s' es = Some t"
    by (auto split: option.splits)
  from Cons.prems(1) s' have "editor_reachable s'" by (rule editor_reachable.step)
  from this r show ?case by (rule Cons.IH)
qed

lemma measurement_valid_iff: "\<not> measurement_invalid m \<longleftrightarrow> js_positive (parse_float m)"
  by (cases "parse_float m") (auto simp: measurement_invalid_def zero_jsnum_def)

lemma first_invalid_card_None:
  "first_invalid_card cs = None \<Longrightarrow> c \<in> set cs \<Longrightarrow> countOfSides (card_product c) \<in> {1, 2, 3} \<Longrightarrow>
   \<forall>m \<in> set (take (nat (countOfSides (card_product c)))
                [fst (measurements c), fst (snd (measurements c)), snd (snd (measurements c))]).
     js_positive (parse_float m)"
proof (induction cs)
  case Nil
  then show ?case by simp
next
  case (Cons d cs)
  obtain ma mb mc where m: "measurements d = (ma, mb, mc)" by (cases "measurements d") auto
  from Cons.prems(1) m have rest: "first_invalid_card cs = None"
    by (auto simp: Let_def split: if_splits)
  show ?case
  proof (cases "c = d")
    case True
    with Cons.prems m show ?thesis
      by (auto simp: Let_def measurement_valid_iff [symmetric] split: if_splits)
  next
    case False
    with Cons.prems(2) have "c \<in> set cs" by simp
    from rest this Cons.prems(3) show ?thesis by (rule Cons.IH)
  qed
qed

subsection \<open>Properties of the invoice page\<close>

text \<open>
  C1. Reordering the cards by drag and drop leaves the invoice total unchanged: the
  dropped card is moved, not lost or duplicated, and the total is a sum.
\<close>

theorem handleDrop_invoice_total:
  assumes "handleDrop di oi s = Some t"
  shows "invoice_total (addedProducts t) = invoice_total (addedProducts s)"
proof -
  from assms have di: "di < length (addedProducts s)"
    and t: "addedProducts t = addedProducts s \<or>
            addedProducts t = insert_at oi (addedProducts s ! di) (remove_at di (addedProducts s))"
    by (auto simp: handleDrop_def split: if_splits)
  have "mset (insert_at oi (addedProducts s ! di) (remove_at di (addedProducts s))) = mset (addedProducts s)"
    using di mset_remove_at [OF di] by (simp add: mset_insert_at)
  with t show ?thesis by (auto intro: invoice_total_mset_eq)
qed

theorem handleDrop_invoice_total_witness:
  "let s = (editor_init [] [] [])\<lparr>addedProducts :=
             [new_card seed_product_h2 None 0, (new_card seed_product_h2 None 1)\<lparr>totalCardPrice := Fin 5\<rparr>]\<rparr>
   in handleDrop 0 1 s = Some (the (handleDrop 0 1 s)) \<and>
      invoice_total (addedProducts (the (handleDrop 0 1 s))) = invoice_total (addedProducts s)"
proof -
  define s where "s = (editor_init [] [] [])\<lparr>addedProducts :=
             [new_card seed_product_h2 None 0, (new_card seed_product_h2 None 1)\<lparr>totalCardPrice := Fin 5\<rparr>]\<rparr>"
  have h: "handleDrop 0 1 s = Some (the (handleDrop 0 1 s))"
    by (simp add: s_def handleDrop_def)
  have "invoice_total (addedProducts (the (handleDrop 0 1 s))) = invoice_total (addedProducts s)"
    by (rule handleDrop_invoice_total [OF h])
  with h show ?thesis unfolding Let_def s_def [symmetric] by blast
qed

text \<open>
  C2. In every state the page can reach (from a catalog with finite prices), the invoice
  total shown is the sum of the cards' totals, each read with \<open>|| 0\<close>, and every card
  is settled under the invoice's tier: recomputing it changes nothing, or it is the
  JSON copy of such a card.
\<close>

theorem reachable_cards_settled:
  assumes "editor_reachable s"
  shows "invoiceTotal s = invoice_total (addedProducts s) \<and>
         (\<forall>c \<in> set (addedProducts s). card_settled (invoiceDefaultPriceId s) c)"
  using reachable_editor_inv [OF assms] by (simp add: editor_inv_def)

text \<open>A run of the seeded catalog: customer Aman (tier Adaty), product H-2 measured 3 by 4.\<close>

theorem reachable_cards_settled_witness:
  "let s = the (editor_run (editor_init [seed_customer_aman] [seed_price_diller, seed_price_adaty] [seed_product_h2])
                 [SelectCustomer 2, SelectProductFromDialog 2,
                  ChangeMeasurement FieldA ''3'', ChangeMeasurement FieldB ''4''])
   in editor_reachable s \<and> invoiceTotal s = invoice_total (addedProducts s) \<and>
      list_all (card_settled (invoiceDefaultPriceId s)) (addedProducts s)"
proof -
  define s where "s = the (editor_run (editor_init [seed_customer_aman] [seed_price_diller, seed_price_adaty] [seed_product_h2])
                 [SelectCustomer 2, SelectProductFromDialog 2,
                  ChangeMeasurement FieldA ''3'', ChangeMeasurement FieldB ''4''])"
  have run: "editor_run (editor_init [seed_customer_aman] [seed_price_diller, seed_price_adaty] [seed_product_h2])
                 [SelectCustomer 2, SelectProductFromDialog 2,
                  ChangeMeasurement FieldA ''3'', ChangeMeasurement FieldB ''4''] = Some s"
    unfolding s_def by code_simp
  have init: "editor_reachable (editor_init [seed_customer_aman] [seed_price_diller, seed_price_adaty] [seed_product_h2])"
    by (rule editor_reachable.init) (simp add: seed_product_h2_def product_prices_finite_def)
  have r: "editor_reachable s" by (rule editor_run_reachable [OF init run])
  from reachable_cards_settled [OF r] r show ?thesis
    unfolding Let_def s_def [symmetric] by (simp add: list_all_iff)
qed

text \<open>
  C8. An invoice is only sent when every card with 1, 2 or 3 sides has its first
  1, 2 or 3 measurements read by \<open>parseFloat\<close> as positive numbers.
\<close>

theorem create_request_validates:
  assumes "create_request s = Inr d" and "c \<in> set (addedProducts s)"
    and "countOfSides (card_product c) \<in> {1, 2, 3}"
  shows "\<forall>m \<in> set (take (nat (countOfSides (card_product c)))
                [fst (measurements c), fst (snd (measurements c)), snd (snd (measurements c))]).
           js_positive (parse_float m)"
proof -
  from assms(1) have "first_invalid_card (addedProducts s) = None"
    by (auto simp: create_request_def split: option.splits if_splits)
  from this assms(2,3) show ?thesis by (rule first_invalid_card_None)
qed

theorem create_request_validates_witness:
  "let c = (new_card seed_product_h2 None 0)\<lparr>measurements := (''3'', ''4'', '''')\<rparr>;
       s = (editor_init [] [] [])\<lparr>selectedCustomer := Some seed_customer_aman, addedProducts := [c]\<rparr>
   in create_request s = Inr (invoiceData seed_customer_aman s) \<and> c \<in> set (addedProducts s) \<and>
      countOfSides (card_product c) \<in> {1, 2, 3} \<and>
      js_positive (parse_float ''3'') \<and> js_positive (parse_float ''4'')"
proof -
  define c where "c = (new_card seed_product_h2 None 0)\<lparr>measurements := (''3'', ''4'', '''')\<rparr>"
  define s where "s = (editor_init [] [] [])\<lparr>selectedCustomer := Some seed_customer_aman, addedProducts := [c]\<rparr>"
  have req: "create_request s = Inr (invoiceData seed_customer_aman s)"
    unfolding s_def c_def by code_simp
  have mem: "c \<in> set (addedProducts s)" by (simp add: s_def)
  have sides: "countOfSides (card_product c) \<in> {1, 2, 3}"
    by (simp add: c_def new_card_def seed_product_h2_def)
  have two: "countOfSides (card_product c) = 2" by (simp add: c_def new_card_def seed_product_h2_def)
  have m: "measurements c = (''3'', ''4'', '''')" by (simp add: c_def)
  have "js_positive (parse_float ''3'') \<and> js_positive (parse_float ''4'')"
    using create_request_validates [OF req mem sides] two m by simp
  with req mem sides show ?thesis unfolding Let_def c_def [symmetric] s_def [symmetric] by blast
qed

text \<open>
  C9. In a reachable state, the invoice the page sends carries as its total the sum of
  its items' totals (each read with \<open>|| 0\<close>), the invariant \<section>3 of the specification
  states for stored invoices.
\<close>

theorem create_request_total:
  assumes "editor_reachable s" and "create_request s = Inr d"
  shows "totalAmount d = sum_list (map (\<lambda>i. js_or (totalItemPrice i) 0) (items d))"
proof -
  from assms(2) obtain cu where d: "d = invoiceData cu s"
    by (auto simp: create_request_def split: option.splits if_splits)
  have "invoiceTotal s = invoice_total (addedProducts s)"
    using reachable_editor_inv [OF assms(1)] by (simp add: editor_inv_def)
  with d show ?thesis
    by (simp add: invoiceData_def invoice_total_sum item_of_def comp_def)
qed

theorem create_request_total_witness:
  "let s = the (editor_run (editor_init [seed_customer_aman] [seed_price_diller, seed_price_adaty] [seed_product_h2])
                 [SelectCustomer 2, SelectProductFromDialog 2,
                  ChangeMeasurement FieldA ''3'', ChangeMeasurement FieldB ''4''])
   in editor_reachable s \<and> create_request s = Inr (invoiceData seed_customer_aman s) \<and>
      totalAmount (invoiceData seed_customer_aman s) = Fin 840"
proof -
  define s where "s = the (editor_run (editor_init [seed_customer_aman] [seed_price_diller, seed_price_adaty] [seed_product_h2])
                 [SelectCustomer 2, SelectProductFromDialog 2,
                  ChangeMeasurement FieldA ''3'', ChangeMeasurement FieldB ''4''])"
  have run: "editor_run (editor_init [seed_customer_aman] [seed_price_diller, seed_price_adaty] [seed_product_h2])
                 [SelectCustomer 2, SelectProductFromDialog 2,
                  ChangeMeasurement FieldA ''3'', ChangeMeasurement FieldB ''4''] = Some s"
    unfolding s_def by code_simp
  have init: "editor_reachable (editor_init [seed_customer_aman] [seed_price_diller, seed_price_adaty] [seed_product_h2])"
    by (rule editor_reachable.init) (simp add: seed_product_h2_def product_prices_finite_def)
  have r: "editor_reachable s" by (rule editor_run_reachable [OF init run])
  have req: "create_request s = Inr (invoiceData seed_customer_aman s)"
    unfolding s_def by code_simp
  have tot: "sum_list (map (\<lambda>i. js_or (totalItemPrice i) 0) (items (invoiceData seed_customer_aman s))) = Fin 840"
    unfolding s_def by code_simp
  have "totalAmount (invoiceData seed_customer_aman s) = Fin 840"
    using create_request_total [OF r req] tot by simp
  with r req show ?thesis unfolding Let_def s_def [symmetric] by blast
qed

text \<open>
  The page's effects come to rest after one round: once \<open>settle\<close> has run them,
  the tier last used is the tier shown, so the re-render their updates cause runs the
  tier effect without effect, and the total effect leaves the total as it is; React
  stops re-rendering.
\<close>

theorem settle_quiescent:
  "invoiceDefaultPriceIdForChecking (settle old new) = invoiceDefaultPriceId (settle old new) \<and>
   tier_effect (settle old new) = settle old new \<and> total_effect (settle old new) = settle old new"
  by (simp add: settle_def tier_effect_def total_effect_def)

end
