(* ===== verification/Database.thy ===== *)
theory Database
  imports Entities
begin

text \<open>
  The SQLite database of \<open>src/server/db/model.js\<close>.  Every table is the list of its
  rows in rowid order; an entity table's ids come from its sequence counter (Sequelize
  declares \<open>id INTEGER PRIMARY KEY AUTOINCREMENT\<close>, so an id is never reused).  The
  join tables of \<open>belongsToMany\<close> (\<open>extraPrice\<close>, \<open>extraProductPrice\<close>,
  \<open>extraProductsConnection\<close>) have no id: Sequelize makes the pair of foreign keys
  their primary key.  A foreign key of \<open>belongsTo\<close> or \<open>hasMany\<close> is nullable and
  \<open>ON DELETE SET NULL\<close>, a foreign key of a join table \<open>ON DELETE CASCADE\<close>, and
  Sequelize turns SQLite's foreign key enforcement on.  \<open>createdAt\<close> is the text
  Sequelize writes, a parameter of the statements.  The client sees a product, an
  extra product or a customer as the view of its row joined with its join rows
  (\<open>product_view\<close>, \<open>extra_product_view\<close>), the records of \<open>Entities\<close>.
\<close>

subsection \<open>Rows\<close>

record product_row =
  pr_id :: entity_id
  pr_name :: string
  pr_barcode :: string
  pr_price :: jsnum
  pr_measure :: string
  pr_countOfSides :: int

record extra_product_row =
  xp_id :: entity_id
  xp_name :: string
  xp_price :: jsnum
  xp_measure :: string
  xp_calculationType :: string

text \<open>A row of \<open>extraPrice\<close> (a product's price for a tier) or of \<open>extraProductPrice\<close>.\<close>

record join_price_row =
  jp_ownerId :: entity_id
  jp_priceId :: price_id
  jp_price :: jsnum

record invoice_row =
  ir_id :: entity_id
  ir_totalAmount :: jsnum
  ir_customerId :: "entity_id option"
  ir_defaultPriceId :: "price_id option"
  ir_createdAt :: string

record item_row =
  itr_id :: entity_id
  itr_invoiceId :: entity_id
  itr_productId :: "entity_id option"
  itr_measurements :: measurements
  itr_quantity :: jsnum
  itr_calculatedPricePerUnit :: jsnum
  itr_totalItemPrice :: jsnum
  itr_notes :: string
  itr_createdAt :: string

record extra_row =
  xr_id :: entity_id
  xr_invoiceItemId :: entity_id
  xr_extraProductId :: "entity_id option"
  xr_calculatedQuantity :: jsnum
  xr_calculatedUnitPrice :: jsnum
  xr_calculatedTotalPrice :: jsnum
  xr_createdAt :: string

record db =
  db_prices :: "price list"
  db_customers :: "customer list"
  db_products :: "product_row list"
  db_extraProducts :: "extra_product_row list"
  db_extraPrice :: "join_price_row list"
  db_extraProductPrice :: "join_price_row list"
  db_connections :: "(entity_id \<times> entity_id) list"
  db_invoices :: "invoice_row list"
  db_items :: "item_row list"
  db_extraItems :: "extra_row list"
  seq_price :: nat
  seq_customer :: nat
  seq_product :: nat
  seq_extraProduct :: nat
  seq_invoice :: nat
  seq_item :: nat
  seq_extra :: nat

subsection \<open>What the client receives\<close>

text \<open>
  An extra product with its \<open>extraPrices\<close> (\<open>include: ['extraPrices']\<close>), a product
  with its \<open>extraPrices\<close> and its linked extra products, each with its own prices
  (\<open>include: ['extraPrices', {association: 'extraProducts', include:
  ['extraPrices']}]\<close>).  Without an \<open>ORDER BY\<close> the included rows come in table order.
\<close>

definition extra_product_view :: "db \<Rightarrow> extra_product_row \<Rightarrow> extra_product" where
  "extra_product_view d e =
     \<lparr>ep_id = xp_id e, ep_name = xp_name e, ep_price = xp_price e, ep_measure = xp_measure e,
      calculationType = xp_calculationType e,
      ep_extraPrices = map (\<lambda>j. (jp_priceId j, jp_price j))
                         (filter (\<lambda>j. jp_ownerId j = xp_id e) (db_extraProductPrice d))\<rparr>"

definition product_view :: "db \<Rightarrow> product_row \<Rightarrow> product" where
  "product_view d r =
     \<lparr>product_id = pr_id r, product_name = pr_name r, barcode = pr_barcode r,
      product_price = pr_price r, product_measure = pr_measure r,
      countOfSides = pr_countOfSides r,
      extraPrices = map (\<lambda>j. (jp_priceId j, jp_price j))
                      (filter (\<lambda>j. jp_ownerId j = pr_id r) (db_extraPrice d)),
      extraProducts = map (extra_product_view d)
                        (filter (\<lambda>e. (pr_id r, xp_id e) \<in> set (db_connections d))
                          (db_extraProducts d))\<rparr>"

subsection \<open>Statements on a table\<close>

text \<open>
  \<open>Model.update(values, {where})\<close>, and the \<open>ON DELETE SET NULL\<close> action: the rows
  that satisfy the condition are changed, the others kept, the order unchanged.
\<close>

definition update_where :: "('a \<Rightarrow> bool) \<Rightarrow> ('a \<Rightarrow> 'a) \<Rightarrow> 'a list \<Rightarrow> 'a list" where
  "update_where P f xs = map (\<lambda>r. if P r then f r else r) xs"

subsection \<open>SQLite \<open>LIKE\<close>\<close>

text \<open>
  \<open>x LIKE p\<close> without \<open>ESCAPE\<close>: \<open>%\<close> matches any string, \<open>_\<close> any one character,
  and any other character itself up to the case of ASCII letters.
\<close>

fun like_match :: "string \<Rightarrow> string \<Rightarrow> bool" where
  "like_match [] s = (s = [])"
| "like_match (c # p) s =
     (if c = CHR ''%'' then like_match p s \<or> (case s of [] \<Rightarrow> False | _ # s' \<Rightarrow> like_match (c # p) s')
      else (case s of [] \<Rightarrow> False
            | d # s' \<Rightarrow> (c = CHR ''_'' \<or> ascii_lower c = ascii_lower d) \<and> like_match p s'))"

text \<open>The search of every list route: \<open>{[Op.like]: `%${q || ''}%`}\<close>.\<close>

definition like_search :: "string \<Rightarrow> string \<Rightarrow> bool" where
  "like_search q s = like_match (CHR ''%'' # q @ ''%'') s"

subsection \<open>The seeded database\<close>

text \<open>The rows \<open>initDb\<close> (\<open>src/server/index.js\<close>) writes into an empty database.\<close>

definition initDb :: db where
  "initDb =
     \<lparr>db_prices = [seed_price_diller, seed_price_adaty],
      db_customers = [seed_customer_maksat, seed_customer_aman, seed_customer_serdar],
      db_products =
        [\<lparr>pr_id = 1, pr_name = ''H-1 (Base: 50, Diller: 40)'', pr_barcode = ''1'', pr_price = Fin 50,
          pr_measure = ''m'', pr_countOfSides = 1\<rparr>,
         \<lparr>pr_id = 2, pr_name = ''H-2 (Base: 60, Adaty: 70)'', pr_barcode = ''2'', pr_price = Fin 60,
          pr_measure = ''mkw'', pr_countOfSides = 2\<rparr>,
         \<lparr>pr_id = 3, pr_name = ''H-3 (Base: 80, DIller: 90, Adaty: 100)'', pr_barcode = ''3'',
          pr_price = Fin 80, pr_measure = ''mkb'', pr_countOfSides = 3\<rparr>],
      db_extraProducts =
        [\<lparr>xp_id = 1, xp_name = ''Secek (Base: 10, Diller: 15, Adaty: 20)'', xp_price = Fin 10,
          xp_measure = ''m'', xp_calculationType = ''a''\<rparr>,
         \<lparr>xp_id = 2, xp_name = ''Selpe (Base: 16, Diller: 30)'', xp_price = Fin 16,
          xp_measure = ''m'', xp_calculationType = ''a''\<rparr>],
      db_extraPrice =
        [\<lparr>jp_ownerId = 1, jp_priceId = 1, jp_price = Fin 40\<rparr>,
         \<lparr>jp_ownerId = 2, jp_priceId = 2, jp_price = Fin 70\<rparr>,
         \<lparr>jp_ownerId = 3, jp_priceId = 1, jp_price = Fin 90\<rparr>,
         \<lparr>jp_ownerId = 3, jp_priceId = 2, jp_price = Fin 100\<rparr>],
      db_extraProductPrice =
        [\<lparr>jp_ownerId = 1, jp_priceId = 1, jp_price = Fin 15\<rparr>,
         \<lparr>jp_ownerId = 1, jp_priceId = 2, jp_price = Fin 20\<rparr>,
         \<lparr>jp_ownerId = 2, jp_priceId = 1, jp_price = Fin 30\<rparr>],
      db_connections = [(2, 1), (3, 2)],
      db_invoices = [], db_items = [], db_extraItems = [],
      seq_price = 2, seq_customer = 3, seq_product = 3, seq_extraProduct = 2,
      seq_invoice = 0, seq_item = 0, seq_extra = 0\<rparr>"

text \<open>
  The database the server starts from: \<open>startServer\<close> (\<open>src/server/index.js\<close>) runs
  \<open>sequelize.sync({})\<close>, which creates the tables of a new database file empty; its
  call of \<open>initDb()\<close> is commented out, so \<open>initDb\<close> above is only the sample
  database of the examples.
\<close>

definition empty_db :: db where
  "empty_db =
     \<lparr>db_prices = [], db_customers = [], db_products = [], db_extraProducts = [],
      db_extraPrice = [], db_extraProductPrice = [], db_connections = [],
      db_invoices = [], db_items = [], db_extraItems = [],
      seq_price = 0, seq_customer = 0, seq_product = 0, seq_extraProduct = 0,
      seq_invoice = 0, seq_item = 0, seq_extra = 0\<rparr>"


subsection \<open>Properties of the search\<close>

lemma ascii_lower_underscore: "ascii_lower c = CHR ''_'' \<longleftrightarrow> c = CHR ''_''"
proof
  assume "ascii_lower c = CHR ''_''"
  then have "(of_char (ascii_lower c) :: nat) = 95" by simp
  then have "(of_char c :: nat) = 95" by (auto simp: ascii_lower_def split: if_splits)
  then have "c = char_of (95 :: nat)" by (metis char_of_char)
  then show "c = CHR ''_''" by (simp add: char_of_def bit_0)
qed (simp add: ascii_lower_def)

lemma underscore_in_lower: "CHR ''_'' \<in> set (map ascii_lower s) \<longleftrightarrow> CHR ''_'' \<in> set s"
proof -
  have "ascii_lower (CHR ''_'') = CHR ''_''" by (simp add: ascii_lower_underscore)
  then have "CHR ''_'' \<in> set s \<Longrightarrow> CHR ''_'' \<in> ascii_lower ` set s"
    by (metis image_eqI)
  moreover have "CHR ''_'' \<in> set s" if "CHR ''_'' \<in> ascii_lower ` set s"
  proof -
    from that obtain x where "x \<in> set s" "ascii_lower x = CHR ''_''" by force
    then show ?thesis by (simp add: ascii_lower_underscore)
  qed
  ultimately show ?thesis by auto
qed

lemma like_match_percent:
  "like_match (CHR ''%'' # p) s \<longleftrightarrow> (\<exists>k \<le> length s. like_match p (drop k s))"
proof (induction s)
  case Nil
  then show ?case by simp
next
  case (Cons a s)
  from Cons show ?case by (simp add: ex_le_Suc)
qed

lemma like_match_literal:
  assumes "CHR ''%'' \<notin> set q" "CHR ''_'' \<notin> set q"
  shows "like_match (q @ r) s \<longleftrightarrow>
    length q \<le> length s \<and> map ascii_lower (take (length q) s) = map ascii_lower q \<and>
    like_match r (drop (length q) s)"
  using assms
proof (induction q arbitrary: s)
  case Nil
  then show ?case by simp
next
  case (Cons c q)
  then show ?case by (cases s) auto
qed

lemma like_match_any: "like_match ''%'' s"
  using like_match_percent [of "[]" s] by (auto intro: exI [of _ "length s"])

lemma like_match_prefix:
  "map ascii_lower p = map ascii_lower s \<Longrightarrow> like_match r t \<Longrightarrow> like_match (p @ r) (s @ t)"
proof (induction p arbitrary: s)
  case (Cons c p)
  then obtain d s' where s: "s = d # s'" and l: "ascii_lower c = ascii_lower d"
      and m: "map ascii_lower p = map ascii_lower s'"
    by (cases s) auto
  have "like_match (p @ r) (s' @ t)" using Cons.IH [OF m Cons.prems(2)] .
  then show ?case by (simp add: s l)
qed simp

text \<open>A literal occurrence of the query is always found: the wildcards only widen the search.\<close>

lemma like_search_of_sublist:
  assumes "sublist (map ascii_lower q) (map ascii_lower s)"
  shows "like_search q s"
proof -
  obtain a b where "map ascii_lower s = a @ (map ascii_lower q @ b)"
    using assms by (auto simp: sublist_def)
  from this [unfolded map_eq_append_conv] obtain a' v
    where s1: "s = a' @ v" and v: "map ascii_lower q @ b = map ascii_lower v"
    by blast
  from v [symmetric, unfolded map_eq_append_conv] obtain m b'
    where v': "v = m @ b'" and m0: "map ascii_lower q = map ascii_lower m"
    by blast
  have m: "map ascii_lower m = map ascii_lower q" using m0 by simp
  have s: "s = a' @ m @ b'" by (simp add: s1 v')
  have "like_match (q @ ''%'') (m @ b')"
    using like_match_prefix [OF m [symmetric], of "''%''" b'] like_match_any by blast
  then have "like_match (q @ ''%'') (drop (length a') s)" by (simp add: s)
  then show ?thesis
    unfolding like_search_def like_match_percent [of "q @ ''%''"]
    by (intro exI [of _ "length a'"]) (simp add: s)
qed

text \<open>
  C17. The list routes' search is a case-insensitive substring search: for a query
  without \<open>%\<close> and \<open>_\<close>, \<open>name LIKE '%q%'\<close> holds exactly when the query is a
  contiguous part of the name, ASCII letters compared without case.
\<close>

theorem like_search_substring:
  assumes "CHR ''%'' \<notin> set q" "CHR ''_'' \<notin> set q"
  shows "like_search q s \<longleftrightarrow> sublist (map ascii_lower q) (map ascii_lower s)"
proof -
  have "like_search q s \<longleftrightarrow>
      (\<exists>k \<le> length s. length q \<le> length (drop k s) \<and>
         map ascii_lower (take (length q) (drop k s)) = map ascii_lower q)"
    unfolding like_search_def like_match_percent [of "q @ ''%''"] like_match_literal [OF assms]
    by (simp add: like_match_any del: like_match.simps)
  also have "\<dots> \<longleftrightarrow> (\<exists>k. k + length q \<le> length s \<and>
         take (length q) (drop k (map ascii_lower s)) = map ascii_lower q)"
    by (auto simp: take_map drop_map) (use le_diff_conv2 in \<open>force+\<close>)
  finally show ?thesis by (simp add: sublist_take_drop)
qed

theorem like_search_substring_witness:
  "like_search ''h-2'' ''H-2 (Base: 60, Adaty: 70)'' \<and>
   sublist (map ascii_lower ''h-2'') (map ascii_lower ''H-2 (Base: 60, Adaty: 70)'')"
proof -
  have l: "like_search ''h-2'' ''H-2 (Base: 60, Adaty: 70)''" by code_simp
  have "CHR ''%'' \<notin> set ''h-2''" "CHR ''_'' \<notin> set ''h-2''" by simp_all
  from like_search_substring [OF this] l show ?thesis by simp
qed

text \<open>
  A character other than a lower-case ASCII letter is the lower case of itself only.
\<close>

lemma ascii_lower_eq_other:
  assumes "ascii_lower c = x" "\<not> (97 \<le> (of_char x :: nat) \<and> (of_char x :: nat) \<le> 122)"
  shows "c = x"
proof (cases "65 \<le> (of_char c :: nat) \<and> (of_char c :: nat) \<le> 90")
  case True
  then have "(of_char (ascii_lower c) :: nat) = of_char c + 32" by (simp add: ascii_lower_def)
  then show ?thesis using assms True by simp
next
  case False
  from assms(1) show ?thesis unfolding ascii_lower_def if_not_P [OF False] .
qed

text \<open>A \<open>%\<close>-free pattern matches itself with any character in place of each \<open>_\<close>.\<close>

lemma like_match_underscores:
  "CHR ''%'' \<notin> set q \<Longrightarrow> like_match (q @ r) (map (\<lambda>c. if c = CHR ''_'' then x else c) q @ s) = like_match r s"
  by (induction q) auto

lemma like_match_percent_end: "like_match [CHR ''%''] s"
  by (induction s) auto

text \<open>A space of the pattern is matched by a space of the string.\<close>

lemma like_match_space:
  "like_match p s \<Longrightarrow> CHR '' '' \<in> set p \<Longrightarrow> CHR '' '' \<in> set s"
proof (induction p s rule: like_match.induct)
  case (1 s)
  then show ?case by simp
next
  case (2 c p s)
  show ?case
  proof (cases "c = CHR ''%''")
    case True
    then have sp: "CHR '' '' \<in> set p" using "2.prems"(2) by auto
    show ?thesis
    proof (cases s)
      case Nil
      then have "like_match p s" using "2.prems"(1) True by simp
      then show ?thesis using "2.IH"(1) [OF True _ sp] by simp
    next
      case (Cons d s')
      then have "like_match p s \<or> like_match (c # p) s'" using "2.prems"(1) True by simp
      then show ?thesis
      proof
        assume "like_match p s"
        then show ?thesis using "2.IH"(1) [OF True _ sp] by simp
      next
        assume "like_match (c # p) s'"
        then have "CHR '' '' \<in> set s'" using "2.IH"(2) [OF True Cons] "2.prems"(2) by simp
        then show ?thesis by (simp add: Cons)
      qed
    qed
  next
    case False
    with "2.prems"(1) obtain d s' where s: "s = d # s'"
      and m: "c = CHR ''_'' \<or> ascii_lower c = ascii_lower d" and r: "like_match p s'"
      by (auto split: list.splits)
    show ?thesis
    proof (cases "c = CHR '' ''")
      case True
      then have "ascii_lower d = CHR '' ''" using m by (simp add: ascii_lower_def)
      then have "d = CHR '' ''" by (rule ascii_lower_eq_other) simp
      then show ?thesis by (simp add: s)
    next
      case c: False
      then have "CHR '' '' \<in> set p" using "2.prems"(2) by simp
      then show ?thesis using "2.IH"(3) [OF False s r] by (simp add: s)
    qed
  qed
qed

text \<open>
  C18. The query is not escaped: a \<open>_\<close> in the query is a wildcard.  For every query
  \<open>q\<close> without \<open>%\<close> that contains \<open>_\<close>, the search finds every name obtained from
  \<open>q\<close> by putting another character \<open>x\<close> in place of each \<open>_\<close>, although that
  name does not contain \<open>q\<close>.
\<close>

theorem like_search_wildcard_query:
  assumes "CHR ''%'' \<notin> set q" "CHR ''_'' \<in> set q" "x \<noteq> CHR ''_''"
  shows "like_search q (map (\<lambda>c. if c = CHR ''_'' then x else c) q) \<and>
         \<not> sublist (map ascii_lower q) (map ascii_lower (map (\<lambda>c. if c = CHR ''_'' then x else c) q))"
proof
  let ?s = "map (\<lambda>c. if c = CHR ''_'' then x else c) q"
  have "like_match (q @ [CHR ''%'']) (?s @ []) = like_match [CHR ''%''] []"
    by (rule like_match_underscores [OF assms(1)])
  then show "like_search q ?s" by (simp add: like_search_def like_match_percent_end)
  have "CHR ''_'' \<notin> set ?s" using assms(3) by auto
  then have "CHR ''_'' \<notin> set (map ascii_lower ?s)" using underscore_in_lower by blast
  moreover have "CHR ''_'' \<in> set (map ascii_lower q)" using assms(2) underscore_in_lower by blast
  ultimately show "\<not> sublist (map ascii_lower q) (map ascii_lower ?s)"
    using set_mono_sublist by blast
qed

theorem like_search_wildcard_query_witness:
  "like_search ''H_1'' ''H-1'' \<and> \<not> sublist (map ascii_lower ''H_1'') (map ascii_lower ''H-1'')"
  using like_search_wildcard_query [of "''H_1''" "CHR ''-''"] by simp



lemma initDb_products_view:
  "map (product_view initDb) (db_products initDb) = [seed_product_h1, seed_product_h2, seed_product_h3]"
  by code_simp


subsection \<open>Updates in place\<close>

lemma image_update_where:
  "(\<And>r. P r \<Longrightarrow> k (f r) = k r) \<Longrightarrow> k ` set (update_where P f xs) = k ` set xs"
  unfolding update_where_def by (induction xs) auto

lemma ball_update_where:
  "(\<forall>y \<in> set (update_where P f xs). Q y) \<longleftrightarrow> (\<forall>x \<in> set xs. Q (if P x then f x else x))"
  unfolding update_where_def by auto

lemma ball_update_where_keep:
  assumes "\<forall>x \<in> set xs. Q x" "\<And>x. P x \<Longrightarrow> Q (h x) = Q x"
  shows "\<forall>y \<in> set (update_where P h xs). Q y"
  using assms by (auto simp: update_where_def)

lemma image_filter_key: "k ` set (filter (\<lambda>r. k r \<noteq> c) xs) = k ` set xs - {c}"
  by auto


lemma find_update_where:
  "(\<And>r. P r \<Longrightarrow> P (f r)) \<Longrightarrow> find P (update_where P f xs) = map_option f (find P xs)"
  unfolding update_where_def by (induction xs) auto

lemma map_update_where: "(\<And>r. P r \<Longrightarrow> f (g r) = f r) \<Longrightarrow> map f (update_where P g xs) = map f xs"
  unfolding update_where_def by (induction xs) auto


lemma mem_update_where: "x \<in> set xs \<Longrightarrow> P x \<Longrightarrow> f x \<in> set (update_where P f xs)"
  unfolding update_where_def by force

lemma update_where_same:
  "(\<And>r. r \<in> set xs \<Longrightarrow> P r \<Longrightarrow> f r = r) \<Longrightarrow> update_where P f xs = xs"
  unfolding update_where_def by (induction xs) auto

end
