(* ===== verification/Server.thy ===== *)
theory Server
  imports Database
begin

text \<open>
  The server side of an invoice (\<open>src/server/routes/invoice.js\<close>, the tables of
  \<open>src/server/db/model.js\<close>).  The database is a record of tables; a table is the
  list of its rows in insertion (rowid) order, and each auto-increment id comes from the
  table's sequence counter (Sequelize declares \<open>INTEGER PRIMARY KEY AUTOINCREMENT\<close>,
  so ids are never reused).  A statement either fails, as SQLite does on a foreign key
  that names no row, or returns the changed tables.  \<open>sequelize.transaction\<close> runs
  the statements on the database and keeps their result only if none failed.  The
  request body arrives through JSON, where \<open>Infinity\<close>, \<open>-Infinity\<close> and NaN are
  \<open>null\<close>; a \<open>DOUBLE\<close> column stores \<open>null\<close>, and \<open>SUM\<close> skips it, so it is
  modelled as 0 (\<open>json_number\<close>).
\<close>

datatype db_error = ForeignKeyViolation string | UniqueViolation string | TypeError string | LockBusy string

subsection \<open>Statements\<close>

text \<open>\<open>MInvoice.create(req.body, {transaction})\<close>: the foreign keys must name rows.\<close>

definition insert_invoice :: "string \<Rightarrow> invoice_payload \<Rightarrow> db \<Rightarrow> db_error + (db \<times> entity_id)" where
  "insert_invoice now p d =
     (if inv_customerId p \<notin> customer_id ` set (db_customers d) then
        Inl (ForeignKeyViolation ''customerId'')
      else if (case inv_defaultPriceId p of None \<Rightarrow> False
               | Some t \<Rightarrow> t \<notin> price_id ` set (db_prices d)) then
        Inl (ForeignKeyViolation ''defaultPriceId'')
      else
        let iid = Suc (seq_invoice d);
            row = \<lparr>ir_id = iid, ir_totalAmount = json_number (totalAmount p),
                   ir_customerId = Some (inv_customerId p), ir_defaultPriceId = inv_defaultPriceId p,
                   ir_createdAt = now\<rparr>
        in Inr (d\<lparr>db_invoices := db_invoices d @ [row], seq_invoice := iid\<rparr>, iid))"

text \<open>The row \<open>{...item, invoiceId}\<close> of one item, with the id it is given.\<close>

definition item_row_of :: "string \<Rightarrow> entity_id \<Rightarrow> entity_id \<Rightarrow> item_payload \<Rightarrow> item_row" where
  "item_row_of now iid rid it =
     \<lparr>itr_id = rid, itr_invoiceId = iid, itr_productId = Some (it_productId it),
      itr_measurements = it_measurements it, itr_quantity = json_number (it_quantity it),
      itr_calculatedPricePerUnit = json_number (calculatedPricePerUnit it),
      itr_totalItemPrice = json_number (totalItemPrice it), itr_notes = it_notes it,
      itr_createdAt = now\<rparr>"

text \<open>
  \<open>MInvoiceItems.bulkCreate(...)\<close>: one INSERT of all rows, ids in order after the
  sequence; it fails as a whole on a product id that names no product.
\<close>

definition insert_items :: "string \<Rightarrow> entity_id \<Rightarrow> item_payload list \<Rightarrow> db \<Rightarrow> db_error + (db \<times> entity_id list)" where
  "insert_items now iid its d =
     (if \<exists>it \<in> set its. it_productId it \<notin> pr_id ` set (db_products d) then
        Inl (ForeignKeyViolation ''productId'')
      else
        let ids = map (\<lambda>k. seq_item d + Suc k) [0..<length its];
            rows = map (\<lambda>(rid, it). item_row_of now iid rid it) (zip ids its)
        in Inr (d\<lparr>db_items := db_items d @ rows, seq_item := seq_item d + length its\<rparr>, ids))"

definition extra_row_of :: "string \<Rightarrow> entity_id \<Rightarrow> entity_id \<Rightarrow> extra_item_payload \<Rightarrow> extra_row" where
  "extra_row_of now item_id rid x =
     \<lparr>xr_id = rid, xr_invoiceItemId = item_id, xr_extraProductId = Some (xi_extraProductId x),
      xr_calculatedQuantity = json_number (xi_calculatedQuantity x),
      xr_calculatedUnitPrice = json_number (xi_calculatedUnitPrice x),
      xr_calculatedTotalPrice = json_number (xi_calculatedTotalPrice x), xr_createdAt = now\<rparr>"

text \<open>
  The argument of the second \<open>bulkCreate\<close>: \<open>items.reduce((res, item, idx) => [...res,
  ...req.body.items[idx].extraItems.map(ep => ({...ep, invoiceItemId: item.id}))], [])\<close>.
\<close>

definition extra_payloads :: "entity_id list \<Rightarrow> item_payload list \<Rightarrow> (entity_id \<times> extra_item_payload) list" where
  "extra_payloads ids its =
     foldl (\<lambda>res (item_id, it). res @ map (\<lambda>x. (item_id, x)) (extraItems it)) [] (zip ids its)"

definition insert_extra_items :: "string \<Rightarrow> (entity_id \<times> extra_item_payload) list \<Rightarrow> db \<Rightarrow> db_error + db" where
  "insert_extra_items now xs d =
     (if \<exists>(_, x) \<in> set xs. xi_extraProductId x \<notin> xp_id ` set (db_extraProducts d) then
        Inl (ForeignKeyViolation ''extraProductId'')
      else
        let rows = map (\<lambda>(k, (item_id, x)). extra_row_of now item_id (seq_extra d + Suc k) x)
                     (zip [0..<length xs] xs)
        in Inr (d\<lparr>db_extraItems := db_extraItems d @ rows, seq_extra := seq_extra d + length xs\<rparr>))"

subsection \<open>Reading an invoice back\<close>

text \<open>
  \<open>MInvoice.findByPk(id, {include: [..., {association: 'items', include: [...,
  'extraItems']}]})\<close>: the invoice row, its items and each item's extra items, in
  table order.
\<close>

record stored_invoice =
  si_invoice :: invoice_row
  si_items :: "(item_row \<times> extra_row list) list"

definition read_invoice :: "db \<Rightarrow> entity_id \<Rightarrow> stored_invoice option" where
  "read_invoice d iid =
     (case find (\<lambda>r. ir_id r = iid) (db_invoices d) of
        None \<Rightarrow> None
      | Some r \<Rightarrow>
          Some \<lparr>si_invoice = r,
                si_items = map (\<lambda>it. (it, filter (\<lambda>x. xr_invoiceItemId x = itr_id it) (db_extraItems d)))
                             (filter (\<lambda>it. itr_invoiceId it = iid) (db_items d))\<rparr>)"

subsection \<open>The route\<close>

text \<open>\<open>sequelize.transaction(body)\<close>: commit the body's tables, or roll back to the old ones.\<close>

definition transaction :: "(db \<Rightarrow> db_error + (db \<times> 'r)) \<Rightarrow> db \<Rightarrow> db \<times> (db_error + 'r)" where
  "transaction body d = (case body d of Inl e \<Rightarrow> (d, Inl e) | Inr (d', r) \<Rightarrow> (d', Inr r))"

text \<open>The body of \<open>invoiceRouter.post('/')\<close>, statement by statement.\<close>

definition post_invoice_body :: "string \<Rightarrow> invoice_payload \<Rightarrow> db \<Rightarrow> db_error + (db \<times> stored_invoice option)" where
  "post_invoice_body now p d0 =
     (case insert_invoice now p d0 of
        Inl e \<Rightarrow> Inl e
      | Inr (d1, iid) \<Rightarrow>
          (case insert_items now iid (items p) d1 of
             Inl e \<Rightarrow> Inl e
           | Inr (d2, ids) \<Rightarrow>
               (case insert_extra_items now (extra_payloads ids (items p)) d2 of
                  Inl e \<Rightarrow> Inl e
                | Inr d3 \<Rightarrow> Inr (d3, read_invoice d3 iid))))"

definition postInvoice :: "string \<Rightarrow> invoice_payload \<Rightarrow> db \<Rightarrow> db \<times> (db_error + stored_invoice option)" where
  "postInvoice now p d = transaction (post_invoice_body now p) d"

text \<open>The ids of every table are below its sequence counter: what the counters keep true.\<close>

definition db_ok :: "db \<Rightarrow> bool" where
  "db_ok d \<longleftrightarrow>
     (\<forall>r \<in> set (db_invoices d). ir_id r \<le> seq_invoice d) \<and>
     (\<forall>r \<in> set (db_items d). itr_id r \<le> seq_item d \<and> itr_invoiceId r \<le> seq_invoice d) \<and>
     (\<forall>r \<in> set (db_extraItems d). xr_id r \<le> seq_extra d \<and> xr_invoiceItemId r \<le> seq_item d)"

text \<open>The request body after JSON: every number through \<open>json_number\<close>.\<close>

definition wire_extra :: "extra_item_payload \<Rightarrow> extra_item_payload" where
  "wire_extra x =
     x\<lparr>xi_calculatedQuantity := json_number (xi_calculatedQuantity x),
       xi_calculatedUnitPrice := json_number (xi_calculatedUnitPrice x),
       xi_calculatedTotalPrice := json_number (xi_calculatedTotalPrice x)\<rparr>"

definition wire_item :: "item_payload \<Rightarrow> item_payload" where
  "wire_item it =
     it\<lparr>it_quantity := json_number (it_quantity it),
        calculatedPricePerUnit := json_number (calculatedPricePerUnit it),
        totalItemPrice := json_number (totalItemPrice it),
        extraItems := map wire_extra (extraItems it)\<rparr>"

definition wire_payload :: "invoice_payload \<Rightarrow> invoice_payload" where
  "wire_payload p =
     p\<lparr>totalAmount := json_number (totalAmount p), items := map wire_item (items p)\<rparr>"

text \<open>The payload as read back from the stored rows: the fields the route stored.\<close>

definition extra_of_row :: "extra_row \<Rightarrow> extra_item_payload" where
  "extra_of_row x =
     \<lparr>xi_extraProductId = the (xr_extraProductId x), xi_calculatedQuantity = xr_calculatedQuantity x,
      xi_calculatedUnitPrice = xr_calculatedUnitPrice x,
      xi_calculatedTotalPrice = xr_calculatedTotalPrice x\<rparr>"

definition item_of_row :: "item_row \<times> extra_row list \<Rightarrow> item_payload" where
  "item_of_row r =
     (case r of (it, xs) \<Rightarrow>
       \<lparr>it_productId = the (itr_productId it), it_measurements = itr_measurements it,
        it_quantity = itr_quantity it, calculatedPricePerUnit = itr_calculatedPricePerUnit it,
        totalItemPrice = itr_totalItemPrice it, extraItems = map extra_of_row xs,
        it_notes = itr_notes it\<rparr>)"

definition payload_of_stored :: "stored_invoice \<Rightarrow> invoice_payload" where
  "payload_of_stored si =
     \<lparr>inv_customerId = the (ir_customerId (si_invoice si)),
      inv_defaultPriceId = ir_defaultPriceId (si_invoice si),
      totalAmount = ir_totalAmount (si_invoice si),
      items = map item_of_row (si_items si)\<rparr>"

text \<open>Every foreign key of a payload names a row: what the route needs to commit.\<close>

definition payload_refs_ok :: "db \<Rightarrow> invoice_payload \<Rightarrow> bool" where
  "payload_refs_ok d p \<longleftrightarrow>
     inv_customerId p \<in> customer_id ` set (db_customers d) \<and>
     (case inv_defaultPriceId p of None \<Rightarrow> True | Some t \<Rightarrow> t \<in> price_id ` set (db_prices d)) \<and>
     (\<forall>it \<in> set (items p). it_productId it \<in> pr_id ` set (db_products d)) \<and>
     (\<forall>it \<in> set (items p). \<forall>x \<in> set (extraItems it).
        xi_extraProductId x \<in> xp_id ` set (db_extraProducts d))"


subsection \<open>Statements and the transaction\<close>

lemma extra_payloads_concat:
  "extra_payloads ids its = concat (map (\<lambda>(i, it). map (Pair i) (extraItems it)) (zip ids its))"
  unfolding extra_payloads_def
  by (simp add: foldl_append_concat [where f = "\<lambda>(i, it). map (Pair i) (extraItems it)", simplified case_prod_beta'] case_prod_beta')


lemma bex_extra_payloads [simp]:
  "length ids = length its \<Longrightarrow>
     (\<exists>(i, x) \<in> set (extra_payloads ids its). P x) \<longleftrightarrow> (\<exists>it \<in> set its. \<exists>x \<in> set (extraItems it). P x)"
  unfolding extra_payloads_concat
  by (induction ids its rule: list_induct2) (simp_all add: bex_Un)


lemma post_invoice_body_fail:
  "\<not> payload_refs_ok d p \<Longrightarrow> \<exists>e. post_invoice_body now p d = Inl e"
  unfolding payload_refs_ok_def post_invoice_body_def
  by (auto simp: insert_invoice_def insert_items_def insert_extra_items_def Let_def
      split: option.splits)


lemma post_invoice_body_commit:
  fixes now :: string and d :: db and p :: invoice_payload
  assumes ok: "payload_refs_ok d p"
  defines "iid \<equiv> Suc (seq_invoice d)"
      and "ids \<equiv> map (\<lambda>k. seq_item d + Suc k) [0..<length (items p)]"
  defines "xs \<equiv> extra_payloads ids (items p)"
  defines "d3 \<equiv> d\<lparr>db_invoices := db_invoices d @
                 [\<lparr>ir_id = iid, ir_totalAmount = json_number (totalAmount p),
                   ir_customerId = Some (inv_customerId p), ir_defaultPriceId = inv_defaultPriceId p,
                   ir_createdAt = now\<rparr>],
               db_items := db_items d @ map (\<lambda>(rid, it). item_row_of now iid rid it) (zip ids (items p)),
               db_extraItems := db_extraItems d @
                 map (\<lambda>(k, (item_id, x)). extra_row_of now item_id (seq_extra d + Suc k) x)
                   (zip [0..<length xs] xs),
               seq_invoice := iid, seq_item := seq_item d + length (items p),
               seq_extra := seq_extra d + length xs\<rparr>"
  shows "post_invoice_body now p d = Inr (d3, read_invoice d3 iid)"
proof -
  define d1 where "d1 = d\<lparr>db_invoices := db_invoices d @
                 [\<lparr>ir_id = iid, ir_totalAmount = json_number (totalAmount p),
                   ir_customerId = Some (inv_customerId p), ir_defaultPriceId = inv_defaultPriceId p,
                   ir_createdAt = now\<rparr>], seq_invoice := iid\<rparr>"
  define d2 where "d2 = d1\<lparr>db_items := db_items d1 @ map (\<lambda>(rid, it). item_row_of now iid rid it) (zip ids (items p)),
                   seq_item := seq_item d1 + length (items p)\<rparr>"
  from ok have 1: "insert_invoice now p d = Inr (d1, iid)"
    unfolding payload_refs_ok_def insert_invoice_def d1_def iid_def by (auto split: option.splits)
  from ok have 2: "insert_items now iid (items p) d1 = Inr (d2, ids)"
    unfolding payload_refs_ok_def insert_items_def d2_def ids_def by (simp add: d1_def Let_def)
  have "length ids = length (items p)" by (simp add: ids_def)
  with ok have 3: "insert_extra_items now xs d2 = Inr d3"
    unfolding payload_refs_ok_def insert_extra_items_def xs_def
    by (simp add: d3_def d2_def d1_def xs_def Let_def)
  show ?thesis using 3 by (simp add: post_invoice_body_def 1 2 xs_def)
qed


lemma length_extra_payloads:
  "length ids = length its \<Longrightarrow>
     length (extra_payloads ids its) = sum_list (map (length \<circ> extraItems) its)"
  unfolding extra_payloads_concat by (induction ids its rule: list_induct2) simp_all


lemma extra_of_row_extra_row_of [simp]: "extra_of_row (extra_row_of now i rid x) = wire_extra x"
  by (cases x) (simp add: extra_of_row_def extra_row_of_def wire_extra_def)


lemma xr_invoiceItemId_extra_row_of [simp]: "xr_invoiceItemId (extra_row_of now i rid x) = i"
  by (simp add: extra_row_of_def)


lemma item_of_row_item_row_of:
  "map extra_of_row xs = map wire_extra (extraItems it) \<Longrightarrow>
     item_of_row (item_row_of now iid rid it, xs) = wire_item it"
  by (cases it) (simp add: item_of_row_def item_row_of_def wire_item_def)


lemma extras_of_new_item:
  assumes "distinct ids" "length ids = length its" "(rid, it) \<in> set (zip ids its)"
  defines "xs \<equiv> extra_payloads ids its"
  shows "map extra_of_row
           (filter (\<lambda>x. xr_invoiceItemId x = rid)
             (map (\<lambda>(k, (i, x)). extra_row_of now i (s + Suc k) x) (zip [0..<length xs] xs)))
         = map wire_extra (extraItems it)"
proof -
  have d: "distinct (map fst (zip ids its))" using assms(1,2) by simp
  have "filter (\<lambda>(i, x). i = rid) xs = map (Pair rid) (extraItems it)"
    unfolding xs_def extra_payloads_concat by (rule filter_concat_distinct [OF d assms(3)])
  hence "map (\<lambda>(i, x). wire_extra x) (filter (\<lambda>(i, x). i = rid) xs) = map wire_extra (extraItems it)"
    by simp
  moreover have "map extra_of_row
           (filter (\<lambda>x. xr_invoiceItemId x = rid)
             (map (\<lambda>(k, (i, x)). extra_row_of now i (s + Suc k) x) (zip [0..<length xs] xs)))
       = map (\<lambda>(k, y). (\<lambda>(i, x). wire_extra x) y) (filter (\<lambda>(k, y). (\<lambda>(i, x). i = rid) y) (zip [0..<length xs] xs))"
    by (simp add: filter_map comp_def case_prod_beta')
  ultimately show ?thesis by (simp only: map_snd_filter_zip length_upt diff_zero)
qed


lemma item_row_of_fields [simp]:
  "itr_invoiceId (item_row_of now iid rid it) = iid"
  "itr_id (item_row_of now iid rid it) = rid"
  by (simp_all add: item_row_of_def)


lemma read_invoice_commit:
  fixes now :: string and d :: db and p :: invoice_payload
  assumes ok: "db_ok d"
  defines "iid \<equiv> Suc (seq_invoice d)"
      and "ids \<equiv> map (\<lambda>k. seq_item d + Suc k) [0..<length (items p)]"
  defines "xs \<equiv> extra_payloads ids (items p)"
  defines "d3 \<equiv> d\<lparr>db_invoices := db_invoices d @
                 [\<lparr>ir_id = iid, ir_totalAmount = json_number (totalAmount p),
                   ir_customerId = Some (inv_customerId p), ir_defaultPriceId = inv_defaultPriceId p,
                   ir_createdAt = now\<rparr>],
               db_items := db_items d @ map (\<lambda>(rid, it). item_row_of now iid rid it) (zip ids (items p)),
               db_extraItems := db_extraItems d @
                 map (\<lambda>(k, (item_id, x)). extra_row_of now item_id (seq_extra d + Suc k) x)
                   (zip [0..<length xs] xs),
               seq_invoice := iid, seq_item := seq_item d + length (items p),
               seq_extra := seq_extra d + length xs\<rparr>"
  shows "\<exists>si. read_invoice d3 iid = Some si \<and> payload_of_stored si = wire_payload p"
proof -
  let ?new = "map (\<lambda>(k, (item_id, x)). extra_row_of now item_id (seq_extra d + Suc k) x)
                (zip [0..<length xs] xs)"
  have len: "length ids = length (items p)" and dist: "distinct ids"
    by (simp_all add: ids_def distinct_map inj_on_def)
  from ok have old_inv: "\<forall>r \<in> set (db_invoices d). ir_id r \<noteq> iid"
    and old_items: "\<forall>r \<in> set (db_items d). itr_invoiceId r \<noteq> iid"
    and old_extras: "\<forall>r \<in> set (db_extraItems d). xr_invoiceItemId r \<le> seq_item d"
    by (auto simp: db_ok_def iid_def)
  have find: "find (\<lambda>r. ir_id r = iid) (db_invoices d3) =
      Some \<lparr>ir_id = iid, ir_totalAmount = json_number (totalAmount p),
            ir_customerId = Some (inv_customerId p), ir_defaultPriceId = inv_defaultPriceId p,
            ir_createdAt = now\<rparr>"
    using old_inv by (simp add: d3_def find_append_skip)
  have its: "filter (\<lambda>it. itr_invoiceId it = iid) (db_items d3) =
      map (\<lambda>(rid, it). item_row_of now iid rid it) (zip ids (items p))"
    using old_items by (simp add: d3_def filter_empty_conv comp_def case_prod_beta')
  have ex: "map extra_of_row (filter (\<lambda>x. xr_invoiceItemId x = rid) (db_extraItems d3))
      = map wire_extra (extraItems it)" if "(rid, it) \<in> set (zip ids (items p))" for rid it
  proof -
    have "seq_item d < rid" using that by (auto simp: ids_def set_zip)
    hence "filter (\<lambda>x. xr_invoiceItemId x = rid) (db_extraItems d) = []"
      using old_extras by (force simp: filter_empty_conv)
    with extras_of_new_item [OF dist len that, of now "seq_extra d"] show ?thesis
      by (simp add: d3_def xs_def)
  qed
  have "map item_of_row (map (\<lambda>it. (it, filter (\<lambda>x. xr_invoiceItemId x = itr_id it) (db_extraItems d3)))
          (map (\<lambda>(rid, it). item_row_of now iid rid it) (zip ids (items p))))
        = map (\<lambda>(rid, it). wire_item it) (zip ids (items p))"
    using ex by (auto simp: item_of_row_item_row_of)
  also have "\<dots> = map wire_item (items p)" by (rule map_case_prod_zip_snd [OF len])
  finally show ?thesis
    by (simp add: read_invoice_def find its payload_of_stored_def wire_payload_def)
qed


lemma extra_payloads_ids: "(i, x) \<in> set (extra_payloads ids its) \<Longrightarrow> i \<in> set ids"
  unfolding extra_payloads_concat by (auto dest: set_zip_leftD)

lemma postInvoice_fail: "\<not> payload_refs_ok d p \<Longrightarrow> \<exists>e. postInvoice now p d = (d, Inl e)"
  using post_invoice_body_fail [of d p now] by (auto simp: postInvoice_def transaction_def)

lemma postInvoice_commit:
  fixes now :: string and d :: db and p :: invoice_payload
  assumes ok: "payload_refs_ok d p"
  defines "iid \<equiv> Suc (seq_invoice d)"
      and "ids \<equiv> map (\<lambda>k. seq_item d + Suc k) [0..<length (items p)]"
  defines "xs \<equiv> extra_payloads ids (items p)"
  defines "d3 \<equiv> d\<lparr>db_invoices := db_invoices d @
                 [\<lparr>ir_id = iid, ir_totalAmount = json_number (totalAmount p),
                   ir_customerId = Some (inv_customerId p), ir_defaultPriceId = inv_defaultPriceId p,
                   ir_createdAt = now\<rparr>],
               db_items := db_items d @ map (\<lambda>(rid, it). item_row_of now iid rid it) (zip ids (items p)),
               db_extraItems := db_extraItems d @
                 map (\<lambda>(k, (item_id, x)). extra_row_of now item_id (seq_extra d + Suc k) x)
                   (zip [0..<length xs] xs),
               seq_invoice := iid, seq_item := seq_item d + length (items p),
               seq_extra := seq_extra d + length xs\<rparr>"
  shows "postInvoice now p d = (d3, Inr (read_invoice d3 iid))"
  using post_invoice_body_commit [OF ok, of now]
  by (simp add: postInvoice_def transaction_def iid_def ids_def xs_def d3_def)

subsection \<open>Properties of \<open>POST /api/invoices\<close>\<close>

text \<open>
  C10. the route is all or nothing.  When it fails the database is the one before the
  request; when it succeeds the catalog is unchanged and exactly one invoice row, one
  item row per item and one extra item row per extra item of the payload are appended
  to the old rows.
\<close>

theorem postInvoice_all_or_nothing:
  assumes "postInvoice now p d = (d', r)"
  shows "(isl r \<and> d' = d) \<or>
         (\<not> isl r \<and> db_prices d' = db_prices d \<and> db_customers d' = db_customers d \<and>
          db_products d' = db_products d \<and> db_extraProducts d' = db_extraProducts d \<and>
          db_extraPrice d' = db_extraPrice d \<and> db_extraProductPrice d' = db_extraProductPrice d \<and>
          db_connections d' = db_connections d \<and>
          (\<exists>row. db_invoices d' = db_invoices d @ [row]) \<and>
          (\<exists>rows. db_items d' = db_items d @ rows \<and> length rows = length (items p)) \<and>
          (\<exists>rows. db_extraItems d' = db_extraItems d @ rows \<and>
                  length rows = sum_list (map (length \<circ> extraItems) (items p))))"
proof (cases "payload_refs_ok d p")
  case True
  with postInvoice_commit [OF True, of now] assms show ?thesis
    by (auto simp: length_extra_payloads)
next
  case False
  with postInvoice_fail [OF False, of now] assms show ?thesis by auto
qed

text \<open>
  C11. what the route answers is what it was sent.  On a database whose ids are below
  their sequences, a successful post answers an invoice ("findByPk") whose fields,
  items and extra items, in order, are those of the request body as JSON delivered it.
\<close>

theorem postInvoice_roundtrip:
  assumes "db_ok d" "postInvoice now p d = (d', Inr r)"
  shows "\<exists>si. r = Some si \<and> payload_of_stored si = wire_payload p"
proof (cases "payload_refs_ok d p")
  case True
  with postInvoice_commit [OF True, of now] read_invoice_commit [OF assms(1), where now = now and p = p] assms(2)
  show ?thesis by auto
next
  case False
  with postInvoice_fail [OF False, of now] assms(2) show ?thesis by auto
qed

text \<open>
  C15. the route fails exactly when a foreign key of the body names no row: the
  customer, the price tier, a product or an extra product.
\<close>

theorem postInvoice_error_iff: "isl (snd (postInvoice now p d)) \<longleftrightarrow> \<not> payload_refs_ok d p"
proof (cases "payload_refs_ok d p")
  case True
  then show ?thesis by (simp add: postInvoice_commit [OF True])
next
  case False
  with postInvoice_fail [OF False, of now] show ?thesis by auto
qed

text \<open>
  The route keeps every id below its sequence, the invariant the round trip
  needs, so that every later post reads back what it stored.
\<close>

theorem postInvoice_db_ok: "db_ok d \<Longrightarrow> db_ok (fst (postInvoice now p d))"
proof (cases "payload_refs_ok d p")
  case True
  assume ok: "db_ok d"
  show ?thesis
    unfolding postInvoice_commit [OF True]
    using ok
    by (fastforce simp: db_ok_def item_row_of_def extra_row_of_def
        dest: set_zip_leftD set_zip_rightD extra_payloads_ids intro: le_SucI trans_le_add1)
next
  case False
  with postInvoice_fail [OF False, of now] show "db_ok d \<Longrightarrow> ?thesis" by auto
qed


lemma initDb_ok: "db_ok initDb"
  by (simp add: db_ok_def initDb_def)

theorem postInvoice_all_or_nothing_witness:
  "postInvoice ''2025-01-01''
     \<lparr>inv_customerId = 9, inv_defaultPriceId = Some 2, totalAmount = Fin 900,
      items = [\<lparr>it_productId = 2, it_measurements = (''3'', ''4'', ''''), it_quantity = Fin 12,
                calculatedPricePerUnit = Fin 70, totalItemPrice = Fin 900,
                extraItems = [\<lparr>xi_extraProductId = 1, xi_calculatedQuantity = Fin 3,
                               xi_calculatedUnitPrice = Fin 20, xi_calculatedTotalPrice = Fin 60\<rparr>],
                it_notes = ''''\<rparr>]\<rparr> initDb
   = (initDb, snd (postInvoice ''2025-01-01''
     \<lparr>inv_customerId = 9, inv_defaultPriceId = Some 2, totalAmount = Fin 900,
      items = [\<lparr>it_productId = 2, it_measurements = (''3'', ''4'', ''''), it_quantity = Fin 12,
                calculatedPricePerUnit = Fin 70, totalItemPrice = Fin 900,
                extraItems = [\<lparr>xi_extraProductId = 1, xi_calculatedQuantity = Fin 3,
                               xi_calculatedUnitPrice = Fin 20, xi_calculatedTotalPrice = Fin 60\<rparr>],
                it_notes = ''''\<rparr>]\<rparr> initDb))"
  (is "postInvoice ?t ?p initDb = _")
proof -
  have r: "postInvoice ?t ?p initDb = (fst (postInvoice ?t ?p initDb), snd (postInvoice ?t ?p initDb))"
    by simp
  have e: "isl (snd (postInvoice ?t ?p initDb))" by code_simp
  from postInvoice_all_or_nothing [OF r] e have "fst (postInvoice ?t ?p initDb) = initDb" by simp
  thus ?thesis by (metis prod.collapse)
qed

theorem postInvoice_roundtrip_witness:
  "\<exists>si. snd (postInvoice ''2025-01-01''
     \<lparr>inv_customerId = 2, inv_defaultPriceId = Some 2, totalAmount = Fin 900,
      items = [\<lparr>it_productId = 2, it_measurements = (''3'', ''4'', ''''), it_quantity = Fin 12,
                calculatedPricePerUnit = Fin 70, totalItemPrice = Fin 900,
                extraItems = [\<lparr>xi_extraProductId = 1, xi_calculatedQuantity = PInf,
                               xi_calculatedUnitPrice = Fin 20, xi_calculatedTotalPrice = PInf\<rparr>],
                it_notes = ''''\<rparr>]\<rparr> initDb) = Inr (Some si) \<and>
     payload_of_stored si =
     \<lparr>inv_customerId = 2, inv_defaultPriceId = Some 2, totalAmount = Fin 900,
      items = [\<lparr>it_productId = 2, it_measurements = (''3'', ''4'', ''''), it_quantity = Fin 12,
                calculatedPricePerUnit = Fin 70, totalItemPrice = Fin 900,
                extraItems = [\<lparr>xi_extraProductId = 1, xi_calculatedQuantity = Fin 0,
                               xi_calculatedUnitPrice = Fin 20, xi_calculatedTotalPrice = Fin 0\<rparr>],
                it_notes = ''''\<rparr>]\<rparr>"
  (is "\<exists>si. snd (postInvoice ?t ?p initDb) = _ \<and> payload_of_stored si = ?q")
proof -
  have ok: "\<not> isl (snd (postInvoice ?t ?p initDb))" by code_simp
  then obtain r where r: "postInvoice ?t ?p initDb = (fst (postInvoice ?t ?p initDb), Inr r)"
    by (metis prod.collapse sum.collapse(2))
  have w: "wire_payload ?p = ?q" by (simp add: wire_payload_def wire_item_def wire_extra_def zero_jsnum_def)
  from postInvoice_roundtrip [OF initDb_ok r] obtain si
    where si: "r = Some si" "payload_of_stored si = wire_payload ?p" by blast
  from r si(1) have "snd (postInvoice ?t ?p initDb) = Inr (Some si)" by (metis snd_conv)
  moreover from si(2) w have "payload_of_stored si = ?q" by (rule trans)
  ultimately show ?thesis by blast
qed

theorem postInvoice_error_iff_witness:
  "isl (snd (postInvoice ''2025-01-01''
     \<lparr>inv_customerId = 9, inv_defaultPriceId = Some 2, totalAmount = Fin 900, items = []\<rparr> initDb))"
  using postInvoice_error_iff [of "''2025-01-01''" _ initDb]
  by (simp add: payload_refs_ok_def initDb_def seed_customer_maksat_def seed_customer_aman_def
      seed_customer_serdar_def)

theorem postInvoice_db_ok_witness:
  "db_ok (fst (postInvoice ''2025-01-01''
     \<lparr>inv_customerId = 2, inv_defaultPriceId = Some 2, totalAmount = Fin 900, items = []\<rparr> initDb))"
  using postInvoice_db_ok [OF initDb_ok] by simp

end
