(* ===== verification/CatalogRoutes.thy ===== *)
theory CatalogRoutes
  imports Server
begin

text \<open>
  The catalog routes of the server: \<open>src/server/routes/price.js\<close>, \<open>customer.js\<close>,
  \<open>extraproduct.js\<close> and \<open>product.js\<close>, mounted by \<open>routes/index.js\<close>.  Each route
  is a function of the database and the request that returns the new database and
  the answer or the error that makes Express answer 500.  A statement fails on a
  UNIQUE column (\<open>name\<close>, \<open>barcode\<close>) or join primary key already taken, on a foreign
  key that names no row, and the route fails with a \<open>TypeError\<close> where it calls a
  method of \<open>null\<close>.  Statements run under \<open>sequelize.transaction\<close> are committed
  together or not at all; the others stay in the database when a later one fails.
  Deleting a row applies the schema's \<open>ON DELETE\<close> actions: \<open>SET NULL\<close> on the
  foreign keys of \<open>belongsTo\<close>/\<open>hasMany\<close>, \<open>CASCADE\<close> on the join tables.
  An answer is the JSON the route sends (\<open>json\<close>).
\<close>

datatype json = JNull | JNum jsnum | JStr string | JArr "json list" | JObj "(string \<times> json) list"

subsection \<open>Request bodies\<close>

text \<open>The bodies the editors send (\<open>productData\<close>, \<open>extraProductData\<close>, \<open>customerData\<close>).\<close>

record product_body =
  pb_name :: string
  pb_barcode :: string
  pb_price :: jsnum
  pb_measure :: string
  pb_countOfSides :: int
  pb_extraPrices :: "(price_id \<times> jsnum) list"
  pb_extraProducts :: "entity_id list"

record extra_product_body =
  eb_name :: string
  eb_price :: jsnum
  eb_measure :: string
  eb_calculationType :: string
  eb_extraPrices :: "(price_id \<times> jsnum) list"

record customer_body =
  cb_name :: string
  cb_phoneNumber :: string
  cb_address :: string
  cb_defaultPriceId :: "price_id option"

text \<open>\<open>req.body.extraPrices\<close> and \<open>req.body.extraProducts\<close> as JSON.\<close>

definition json_extra_prices :: "(price_id \<times> jsnum) list \<Rightarrow> json" where
  "json_extra_prices ps =
     JArr (map (\<lambda>(t, v). JObj [(''priceId'', JNum (Fin (of_nat t))), (''price'', JNum v)]) ps)"

definition json_extra_products :: "entity_id list \<Rightarrow> json" where
  "json_extra_products es = JArr (map (\<lambda>e. JObj [(''extraProductId'', JNum (Fin (of_nat e)))]) es)"

subsection \<open>Shared statements\<close>

text \<open>
  \<open>bulkCreate\<close> of join price rows \<open>{...e, ownerId}\<close>: every tier must exist, and no pair
  (owner, tier) may be in the table already or twice in the new rows.
\<close>

definition insert_price_rows ::
  "price list \<Rightarrow> entity_id \<Rightarrow> (price_id \<times> jsnum) list \<Rightarrow> join_price_row list \<Rightarrow> db_error + join_price_row list" where
  "insert_price_rows ps owner rows tbl =
     (if \<exists>(t, _) \<in> set rows. t \<notin> price_id ` set ps then Inl (ForeignKeyViolation ''priceId'')
      else if \<not> distinct (map fst rows) \<or>
              (\<exists>(t, _) \<in> set rows. \<exists>j \<in> set tbl. jp_ownerId j = owner \<and> jp_priceId j = t)
      then Inl (UniqueViolation ''priceId'')
      else Inr (tbl @ map (\<lambda>(t, v). \<lparr>jp_ownerId = owner, jp_priceId = t, jp_price = v\<rparr>) rows))"

text \<open>
  \<open>model.addExtraProducts(id)\<close> for each id of the body: the extra product must exist;
  a link already present is kept, not duplicated.
\<close>

definition add_connections ::
  "db \<Rightarrow> entity_id \<Rightarrow> entity_id list \<Rightarrow> db_error + (entity_id \<times> entity_id) list" where
  "add_connections d pid es =
     (if \<exists>e \<in> set es. e \<notin> xp_id ` set (db_extraProducts d) then Inl (ForeignKeyViolation ''extraProductId'')
      else Inr (db_connections d @
                map (Pair pid) (remdups (filter (\<lambda>e. (pid, e) \<notin> set (db_connections d)) es))))"


subsection \<open>Deleting rows and the \<open>ON DELETE\<close> actions\<close>

text \<open>
  A deleted tier: customers and invoices that named it keep \<open>null\<close>, its join rows go.
\<close>

definition delete_price :: "price_id \<Rightarrow> db \<Rightarrow> db" where
  "delete_price t d =
     d\<lparr>db_prices := filter (\<lambda>r. price_id r \<noteq> t) (db_prices d),
       db_customers := update_where (\<lambda>c. defaultPriceId c = Some t) (\<lambda>c. c\<lparr>defaultPriceId := None\<rparr>)
                         (db_customers d),
       db_invoices := update_where (\<lambda>i. ir_defaultPriceId i = Some t) (\<lambda>i. i\<lparr>ir_defaultPriceId := None\<rparr>)
                        (db_invoices d),
       db_extraPrice := filter (\<lambda>j. jp_priceId j \<noteq> t) (db_extraPrice d),
       db_extraProductPrice := filter (\<lambda>j. jp_priceId j \<noteq> t) (db_extraProductPrice d)\<rparr>"

definition delete_customer :: "entity_id \<Rightarrow> db \<Rightarrow> db" where
  "delete_customer c d =
     d\<lparr>db_customers := filter (\<lambda>r. customer_id r \<noteq> c) (db_customers d),
       db_invoices := update_where (\<lambda>i. ir_customerId i = Some c) (\<lambda>i. i\<lparr>ir_customerId := None\<rparr>)
                        (db_invoices d)\<rparr>"

definition delete_extra_product :: "entity_id \<Rightarrow> db \<Rightarrow> db" where
  "delete_extra_product e d =
     d\<lparr>db_extraProducts := filter (\<lambda>r. xp_id r \<noteq> e) (db_extraProducts d),
       db_extraProductPrice := filter (\<lambda>j. jp_ownerId j \<noteq> e) (db_extraProductPrice d),
       db_connections := filter (\<lambda>(_, x). x \<noteq> e) (db_connections d),
       db_extraItems := update_where (\<lambda>x. xr_extraProductId x = Some e) (\<lambda>x. x\<lparr>xr_extraProductId := None\<rparr>)
                          (db_extraItems d)\<rparr>"

definition delete_product :: "entity_id \<Rightarrow> db \<Rightarrow> db" where
  "delete_product p d =
     d\<lparr>db_products := filter (\<lambda>r. pr_id r \<noteq> p) (db_products d),
       db_extraPrice := filter (\<lambda>j. jp_ownerId j \<noteq> p) (db_extraPrice d),
       db_connections := filter (\<lambda>(x, _). x \<noteq> p) (db_connections d),
       db_items := update_where (\<lambda>i. itr_productId i = Some p) (\<lambda>i. i\<lparr>itr_productId := None\<rparr>)
                     (db_items d)\<rparr>"

subsection \<open>\<open>/api/prices\<close> (\<open>price.js\<close>)\<close>

definition postPrice :: "string \<Rightarrow> db \<Rightarrow> db \<times> (db_error + price)" where
  "postPrice n d =
     (if n \<in> price_name ` set (db_prices d) then (d, Inl (UniqueViolation ''name''))
      else let row = \<lparr>price_id = Suc (seq_price d), price_name = n\<rparr>
           in (d\<lparr>db_prices := db_prices d @ [row], seq_price := Suc (seq_price d)\<rparr>, Inr row))"

text \<open>\<open>MPrice.update(req.body, {where: {id}})\<close>, then \<open>findByPk\<close>: no row, no change, \<open>null\<close>.\<close>

definition putPrice :: "price_id \<Rightarrow> string \<Rightarrow> db \<Rightarrow> db \<times> (db_error + price option)" where
  "putPrice t n d =
     (if (\<exists>r \<in> set (db_prices d). price_id r = t) \<and>
         (\<exists>r \<in> set (db_prices d). price_name r = n \<and> price_id r \<noteq> t)
      then (d, Inl (UniqueViolation ''name''))
      else let d' = d\<lparr>db_prices := update_where (\<lambda>r. price_id r = t) (\<lambda>r. r\<lparr>price_name := n\<rparr>) (db_prices d)\<rparr>
           in (d', Inr (find (\<lambda>r. price_id r = t) (db_prices d'))))"

text \<open>\<open>MPrice.destroy({where: {id}})\<close> answers the number of rows deleted.\<close>

definition deletePrice :: "price_id \<Rightarrow> db \<Rightarrow> db \<times> nat" where
  "deletePrice t d = (delete_price t d, length (filter (\<lambda>r. price_id r = t) (db_prices d)))"

definition getPrices :: "string \<Rightarrow> db \<Rightarrow> price list" where
  "getPrices q d = filter (\<lambda>r. like_search q (price_name r)) (db_prices d)"

text \<open>\<open>GET /:id\<close>: \<open>findByPk\<close>, \<open>null\<close> for a missing row.\<close>

definition getPrice :: "price_id \<Rightarrow> db \<Rightarrow> price option" where
  "getPrice t d = find (\<lambda>r. price_id r = t) (db_prices d)"

subsection \<open>\<open>/api/customers\<close> (\<open>customer.js\<close>)\<close>

definition customer_fk_ok :: "db \<Rightarrow> price_id option \<Rightarrow> bool" where
  "customer_fk_ok d t = (case t of None \<Rightarrow> True | Some x \<Rightarrow> x \<in> price_id ` set (db_prices d))"

definition postCustomer :: "customer_body \<Rightarrow> db \<Rightarrow> db \<times> (db_error + customer)" where
  "postCustomer b d =
     (if cb_name b \<in> customer_name ` set (db_customers d) then (d, Inl (UniqueViolation ''name''))
      else if \<not> customer_fk_ok d (cb_defaultPriceId b) then (d, Inl (ForeignKeyViolation ''defaultPriceId''))
      else let row = \<lparr>customer_id = Suc (seq_customer d), customer_name = cb_name b,
                      phoneNumber = cb_phoneNumber b, address = cb_address b,
                      defaultPriceId = cb_defaultPriceId b\<rparr>
           in (d\<lparr>db_customers := db_customers d @ [row], seq_customer := Suc (seq_customer d)\<rparr>, Inr row))"

definition putCustomer :: "entity_id \<Rightarrow> customer_body \<Rightarrow> db \<Rightarrow> db \<times> (db_error + customer option)" where
  "putCustomer c b d =
     (if \<not> (\<exists>r \<in> set (db_customers d). customer_id r = c) then (d, Inr None)
      else if \<exists>r \<in> set (db_customers d). customer_name r = cb_name b \<and> customer_id r \<noteq> c
      then (d, Inl (UniqueViolation ''name''))
      else if \<not> customer_fk_ok d (cb_defaultPriceId b) then (d, Inl (ForeignKeyViolation ''defaultPriceId''))
      else let d' = d\<lparr>db_customers := update_where (\<lambda>r. customer_id r = c)
                        (\<lambda>r. r\<lparr>customer_name := cb_name b, phoneNumber := cb_phoneNumber b,
                               address := cb_address b, defaultPriceId := cb_defaultPriceId b\<rparr>)
                        (db_customers d)\<rparr>
           in (d', Inr (find (\<lambda>r. customer_id r = c) (db_customers d'))))"

definition deleteCustomer :: "entity_id \<Rightarrow> db \<Rightarrow> db \<times> nat" where
  "deleteCustomer c d = (delete_customer c d, length (filter (\<lambda>r. customer_id r = c) (db_customers d)))"

text \<open>The search matches the name, the phone number or the address.\<close>

definition getCustomers :: "string \<Rightarrow> db \<Rightarrow> customer list" where
  "getCustomers q d =
     filter (\<lambda>r. like_search q (customer_name r) \<or> like_search q (phoneNumber r) \<or> like_search q (address r))
       (db_customers d)"

definition getCustomer :: "entity_id \<Rightarrow> db \<Rightarrow> customer option" where
  "getCustomer c d = find (\<lambda>r. customer_id r = c) (db_customers d)"


subsection \<open>\<open>/api/extraproducts\<close> (\<open>extraproduct.js\<close>)\<close>

definition new_extra_product_row :: "db \<Rightarrow> extra_product_body \<Rightarrow> extra_product_row" where
  "new_extra_product_row d b =
     \<lparr>xp_id = Suc (seq_extraProduct d), xp_name = eb_name b, xp_price = eb_price b,
      xp_measure = eb_measure b, xp_calculationType = eb_calculationType b\<rparr>"

text \<open>
  \<open>POST /\<close> runs no transaction: \<open>MExtraProduct.create\<close> is committed before the
  \<open>bulkCreate\<close> of its prices, which may still fail.  The answer spreads
  \<open>model.toJSON\<close>, a function, so it holds only \<open>extraPrices\<close>.
\<close>

definition postExtraProduct :: "extra_product_body \<Rightarrow> db \<Rightarrow> db \<times> (db_error + json)" where
  "postExtraProduct b d =
     (if eb_name b \<in> xp_name ` set (db_extraProducts d) then (d, Inl (UniqueViolation ''name''))
      else
        let row = new_extra_product_row d b;
            d1 = d\<lparr>db_extraProducts := db_extraProducts d @ [row], seq_extraProduct := xp_id row\<rparr>
        in (case insert_price_rows (db_prices d1) (xp_id row) (eb_extraPrices b) (db_extraProductPrice d1) of
              Inl e \<Rightarrow> (d1, Inl e)
            | Inr tbl \<Rightarrow> (d1\<lparr>db_extraProductPrice := tbl\<rparr>,
                          Inr (JObj [(''extraPrices'', json_extra_prices (eb_extraPrices b))]))))"

text \<open>
  \<open>PUT /:id\<close> in a transaction: update the row, delete its price rows, insert the new
  ones (their \<open>extraProductId\<close> must name a row), answer the row with its prices.
\<close>

definition put_extra_product_body ::
  "entity_id \<Rightarrow> extra_product_body \<Rightarrow> db \<Rightarrow> db_error + (db \<times> extra_product option)" where
  "put_extra_product_body e b d =
     (if (\<exists>r \<in> set (db_extraProducts d). xp_id r = e) \<and>
         (\<exists>r \<in> set (db_extraProducts d). xp_name r = eb_name b \<and> xp_id r \<noteq> e)
      then Inl (UniqueViolation ''name'')
      else
        let d1 = d\<lparr>db_extraProducts := update_where (\<lambda>r. xp_id r = e)
                    (\<lambda>r. r\<lparr>xp_name := eb_name b, xp_price := eb_price b, xp_measure := eb_measure b,
                           xp_calculationType := eb_calculationType b\<rparr>) (db_extraProducts d),
                  db_extraProductPrice := filter (\<lambda>j. jp_ownerId j \<noteq> e) (db_extraProductPrice d)\<rparr>
        in if eb_extraPrices b \<noteq> [] \<and> e \<notin> xp_id ` set (db_extraProducts d1)
           then Inl (ForeignKeyViolation ''extraProductId'')
           else (case insert_price_rows (db_prices d1) e (eb_extraPrices b) (db_extraProductPrice d1) of
                   Inl err \<Rightarrow> Inl err
                 | Inr tbl \<Rightarrow>
                     let d2 = d1\<lparr>db_extraProductPrice := tbl\<rparr>
                     in Inr (d2, map_option (extra_product_view d2)
                                   (find (\<lambda>r. xp_id r = e) (db_extraProducts d2)))))"

definition putExtraProduct ::
  "entity_id \<Rightarrow> extra_product_body \<Rightarrow> db \<Rightarrow> db \<times> (db_error + extra_product option)" where
  "putExtraProduct e b d = transaction (put_extra_product_body e b) d"

text \<open>\<open>DELETE /:id\<close>: delete the price rows, then the row; the answer is \<open>1\<close>.\<close>

definition deleteExtraProduct :: "entity_id \<Rightarrow> db \<Rightarrow> db \<times> nat" where
  "deleteExtraProduct e d = (delete_extra_product e d, 1)"

text \<open>\<open>GET /\<close> answers the rows, without their prices.\<close>

definition getExtraProducts :: "string \<Rightarrow> db \<Rightarrow> extra_product_row list" where
  "getExtraProducts q d = filter (\<lambda>r. like_search q (xp_name r)) (db_extraProducts d)"

definition getExtraProduct :: "entity_id \<Rightarrow> db \<Rightarrow> extra_product option" where
  "getExtraProduct e d = map_option (extra_product_view d) (find (\<lambda>r. xp_id r = e) (db_extraProducts d))"

subsection \<open>\<open>/api/products\<close> (\<open>product.js\<close>)\<close>

definition product_unique_ok :: "db \<Rightarrow> entity_id option \<Rightarrow> product_body \<Rightarrow> db_error option" where
  "product_unique_ok d self b =
     (let others = filter (\<lambda>r. Some (pr_id r) \<noteq> self) (db_products d) in
      if pb_name b \<in> pr_name ` set others then Some (UniqueViolation ''name'')
      else if pb_barcode b \<in> pr_barcode ` set others then Some (UniqueViolation ''barcode'')
      else None)"

definition product_row_of :: "entity_id \<Rightarrow> product_body \<Rightarrow> product_row" where
  "product_row_of p b =
     \<lparr>pr_id = p, pr_name = pb_name b, pr_barcode = pb_barcode b, pr_price = pb_price b,
      pr_measure = pb_measure b, pr_countOfSides = pb_countOfSides b\<rparr>"

text \<open>The prices and links of \<open>POST /\<close> and \<open>PUT /:id\<close> for product \<open>p\<close>.\<close>

definition set_product_links :: "entity_id \<Rightarrow> product_body \<Rightarrow> db \<Rightarrow> db_error + db" where
  "set_product_links p b d =
     (case insert_price_rows (db_prices d) p (pb_extraPrices b) (db_extraPrice d) of
        Inl e \<Rightarrow> Inl e
      | Inr tbl \<Rightarrow>
          (case add_connections (d\<lparr>db_extraPrice := tbl\<rparr>) p (pb_extraProducts b) of
             Inl e \<Rightarrow> Inl e
           | Inr cs \<Rightarrow> Inr (d\<lparr>db_extraPrice := tbl, db_connections := cs\<rparr>)))"

text \<open>
  \<open>POST /\<close>: create the row, its prices and its links in one transaction; the answer
  spreads the function \<open>model.toJSON\<close> and holds only the body's lists.
\<close>

definition post_product_body :: "product_body \<Rightarrow> db \<Rightarrow> db_error + (db \<times> json)" where
  "post_product_body b d =
     (case product_unique_ok d None b of
        Some e \<Rightarrow> Inl e
      | None \<Rightarrow>
          let p = Suc (seq_product d);
              d1 = d\<lparr>db_products := db_products d @ [product_row_of p b], seq_product := p\<rparr>
          in (case set_product_links p b d1 of
                Inl e \<Rightarrow> Inl e
              | Inr d2 \<Rightarrow> Inr (d2, JObj [(''extraPrices'', json_extra_prices (pb_extraPrices b)),
                                        (''extraProducts'', json_extra_products (pb_extraProducts b))])))"

definition postProduct :: "product_body \<Rightarrow> db \<Rightarrow> db \<times> (db_error + json)" where
  "postProduct b d = transaction (post_product_body b) d"

text \<open>
  \<open>PUT /:id\<close>: update the row, \<open>findByPk\<close> it (a missing row is \<open>null\<close> and
  \<open>model.setExtraPrices\<close> throws), drop its prices and links, add the body's; the
  answer sends \<open>req.body.extraProducts\<close> under both keys.
\<close>

definition put_product_body :: "entity_id \<Rightarrow> product_body \<Rightarrow> db \<Rightarrow> db_error + (db \<times> json)" where
  "put_product_body p b d =
     (if \<not> (\<exists>r \<in> set (db_products d). pr_id r = p) then Inl (TypeError ''setExtraPrices of null'')
      else (case product_unique_ok d (Some p) b of
        Some e \<Rightarrow> Inl e
      | None \<Rightarrow>
          let d1 = d\<lparr>db_products := update_where (\<lambda>r. pr_id r = p) (\<lambda>_. product_row_of p b) (db_products d),
                     db_extraPrice := filter (\<lambda>j. jp_ownerId j \<noteq> p) (db_extraPrice d),
                     db_connections := filter (\<lambda>(x, _). x \<noteq> p) (db_connections d)\<rparr>
          in (case set_product_links p b d1 of
                Inl e \<Rightarrow> Inl e
              | Inr d2 \<Rightarrow> Inr (d2, JObj [(''extraPrices'', json_extra_products (pb_extraProducts b)),
                                        (''extraProducts'', json_extra_products (pb_extraProducts b))]))))"

definition putProduct :: "entity_id \<Rightarrow> product_body \<Rightarrow> db \<Rightarrow> db \<times> (db_error + json)" where
  "putProduct p b d = transaction (put_product_body p b) d"

text \<open>
  \<open>DELETE /:id\<close>: \<open>findByPk\<close> (a missing row is \<open>null\<close> and \<open>setExtraPrices\<close>
  throws), drop the links inside the transaction, then \<open>model.destroy()\<close> without the
  \<open>{ transaction }\<close> option.  On a database file Sequelize runs a transaction on a
  connection of its own, so the \<open>DELETE\<close> runs on another connection of the same file
  while the transaction holds its lock (the \<open>SHARED\<close> lock of its reads, and the
  \<open>RESERVED\<close> lock of the unlinks when the product had prices or links): the statement
  cannot commit and fails with \<open>SQLITE_BUSY\<close>, retried in vain while the transaction
  waits for it, and the transaction rolls back.  The row and its links stay.
  \<open>delete_product\<close> is what the route would do with the option passed.
\<close>

definition deleteProduct :: "entity_id \<Rightarrow> db \<Rightarrow> db \<times> (db_error + unit)" where
  "deleteProduct p d =
     (if \<exists>r \<in> set (db_products d). pr_id r = p then (d, Inl (LockBusy ''SQLITE_BUSY: database is locked''))
      else (d, Inl (TypeError ''setExtraPrices of null'')))"

text \<open>
  \<open>GET /\<close>: the name matches \<open>%q%\<close> or the barcode is \<open>q || 'nothing'\<close>; each
  product with its prices and linked extra products.
\<close>

definition getProducts :: "string \<Rightarrow> db \<Rightarrow> product list" where
  "getProducts q d =
     map (product_view d)
       (filter (\<lambda>r. like_search q (pr_name r) \<or> pr_barcode r = (if q = [] then ''nothing'' else q))
          (db_products d))"

definition getProduct :: "entity_id \<Rightarrow> db \<Rightarrow> product option" where
  "getProduct p d = map_option (product_view d) (find (\<lambda>r. pr_id r = p) (db_products d))"


subsection \<open>The API as a state machine\<close>

text \<open>
  The requests that change the database, as \<open>routes/index.js\<close> mounts them, and the
  database after each; reads (\<open>GET\<close>) change nothing.
\<close>

datatype api_request =
    PostPrice string | PutPrice price_id string | DeletePrice price_id
  | PostCustomer customer_body | PutCustomer entity_id customer_body | DeleteCustomer entity_id
  | PostExtraProduct extra_product_body | PutExtraProduct entity_id extra_product_body
  | DeleteExtraProduct entity_id
  | PostProduct product_body | PutProduct entity_id product_body | DeleteProduct entity_id
  | PostInvoice string invoice_payload

fun api_step :: "db \<Rightarrow> api_request \<Rightarrow> db" where
  "api_step d (PostPrice n) = fst (postPrice n d)"
| "api_step d (PutPrice t n) = fst (putPrice t n d)"
| "api_step d (DeletePrice t) = fst (deletePrice t d)"
| "api_step d (PostCustomer b) = fst (postCustomer b d)"
| "api_step d (PutCustomer c b) = fst (putCustomer c b d)"
| "api_step d (DeleteCustomer c) = fst (deleteCustomer c d)"
| "api_step d (PostExtraProduct b) = fst (postExtraProduct b d)"
| "api_step d (PutExtraProduct e b) = fst (putExtraProduct e b d)"
| "api_step d (DeleteExtraProduct e) = fst (deleteExtraProduct e d)"
| "api_step d (PostProduct b) = fst (postProduct b d)"
| "api_step d (PutProduct p b) = fst (putProduct p b d)"
| "api_step d (DeleteProduct p) = fst (deleteProduct p d)"
| "api_step d (PostInvoice now p) = fst (postInvoice now p d)"

text \<open>The databases the server reaches from \<open>initDb\<close>, one request after another.\<close>

inductive db_reachable :: "db \<Rightarrow> bool" where
  init: "db_reachable empty_db"
| step: "db_reachable d \<Longrightarrow> db_reachable (api_step d r)"

text \<open>A nullable foreign key: \<open>null\<close> or the id of a row.\<close>

definition fk_opt :: "'a option \<Rightarrow> 'a set \<Rightarrow> bool" where
  "fk_opt x S = (case x of None \<Rightarrow> True | Some y \<Rightarrow> y \<in> S)"

text \<open>Referential integrity: every foreign key of every table names a row.\<close>

definition db_integrity :: "db \<Rightarrow> bool" where
  "db_integrity d \<longleftrightarrow>
     (\<forall>c \<in> set (db_customers d). fk_opt (defaultPriceId c) (price_id ` set (db_prices d))) \<and>
     (\<forall>j \<in> set (db_extraPrice d).
        jp_ownerId j \<in> pr_id ` set (db_products d) \<and> jp_priceId j \<in> price_id ` set (db_prices d)) \<and>
     (\<forall>j \<in> set (db_extraProductPrice d).
        jp_ownerId j \<in> xp_id ` set (db_extraProducts d) \<and> jp_priceId j \<in> price_id ` set (db_prices d)) \<and>
     (\<forall>(p, e) \<in> set (db_connections d).
        p \<in> pr_id ` set (db_products d) \<and> e \<in> xp_id ` set (db_extraProducts d)) \<and>
     (\<forall>i \<in> set (db_invoices d).
        fk_opt (ir_customerId i) (customer_id ` set (db_customers d)) \<and>
        fk_opt (ir_defaultPriceId i) (price_id ` set (db_prices d))) \<and>
     (\<forall>i \<in> set (db_items d).
        itr_invoiceId i \<in> ir_id ` set (db_invoices d) \<and> fk_opt (itr_productId i) (pr_id ` set (db_products d))) \<and>
     (\<forall>x \<in> set (db_extraItems d).
        xr_invoiceItemId x \<in> itr_id ` set (db_items d) \<and>
        fk_opt (xr_extraProductId x) (xp_id ` set (db_extraProducts d)))"


text \<open>A field of an answer, as the client reads it (\<open>res.data[k]\<close>).\<close>

definition json_field :: "json \<Rightarrow> string \<Rightarrow> json option" where
  "json_field j k = (case j of JObj fs \<Rightarrow> map_of fs k | _ \<Rightarrow> None)"

text \<open>The amounts stored with the invoices, their items and their extra items.\<close>

definition invoice_amounts :: "db \<Rightarrow> jsnum list \<times> jsnum list \<times> jsnum list" where
  "invoice_amounts d = (map ir_totalAmount (db_invoices d), map itr_totalItemPrice (db_items d),
                        map xr_calculatedTotalPrice (db_extraItems d))"

text \<open>Sample request bodies.\<close>

definition sample_product_body :: product_body where
  "sample_product_body = \<lparr>pb_name = ''H-1'', pb_barcode = ''1'', pb_price = Fin 55, pb_measure = ''m'',
         pb_countOfSides = 1, pb_extraPrices = [(2, Fin 45)], pb_extraProducts = [2]\<rparr>"

definition sample_extra_product_body :: extra_product_body where
  "sample_extra_product_body = \<lparr>eb_name = ''Zer'', eb_price = Fin 5, eb_measure = ''m'', eb_calculationType = ''a'',
          eb_extraPrices = [(7, Fin 6)]\<rparr>"

subsection \<open>Referential integrity\<close>

lemma transaction_fst:
  "fst (transaction body d) = (case body d of Inl _ \<Rightarrow> d | Inr (d', _) \<Rightarrow> d')"
  by (simp add: transaction_def split: sum.split prod.split)

lemma fk_opt_mono: "fk_opt x S \<Longrightarrow> S \<subseteq> T \<Longrightarrow> fk_opt x T"
  by (auto simp: fk_opt_def split: option.splits)

lemma integrity_postPrice: "db_integrity d \<Longrightarrow> db_integrity (fst (postPrice n d))"
  by (auto simp: db_integrity_def postPrice_def Let_def fk_opt_def split: option.splits)

lemma integrity_putPrice: "db_integrity d \<Longrightarrow> db_integrity (fst (putPrice t n d))"
  by (simp add: putPrice_def Let_def db_integrity_def image_update_where)

lemma fk_opt_null: "fk_opt x S \<Longrightarrow> fk_opt (if x = Some c then None else x) (S - {c})"
  by (auto simp: fk_opt_def split: option.splits)

lemma customer_fk_ok_fk: "customer_fk_ok d t \<longleftrightarrow> fk_opt t (price_id ` set (db_prices d))"
  by (simp add: customer_fk_ok_def fk_opt_def split: option.split)

lemma fk_opt_insert: "fk_opt x S \<Longrightarrow> fk_opt x (insert a S)"
  by (auto simp: fk_opt_def split: option.splits)

lemma integrity_postCustomer: "db_integrity d \<Longrightarrow> db_integrity (fst (postCustomer b d))"
  unfolding postCustomer_def Let_def customer_fk_ok_fk
  by (auto simp: db_integrity_def intro: fk_opt_insert)

lemma integrity_putCustomer: "db_integrity d \<Longrightarrow> db_integrity (fst (putCustomer c b d))"
  unfolding putCustomer_def Let_def customer_fk_ok_fk
  by (simp add: db_integrity_def ball_update_where image_update_where)

lemma ball_set_null:
  assumes "\<forall>x \<in> set xs. fk_opt (g x) S" "\<And>x. g (h x) = None"
  shows "\<forall>y \<in> set (update_where (\<lambda>x. g x = Some c) h xs). fk_opt (g y) (S - {c})"
  using assms by (auto simp: update_where_def fk_opt_def split: option.splits)

lemma integrity_deletePrice: "db_integrity d \<Longrightarrow> db_integrity (fst (deletePrice t d))"
proof -
  assume i: "db_integrity d"
  let ?d = "delete_price t d"
  have ps: "price_id ` set (db_prices ?d) = price_id ` set (db_prices d) - {t}"
    unfolding delete_price_def by auto
  have cids: "customer_id ` set (db_customers ?d) = customer_id ` set (db_customers d)"
    unfolding delete_price_def by (simp add: image_update_where)
  have iids: "ir_id ` set (db_invoices ?d) = ir_id ` set (db_invoices d)"
    unfolding delete_price_def by (simp add: image_update_where)
  have cu: "db_customers ?d = update_where (\<lambda>c. defaultPriceId c = Some t)
              (\<lambda>c. c\<lparr>defaultPriceId := None\<rparr>) (db_customers d)"
    and iv: "db_invoices ?d = update_where (\<lambda>i. ir_defaultPriceId i = Some t)
              (\<lambda>i. i\<lparr>ir_defaultPriceId := None\<rparr>) (db_invoices d)"
    by (simp_all add: delete_price_def)
  from i have "\<forall>y \<in> set (db_customers ?d). fk_opt (defaultPriceId y) (price_id ` set (db_prices ?d))"
    unfolding ps cu db_integrity_def by (intro ball_set_null) auto
  moreover from i have "\<forall>y \<in> set (db_invoices ?d). fk_opt (ir_defaultPriceId y) (price_id ` set (db_prices ?d))"
    unfolding ps iv db_integrity_def by (intro ball_set_null) auto
  moreover from i have "\<forall>y \<in> set (db_invoices ?d). fk_opt (ir_customerId y) (customer_id ` set (db_customers ?d))"
    unfolding cids iv db_integrity_def by (intro ball_update_where_keep) auto
  ultimately show ?thesis
    using i ps cids iids unfolding deletePrice_def db_integrity_def
    by (simp add: delete_price_def)
qed

lemma integrity_deleteCustomer: "db_integrity d \<Longrightarrow> db_integrity (fst (deleteCustomer c d))"
proof -
  assume i: "db_integrity d"
  let ?d = "delete_customer c d"
  have ids: "ir_id ` set (db_invoices ?d) = ir_id ` set (db_invoices d)"
    unfolding delete_customer_def by (simp add: image_update_where)
  have cs: "customer_id ` set (db_customers ?d) = customer_id ` set (db_customers d) - {c}"
    unfolding delete_customer_def by auto
  have inv: "db_invoices ?d = update_where (\<lambda>x. ir_customerId x = Some c)
                (\<lambda>i. i\<lparr>ir_customerId := None\<rparr>) (db_invoices d)"
    by (simp add: delete_customer_def)
  from i have "\<forall>y \<in> set (db_invoices ?d). fk_opt (ir_customerId y) (customer_id ` set (db_customers ?d))"
    unfolding cs inv db_integrity_def by (intro ball_set_null) auto
  moreover from i have "\<forall>y \<in> set (db_invoices ?d). fk_opt (ir_defaultPriceId y) (price_id ` set (db_prices ?d))"
    unfolding inv db_integrity_def by (intro ball_update_where_keep) (auto simp: delete_customer_def)
  ultimately show ?thesis
    using i ids unfolding deleteCustomer_def db_integrity_def
    by (simp add: delete_customer_def)
qed

lemma insert_price_rows_Inr:
  "insert_price_rows ps owner rows tbl = Inr tbl' \<Longrightarrow>
     \<forall>j \<in> set tbl'. j \<in> set tbl \<or> (jp_ownerId j = owner \<and> jp_priceId j \<in> price_id ` set ps)"
  unfolding insert_price_rows_def by (force split: if_splits)

lemma insert_price_rows_Nil: "insert_price_rows ps owner [] tbl = Inr tbl"
  by (simp add: insert_price_rows_def)

lemma add_connections_Inr:
  "add_connections d pid es = Inr cs \<Longrightarrow>
     \<forall>(p, e) \<in> set cs. (p, e) \<in> set (db_connections d) \<or> (p = pid \<and> e \<in> xp_id ` set (db_extraProducts d))"
  unfolding add_connections_def by (auto split: if_splits)

lemma integrity_postExtraProduct: "db_integrity d \<Longrightarrow> db_integrity (fst (postExtraProduct b d))"
proof -
  assume i: "db_integrity d"
  let ?row = "new_extra_product_row d b"
  let ?d1 = "d\<lparr>db_extraProducts := db_extraProducts d @ [?row], seq_extraProduct := xp_id ?row\<rparr>"
  have d1: "db_integrity ?d1" using i by (auto simp: db_integrity_def intro: fk_opt_insert)
  show ?thesis
  proof (cases "insert_price_rows (db_prices ?d1) (xp_id ?row) (eb_extraPrices b) (db_extraProductPrice ?d1)")
    case (Inl e)
    with d1 i show ?thesis by (simp add: postExtraProduct_def Let_def)
  next
    case (Inr tbl)
    from insert_price_rows_Inr [OF Inr] d1
    have "db_integrity (?d1\<lparr>db_extraProductPrice := tbl\<rparr>)"
      by (auto simp: db_integrity_def)
    with Inr i show ?thesis by (simp add: postExtraProduct_def Let_def)
  qed
qed

lemma integrity_put_extra_product_body:
  assumes i: "db_integrity d" and r: "put_extra_product_body e b d = Inr (d2, v)"
  shows "db_integrity d2"
proof -
  let ?d1 = "d\<lparr>db_extraProducts := update_where (\<lambda>r. xp_id r = e)
                    (\<lambda>r. r\<lparr>xp_name := eb_name b, xp_price := eb_price b, xp_measure := eb_measure b,
                           xp_calculationType := eb_calculationType b\<rparr>) (db_extraProducts d),
                  db_extraProductPrice := filter (\<lambda>j. jp_ownerId j \<noteq> e) (db_extraProductPrice d)\<rparr>"
  have keys: "xp_id ` set (db_extraProducts ?d1) = xp_id ` set (db_extraProducts d)"
    by (simp add: image_update_where)
  have d1: "db_integrity ?d1" using i keys by (auto simp: db_integrity_def)
  from r obtain tbl where
      ins: "insert_price_rows (db_prices ?d1) e (eb_extraPrices b) (db_extraProductPrice ?d1) = Inr tbl"
    and own: "eb_extraPrices b = [] \<or> e \<in> xp_id ` set (db_extraProducts ?d1)"
    and d2: "d2 = ?d1\<lparr>db_extraProductPrice := tbl\<rparr>"
    unfolding put_extra_product_body_def Let_def
    by (auto split: if_splits sum.splits)
  show ?thesis
  proof (cases "eb_extraPrices b = []")
    case True
    with ins have "tbl = db_extraProductPrice ?d1" by (simp add: insert_price_rows_Nil)
    with d1 d2 show ?thesis by simp
  next
    case False
    with own have e: "e \<in> xp_id ` set (db_extraProducts ?d1)" by simp
    from insert_price_rows_Inr [OF ins] d1 e show ?thesis
      unfolding d2 by (auto simp: db_integrity_def simp del: db_extraProducts_update_def)
  qed
qed

lemma integrity_putExtraProduct: "db_integrity d \<Longrightarrow> db_integrity (fst (putExtraProduct e b d))"
  unfolding putExtraProduct_def transaction_fst
  by (auto split: sum.split intro: integrity_put_extra_product_body)

lemma integrity_deleteExtraProduct: "db_integrity d \<Longrightarrow> db_integrity (fst (deleteExtraProduct e d))"
proof -
  assume i: "db_integrity d"
  let ?d = "delete_extra_product e d"
  have xs: "db_extraItems ?d = update_where (\<lambda>x. xr_extraProductId x = Some e)
                (\<lambda>x. x\<lparr>xr_extraProductId := None\<rparr>) (db_extraItems d)"
    by (simp add: delete_extra_product_def)
  have ks: "xp_id ` set (db_extraProducts ?d) = xp_id ` set (db_extraProducts d) - {e}"
    by (auto simp: delete_extra_product_def)
  from i have "\<forall>y \<in> set (db_extraItems ?d). fk_opt (xr_extraProductId y) (xp_id ` set (db_extraProducts ?d))"
    unfolding ks xs db_integrity_def by (intro ball_set_null) auto
  moreover from i have "\<forall>y \<in> set (db_extraItems ?d). xr_invoiceItemId y \<in> itr_id ` set (db_items ?d)"
    unfolding xs db_integrity_def by (intro ball_update_where_keep) (auto simp: delete_extra_product_def)
  ultimately show ?thesis
    using i unfolding deleteExtraProduct_def db_integrity_def
    by (auto simp: delete_extra_product_def)
qed

lemma integrity_set_product_links:
  assumes i: "db_integrity d" and p: "p \<in> pr_id ` set (db_products d)"
    and r: "set_product_links p b d = Inr d'"
  shows "db_integrity d'"
proof -
  from r obtain tbl cs where
      ins: "insert_price_rows (db_prices d) p (pb_extraPrices b) (db_extraPrice d) = Inr tbl"
    and con: "add_connections (d\<lparr>db_extraPrice := tbl\<rparr>) p (pb_extraProducts b) = Inr cs"
    and d': "d' = d\<lparr>db_extraPrice := tbl, db_connections := cs\<rparr>"
    unfolding set_product_links_def by (auto split: sum.splits)
  from insert_price_rows_Inr [OF ins] add_connections_Inr [OF con] i p show ?thesis
    unfolding d' db_integrity_def by fastforce
qed

lemma integrity_postProduct: "db_integrity d \<Longrightarrow> db_integrity (fst (postProduct b d))"
proof -
  assume i: "db_integrity d"
  let ?p = "Suc (seq_product d)"
  let ?d1 = "d\<lparr>db_products := db_products d @ [product_row_of ?p b], seq_product := ?p\<rparr>"
  have d1: "db_integrity ?d1" using i by (auto simp: db_integrity_def intro: fk_opt_insert)
  have p: "?p \<in> pr_id ` set (db_products ?d1)" by (simp add: product_row_of_def)
  show ?thesis
    unfolding postProduct_def transaction_fst post_product_body_def Let_def
    using i integrity_set_product_links [OF d1 p]
    by (auto split: option.split sum.split)
qed

lemma integrity_putProduct: "db_integrity d \<Longrightarrow> db_integrity (fst (putProduct p b d))"
proof -
  assume i: "db_integrity d"
  let ?d1 = "d\<lparr>db_products := update_where (\<lambda>r. pr_id r = p) (\<lambda>_. product_row_of p b) (db_products d),
              db_extraPrice := filter (\<lambda>j. jp_ownerId j \<noteq> p) (db_extraPrice d),
              db_connections := filter (\<lambda>(x, _). x \<noteq> p) (db_connections d)\<rparr>"
  have keys: "pr_id ` set (db_products ?d1) = pr_id ` set (db_products d)"
    by (simp, rule image_update_where) (simp add: product_row_of_def)
  have d1: "db_integrity ?d1" using i keys by (auto simp: db_integrity_def)
  have p: "(\<exists>r \<in> set (db_products d). pr_id r = p) \<Longrightarrow> p \<in> pr_id ` set (db_products ?d1)"
    unfolding keys by auto
  show ?thesis
    unfolding putProduct_def transaction_fst put_product_body_def Let_def
    using i integrity_set_product_links [OF d1 p]
    by (auto split: option.split sum.split)
qed

lemma integrity_delete_product: "db_integrity d \<Longrightarrow> db_integrity (delete_product p d)"
proof -
  assume i: "db_integrity d"
  let ?d = "delete_product p d"
  have its: "db_items ?d = update_where (\<lambda>i. itr_productId i = Some p)
                (\<lambda>i. i\<lparr>itr_productId := None\<rparr>) (db_items d)"
    by (simp add: delete_product_def)
  have ks: "pr_id ` set (db_products ?d) = pr_id ` set (db_products d) - {p}"
    by (auto simp: delete_product_def)
  have ids: "itr_id ` set (db_items ?d) = itr_id ` set (db_items d)"
    unfolding its by (simp add: image_update_where)
  from i have "\<forall>y \<in> set (db_items ?d). fk_opt (itr_productId y) (pr_id ` set (db_products ?d))"
    unfolding ks its db_integrity_def by (intro ball_set_null) auto
  moreover from i have "\<forall>y \<in> set (db_items ?d). itr_invoiceId y \<in> ir_id ` set (db_invoices ?d)"
    unfolding its db_integrity_def by (intro ball_update_where_keep) (auto simp: delete_product_def)
  ultimately show "db_integrity ?d"
    using i ids unfolding db_integrity_def by (auto simp: delete_product_def)
qed

lemma deleteProduct_keeps_db: "fst (deleteProduct p d) = d"
  by (simp add: deleteProduct_def)

lemma integrity_deleteProduct: "db_integrity d \<Longrightarrow> db_integrity (fst (deleteProduct p d))"
  by (simp add: deleteProduct_keeps_db)

lemma extra_payloads_items:
  "(i, x) \<in> set (extra_payloads ids its) \<Longrightarrow> \<exists>it \<in> set its. x \<in> set (extraItems it)"
  unfolding extra_payloads_concat by (auto dest: set_zip_rightD)

lemma ids_new_items:
  assumes "length ids = length its" "i \<in> set ids"
  shows "i \<in> itr_id ` set (map (\<lambda>(rid, it). item_row_of now iid rid it) (zip ids its))"
proof -
  from assms obtain k where "k < length ids" "ids ! k = i" by (auto simp: in_set_conv_nth)
  with assms(1) have "(i, its ! k) \<in> set (zip ids its)" by (auto simp: in_set_conv_nth)
  then show ?thesis by (force simp: item_row_of_def)
qed

lemma integrity_append:
  assumes "db_integrity d"
    and "db_prices d' = db_prices d" "db_customers d' = db_customers d"
        "db_products d' = db_products d" "db_extraProducts d' = db_extraProducts d"
        "db_extraPrice d' = db_extraPrice d" "db_extraProductPrice d' = db_extraProductPrice d"
        "db_connections d' = db_connections d"
    and "db_invoices d' = db_invoices d @ I" "db_items d' = db_items d @ T"
        "db_extraItems d' = db_extraItems d @ X"
    and "\<forall>i \<in> set I. fk_opt (ir_customerId i) (customer_id ` set (db_customers d)) \<and>
                     fk_opt (ir_defaultPriceId i) (price_id ` set (db_prices d))"
    and "\<forall>r \<in> set T. itr_invoiceId r \<in> ir_id ` set I \<and> fk_opt (itr_productId r) (pr_id ` set (db_products d))"
    and "\<forall>x \<in> set X. xr_invoiceItemId x \<in> itr_id ` set T \<and>
                     fk_opt (xr_extraProductId x) (xp_id ` set (db_extraProducts d))"
  shows "db_integrity d'"
  using assms unfolding db_integrity_def by auto

lemma integrity_postInvoice: "db_integrity d \<Longrightarrow> db_integrity (fst (postInvoice now p d))"
proof (cases "payload_refs_ok d p")
  case False
  assume "db_integrity d"
  with postInvoice_fail [OF False, of now] show ?thesis by auto
next
  case True
  assume i: "db_integrity d"
  let ?ids = "map (\<lambda>k. seq_item d + Suc k) [0..<length (items p)]"
  have len: "length ?ids = length (items p)" by simp
  from True have c: "inv_customerId p \<in> customer_id ` set (db_customers d)"
    and t: "fk_opt (inv_defaultPriceId p) (price_id ` set (db_prices d))"
    and pr: "\<forall>it \<in> set (items p). it_productId it \<in> pr_id ` set (db_products d)"
    and xp: "\<forall>it \<in> set (items p). \<forall>x \<in> set (extraItems it). xi_extraProductId x \<in> xp_id ` set (db_extraProducts d)"
    by (auto simp: payload_refs_ok_def fk_opt_def split: option.splits)
  let ?row = "\<lparr>ir_id = Suc (seq_invoice d), ir_totalAmount = json_number (totalAmount p),
               ir_customerId = Some (inv_customerId p), ir_defaultPriceId = inv_defaultPriceId p,
               ir_createdAt = now\<rparr>"
  let ?rows = "map (\<lambda>(rid, it). item_row_of now (Suc (seq_invoice d)) rid it) (zip ?ids (items p))"
  let ?xs = "extra_payloads ?ids (items p)"
  let ?xrows = "map (\<lambda>(k, (item_id, x)). extra_row_of now item_id (seq_extra d + Suc k) x)
                  (zip [0..<length ?xs] ?xs)"
  have iv: "\<forall>i \<in> set [?row]. fk_opt (ir_customerId i) (customer_id ` set (db_customers d)) \<and>
                     fk_opt (ir_defaultPriceId i) (price_id ` set (db_prices d))"
    using c t by (simp add: fk_opt_def)
  have it: "\<forall>r \<in> set ?rows. itr_invoiceId r \<in> ir_id ` set [?row] \<and>
                 fk_opt (itr_productId r) (pr_id ` set (db_products d))"
  proof
    fix r assume "r \<in> set ?rows"
    then obtain rid it where "(rid, it) \<in> set (zip ?ids (items p))"
      and "r = item_row_of now (Suc (seq_invoice d)) rid it" by auto
    with pr show "itr_invoiceId r \<in> ir_id ` set [?row] \<and> fk_opt (itr_productId r) (pr_id ` set (db_products d))"
      by (auto simp: item_row_of_def fk_opt_def dest: set_zip_rightD)
  qed
  have xr: "\<forall>y \<in> set ?xrows. xr_invoiceItemId y \<in> itr_id ` set ?rows \<and>
                 fk_opt (xr_extraProductId y) (xp_id ` set (db_extraProducts d))"
  proof
    fix y assume "y \<in> set ?xrows"
    then obtain k i x where m: "(k, (i, x)) \<in> set (zip [0..<length ?xs] ?xs)"
      and yd: "y = extra_row_of now i (seq_extra d + Suc k) x" by auto
    from m have ix: "(i, x) \<in> set ?xs" by (rule set_zip_rightD)
    from extra_payloads_items [OF ix] obtain it where "it \<in> set (items p)" "x \<in> set (extraItems it)" ..
    with xp have "xi_extraProductId x \<in> xp_id ` set (db_extraProducts d)" by blast
    moreover from extra_payloads_ids [OF ix] have "i \<in> itr_id ` set ?rows" by (rule ids_new_items [OF len])
    ultimately show "xr_invoiceItemId y \<in> itr_id ` set ?rows \<and>
                 fk_opt (xr_extraProductId y) (xp_id ` set (db_extraProducts d))"
      by (simp add: yd extra_row_of_def fk_opt_def)
  qed
  show ?thesis
    unfolding postInvoice_commit [OF True] fst_conv
    by (rule integrity_append [OF i _ _ _ _ _ _ _ _ _ _ iv it xr]) simp_all
qed

lemma api_step_integrity: "db_integrity d \<Longrightarrow> db_integrity (api_step d r)"
  by (cases r) (simp_all add: integrity_postPrice integrity_putPrice integrity_deletePrice
      integrity_postCustomer integrity_putCustomer integrity_deleteCustomer
      integrity_postExtraProduct integrity_putExtraProduct integrity_deleteExtraProduct
      integrity_postProduct integrity_putProduct integrity_deleteProduct integrity_postInvoice)

lemma initDb_integrity: "db_integrity initDb"
  by code_simp

lemma empty_db_integrity: "db_integrity empty_db"
  by code_simp

text \<open>
  Referential integrity is an invariant of the server: in every database reached from
  the empty one by any sequence of catalog and invoice requests, every foreign key of
  every table names a row.  The deletes keep it by their \<open>ON DELETE\<close> actions (\<open>SET NULL\<close>
  on invoices, items, extra items and customers, \<open>CASCADE\<close> on the join tables), the
  inserts by their foreign-key checks.
\<close>

theorem reachable_integrity: "db_reachable d \<Longrightarrow> db_integrity d"
  by (induction rule: db_reachable.induct) (simp_all add: empty_db_integrity api_step_integrity)

theorem reachable_integrity_witness:
  "db_reachable (api_step empty_db (DeletePrice 1)) \<and> db_integrity (api_step empty_db (DeletePrice 1))"
proof -
  have r: "db_reachable (api_step empty_db (DeletePrice 1))" by (intro db_reachable.intros)
  then show ?thesis using reachable_integrity [OF r] by simp
qed



subsection \<open>Properties of the catalog routes\<close>

lemma transaction_Inr: "transaction body d = (d', Inr x) \<Longrightarrow> body d = Inr (d', x)"
  by (auto simp: transaction_def split: sum.splits)

lemma transaction_Inl: "transaction body d = (d', Inl e) \<Longrightarrow> d' = d \<and> body d = Inl e"
  by (auto simp: transaction_def split: sum.splits)

lemma insert_price_rows_owner:
  "insert_price_rows ps owner rows tbl = Inr tbl' \<Longrightarrow> \<forall>j \<in> set tbl. jp_ownerId j \<noteq> owner \<Longrightarrow>
     filter (\<lambda>j. jp_ownerId j = owner) tbl' = map (\<lambda>(t, v). \<lparr>jp_ownerId = owner, jp_priceId = t, jp_price = v\<rparr>) rows"
  unfolding insert_price_rows_def
  by (auto simp: filter_empty_conv split: if_splits intro!: filter_True)

lemma add_connections_owner:
  "add_connections d pid es = Inr cs \<Longrightarrow> \<forall>(x, _) \<in> set (db_connections d). x \<noteq> pid \<Longrightarrow>
     (pid, e) \<in> set cs \<longleftrightarrow> e \<in> set es"
  unfolding add_connections_def by (auto split: if_splits)

lemma put_product_body_Inr:
  assumes "put_product_body p b d = Inr (d', j)"
  shows "(\<exists>r \<in> set (db_products d). pr_id r = p) \<and>
         db_products d' = update_where (\<lambda>r. pr_id r = p) (\<lambda>_. product_row_of p b) (db_products d) \<and>
         filter (\<lambda>j. jp_ownerId j = p) (db_extraPrice d') =
           map (\<lambda>(t, v). \<lparr>jp_ownerId = p, jp_priceId = t, jp_price = v\<rparr>) (pb_extraPrices b) \<and>
         (\<forall>e. (p, e) \<in> set (db_connections d') \<longleftrightarrow> e \<in> set (pb_extraProducts b)) \<and>
         j = JObj [(''extraPrices'', json_extra_products (pb_extraProducts b)),
                   (''extraProducts'', json_extra_products (pb_extraProducts b))]"
proof -
  let ?d1 = "d\<lparr>db_products := update_where (\<lambda>r. pr_id r = p) (\<lambda>_. product_row_of p b) (db_products d),
                db_extraPrice := filter (\<lambda>j. jp_ownerId j \<noteq> p) (db_extraPrice d),
                db_connections := filter (\<lambda>(x, _). x \<noteq> p) (db_connections d)\<rparr>"
  from assms have ex: "\<exists>r \<in> set (db_products d). pr_id r = p"
    and u: "product_unique_ok d (Some p) b = None"
    and l: "set_product_links p b ?d1 = Inr d'"
    and jv: "j = JObj [(''extraPrices'', json_extra_products (pb_extraProducts b)),
                   (''extraProducts'', json_extra_products (pb_extraProducts b))]"
    unfolding put_product_body_def Let_def
    by (auto split: if_splits option.splits sum.splits)
  from l obtain tbl cs where
    t: "insert_price_rows (db_prices ?d1) p (pb_extraPrices b) (db_extraPrice ?d1) = Inr tbl"
    and c: "add_connections (?d1\<lparr>db_extraPrice := tbl\<rparr>) p (pb_extraProducts b) = Inr cs"
    and d': "d' = ?d1\<lparr>db_extraPrice := tbl, db_connections := cs\<rparr>"
    unfolding set_product_links_def by (auto split: sum.splits)
  have "filter (\<lambda>j. jp_ownerId j = p) tbl =
           map (\<lambda>(t, v). \<lparr>jp_ownerId = p, jp_priceId = t, jp_price = v\<rparr>) (pb_extraPrices b)"
    by (rule insert_price_rows_owner [OF t]) simp
  moreover have "(p, e) \<in> set cs \<longleftrightarrow> e \<in> set (pb_extraProducts b)" for e
    by (rule add_connections_owner [OF c]) auto
  ultimately show ?thesis using ex jv by (simp add: d')
qed

lemma map_view_prices:
  "map ((\<lambda>j. (jp_priceId j, jp_price j)) \<circ> (\<lambda>(t, v). \<lparr>jp_ownerId = p, jp_priceId = t, jp_price = v\<rparr>)) ps = ps"
  by (induction ps) auto

text \<open>
  C19. \<open>GET /api/products/:id\<close> after a successful \<open>PUT /api/products/:id\<close> answers the
  body that was sent: its name, barcode, price, measure and number of sides, exactly its
  tier prices in the order sent, and the extra products it named, each once, with their
  prices.
\<close>

theorem putProduct_getProduct:
  assumes "putProduct p b d = (d', Inr j)"
  shows "getProduct p d' =
           Some \<lparr>product_id = p, product_name = pb_name b, barcode = pb_barcode b,
                 product_price = pb_price b, product_measure = pb_measure b,
                 countOfSides = pb_countOfSides b, extraPrices = pb_extraPrices b,
                 extraProducts = map (extra_product_view d')
                   (filter (\<lambda>e. xp_id e \<in> set (pb_extraProducts b)) (db_extraProducts d'))\<rparr>"
proof -
  from transaction_Inr [OF assms [unfolded putProduct_def]]
  have "put_product_body p b d = Inr (d', j)" .
  note h = put_product_body_Inr [OF this]
  then have "find (\<lambda>r. pr_id r = p) (db_products d) \<noteq> None" by (auto simp: find_None_iff)
  then obtain r where "find (\<lambda>r. pr_id r = p) (db_products d) = Some r" by blast
  with h have "find (\<lambda>r. pr_id r = p) (db_products d') = Some (product_row_of p b)"
    by (simp add: find_update_where product_row_of_def)
  with h show ?thesis
    by (simp add: getProduct_def product_view_def product_row_of_def map_view_prices)
qed

theorem putProduct_getProduct_witness:
  "getProduct 1 (fst (putProduct 1 sample_product_body initDb)) =
     Some \<lparr>product_id = 1, product_name = ''H-1'', barcode = ''1'', product_price = Fin 55,
           product_measure = ''m'', countOfSides = 1, extraPrices = [(2, Fin 45)],
           extraProducts = [seed_extra_selpe]\<rparr>"
proof -
  have h: "putProduct 1 sample_product_body initDb = (fst (putProduct 1 sample_product_body initDb), Inr (projr (snd (putProduct 1 sample_product_body initDb))))"
    by code_simp
  have x: "map (extra_product_view (fst (putProduct 1 sample_product_body initDb)))
             (filter (\<lambda>e. xp_id e \<in> set (pb_extraProducts sample_product_body)) (db_extraProducts (fst (putProduct 1 sample_product_body initDb))))
           = [seed_extra_selpe]"
    by code_simp
  show ?thesis using putProduct_getProduct [OF h] by (simp only: x) (simp add: sample_product_body_def)
qed

lemma json_extra_products_ne_prices:
  "ps \<noteq> [] \<Longrightarrow> json_extra_products es \<noteq> json_extra_prices ps"
  by (cases es; cases ps) (auto simp: json_extra_products_def json_extra_prices_def)

text \<open>
  The answer of a successful \<open>PUT /api/products/:id\<close> has no \<open>id\<close> (it spreads the
  function \<open>model.toJSON\<close>), and its \<open>extraPrices\<close> is the list of extra-product links
  of the body, which is not the prices that were sent whenever some were sent.
\<close>

theorem putProduct_answer:
  assumes "putProduct p b d = (d', Inr j)"
  shows "json_field j ''id'' = None \<and>
         json_field j ''extraPrices'' = Some (json_extra_products (pb_extraProducts b)) \<and>
         (pb_extraPrices b \<noteq> [] \<longrightarrow> json_field j ''extraPrices'' \<noteq> Some (json_extra_prices (pb_extraPrices b)))"
proof -
  from put_product_body_Inr [OF transaction_Inr [OF assms [unfolded putProduct_def]]]
  have "j = JObj [(''extraPrices'', json_extra_products (pb_extraProducts b)),
                  (''extraProducts'', json_extra_products (pb_extraProducts b))]" by blast
  then show ?thesis by (simp add: json_field_def json_extra_products_ne_prices)
qed

theorem putProduct_answer_witness:
  "json_field (projr (snd (putProduct 1 sample_product_body initDb))) ''extraPrices'' =
     Some (JArr [JObj [(''extraProductId'', JNum (Fin 2))]])"
proof -
  have h: "putProduct 1 sample_product_body initDb = (fst (putProduct 1 sample_product_body initDb), Inr (projr (snd (putProduct 1 sample_product_body initDb))))"
    by code_simp
  show ?thesis using putProduct_answer [OF h] by (simp add: sample_product_body_def json_extra_products_def)
qed

text \<open>
  C20. \<open>POST /api/extraproducts\<close> is not atomic: when the name is free but a tier price
  names no tier, the route fails with the foreign-key error and the new extra product
  stays in the table, without prices.
\<close>

theorem postExtraProduct_not_atomic:
  assumes "eb_name b \<notin> xp_name ` set (db_extraProducts d)"
    and "\<exists>(t, _) \<in> set (eb_extraPrices b). t \<notin> price_id ` set (db_prices d)"
  shows "postExtraProduct b d =
           (d\<lparr>db_extraProducts := db_extraProducts d @ [new_extra_product_row d b],
              seq_extraProduct := Suc (seq_extraProduct d)\<rparr>, Inl (ForeignKeyViolation ''priceId''))"
  using assms
  by (simp add: postExtraProduct_def Let_def insert_price_rows_def new_extra_product_row_def)

theorem postExtraProduct_not_atomic_witness:
  "postExtraProduct sample_extra_product_body initDb =
     (initDb\<lparr>db_extraProducts := db_extraProducts initDb @ [new_extra_product_row initDb sample_extra_product_body],
             seq_extraProduct := 3\<rparr>, Inl (ForeignKeyViolation ''priceId''))"
proof -
  have "eb_name sample_extra_product_body \<notin> xp_name ` set (db_extraProducts initDb)"
    "\<exists>(t, _) \<in> set (eb_extraPrices sample_extra_product_body). t \<notin> price_id ` set (db_prices initDb)"
    by code_simp+
  from postExtraProduct_not_atomic [OF this] show ?thesis by (simp add: initDb_def)
qed

lemma amounts_catalog:
  "(case r of PostInvoice _ _ \<Rightarrow> False | _ \<Rightarrow> True) \<Longrightarrow> invoice_amounts (api_step d r) = invoice_amounts d"
  by (cases r) (simp_all add: invoice_amounts_def map_update_where
       postPrice_def putPrice_def deletePrice_def delete_price_def
       postCustomer_def putCustomer_def deleteCustomer_def delete_customer_def
       postExtraProduct_def putExtraProduct_def put_extra_product_body_def deleteExtraProduct_def delete_extra_product_def
       postProduct_def post_product_body_def putProduct_def put_product_body_def set_product_links_def
       deleteProduct_def delete_product_def transaction_fst Let_def
       split: sum.split option.split if_split)

lemma amounts_postInvoice:
  "prefix (map ir_totalAmount (db_invoices d)) (map ir_totalAmount (db_invoices (fst (postInvoice now p d)))) \<and>
   prefix (map itr_totalItemPrice (db_items d)) (map itr_totalItemPrice (db_items (fst (postInvoice now p d)))) \<and>
   prefix (map xr_calculatedTotalPrice (db_extraItems d))
          (map xr_calculatedTotalPrice (db_extraItems (fst (postInvoice now p d))))"
proof (cases "payload_refs_ok d p")
  case True
  show ?thesis unfolding postInvoice_commit [OF True] by simp
next
  case False
  with postInvoice_fail [OF False, of now] show ?thesis by auto
qed

text \<open>
  C21. Stored invoices are snapshots: no request changes the total of an invoice, of an
  item or of an extra item already stored; deleting a tier, customer, product or extra
  product only sets its foreign keys to \<open>null\<close>, and \<open>POST /api/invoices\<close> only appends.
\<close>

theorem invoices_append_only:
  "prefix (map ir_totalAmount (db_invoices d)) (map ir_totalAmount (db_invoices (api_step d r))) \<and>
   prefix (map itr_totalItemPrice (db_items d)) (map itr_totalItemPrice (db_items (api_step d r))) \<and>
   prefix (map xr_calculatedTotalPrice (db_extraItems d))
          (map xr_calculatedTotalPrice (db_extraItems (api_step d r)))"
proof (cases r)
  case (PostInvoice now p)
  then show ?thesis using amounts_postInvoice by simp
qed (use amounts_catalog [of r d] in \<open>simp_all add: invoice_amounts_def\<close>)

end
