(* ===== verification/Reports.thy ===== *)
theory Reports
  imports CatalogRoutes "HOL-Library.List_Lexorder" "HOL-Library.Char_ord"
begin

text \<open>
  The report routes of \<open>src/server/routes/reports\<close>: \<open>products\<close>, \<open>extraproducts\<close>,
  \<open>customers\<close> and \<open>invoices\<close>, each a list route with a name search and an optional
  date range, and a detail route by id.  The date range is spliced into the SQL text
  as \<open>createdAt BETWEEN 'start' AND 'end'\<close> (or \<open>>=\<close>, \<open><=\<close>): SQLite compares the
  stored \<open>createdAt\<close> text with the date text character by character, which is the
  lexicographic order of \<open>List_Lexorder\<close> on strings.  A date containing a quote makes
  the statement something other than this comparison; the routes are modelled as
  \<open>None\<close> there.  \<open>SUM\<close> over no rows is \<open>NULL\<close> (\<open>None\<close>), \<open>coalesce\<close> replaces it.
\<close>

subsection \<open>The date filter and SQL aggregates\<close>

text \<open>\<open>if (startDate && endDate) ... else if (startDate) ... else if (endDate) ...\<close>\<close>

definition date_where :: "string \<Rightarrow> string \<Rightarrow> string \<Rightarrow> bool" where
  "date_where startDate endDate createdAt =
     (if startDate \<noteq> [] \<and> endDate \<noteq> [] then startDate \<le> createdAt \<and> createdAt \<le> endDate
      else if startDate \<noteq> [] then startDate \<le> createdAt
      else if endDate \<noteq> [] then createdAt \<le> endDate
      else True)"

text \<open>The dates are spliced between quotes: the statement is the comparison only without one.\<close>

definition sql_literal_ok :: "string \<Rightarrow> bool" where
  "sql_literal_ok s \<longleftrightarrow> CHR 0x27 \<notin> set s"

definition sql_sum :: "jsnum list \<Rightarrow> jsnum option" where
  "sql_sum xs = (if xs = [] then None else Some (sum_list xs))"

definition coalesce :: "'a option \<Rightarrow> 'a \<Rightarrow> 'a" where
  "coalesce x v = (case x of None \<Rightarrow> v | Some y \<Rightarrow> y)"

definition price_of :: "db \<Rightarrow> price_id option \<Rightarrow> price option" where
  "price_of d t = (case t of None \<Rightarrow> None | Some k \<Rightarrow> find (\<lambda>p. price_id p = k) (db_prices d))"

subsection \<open>\<open>/api/reports/products\<close> (\<open>reports/product.js\<close>)\<close>

record extra_sales =
  es_extraProduct :: extra_product_row
  es_quantity :: jsnum
  es_total :: jsnum

record product_sales =
  ps_product :: product_row
  ps_quantity :: jsnum
  ps_totalByUnit :: jsnum
  ps_totalWithExtraProducts :: jsnum
  ps_extraProducts :: "extra_sales list"

text \<open>\<open>FROM invoiceItems WHERE productId=product.id ${dates}\<close>\<close>

definition items_in_range :: "string \<Rightarrow> string \<Rightarrow> db \<Rightarrow> entity_id \<Rightarrow> item_row list" where
  "items_in_range s e d p =
     filter (\<lambda>i. itr_productId i = Some p \<and> date_where s e (itr_createdAt i)) (db_items d)"

text \<open>\<open>FROM invoiceExtraItems WHERE extraProductId=extraProducts.id ${dates}\<close>\<close>

definition extras_in_range :: "string \<Rightarrow> string \<Rightarrow> db \<Rightarrow> entity_id \<Rightarrow> extra_row list" where
  "extras_in_range s e d x =
     filter (\<lambda>r. xr_extraProductId r = Some x \<and> date_where s e (xr_createdAt r)) (db_extraItems d)"

definition extra_sales_of :: "string \<Rightarrow> string \<Rightarrow> db \<Rightarrow> extra_product_row \<Rightarrow> extra_sales" where
  "extra_sales_of s e d x =
     (let rs = extras_in_range s e d (xp_id x)
      in \<lparr>es_extraProduct = x,
          es_quantity = coalesce (sql_sum (map xr_calculatedQuantity rs)) 0,
          es_total = coalesce (sql_sum (map xr_calculatedTotalPrice rs)) 0\<rparr>)"

definition product_sales_of :: "string \<Rightarrow> string \<Rightarrow> db \<Rightarrow> product_row \<Rightarrow> product_sales" where
  "product_sales_of s e d r =
     (let is = items_in_range s e d (pr_id r)
      in \<lparr>ps_product = r,
          ps_quantity = coalesce (sql_sum (map itr_quantity is)) 0,
          ps_totalByUnit = coalesce (sql_sum (map (\<lambda>i. js_mul (itr_quantity i) (itr_calculatedPricePerUnit i)) is)) 0,
          ps_totalWithExtraProducts = coalesce (sql_sum (map itr_totalItemPrice is)) 0,
          ps_extraProducts = map (extra_sales_of s e d)
            (filter (\<lambda>x. (pr_id r, xp_id x) \<in> set (db_connections d)) (db_extraProducts d))\<rparr>)"

definition getProductReport :: "string \<Rightarrow> string \<Rightarrow> string \<Rightarrow> db \<Rightarrow> product_sales list option" where
  "getProductReport productName s e d =
     (if sql_literal_ok s \<and> sql_literal_ok e
      then Some (map (product_sales_of s e d) (filter (\<lambda>r. like_search productName (pr_name r)) (db_products d)))
      else None)"

text \<open>\<open>GET /:id\<close>: the product with its items in the range (\<open>sales\<close>), each with its
  extra items and their extra products.\<close>

definition extras_of_item :: "db \<Rightarrow> item_row \<Rightarrow> (extra_row \<times> extra_product_row option) list" where
  "extras_of_item d i =
     map (\<lambda>x. (x, case xr_extraProductId x of None \<Rightarrow> None
                   | Some k \<Rightarrow> find (\<lambda>r. xp_id r = k) (db_extraProducts d)))
       (filter (\<lambda>x. xr_invoiceItemId x = itr_id i) (db_extraItems d))"

definition getProductSales ::
  "entity_id \<Rightarrow> string \<Rightarrow> string \<Rightarrow> db \<Rightarrow>
     (product_row \<times> (item_row \<times> (extra_row \<times> extra_product_row option) list) list) option option" where
  "getProductSales p s e d =
     (if sql_literal_ok s \<and> sql_literal_ok e
      then Some (map_option (\<lambda>r. (r, map (\<lambda>i. (i, extras_of_item d i)) (items_in_range s e d (pr_id r))))
                   (find (\<lambda>r. pr_id r = p) (db_products d)))
      else None)"

subsection \<open>\<open>/api/reports/extraproducts\<close> (\<open>reports/extraProducts.js\<close>)\<close>

definition getExtraProductReport :: "string \<Rightarrow> string \<Rightarrow> string \<Rightarrow> db \<Rightarrow> extra_sales list option" where
  "getExtraProductReport name s e d =
     (if sql_literal_ok s \<and> sql_literal_ok e
      then Some (map (extra_sales_of s e d) (filter (\<lambda>x. like_search name (xp_name x)) (db_extraProducts d)))
      else None)"

text \<open>\<open>GET /:id\<close>: the extra items in the range, each with the \<open>invoiceId\<close> of its item
  (\<open>SELECT invoiceId FROM invoiceItems WHERE invoiceItems.id=sales.invoiceItemId\<close>).\<close>

definition getExtraProductSales ::
  "entity_id \<Rightarrow> string \<Rightarrow> string \<Rightarrow> db \<Rightarrow> (extra_product_row \<times> (extra_row \<times> entity_id option) list) option option" where
  "getExtraProductSales x s e d =
     (if sql_literal_ok s \<and> sql_literal_ok e
      then Some (map_option (\<lambda>r. (r, map (\<lambda>y. (y, map_option itr_invoiceId
                                                   (find (\<lambda>i. itr_id i = xr_invoiceItemId y) (db_items d))))
                                      (extras_in_range s e d (xp_id r))))
                   (find (\<lambda>r. xp_id r = x) (db_extraProducts d)))
      else None)"

subsection \<open>\<open>/api/reports/customers\<close> (\<open>reports/customer.js\<close>)\<close>

record customer_sales =
  cs_customer :: customer
  cs_defaultPrice :: "price option"
  cs_totalSales :: "jsnum option"

definition invoices_in_range :: "string \<Rightarrow> string \<Rightarrow> db \<Rightarrow> entity_id \<Rightarrow> invoice_row list" where
  "invoices_in_range s e d c =
     filter (\<lambda>i. ir_customerId i = Some c \<and> date_where s e (ir_createdAt i)) (db_invoices d)"

text \<open>\<open>(SELECT SUM(totalAmount) FROM invoices WHERE customerId=customer.id ${dates})\<close>, with no
  \<open>coalesce\<close>: a customer without invoices in the range has \<open>totalSales\<close> \<open>null\<close>.\<close>

definition getCustomerReport :: "string \<Rightarrow> string \<Rightarrow> string \<Rightarrow> db \<Rightarrow> customer_sales list option" where
  "getCustomerReport customerName s e d =
     (if sql_literal_ok s \<and> sql_literal_ok e
      then Some (map (\<lambda>c. \<lparr>cs_customer = c, cs_defaultPrice = price_of d (defaultPriceId c),
                           cs_totalSales = sql_sum (map ir_totalAmount (invoices_in_range s e d (customer_id c)))\<rparr>)
                   (filter (\<lambda>c. like_search customerName (customer_name c)) (db_customers d)))
      else None)"

definition getCustomerSales ::
  "entity_id \<Rightarrow> string \<Rightarrow> string \<Rightarrow> db \<Rightarrow> (customer \<times> price option \<times> (invoice_row \<times> price option) list) option option" where
  "getCustomerSales c s e d =
     (if sql_literal_ok s \<and> sql_literal_ok e
      then Some (map_option (\<lambda>r. (r, price_of d (defaultPriceId r),
                                   map (\<lambda>i. (i, price_of d (ir_defaultPriceId i))) (invoices_in_range s e d (customer_id r))))
                   (find (\<lambda>r. customer_id r = c) (db_customers d)))
      else None)"

subsection \<open>\<open>/api/reports/invoices\<close> (\<open>reports/invoices.js\<close>)\<close>

record invoice_report_row =
  irr_invoice :: invoice_row
  irr_customer :: customer
  irr_defaultPrice :: "price option"

text \<open>
  \<open>GET /\<close>: the invoices in the range, of the tier \<open>defaultPriceId\<close> when one is given,
  with their customer and tier.  The customer include has a \<open>where\<close>, so it is an
  inner join: an invoice is listed only with a customer whose name matches.
\<close>

definition getInvoiceReport ::
  "string \<Rightarrow> string \<Rightarrow> string \<Rightarrow> price_id option \<Rightarrow> db \<Rightarrow> invoice_report_row list option" where
  "getInvoiceReport customerName s e t d =
     (if sql_literal_ok s \<and> sql_literal_ok e
      then Some (concat (map (\<lambda>i.
               map (\<lambda>c. \<lparr>irr_invoice = i, irr_customer = c, irr_defaultPrice = price_of d (ir_defaultPriceId i)\<rparr>)
                 (filter (\<lambda>c. ir_customerId i = Some (customer_id c) \<and> like_search customerName (customer_name c))
                    (db_customers d)))
             (filter (\<lambda>i. date_where s e (ir_createdAt i) \<and>
                          (case t of None \<Rightarrow> True | Some k \<Rightarrow> ir_defaultPriceId i = Some k))
                (db_invoices d))))
      else None)"

record invoice_detail =
  id_invoice :: invoice_row
  id_defaultPrice :: "price option"
  id_customer :: "customer option"
  id_items :: "(item_row \<times> product_row option \<times> (extra_row \<times> extra_product_row option) list) list"

text \<open>\<open>GET /:id\<close>: the invoice with its tier, customer, items, their products and extra items.\<close>

definition getInvoiceDetail :: "entity_id \<Rightarrow> db \<Rightarrow> invoice_detail option" where
  "getInvoiceDetail k d =
     map_option (\<lambda>i. \<lparr>id_invoice = i, id_defaultPrice = price_of d (ir_defaultPriceId i),
                      id_customer = (case ir_customerId i of None \<Rightarrow> None
                                     | Some c \<Rightarrow> find (\<lambda>r. customer_id r = c) (db_customers d)),
                      id_items = map (\<lambda>it. (it, case itr_productId it of None \<Rightarrow> None
                                                 | Some p \<Rightarrow> find (\<lambda>r. pr_id r = p) (db_products d),
                                             extras_of_item d it))
                                   (filter (\<lambda>it. itr_invoiceId it = ir_id i) (db_items d))\<rparr>)
       (find (\<lambda>i. ir_id i = k) (db_invoices d))"


subsection \<open>A sample database\<close>

text \<open>The seeded database with one invoice of product 3 and extra product 1, linked to
  products 2 and 3.\<close>

definition db_shared_extra :: db where
  "db_shared_extra =
     initDb\<lparr>db_connections := [(2, 1), (3, 1)],
       db_invoices := [\<lparr>ir_id = 1, ir_totalAmount = Fin 75, ir_customerId = Some 1,
                        ir_defaultPriceId = None, ir_createdAt = ''2025-01-10 09:00:00.000 +00:00''\<rparr>],
       db_items := [\<lparr>itr_id = 1, itr_invoiceId = 1, itr_productId = Some 3, itr_measurements = (''1'', [], []),
                     itr_quantity = Fin 1, itr_calculatedPricePerUnit = Fin 65, itr_totalItemPrice = Fin 75,
                     itr_notes = [], itr_createdAt = ''2025-01-10 09:00:00.000 +00:00''\<rparr>],
       db_extraItems := [\<lparr>xr_id = 1, xr_invoiceItemId = 1, xr_extraProductId = Some 1,
                          xr_calculatedQuantity = Fin 1, xr_calculatedUnitPrice = Fin 10,
                          xr_calculatedTotalPrice = Fin 10, xr_createdAt = ''2025-01-10 09:00:00.000 +00:00''\<rparr>],
       seq_invoice := 1, seq_item := 1, seq_extra := 1\<rparr>"


subsection \<open>Properties of the reports\<close>

lemma append_not_le: "rest \<noteq> [] \<Longrightarrow> \<not> (xs @ rest \<le> (xs :: string))"
proof
  assume "rest \<noteq> []" "xs @ rest \<le> xs"
  moreover from \<open>rest \<noteq> []\<close> have "xs < xs @ rest"
    by (induction xs) (auto simp: neq_Nil_conv)
  ultimately show False by simp
qed

lemma date_where_end_day: "e \<noteq> [] \<Longrightarrow> rest \<noteq> [] \<Longrightarrow> \<not> date_where s e (e @ rest)"
  by (auto simp: date_where_def append_not_le)

lemma date_where_same_day: "D \<noteq> [] \<Longrightarrow> date_where D D c \<longleftrightarrow> c = D"
  by (auto simp: date_where_def)

text \<open>
  C22. A date range of one day finds nothing.  The page's quick ranges \<open>today\<close> and
  \<open>yesterday\<close> send the same date \<open>D\<close> as start and end; \<open>createdAt BETWEEN 'D' AND 'D'\<close>
  holds only of the text \<open>D\<close> itself, while every stored \<open>createdAt\<close> is \<open>D\<close> followed
  by the time, so the invoice report of that day is empty.  (In general the end date
  excludes the whole end day, \<open>date_where_end_day\<close>.)
\<close>

theorem same_day_invoice_report:
  assumes "D \<noteq> []" "sql_literal_ok D" "\<forall>i \<in> set (db_invoices d). length D < length (ir_createdAt i)"
  shows "getInvoiceReport q D D t d = Some []"
  using assms by (auto simp: getInvoiceReport_def date_where_same_day filter_empty_conv)

text \<open>
  C23. The product report's extra-product columns are not per product: each extra product
  linked to a product shows the quantity and total of all its extra items in the range,
  whichever product they were sold with, so a product without sales can show extra sales.
\<close>

theorem product_report_extra_sales_global:
  assumes "getProductReport q s e d = Some rs" "r \<in> set rs" "x \<in> set (ps_extraProducts r)"
  shows "x = extra_sales_of s e d (es_extraProduct x) \<and>
         es_total x = coalesce (sql_sum (map xr_calculatedTotalPrice
                        (filter (\<lambda>y. xr_extraProductId y = Some (xp_id (es_extraProduct x)) \<and>
                                     date_where s e (xr_createdAt y)) (db_extraItems d)))) 0"
  using assms
  by (auto simp: getProductReport_def product_sales_of_def Let_def extra_sales_of_def
      extras_in_range_def split: if_splits)

theorem product_report_extra_sales_global_witness:
  "ps_quantity (the (getProductReport [] [] [] db_shared_extra) ! 1) = 0 \<and>
   es_total (hd (ps_extraProducts (the (getProductReport [] [] [] db_shared_extra) ! 1))) = Fin 10"
proof -
  let ?rs = "the (getProductReport [] [] [] db_shared_extra)"
  have 1: "getProductReport [] [] [] db_shared_extra = Some ?rs" by code_simp
  have 2: "?rs ! 1 \<in> set ?rs" by code_simp
  have 3: "hd (ps_extraProducts (?rs ! 1)) \<in> set (ps_extraProducts (?rs ! 1))" by code_simp
  have q: "ps_quantity (?rs ! 1) = 0" by code_simp
  have t: "coalesce (sql_sum (map xr_calculatedTotalPrice
             (filter (\<lambda>y. xr_extraProductId y = Some (xp_id (es_extraProduct (hd (ps_extraProducts (?rs ! 1))))) \<and>
                          date_where [] [] (xr_createdAt y)) (db_extraItems db_shared_extra)))) 0 = Fin 10"
    by code_simp
  from product_report_extra_sales_global [OF 1 2 3] q t show ?thesis by simp
qed

lemma filter_update_where:
  "(\<And>x. Q x \<Longrightarrow> P (g x) = P x) \<Longrightarrow> filter P (update_where Q g xs) = update_where Q g (filter P xs)"
  unfolding update_where_def by (induction xs) auto

lemma report_row_delete_customer:
  fixes i :: invoice_row and c :: entity_id
  defines "i' \<equiv> if ir_customerId i = Some c then i\<lparr>ir_customerId := None\<rparr> else i"
  shows "map (\<lambda>r. \<lparr>irr_invoice = i', irr_customer = r, irr_defaultPrice = pr i'\<rparr>)
           (filter (\<lambda>r. ir_customerId i' = Some (customer_id r) \<and> L r) (filter (\<lambda>r. customer_id r \<noteq> c) cs)) =
         filter (\<lambda>x. customer_id (irr_customer x) \<noteq> c)
           (map (\<lambda>r. \<lparr>irr_invoice = i, irr_customer = r, irr_defaultPrice = pr i\<rparr>)
              (filter (\<lambda>r. ir_customerId i = Some (customer_id r) \<and> L r) cs))"
proof (cases "ir_customerId i = Some c")
  case True
  then show ?thesis by (auto simp: i'_def filter_map o_def filter_empty_conv)
next
  case False
  then show ?thesis by (simp add: i'_def filter_map o_def filter_filter conj_commute)
qed

lemma report_rows_delete_customer:
  "concat (map (\<lambda>i. map (\<lambda>r. \<lparr>irr_invoice = i, irr_customer = r, irr_defaultPrice = pr i\<rparr>)
                    (filter (\<lambda>r. ir_customerId i = Some (customer_id r) \<and> L r)
                       (filter (\<lambda>r. customer_id r \<noteq> c) cs)))
          (update_where (\<lambda>i. ir_customerId i = Some c) (\<lambda>i. i\<lparr>ir_customerId := None\<rparr>) xs)) =
   filter (\<lambda>x. customer_id (irr_customer x) \<noteq> c)
     (concat (map (\<lambda>i. map (\<lambda>r. \<lparr>irr_invoice = i, irr_customer = r, irr_defaultPrice = pr i\<rparr>)
                        (filter (\<lambda>r. ir_customerId i = Some (customer_id r) \<and> L r) cs)) xs))"
  unfolding update_where_def
  by (induction xs) (simp_all only: list.map concat.simps filter_append filter.simps(1) report_row_delete_customer)

lemma price_of_delete_customer [simp]: "price_of (delete_customer c d) = price_of d"
  by (rule ext) (simp add: price_of_def delete_customer_def split: option.split)

text \<open>
  C24. Deleting a customer removes their invoices from the invoice report: the invoices
  stay in the database with \<open>customerId\<close> null, and the report's inner join on the
  customer drops them; every other row of the report is unchanged.
\<close>

theorem deleteCustomer_invoice_report:
  "getInvoiceReport q s e t (fst (deleteCustomer c d)) =
     map_option (filter (\<lambda>x. customer_id (irr_customer x) \<noteq> c)) (getInvoiceReport q s e t d)"
proof -
  have eqs: "db_invoices (delete_customer c d) =
          update_where (\<lambda>i. ir_customerId i = Some c) (\<lambda>i. i\<lparr>ir_customerId := None\<rparr>) (db_invoices d)"
       "db_customers (delete_customer c d) = filter (\<lambda>r. customer_id r \<noteq> c) (db_customers d)"
    by (simp_all add: delete_customer_def)
  show ?thesis
    unfolding getInvoiceReport_def deleteCustomer_def fst_conv price_of_delete_customer eqs
    by (subst filter_update_where) (simp_all add: report_rows_delete_customer split: option.split del: filter_filter)
qed

theorem same_day_invoice_report_witness:
  "getInvoiceReport [] ''2025-01-10'' ''2025-01-10'' None db_shared_extra = Some []"
proof -
  have "sql_literal_ok ''2025-01-10''"
    "\<forall>i \<in> set (db_invoices db_shared_extra). length ''2025-01-10'' < length (ir_createdAt i)"
    by code_simp+
  from same_day_invoice_report [OF _ this, of "[]" None] show ?thesis by simp
qed

end
