(* ===== verification/FormValues.thy ===== *)
theory FormValues
  imports ParseFloat
begin

text \<open>
  The values the catalog editors keep in their form state.  A field of an extra price or
  an extra-product link holds a number when it was loaded from the server or added by a
  button, and the string \<open>e.target.value\<close> once a \<open>select\<close> or \<open>input\<close> changed it
  (\<open>jsval\<close>).  The operations of the editors on them are those of the language:
  \<open>String(v)\<close> (\<open>jsval_to_string\<close>), \<open>parseFloat\<close>, \<open>parseInt\<close> (ECMA-262: leading
  white space, a sign, the prefix \<open>0x\<close> for radix 16, the longest run of digits),
  \<open>String.prototype.trim\<close>, truthiness, strict equality \<open>===\<close> and the SameValueZero
  equality of \<open>Set\<close> and \<open>Array.prototype.includes\<close>.
\<close>

datatype jsval = VStr string | VNum jsnum

fun jsval_to_string :: "jsval \<Rightarrow> string" where
  "jsval_to_string (VStr s) = s"
| "jsval_to_string (VNum n) = number_to_string n"

definition jsval_parse_float :: "jsval \<Rightarrow> jsnum" where
  "jsval_parse_float v = parse_float (jsval_to_string v)"

fun jsval_truthy :: "jsval \<Rightarrow> bool" where
  "jsval_truthy (VStr s) \<longleftrightarrow> s \<noteq> []"
| "jsval_truthy (VNum n) \<longleftrightarrow> js_truthy n"

text \<open>\<open>===\<close>: values of different types differ, and \<open>NaN\<close> differs from itself.\<close>

fun js_strict_eq :: "jsval \<Rightarrow> jsval \<Rightarrow> bool" where
  "js_strict_eq (VStr a) (VStr b) \<longleftrightarrow> a = b"
| "js_strict_eq (VNum a) (VNum b) \<longleftrightarrow> a = b \<and> a \<noteq> NaN"
| "js_strict_eq _ _ \<longleftrightarrow> False"

text \<open>SameValueZero: as \<open>===\<close>, except that \<open>NaN\<close> equals itself.\<close>

fun same_value_zero :: "jsval \<Rightarrow> jsval \<Rightarrow> bool" where
  "same_value_zero (VStr a) (VStr b) \<longleftrightarrow> a = b"
| "same_value_zero (VNum a) (VNum b) \<longleftrightarrow> a = b"
| "same_value_zero _ _ \<longleftrightarrow> False"

text \<open>\<open>String.prototype.trim\<close>: white space removed at both ends.\<close>

definition js_trim :: "string \<Rightarrow> string" where
  "js_trim s = rev (dropWhile is_js_space (rev (dropWhile is_js_space s)))"

subsection \<open>parseInt\<close>

definition is_hex_digit :: "char \<Rightarrow> bool" where
  "is_hex_digit c \<longleftrightarrow> c \<in> set ''0123456789abcdefABCDEF''"

definition hex_value :: "char \<Rightarrow> nat" where
  "hex_value c =
     (if is_digit c then digit_value c
      else if c \<in> set ''abcdef'' then of_char c - 87 else of_char c - 55)"

definition radix_value :: "nat \<Rightarrow> string \<Rightarrow> nat" where
  "radix_value r ds = foldl (\<lambda>n c. r * n + hex_value c) 0 ds"

text \<open>
  \<open>parseInt(s)\<close> with no radix: after white space and a sign, \<open>0x\<close> or \<open>0X\<close> selects
  radix 16; the value is that of the longest prefix of digits of the radix, \<open>NaN\<close>
  when it is empty.
\<close>

definition parse_int :: "string \<Rightarrow> jsnum" where
  "parse_int s =
     (let s1 = dropWhile is_js_space s;
          (neg, s2) = take_sign s1;
          (r, s3) = (if take 2 s2 = ''0x'' \<or> take 2 s2 = ''0X'' then (16, drop 2 s2) else (10, s2));
          z = takeWhile (if r = 16 then is_hex_digit else is_digit) s3
      in if z = [] then NaN
         else Fin (of_int ((if neg then -1 else 1) * int (radix_value r z))))"

definition jsval_parse_int :: "jsval \<Rightarrow> jsnum" where
  "jsval_parse_int v = parse_int (jsval_to_string v)"


subsection \<open>Messages of the runtime\<close>

text \<open>The \<open>message\<close> of the \<open>TypeError\<close> of \<open>null.extraPrices\<close>, and of a failed request.\<close>

definition null_read_message :: "string \<Rightarrow> string" where
  "null_read_message prop =
     ''Cannot read properties of null (reading '' @ [CHR 0x27] @ prop @ [CHR 0x27] @ '')''"

definition http_500_message :: string where
  "http_500_message = ''Request failed with status code 500''"

end
