(* ===== verification/PriceRows.thy ===== *)
theory PriceRows
  imports FormValues Entities
begin

text \<open>
  The rows of extra prices that the product editor and the extra-product editor share:
  each row is a tier id and a price (\<open>{ priceId, price }\<close>), numbers when loaded or
  added, strings once an input changed them.  Both editors add a row with the first
  tier not yet used (\<open>add_price_row\<close>), change a field with a duplicate check by
  \<open>===\<close> (\<open>change_price_row\<close>), and validate the rows before sending them
  (\<open>check_extra_prices\<close>) with the same messages.
\<close>

definition msg_load_failed :: "string \<Rightarrow> string" where
  "msg_load_failed err = ''Oshibka pri zagruzke dannyh: '' @ err"

definition msg_price_not_number :: string where
  "msg_price_not_number = ''Cena dolzhna byt chislom.''"

definition msg_extra_price_fields :: string where
  "msg_extra_price_fields =
     ''Vse polya v \"Dopolnitelnyh cenah\" dolzhny byt zapolneny i cena dolzhna byt chislom.''"

definition msg_extra_price_duplicate :: "string \<Rightarrow> string" where
  "msg_extra_price_duplicate x = ''Cena s ID '' @ x @ '' dubliruetsya v \"Dopolnitelnyh cenah\".''"

definition msg_all_prices_added :: string where
  "msg_all_prices_added = ''Vse dostupnye ceny uzhe dobavleny.''"

definition msg_price_already_added :: "string \<Rightarrow> string" where
  "msg_price_already_added x = ''Cena s ID '' @ x @ '' uzhe dobavlena.''"

text \<open>The loop over \<open>extraPrices\<close> with the set \<open>usedPriceIds\<close> of ids already seen.\<close>

fun check_extra_prices :: "jsnum list \<Rightarrow> (jsval \<times> jsval) list \<Rightarrow> string option" where
  "check_extra_prices used [] = None"
| "check_extra_prices used ((t, v) # eps) =
     (if \<not> jsval_truthy t \<or> v = VStr [] \<or> is_nan (jsval_parse_float v) then Some msg_extra_price_fields
      else if jsval_parse_int t \<in> set used then Some (msg_extra_price_duplicate (jsval_to_string t))
      else check_extra_prices (jsval_parse_int t # used) eps)"

text \<open>
  \<open>handleAddExtraPrice\<close>: the first available tier whose id is not in the
  \<open>Set\<close> of the rows' ids (SameValueZero), with an empty price; \<open>None\<close> when there is
  none.
\<close>

definition add_price_row :: "price list \<Rightarrow> (jsval \<times> jsval) list \<Rightarrow> (jsval \<times> jsval) list option" where
  "add_price_row prices rows =
     (case filter (\<lambda>ap. \<not> (\<exists>c \<in> set (map fst rows). same_value_zero c (VNum (Fin (of_nat (price_id ap)))))) prices of
        ap # _ \<Rightarrow> Some (rows @ [(VNum (Fin (of_nat (price_id ap))), VStr [])])
      | [] \<Rightarrow> None)"

datatype extra_price_field = PriceIdField | PriceField

text \<open>
  \<open>handleExtraPriceChange(index, field, value)\<close>: a new tier id is first compared with
  \<open>===\<close> to the other rows' ids (\<open>Inl\<close> the duplicate id); the value stored is the
  string \<open>value\<close>.  An index out of range makes \<open>newExtraPrices[index][field] = value\<close>
  throw (\<open>None\<close>).
\<close>

definition change_price_row ::
  "nat \<Rightarrow> extra_price_field \<Rightarrow> string \<Rightarrow> (jsval \<times> jsval) list \<Rightarrow> (jsnum + (jsval \<times> jsval) list) option" where
  "change_price_row i fld v rows =
     (if fld = PriceIdField \<and>
         (\<exists>j < length rows. j \<noteq> i \<and> js_strict_eq (fst (rows ! j)) (VNum (parse_int v)))
      then Some (Inl (parse_int v))
      else if length rows \<le> i then None
      else Some (Inr (rows[i := (case fld of PriceIdField \<Rightarrow> (VStr v, snd (rows ! i))
                                       | PriceField \<Rightarrow> (fst (rows ! i), VStr v))])))"

text \<open>An id as the server reads it from JSON: a natural number.\<close>

definition nat_of_jsnum :: "jsnum \<Rightarrow> nat option" where
  "nat_of_jsnum x = (case x of Fin q \<Rightarrow> if 0 \<le> q \<and> q = of_int \<lfloor>q\<rfloor> then Some (nat \<lfloor>q\<rfloor>) else None | _ \<Rightarrow> None)"

subsection \<open>Properties of the rows\<close>

lemma check_extra_prices_None:
  "check_extra_prices used eps = None \<Longrightarrow>
     distinct (map (jsval_parse_int \<circ> fst) eps) \<and> set (map (jsval_parse_int \<circ> fst) eps) \<inter> set used = {} \<and>
     (\<forall>(t, v) \<in> set eps. jsval_truthy t \<and> \<not> is_nan (jsval_parse_float v))"
  by (induction used eps rule: check_extra_prices.induct) (auto split: if_splits)

lemma change_price_row_string_ids:
  assumes "i < length rows" "\<forall>j < length rows. j \<noteq> i \<longrightarrow> (\<exists>s. fst (rows ! j) = VStr s)"
  shows "change_price_row i PriceIdField v rows = Some (Inr (rows[i := (VStr v, snd (rows ! i))]))"
proof -
  have "\<not> (\<exists>j < length rows. j \<noteq> i \<and> js_strict_eq (fst (rows ! j)) (VNum (parse_int v)))"
    using assms(2) by fastforce
  with assms(1) show ?thesis unfolding change_price_row_def by auto
qed

end
