(* ===== verification/ProductEditor.thy ===== *)
theory ProductEditor
  imports PriceRows CatalogRoutes
begin

text \<open>
  The product editor, \<open>src/client/src/edit/ProductEditor.js\<close>: a form over the
  \<open>useState\<close> variables of the component (\<open>product_form\<close>), loaded by its effect from
  \<open>GET /api/prices\<close>, \<open>GET /api/extraproducts\<close> and \<open>GET /api/products/:id\<close>
  (\<open>product_form_load\<close>), changed by the handlers of its inputs, buttons and selects
  (\<open>product_editor_handle\<close>), and submitted by \<open>handleSubmit\<close>, which validates the
  form (\<open>product_request\<close>), builds \<open>productData\<close> and sends it to \<open>POST\<close> or
  \<open>PUT /api/products\<close> (\<open>product_submit\<close>, composed with the routes of
  \<open>CatalogRoutes\<close>).  A handler that throws is \<open>None\<close>.  Messages are transliterated.
\<close>

record product_form =
  pf_productId :: "entity_id option"
  pf_name :: string
  pf_barcode :: string
  pf_price :: string
  pf_measure :: string
  pf_countOfSides :: string
  pf_extraPrices :: "(jsval \<times> jsval) list"
  pf_extraProducts :: "jsval list"
  pf_availablePrices :: "price list"
  pf_availableExtraProducts :: "extra_product_row list"
  pf_error :: "string option"
  pf_message :: string
  pf_extraPriceError :: "string option"
  pf_extraProductError :: "string option"

text \<open>The initial values of the \<open>useState\<close> hooks.\<close>

definition empty_product_form :: "entity_id option \<Rightarrow> product_form" where
  "empty_product_form p =
     \<lparr>pf_productId = p, pf_name = [], pf_barcode = [], pf_price = [], pf_measure = [],
      pf_countOfSides = [], pf_extraPrices = [], pf_extraProducts = [], pf_availablePrices = [],
      pf_availableExtraProducts = [], pf_error = None, pf_message = [], pf_extraPriceError = None,
      pf_extraProductError = None\<rparr>"

text \<open>The body \<open>productData\<close> as the client builds it, before JSON.\<close>

record client_product_body =
  cpb_name :: string
  cpb_barcode :: string
  cpb_price :: jsnum
  cpb_measure :: string
  cpb_countOfSides :: jsnum
  cpb_extraPrices :: "(jsnum \<times> jsnum) list"
  cpb_extraProducts :: "jsnum list"

subsection \<open>Messages\<close>

definition msg_product_form_ready :: string where
  "msg_product_form_ready = ''Forma gotova dlya sozdaniya novogo produkta.''"

definition msg_product_loaded :: "entity_id \<Rightarrow> string" where
  "msg_product_loaded p = ''Produkt ID: '' @ digits_of_nat p @ '' zagruzhen dlya redaktirovaniya.''"

definition msg_product_required :: string where
  "msg_product_required =
     ''Polya \"Nazvanie\", \"Shtrih-kod\", \"Cena\", \"Edinica izmereniya\" i \"Kolichestvo storon\" obyazatelny.''"

definition msg_sides_invalid :: string where
  "msg_sides_invalid = ''Kolichestvo storon dolzhno byt 1, 2 ili 3.''"

definition msg_extra_product_fields :: string where
  "msg_extra_product_fields = ''Vse polya v \"Vlozhennyh Extra Products\" dolzhny byt zapolneny.''"

definition msg_extra_product_duplicate :: "string \<Rightarrow> string" where
  "msg_extra_product_duplicate x =
     ''Extra Product s ID '' @ x @ '' dubliruetsya vo \"Vlozhennyh Extra Products\".''"

definition msg_product_updated :: string where
  "msg_product_updated = ''Produkt uspeshno obnovlen!''"

definition msg_product_created :: string where
  "msg_product_created = ''Produkt uspeshno sozdan!''"

definition msg_product_save_failed :: "string \<Rightarrow> string" where
  "msg_product_save_failed err = ''Oshibka pri sohranenii produkta: '' @ err"

definition msg_all_extra_products_added :: string where
  "msg_all_extra_products_added = ''Vse dostupnye Extra Products uzhe dobavleny.''"

definition msg_extra_product_already_added :: "string \<Rightarrow> string" where
  "msg_extra_product_already_added x = ''Extra Product s ID '' @ x @ '' uzhe dobavlen.''"

subsection \<open>Loading\<close>

text \<open>The cleared form: \<open>setName('')\<close>, ..., \<open>setExtraProducts([])\<close>.\<close>

definition clear_product_form :: "product_form \<Rightarrow> product_form" where
  "clear_product_form f =
     f\<lparr>pf_name := [], pf_barcode := [], pf_price := [], pf_measure := [], pf_countOfSides := [],
       pf_extraPrices := [], pf_extraProducts := []\<rparr>"

text \<open>
  The effect on \<open>productId\<close>: both lists, then, for an id, the product; its join rows
  give the extra prices (\<open>e.extraPrice\<close>: tier id and price, numbers) and the links
  (\<open>e.extraProductsConnection\<close>: the extra product id).  A missing product is \<open>null\<close>,
  and reading its \<open>extraPrices\<close> throws into the \<open>catch\<close>.
\<close>

definition product_form_load :: "db \<Rightarrow> product_form \<Rightarrow> product_form" where
  "product_form_load d f =
     (let f1 = f\<lparr>pf_error := None, pf_message := [], pf_extraPriceError := None,
                 pf_extraProductError := None,
                 pf_availablePrices := getPrices [] d, pf_availableExtraProducts := getExtraProducts [] d\<rparr>
      in case pf_productId f of
           None \<Rightarrow> (clear_product_form f1)\<lparr>pf_message := msg_product_form_ready\<rparr>
         | Some p \<Rightarrow>
             (case getProduct p d of
                None \<Rightarrow> (clear_product_form f1)\<lparr>pf_error := Some (msg_load_failed (null_read_message ''extraPrices''))\<rparr>
              | Some pr \<Rightarrow>
                  f1\<lparr>pf_name := product_name pr, pf_barcode := barcode pr,
                     pf_price := number_to_string (product_price pr),
                     pf_measure := product_measure pr,
                     pf_countOfSides := number_to_string (js_or (Fin (of_int (countOfSides pr))) (Fin 1)),
                     pf_extraPrices := map (\<lambda>(t, v). (VNum (Fin (of_nat t)), VNum v)) (extraPrices pr),
                     pf_extraProducts := map (\<lambda>e. VNum (Fin (of_nat (ep_id e)))) (extraProducts pr),
                     pf_message := msg_product_loaded p\<rparr>))"

subsection \<open>Validation and the request\<close>

text \<open>The loop over \<open>extraPrices\<close> with the set \<open>usedPriceIds\<close> of ids already seen.\<close>

fun check_extra_products :: "jsnum list \<Rightarrow> jsval list \<Rightarrow> string option" where
  "check_extra_products used [] = None"
| "check_extra_products used (e # es) =
     (if \<not> jsval_truthy e then Some msg_extra_product_fields
      else if jsval_parse_int e \<in> set used then Some (msg_extra_product_duplicate (jsval_to_string e))
      else check_extra_products (jsval_parse_int e # used) es)"

text \<open>The checks of \<open>handleSubmit\<close> in their order, then \<open>productData\<close>.\<close>

definition product_request :: "product_form \<Rightarrow> string + client_product_body" where
  "product_request f =
     (if js_trim (pf_name f) = [] \<or> js_trim (pf_barcode f) = [] \<or> pf_price f = [] \<or>
         js_trim (pf_measure f) = [] \<or> pf_countOfSides f = []
      then Inl msg_product_required
      else if is_nan (parse_float (pf_price f)) then Inl msg_price_not_number
      else if parse_int (pf_countOfSides f) \<notin> {Fin 1, Fin 2, Fin 3} then Inl msg_sides_invalid
      else case check_extra_prices [] (pf_extraPrices f) of
        Some m \<Rightarrow> Inl m
      | None \<Rightarrow>
          (case check_extra_products [] (pf_extraProducts f) of
             Some m \<Rightarrow> Inl m
           | None \<Rightarrow>
               Inr \<lparr>cpb_name = pf_name f, cpb_barcode = pf_barcode f,
                    cpb_price = parse_float (pf_price f), cpb_measure = pf_measure f,
                    cpb_countOfSides = parse_int (pf_countOfSides f),
                    cpb_extraPrices = map (\<lambda>(t, v). (jsval_parse_int t, jsval_parse_float v)) (pf_extraPrices f),
                    cpb_extraProducts = map jsval_parse_int (pf_extraProducts f)\<rparr>))"

text \<open>
  The body as the server reads it after JSON: defined when every id is a natural number
  and every number finite (JSON sends a non-finite number as \<open>null\<close>, which the model of
  the routes does not cover).
\<close>

definition server_product_body :: "client_product_body \<Rightarrow> product_body option" where
  "server_product_body b =
     (if js_finite (cpb_price b) \<and> js_finite (cpb_countOfSides b) \<and>
         list_all (\<lambda>(t, v). nat_of_jsnum t \<noteq> None \<and> js_finite v) (cpb_extraPrices b) \<and>
         list_all (\<lambda>e. nat_of_jsnum e \<noteq> None) (cpb_extraProducts b)
      then Some \<lparr>pb_name = cpb_name b, pb_barcode = cpb_barcode b, pb_price = cpb_price b,
                 pb_measure = cpb_measure b,
                 pb_countOfSides = (case cpb_countOfSides b of Fin q \<Rightarrow> \<lfloor>q\<rfloor> | _ \<Rightarrow> 0),
                 pb_extraPrices = map (\<lambda>(t, v). (the (nat_of_jsnum t), v)) (cpb_extraPrices b),
                 pb_extraProducts = map (\<lambda>e. the (nat_of_jsnum e)) (cpb_extraProducts b)\<rparr>
      else None)"

text \<open>
  \<open>handleSubmit\<close> with the server: \<open>PUT\<close> for an id, \<open>POST\<close> otherwise, which clears
  the form on success; a failure shows the message of the request.  \<open>None\<close> when the
  body is outside the model of the routes.
\<close>

definition product_submit :: "db \<Rightarrow> product_form \<Rightarrow> (product_form \<times> db) option" where
  "product_submit d f =
     (let f0 = f\<lparr>pf_error := None, pf_message := [], pf_extraPriceError := None, pf_extraProductError := None\<rparr>
      in case product_request f0 of
        Inl m \<Rightarrow> Some (f0\<lparr>pf_error := Some m\<rparr>, d)
      | Inr cb \<Rightarrow>
          (case server_product_body cb of
             None \<Rightarrow> None
           | Some b \<Rightarrow>
               (case pf_productId f0 of
                  Some p \<Rightarrow>
                    (case putProduct p b d of
                       (d', Inl _) \<Rightarrow> Some (f0\<lparr>pf_error := Some (msg_product_save_failed http_500_message)\<rparr>, d')
                     | (d', Inr _) \<Rightarrow> Some (f0\<lparr>pf_message := msg_product_updated\<rparr>, d'))
                | None \<Rightarrow>
                    (case postProduct b d of
                       (d', Inl _) \<Rightarrow> Some (f0\<lparr>pf_error := Some (msg_product_save_failed http_500_message)\<rparr>, d')
                     | (d', Inr _) \<Rightarrow> Some ((clear_product_form f0)\<lparr>pf_message := msg_product_created\<rparr>, d')))))"

subsection \<open>The handlers of the lists\<close>

definition handleAddExtraPrice :: "product_form \<Rightarrow> product_form" where
  "handleAddExtraPrice f =
     (case add_price_row (pf_availablePrices f) (pf_extraPrices f) of
        Some rows \<Rightarrow> f\<lparr>pf_extraPriceError := None, pf_extraPrices := rows\<rparr>
      | None \<Rightarrow> f\<lparr>pf_extraPriceError := Some msg_all_prices_added\<rparr>)"

definition handleExtraPriceChange ::
  "nat \<Rightarrow> extra_price_field \<Rightarrow> string \<Rightarrow> product_form \<Rightarrow> product_form option" where
  "handleExtraPriceChange i fld v f =
     map_option (\<lambda>r. case r of
                       Inl n \<Rightarrow> f\<lparr>pf_extraPriceError := Some (msg_price_already_added (number_to_string n))\<rparr>
                     | Inr rows \<Rightarrow> f\<lparr>pf_extraPriceError := None, pf_extraPrices := rows\<rparr>)
       (change_price_row i fld v (pf_extraPrices f))"

definition handleRemoveExtraPrice :: "nat \<Rightarrow> product_form \<Rightarrow> product_form" where
  "handleRemoveExtraPrice i f =
     f\<lparr>pf_extraPriceError := None, pf_extraPrices := filter_index i (pf_extraPrices f)\<rparr>"

definition handleAddExtraProduct :: "product_form \<Rightarrow> product_form" where
  "handleAddExtraProduct f =
     (let free = filter (\<lambda>x. \<not> (\<exists>c \<in> set (pf_extraProducts f). same_value_zero c (VNum (Fin (of_nat (xp_id x))))))
                   (pf_availableExtraProducts f)
      in case free of
           x # _ \<Rightarrow> f\<lparr>pf_extraProductError := None,
                      pf_extraProducts := pf_extraProducts f @ [VNum (Fin (of_nat (xp_id x)))]\<rparr>
         | [] \<Rightarrow> f\<lparr>pf_extraProductError := Some msg_all_extra_products_added\<rparr>)"

text \<open>\<open>handleExtraProductChange(index, value)\<close> stores the number \<open>parseInt(value)\<close>.\<close>

definition handleExtraProductChange :: "nat \<Rightarrow> string \<Rightarrow> product_form \<Rightarrow> product_form option" where
  "handleExtraProductChange i v f =
     (let xs = pf_extraProducts f; n = parse_int v; f1 = f\<lparr>pf_extraProductError := None\<rparr>
      in if \<exists>j < length xs. j \<noteq> i \<and> js_strict_eq (xs ! j) (VNum n)
         then Some (f1\<lparr>pf_extraProductError := Some (msg_extra_product_already_added (number_to_string n))\<rparr>)
         else if length xs \<le> i then None
         else Some (f1\<lparr>pf_extraProducts := xs[i := VNum n]\<rparr>))"

definition handleRemoveExtraProduct :: "nat \<Rightarrow> product_form \<Rightarrow> product_form" where
  "handleRemoveExtraProduct i f =
     f\<lparr>pf_extraProductError := None, pf_extraProducts := filter_index i (pf_extraProducts f)\<rparr>"

subsection \<open>The form's events\<close>

text \<open>The \<open>onChange\<close>, \<open>onClick\<close> and \<open>onSubmit\<close> handlers of the rendered form.\<close>

datatype product_editor_event =
    SetName string | SetBarcode string | SetPrice string | SetMeasure string | SetCountOfSides string
  | ChangeExtraPrice nat extra_price_field string | RemoveExtraPrice nat | AddExtraPrice
  | ChangeExtraProduct nat string | RemoveExtraProduct nat | AddExtraProduct | SubmitProduct

fun product_editor_handle ::
  "db \<Rightarrow> product_form \<Rightarrow> product_editor_event \<Rightarrow> (product_form \<times> db) option" where
  "product_editor_handle d f (SetName s) = Some (f\<lparr>pf_name := s\<rparr>, d)"
| "product_editor_handle d f (SetBarcode s) = Some (f\<lparr>pf_barcode := s\<rparr>, d)"
| "product_editor_handle d f (SetPrice s) = Some (f\<lparr>pf_price := s\<rparr>, d)"
| "product_editor_handle d f (SetMeasure s) = Some (f\<lparr>pf_measure := s\<rparr>, d)"
| "product_editor_handle d f (SetCountOfSides s) = Some (f\<lparr>pf_countOfSides := s\<rparr>, d)"
| "product_editor_handle d f (ChangeExtraPrice i fld v) = map_option (\<lambda>f'. (f', d)) (handleExtraPriceChange i fld v f)"
| "product_editor_handle d f (RemoveExtraPrice i) = Some (handleRemoveExtraPrice i f, d)"
| "product_editor_handle d f AddExtraPrice = Some (handleAddExtraPrice f, d)"
| "product_editor_handle d f (ChangeExtraProduct i v) = map_option (\<lambda>f'. (f', d)) (handleExtraProductChange i v f)"
| "product_editor_handle d f (RemoveExtraProduct i) = Some (handleRemoveExtraProduct i f, d)"
| "product_editor_handle d f AddExtraProduct = Some (handleAddExtraProduct f, d)"
| "product_editor_handle d f SubmitProduct = product_submit d f"

text \<open>A run of events; \<open>None\<close> as soon as one throws.\<close>

fun product_editor_run ::
  "db \<Rightarrow> product_form \<Rightarrow> product_editor_event list \<Rightarrow> (product_form \<times> db) option" where
  "product_editor_run d f [] = Some (f, d)"
| "product_editor_run d f (ev # evs) =
     (case product_editor_handle d f ev of None \<Rightarrow> None | Some (f', d') \<Rightarrow> product_editor_run d' f' evs)"



subsection \<open>Properties\<close>

lemma check_extra_products_None:
  "check_extra_products used es = None \<Longrightarrow>
     distinct (map jsval_parse_int es) \<and> set (map jsval_parse_int es) \<inter> set used = {} \<and>
     (\<forall>e \<in> set es. jsval_truthy e)"
  by (induction used es rule: check_extra_products.induct) (auto split: if_splits)

text \<open>
  C25. The product editor sends only validated bodies: when \<open>handleSubmit\<close> builds
  \<open>productData\<close>, the tier ids of its extra prices are pairwise distinct, so are its
  extra-product ids, the number of sides is 1, 2 or 3, no price is \<open>NaN\<close>, and name,
  barcode and measure are not blank.
\<close>

theorem product_request_valid:
  assumes "product_request f = Inr b"
  shows "distinct (map fst (cpb_extraPrices b)) \<and> distinct (cpb_extraProducts b) \<and>
         cpb_countOfSides b \<in> {Fin 1, Fin 2, Fin 3} \<and> \<not> is_nan (cpb_price b) \<and>
         (\<forall>(t, v) \<in> set (cpb_extraPrices b). \<not> is_nan v) \<and>
         js_trim (cpb_name b) \<noteq> [] \<and> js_trim (cpb_barcode b) \<noteq> [] \<and> js_trim (cpb_measure b) \<noteq> []"
proof -
  from assms have p: "check_extra_prices [] (pf_extraPrices f) = None"
    and e: "check_extra_products [] (pf_extraProducts f) = None"
    and b: "b = \<lparr>cpb_name = pf_name f, cpb_barcode = pf_barcode f,
                    cpb_price = parse_float (pf_price f), cpb_measure = pf_measure f,
                    cpb_countOfSides = parse_int (pf_countOfSides f),
                    cpb_extraPrices = map (\<lambda>(t, v). (jsval_parse_int t, jsval_parse_float v)) (pf_extraPrices f),
                    cpb_extraProducts = map jsval_parse_int (pf_extraProducts f)\<rparr>"
    and c: "js_trim (pf_name f) \<noteq> [] \<and> js_trim (pf_barcode f) \<noteq> [] \<and> js_trim (pf_measure f) \<noteq> [] \<and>
            \<not> is_nan (parse_float (pf_price f)) \<and> parse_int (pf_countOfSides f) \<in> {Fin 1, Fin 2, Fin 3}"
    unfolding product_request_def by (auto split: if_splits option.splits)
  have fe: "fst \<circ> (\<lambda>(t, v). (jsval_parse_int t, jsval_parse_float v)) = jsval_parse_int \<circ> fst"
    by auto
  with check_extra_prices_None [OF p] check_extra_products_None [OF e] c show ?thesis
    by (auto simp: b fe)
qed

lemma loaded_h3:
  "pf_extraPrices (product_form_load initDb (empty_product_form (Some 3))) =
     [(VNum (Fin 1), VNum (Fin 90)), (VNum (Fin 2), VNum (Fin 100))]"
  by code_simp

theorem product_request_valid_witness:
  "cpb_countOfSides (projr (product_request (product_form_load initDb (empty_product_form (Some 3))))) = Fin 3 \<and>
   distinct (map fst (cpb_extraPrices (projr (product_request (product_form_load initDb (empty_product_form (Some 3)))))))"
proof -
  let ?f = "product_form_load initDb (empty_product_form (Some 3))"
  have h: "product_request ?f = Inr (projr (product_request ?f))" by code_simp
  have "cpb_countOfSides (projr (product_request ?f)) = Fin 3" by code_simp
  with product_request_valid [OF h] show ?thesis by simp
qed

text \<open>
  C26. The duplicate check of \<open>handleExtraPriceChange\<close> compares with \<open>===\<close> the new
  id, a number, to the rows' ids, which are strings once a select changed them: when all
  other rows' ids are strings, any tier is accepted, duplicates included, and the form
  only rejects the duplicate at submit.
\<close>

theorem handleExtraPriceChange_string_ids:
  assumes "i < length (pf_extraPrices f)"
    and "\<forall>j < length (pf_extraPrices f). j \<noteq> i \<longrightarrow> (\<exists>s. fst (pf_extraPrices f ! j) = VStr s)"
  shows "handleExtraPriceChange i PriceIdField v f =
           Some (f\<lparr>pf_extraPriceError := None,
                   pf_extraPrices := (pf_extraPrices f)[i := (VStr v, snd (pf_extraPrices f ! i))]\<rparr>)"
  using change_price_row_string_ids [OF assms] by (simp add: handleExtraPriceChange_def)

theorem handleExtraPriceChange_string_ids_witness:
  "pf_extraPrices (the (handleExtraPriceChange 1 PriceIdField ''1''
      (the (handleExtraPriceChange 0 PriceIdField ''1'' (product_form_load initDb (empty_product_form (Some 3))))))) =
     [(VStr ''1'', VNum (Fin 90)), (VStr ''1'', VNum (Fin 100))]"
proof -
  let ?f = "the (handleExtraPriceChange 0 PriceIdField ''1'' (product_form_load initDb (empty_product_form (Some 3))))"
  have e: "pf_extraPrices ?f = [(VStr ''1'', VNum (Fin 90)), (VNum (Fin 2), VNum (Fin 100))]" by code_simp
  have "1 < length (pf_extraPrices ?f)" by (simp add: e)
  moreover have "\<forall>j < length (pf_extraPrices ?f). j \<noteq> 1 \<longrightarrow> (\<exists>s. fst (pf_extraPrices ?f ! j) = VStr s)"
    by (auto simp: e less_Suc_eq)
  ultimately show ?thesis using handleExtraPriceChange_string_ids [of 1 ?f "''1''"] by (simp add: e)
qed

lemma duplicate_tier_rejected_at_submit:
  "product_request (the (handleExtraPriceChange 1 PriceIdField ''1''
      (the (handleExtraPriceChange 0 PriceIdField ''1'' (product_form_load initDb (empty_product_form (Some 3))))))) =
     Inl (msg_extra_price_duplicate ''1'')"
  by code_simp

end
