(* ===== verification/ExtraProductEditor.thy ===== *)
theory ExtraProductEditor
  imports PriceRows CatalogRoutes
begin

text \<open>
  The extra-product editor, \<open>src/client/src/edit/ExtraProductEditor.js\<close>: the form
  (\<open>extra_form\<close>), its load from \<open>GET /api/prices\<close> and
  \<open>GET /api/extraproducts/:id\<close> (\<open>extra_form_load\<close>), the handlers of its inputs and of
  the rows of extra prices (shared with the product editor, \<open>PriceRows\<close>), and
  \<open>handleSubmit\<close> composed with \<open>POST\<close> and \<open>PUT /api/extraproducts\<close>
  (\<open>extra_submit\<close>).  Unlike the product editor, it does not clear \<open>measure\<close> after a
  creation or a failed load.
\<close>

record extra_form =
  xf_extraProductId :: "entity_id option"
  xf_name :: string
  xf_price :: string
  xf_measure :: string
  xf_calculationType :: string
  xf_extraPrices :: "(jsval \<times> jsval) list"
  xf_availablePrices :: "price list"
  xf_error :: "string option"
  xf_message :: string
  xf_extraPriceError :: "string option"

text \<open>The initial values of the \<open>useState\<close> hooks.\<close>

definition empty_extra_form :: "entity_id option \<Rightarrow> extra_form" where
  "empty_extra_form x =
     \<lparr>xf_extraProductId = x, xf_name = [], xf_price = [], xf_measure = [], xf_calculationType = [],
      xf_extraPrices = [], xf_availablePrices = [], xf_error = None, xf_message = [],
      xf_extraPriceError = None\<rparr>"

text \<open>\<open>extraProductData\<close> as the client builds it.\<close>

record client_extra_body =
  ceb_name :: string
  ceb_price :: jsnum
  ceb_measure :: string
  ceb_calculationType :: string
  ceb_extraPrices :: "(jsnum \<times> jsnum) list"

subsection \<open>Messages\<close>

definition msg_extra_form_ready :: string where
  "msg_extra_form_ready = ''Forma gotova dlya sozdaniya novoj zapisi \"Extra Product\".''"

definition msg_extra_loaded :: "entity_id \<Rightarrow> string" where
  "msg_extra_loaded x = ''\"Extra Product\" ID: '' @ digits_of_nat x @ '' zagruzhen dlya redaktirovaniya.''"

definition msg_extra_required :: string where
  "msg_extra_required =
     ''Polya \"Nazvanie\", \"Cena\", \"Edinica izmereniya\" i \"Tip rascheta\" obyazatelny.''"

definition msg_extra_updated :: string where
  "msg_extra_updated = ''\"Extra Product\" uspeshno obnovlen!''"

definition msg_extra_created :: string where
  "msg_extra_created = ''\"Extra Product\" uspeshno sozdan!''"

definition msg_extra_save_failed :: "string \<Rightarrow> string" where
  "msg_extra_save_failed err = ''Oshibka pri sohranenii \"Extra Product\": '' @ err"

subsection \<open>Loading\<close>

text \<open>\<open>setName('')\<close>, \<open>setPrice('')\<close>, \<open>setCalculationType('')\<close>, \<open>setExtraPrices([])\<close>,
  the clearing of a creation and of a failed load: \<open>measure\<close> is kept.\<close>

definition clear_extra_form :: "extra_form \<Rightarrow> extra_form" where
  "clear_extra_form f = f\<lparr>xf_name := [], xf_price := [], xf_calculationType := [], xf_extraPrices := []\<rparr>"

text \<open>
  The effect on \<open>extraProductId\<close>: the tiers, then, for an id, the extra product with
  its join rows \<open>e.extraProductPrice\<close>; a missing one is \<open>null\<close> and reading its
  \<open>extraPrices\<close> throws.
\<close>

definition extra_form_load :: "db \<Rightarrow> extra_form \<Rightarrow> extra_form" where
  "extra_form_load d f =
     (let f1 = f\<lparr>xf_error := None, xf_message := [], xf_extraPriceError := None,
                 xf_availablePrices := getPrices [] d\<rparr>
      in case xf_extraProductId f of
           None \<Rightarrow> (clear_extra_form f1)\<lparr>xf_measure := [], xf_message := msg_extra_form_ready\<rparr>
         | Some x \<Rightarrow>
             (case getExtraProduct x d of
                None \<Rightarrow> (clear_extra_form f1)\<lparr>xf_error := Some (msg_load_failed (null_read_message ''extraPrices''))\<rparr>
              | Some e \<Rightarrow>
                  f1\<lparr>xf_name := ep_name e, xf_price := number_to_string (ep_price e),
                     xf_measure := ep_measure e, xf_calculationType := calculationType e,
                     xf_extraPrices := map (\<lambda>(t, v). (VNum (Fin (of_nat t)), VNum v)) (ep_extraPrices e),
                     xf_message := msg_extra_loaded x\<rparr>))"

subsection \<open>Submitting\<close>

definition extra_request :: "extra_form \<Rightarrow> string + client_extra_body" where
  "extra_request f =
     (if js_trim (xf_name f) = [] \<or> xf_price f = [] \<or> js_trim (xf_measure f) = [] \<or>
         js_trim (xf_calculationType f) = []
      then Inl msg_extra_required
      else if is_nan (parse_float (xf_price f)) then Inl msg_price_not_number
      else case check_extra_prices [] (xf_extraPrices f) of
        Some m \<Rightarrow> Inl m
      | None \<Rightarrow>
          Inr \<lparr>ceb_name = xf_name f, ceb_price = parse_float (xf_price f), ceb_measure = xf_measure f,
               ceb_calculationType = xf_calculationType f,
               ceb_extraPrices = map (\<lambda>(t, v). (jsval_parse_int t, jsval_parse_float v)) (xf_extraPrices f)\<rparr>)"

text \<open>The body as the routes read it: natural tier ids and finite numbers.\<close>

definition server_extra_body :: "client_extra_body \<Rightarrow> extra_product_body option" where
  "server_extra_body b =
     (if js_finite (ceb_price b) \<and>
         list_all (\<lambda>(t, v). nat_of_jsnum t \<noteq> None \<and> js_finite v) (ceb_extraPrices b)
      then Some \<lparr>eb_name = ceb_name b, eb_price = ceb_price b, eb_measure = ceb_measure b,
                 eb_calculationType = ceb_calculationType b,
                 eb_extraPrices = map (\<lambda>(t, v). (the (nat_of_jsnum t), v)) (ceb_extraPrices b)\<rparr>
      else None)"

definition extra_submit :: "db \<Rightarrow> extra_form \<Rightarrow> (extra_form \<times> db) option" where
  "extra_submit d f =
     (let f0 = f\<lparr>xf_error := None, xf_message := [], xf_extraPriceError := None\<rparr>
      in case extra_request f0 of
        Inl m \<Rightarrow> Some (f0\<lparr>xf_error := Some m\<rparr>, d)
      | Inr cb \<Rightarrow>
          (case server_extra_body cb of
             None \<Rightarrow> None
           | Some b \<Rightarrow>
               (case xf_extraProductId f0 of
                  Some x \<Rightarrow>
                    (case putExtraProduct x b d of
                       (d', Inl _) \<Rightarrow> Some (f0\<lparr>xf_error := Some (msg_extra_save_failed http_500_message)\<rparr>, d')
                     | (d', Inr _) \<Rightarrow> Some (f0\<lparr>xf_message := msg_extra_updated\<rparr>, d'))
                | None \<Rightarrow>
                    (case postExtraProduct b d of
                       (d', Inl _) \<Rightarrow> Some (f0\<lparr>xf_error := Some (msg_extra_save_failed http_500_message)\<rparr>, d')
                     | (d', Inr _) \<Rightarrow> Some ((clear_extra_form f0)\<lparr>xf_message := msg_extra_created\<rparr>, d')))))"

subsection \<open>The form's events\<close>

datatype extra_editor_event =
    XSetName string | XSetPrice string | XSetMeasure string | XSetCalculationType string
  | XChangeExtraPrice nat extra_price_field string | XRemoveExtraPrice nat | XAddExtraPrice
  | XSubmit

fun extra_editor_handle :: "db \<Rightarrow> extra_form \<Rightarrow> extra_editor_event \<Rightarrow> (extra_form \<times> db) option" where
  "extra_editor_handle d f (XSetName s) = Some (f\<lparr>xf_name := s\<rparr>, d)"
| "extra_editor_handle d f (XSetPrice s) = Some (f\<lparr>xf_price := s\<rparr>, d)"
| "extra_editor_handle d f (XSetMeasure s) = Some (f\<lparr>xf_measure := s\<rparr>, d)"
| "extra_editor_handle d f (XSetCalculationType s) = Some (f\<lparr>xf_calculationType := s\<rparr>, d)"
| "extra_editor_handle d f (XChangeExtraPrice i fld v) =
     map_option (\<lambda>r. (case r of
                        Inl n \<Rightarrow> f\<lparr>xf_extraPriceError := Some (msg_price_already_added (number_to_string n))\<rparr>
                      | Inr rows \<Rightarrow> f\<lparr>xf_extraPriceError := None, xf_extraPrices := rows\<rparr>, d))
       (change_price_row i fld v (xf_extraPrices f))"
| "extra_editor_handle d f (XRemoveExtraPrice i) =
     Some (f\<lparr>xf_extraPriceError := None, xf_extraPrices := filter_index i (xf_extraPrices f)\<rparr>, d)"
| "extra_editor_handle d f XAddExtraPrice =
     Some (case add_price_row (xf_availablePrices f) (xf_extraPrices f) of
             Some rows \<Rightarrow> f\<lparr>xf_extraPriceError := None, xf_extraPrices := rows\<rparr>
           | None \<Rightarrow> f\<lparr>xf_extraPriceError := Some msg_all_prices_added\<rparr>, d)"
| "extra_editor_handle d f XSubmit = extra_submit d f"


subsection \<open>Sample forms\<close>

definition sample_extra_form :: extra_form where
  "sample_extra_form =
     (empty_extra_form None)\<lparr>xf_name := ''Zer'', xf_price := ''5'', xf_measure := ''m'',
        xf_calculationType := ''a'', xf_extraPrices := [(VNum (Fin 1), VStr ''6'')]\<rparr>"

definition stale_tier_form :: extra_form where
  "stale_tier_form = sample_extra_form\<lparr>xf_extraPrices := [(VNum (Fin 7), VStr ''6'')]\<rparr>"


subsection \<open>Properties\<close>

lemma extra_submit_Inr:
  assumes "extra_request (f\<lparr>xf_error := None, xf_message := [], xf_extraPriceError := None\<rparr>) = Inr cb"
    and "server_extra_body cb = Some b"
  shows "extra_submit d f =
     (let f0 = f\<lparr>xf_error := None, xf_message := [], xf_extraPriceError := None\<rparr>
      in case xf_extraProductId f of
           Some x \<Rightarrow> (case putExtraProduct x b d of
                        (d', Inl _) \<Rightarrow> Some (f0\<lparr>xf_error := Some (msg_extra_save_failed http_500_message)\<rparr>, d')
                      | (d', Inr _) \<Rightarrow> Some (f0\<lparr>xf_message := msg_extra_updated\<rparr>, d'))
         | None \<Rightarrow> (case postExtraProduct b d of
                      (d', Inl _) \<Rightarrow> Some (f0\<lparr>xf_error := Some (msg_extra_save_failed http_500_message)\<rparr>, d')
                    | (d', Inr _) \<Rightarrow> Some ((clear_extra_form f0)\<lparr>xf_message := msg_extra_created\<rparr>, d')))"
  using assms by (simp add: extra_submit_def Let_def)

text \<open>
  C27. After a successful creation the extra-product editor clears the name, price,
  calculation type and extra prices, but keeps the measure of the extra product just
  created, so the next creation starts with it (the product editor clears it).
\<close>

theorem extra_submit_create_keeps_measure:
  assumes "xf_extraProductId f = None" "extra_submit d f = Some (f', d')" "xf_error f' = None"
  shows "xf_measure f' = xf_measure f \<and> xf_name f' = [] \<and> xf_price f' = [] \<and>
         xf_calculationType f' = [] \<and> xf_extraPrices f' = [] \<and> xf_message f' = msg_extra_created"
  using assms
  by (auto simp: extra_submit_def Let_def clear_extra_form_def split: sum.splits option.splits prod.splits)

theorem extra_submit_create_keeps_measure_witness:
  "xf_measure (fst (the (extra_submit initDb sample_extra_form))) = ''m''"
proof -
  have h: "extra_submit initDb sample_extra_form =
             Some (fst (the (extra_submit initDb sample_extra_form)), snd (the (extra_submit initDb sample_extra_form)))"
    by code_simp
  have "xf_error (fst (the (extra_submit initDb sample_extra_form))) = None" by code_simp
  from extra_submit_create_keeps_measure [OF _ h this] show ?thesis
    by (simp add: sample_extra_form_def empty_extra_form_def)
qed

lemma postExtraProduct_fk_fail:
  assumes "eb_name b \<notin> xp_name ` set (db_extraProducts d)"
    and "\<exists>(t, _) \<in> set (eb_extraPrices b). t \<notin> price_id ` set (db_prices d)"
  shows "postExtraProduct b d =
           (d\<lparr>db_extraProducts := db_extraProducts d @ [new_extra_product_row d b],
              seq_extraProduct := Suc (seq_extraProduct d)\<rparr>, Inl (ForeignKeyViolation ''priceId''))"
  using assms by (simp add: postExtraProduct_def Let_def insert_price_rows_def new_extra_product_row_def)

lemma postExtraProduct_name_taken:
  "eb_name b \<in> xp_name ` set (db_extraProducts d) \<Longrightarrow> postExtraProduct b d = (d, Inl (UniqueViolation ''name''))"
  by (simp add: postExtraProduct_def)

text \<open>
  C28. Creating an extra product whose tier was deleted after the editor loaded its list
  shows the save error, yet the extra product is stored without prices (the route runs
  no transaction); submitting the same form again fails on the now taken name and
  changes nothing, so the user cannot repair it from the editor.
\<close>

theorem extra_submit_stale_tier:
  assumes "xf_extraProductId f = None"
    and "extra_request (f\<lparr>xf_error := None, xf_message := [], xf_extraPriceError := None\<rparr>) = Inr cb"
    and "server_extra_body cb = Some b"
    and "eb_name b \<notin> xp_name ` set (db_extraProducts d)"
    and "\<exists>(t, _) \<in> set (eb_extraPrices b). t \<notin> price_id ` set (db_prices d)"
  defines "d1 \<equiv> d\<lparr>db_extraProducts := db_extraProducts d @ [new_extra_product_row d b],
                   seq_extraProduct := Suc (seq_extraProduct d)\<rparr>"
    and "f1 \<equiv> f\<lparr>xf_error := Some (msg_extra_save_failed http_500_message), xf_message := [],
                 xf_extraPriceError := None\<rparr>"
  shows "extra_submit d f = Some (f1, d1) \<and> extra_submit d1 f1 = Some (f1, d1)"
proof
  show "extra_submit d f = Some (f1, d1)"
    using extra_submit_Inr [OF assms(2,3), of d] postExtraProduct_fk_fail [OF assms(4,5)] assms(1)
    by (simp add: d1_def f1_def)
  have r: "extra_request (f1\<lparr>xf_error := None, xf_message := [], xf_extraPriceError := None\<rparr>) = Inr cb"
    using assms(2) by (simp add: f1_def)
  have "eb_name b \<in> xp_name ` set (db_extraProducts d1)"
    by (simp add: d1_def new_extra_product_row_def)
  then show "extra_submit d1 f1 = Some (f1, d1)"
    using extra_submit_Inr [OF r assms(3), of d1] postExtraProduct_name_taken assms(1)
    by (simp add: f1_def)
qed

theorem extra_submit_stale_tier_witness:
  "extra_submit initDb stale_tier_form =
     Some (stale_tier_form\<lparr>xf_error := Some (msg_extra_save_failed http_500_message), xf_message := [],
                            xf_extraPriceError := None\<rparr>,
           initDb\<lparr>db_extraProducts := db_extraProducts initDb @
                     [\<lparr>xp_id = 3, xp_name = ''Zer'', xp_price = Fin 5, xp_measure = ''m'', xp_calculationType = ''a''\<rparr>],
                  seq_extraProduct := 3\<rparr>)"
proof -
  let ?cb = "projr (extra_request (stale_tier_form\<lparr>xf_error := None, xf_message := [], xf_extraPriceError := None\<rparr>))"
  have 1: "extra_request (stale_tier_form\<lparr>xf_error := None, xf_message := [], xf_extraPriceError := None\<rparr>) = Inr ?cb"
    by code_simp
  have 2: "server_extra_body ?cb = Some (the (server_extra_body ?cb))" by code_simp
  have 3: "eb_name (the (server_extra_body ?cb)) \<notin> xp_name ` set (db_extraProducts initDb)" by code_simp
  have 4: "\<exists>(t, _) \<in> set (eb_extraPrices (the (server_extra_body ?cb))). t \<notin> price_id ` set (db_prices initDb)"
    by code_simp
  have 5: "new_extra_product_row initDb (the (server_extra_body ?cb)) =
             \<lparr>xp_id = 3, xp_name = ''Zer'', xp_price = Fin 5, xp_measure = ''m'', xp_calculationType = ''a''\<rparr>"
    by code_simp
  have "xf_extraProductId stale_tier_form = None" by code_simp
  from extra_submit_stale_tier [OF this 1 2 3 4] 5 show ?thesis by (simp add: initDb_def)
qed

end
