(* ===== verification/SimpleEditors.thy ===== *)
theory SimpleEditors
  imports PriceRows CatalogRoutes
begin

text \<open>
  The two small editors of \<open>src/client/src/edit\<close>: \<open>PriceEditor.js\<close> (the name of a
  tier) and \<open>CustomerEditor.js\<close> (name, phone, address and default tier).  Each is a
  form loaded by an effect from the server (\<open>price_form_load\<close>,
  \<open>customer_form_load\<close>) and submitted by \<open>handleSubmit\<close> to \<open>POST\<close> or
  \<open>PUT\<close> (\<open>price_submit\<close>, \<open>customer_submit\<close>), composed with the routes of
  \<open>CatalogRoutes\<close>.  A \<open>PUT\<close> on a row that no longer exists answers \<open>null\<close>, which
  the editors take for a success.
\<close>

subsection \<open>\<open>PriceEditor.js\<close>\<close>

record price_form =
  prf_priceId :: "price_id option"
  prf_priceName :: string
  prf_error :: "string option"
  prf_message :: string

definition empty_price_form :: "price_id option \<Rightarrow> price_form" where
  "empty_price_form t = \<lparr>prf_priceId = t, prf_priceName = [], prf_error = None, prf_message = []\<rparr>"

definition msg_price_form_ready :: string where
  "msg_price_form_ready = ''Forma gotova dlya sozdaniya novoj ceny.''"

definition msg_price_loaded :: "price_id \<Rightarrow> string" where
  "msg_price_loaded t = ''Cena ID: '' @ digits_of_nat t @ '' zagruzhena dlya redaktirovaniya.''"

definition msg_price_load_failed :: "string \<Rightarrow> string" where
  "msg_price_load_failed err = ''Oshibka pri zagruzke ceny: '' @ err"

definition msg_price_name_empty :: string where
  "msg_price_name_empty = ''Nazvanie ceny ne mozhet byt pustym.''"

definition msg_price_updated :: string where
  "msg_price_updated = ''Cena uspeshno obnovlena!''"

definition msg_price_created :: string where
  "msg_price_created = ''Cena uspeshno sozdana!''"

definition msg_price_save_failed :: "string \<Rightarrow> string" where
  "msg_price_save_failed err = ''Oshibka pri sohranenii ceny: '' @ err"

text \<open>\<open>fetchPrice\<close>: a missing tier is \<open>null\<close> and \<open>response.data.name\<close> throws.\<close>

definition price_form_load :: "db \<Rightarrow> price_form \<Rightarrow> price_form" where
  "price_form_load d f =
     (case prf_priceId f of
        None \<Rightarrow> f\<lparr>prf_priceName := [], prf_message := msg_price_form_ready, prf_error := None\<rparr>
      | Some t \<Rightarrow>
          (case getPrice t d of
             None \<Rightarrow> f\<lparr>prf_error := Some (msg_price_load_failed (null_read_message ''name'')),
                       prf_message := [], prf_priceName := []\<rparr>
           | Some p \<Rightarrow> f\<lparr>prf_error := None, prf_priceName := price_name p, prf_message := msg_price_loaded t\<rparr>))"

definition price_submit :: "db \<Rightarrow> price_form \<Rightarrow> price_form \<times> db" where
  "price_submit d f =
     (let f0 = f\<lparr>prf_error := None, prf_message := []\<rparr>
      in if js_trim (prf_priceName f0) = [] then (f0\<lparr>prf_error := Some msg_price_name_empty\<rparr>, d)
         else case prf_priceId f0 of
           Some t \<Rightarrow>
             (case putPrice t (prf_priceName f0) d of
                (d', Inl _) \<Rightarrow> (f0\<lparr>prf_error := Some (msg_price_save_failed http_500_message)\<rparr>, d')
              | (d', Inr _) \<Rightarrow> (f0\<lparr>prf_message := msg_price_updated\<rparr>, d'))
         | None \<Rightarrow>
             (case postPrice (prf_priceName f0) d of
                (d', Inl _) \<Rightarrow> (f0\<lparr>prf_error := Some (msg_price_save_failed http_500_message)\<rparr>, d')
              | (d', Inr _) \<Rightarrow> (f0\<lparr>prf_message := msg_price_created, prf_priceName := []\<rparr>, d')))"

datatype price_editor_event = PSetName string | PSubmit

fun price_editor_handle :: "db \<Rightarrow> price_form \<Rightarrow> price_editor_event \<Rightarrow> price_form \<times> db" where
  "price_editor_handle d f (PSetName s) = (f\<lparr>prf_priceName := s\<rparr>, d)"
| "price_editor_handle d f PSubmit = price_submit d f"

subsection \<open>\<open>CustomerEditor.js\<close>\<close>

record customer_form =
  cf_customerId :: "entity_id option"
  cf_name :: string
  cf_phoneNumber :: string
  cf_address :: string
  cf_defaultPriceId :: string
  cf_availablePrices :: "price list"
  cf_error :: "string option"
  cf_message :: string

definition empty_customer_form :: "entity_id option \<Rightarrow> customer_form" where
  "empty_customer_form c =
     \<lparr>cf_customerId = c, cf_name = [], cf_phoneNumber = [], cf_address = [], cf_defaultPriceId = [],
      cf_availablePrices = [], cf_error = None, cf_message = []\<rparr>"

definition msg_customer_form_ready :: string where
  "msg_customer_form_ready = ''Forma gotova dlya sozdaniya novogo klienta.''"

definition msg_customer_loaded :: "entity_id \<Rightarrow> string" where
  "msg_customer_loaded c = ''Klient ID: '' @ digits_of_nat c @ '' zagruzhen dlya redaktirovaniya.''"

definition msg_customer_required :: string where
  "msg_customer_required = ''Polya \"Imya\", \"Telefon\" i \"Adres\" obyazatelny.''"

definition msg_customer_updated :: string where
  "msg_customer_updated = ''Klient uspeshno obnovlen!''"

definition msg_customer_created :: string where
  "msg_customer_created = ''Klient uspeshno sozdan!''"

definition msg_customer_save_failed :: "string \<Rightarrow> string" where
  "msg_customer_save_failed err = ''Oshibka pri sohranenii klienta: '' @ err"

definition clear_customer_form :: "customer_form \<Rightarrow> customer_form" where
  "clear_customer_form f = f\<lparr>cf_name := [], cf_phoneNumber := [], cf_address := [], cf_defaultPriceId := []\<rparr>"

text \<open>
  \<open>fetchData\<close>: the tiers, then the customer; its default tier is shown as
  \<open>defaultPriceId.toString()\<close> when truthy, \<open>''\<close> otherwise.
\<close>

definition customer_form_load :: "db \<Rightarrow> customer_form \<Rightarrow> customer_form" where
  "customer_form_load d f =
     (let f1 = f\<lparr>cf_error := None, cf_message := [], cf_availablePrices := getPrices [] d\<rparr>
      in case cf_customerId f of
           None \<Rightarrow> (clear_customer_form f1)\<lparr>cf_message := msg_customer_form_ready\<rparr>
         | Some c \<Rightarrow>
             (case getCustomer c d of
                None \<Rightarrow> (clear_customer_form f1)\<lparr>cf_error := Some (msg_load_failed (null_read_message ''name''))\<rparr>
              | Some r \<Rightarrow>
                  f1\<lparr>cf_name := customer_name r, cf_phoneNumber := phoneNumber r, cf_address := address r,
                     cf_defaultPriceId := (case defaultPriceId r of
                                             Some t \<Rightarrow> if t \<noteq> 0 then number_to_string (Fin (of_nat t)) else []
                                           | None \<Rightarrow> []),
                     cf_message := msg_customer_loaded c\<rparr>))"

text \<open>
  \<open>customerData\<close> as the server reads it: \<open>defaultPriceId === '' ? null : parseInt(...)\<close>,
  where \<open>NaN\<close> travels as \<open>null\<close>; \<open>None\<close> when the id is outside the model (a
  negative number).
\<close>

definition customer_request :: "customer_form \<Rightarrow> (string + customer_body) option" where
  "customer_request f =
     (if js_trim (cf_name f) = [] \<or> js_trim (cf_phoneNumber f) = [] \<or> js_trim (cf_address f) = []
      then Some (Inl msg_customer_required)
      else let t = (if cf_defaultPriceId f = [] then NaN else parse_int (cf_defaultPriceId f))
           in if t \<noteq> NaN \<and> nat_of_jsnum t = None then None
              else Some (Inr \<lparr>cb_name = cf_name f, cb_phoneNumber = cf_phoneNumber f, cb_address = cf_address f,
                              cb_defaultPriceId = nat_of_jsnum t\<rparr>))"

definition customer_submit :: "db \<Rightarrow> customer_form \<Rightarrow> (customer_form \<times> db) option" where
  "customer_submit d f =
     (let f0 = f\<lparr>cf_error := None, cf_message := []\<rparr>
      in case customer_request f0 of
        None \<Rightarrow> None
      | Some (Inl m) \<Rightarrow> Some (f0\<lparr>cf_error := Some m\<rparr>, d)
      | Some (Inr b) \<Rightarrow>
          (case cf_customerId f0 of
             Some c \<Rightarrow>
               (case putCustomer c b d of
                  (d', Inl _) \<Rightarrow> Some (f0\<lparr>cf_error := Some (msg_customer_save_failed http_500_message)\<rparr>, d')
                | (d', Inr _) \<Rightarrow> Some (f0\<lparr>cf_message := msg_customer_updated\<rparr>, d'))
           | None \<Rightarrow>
               (case postCustomer b d of
                  (d', Inl _) \<Rightarrow> Some (f0\<lparr>cf_error := Some (msg_customer_save_failed http_500_message)\<rparr>, d')
                | (d', Inr _) \<Rightarrow> Some ((clear_customer_form f0)\<lparr>cf_message := msg_customer_created\<rparr>, d'))))"

datatype customer_editor_event =
    CSetName string | CSetPhoneNumber string | CSetAddress string | CSetDefaultPriceId string | CSubmit

fun customer_editor_handle ::
  "db \<Rightarrow> customer_form \<Rightarrow> customer_editor_event \<Rightarrow> (customer_form \<times> db) option" where
  "customer_editor_handle d f (CSetName s) = Some (f\<lparr>cf_name := s\<rparr>, d)"
| "customer_editor_handle d f (CSetPhoneNumber s) = Some (f\<lparr>cf_phoneNumber := s\<rparr>, d)"
| "customer_editor_handle d f (CSetAddress s) = Some (f\<lparr>cf_address := s\<rparr>, d)"
| "customer_editor_handle d f (CSetDefaultPriceId s) = Some (f\<lparr>cf_defaultPriceId := s\<rparr>, d)"
| "customer_editor_handle d f CSubmit = customer_submit d f"



subsection \<open>Properties\<close>

text \<open>
  C29. Saving a customer that was deleted since the editor loaded it reports success:
  \<open>PUT /api/customers/:id\<close> updates no row and answers \<open>null\<close>, the editor shows
  "updated" and the database is unchanged.
\<close>

theorem customer_submit_deleted:
  assumes "cf_customerId f = Some c" "c \<notin> customer_id ` set (db_customers d)"
    and "customer_request (f\<lparr>cf_error := None, cf_message := []\<rparr>) = Some (Inr b)"
  shows "customer_submit d f = Some (f\<lparr>cf_error := None, cf_message := msg_customer_updated\<rparr>, d)"
proof -
  from assms(2) have "putCustomer c b d = (d, Inr None)" by (auto simp: putCustomer_def)
  with assms(1,3) show ?thesis by (simp add: customer_submit_def)
qed

theorem customer_submit_deleted_witness:
  "customer_submit initDb ((customer_form_load initDb (empty_customer_form (Some 3)))\<lparr>cf_customerId := Some 9\<rparr>) =
     Some (((customer_form_load initDb (empty_customer_form (Some 3)))\<lparr>cf_customerId := Some 9\<rparr>)
             \<lparr>cf_error := None, cf_message := msg_customer_updated\<rparr>, initDb)"
proof -
  let ?f = "(customer_form_load initDb (empty_customer_form (Some 3)))\<lparr>cf_customerId := Some 9\<rparr>"
  have 1: "cf_customerId ?f = Some 9" by simp
  have 2: "(9::nat) \<notin> customer_id ` set (db_customers initDb)" by code_simp
  have 3: "customer_request (?f\<lparr>cf_error := None, cf_message := []\<rparr>) =
             Some (Inr (projr (the (customer_request (?f\<lparr>cf_error := None, cf_message := []\<rparr>)))))"
    by code_simp
  from customer_submit_deleted [OF 1 2 3] show ?thesis .
qed

text \<open>
  Opening a tier in the price editor and saving it unchanged is a round trip: the
  editor reports the update and the database is the one before, when tier ids and names
  are unique as the schema makes them.
\<close>

theorem price_editor_roundtrip:
  assumes "getPrice t d = Some p" "js_trim (price_name p) \<noteq> []"
    and "distinct (map price_id (db_prices d))" "distinct (map price_name (db_prices d))"
  shows "price_submit d (price_form_load d (empty_price_form (Some t))) =
           ((price_form_load d (empty_price_form (Some t)))\<lparr>prf_error := None, prf_message := msg_price_updated\<rparr>, d)"
proof -
  from assms(1) have p: "p \<in> set (db_prices d)" "price_id p = t"
    by (auto simp: getPrice_def dest: find_Some_iff [THEN iffD1] simp: find_Some_iff)
  have same: "r \<in> set (db_prices d) \<Longrightarrow> price_id r = t \<Longrightarrow> r = p" for r
    using assms(3) p by (metis distinct_map inj_onD)
  have nodup: "\<not> (\<exists>r \<in> set (db_prices d). price_name r = price_name p \<and> price_id r \<noteq> t)"
    using assms(4) p by (metis distinct_map inj_onD)
  have upd: "update_where (\<lambda>r. price_id r = t) (\<lambda>r. r\<lparr>price_name := price_name p\<rparr>) (db_prices d) = db_prices d"
    by (rule update_where_same) (metis same price.select_convs(2) price.surjective price.update_convs(2))
  have "putPrice t (price_name p) d = (d, Inr (getPrice t d))"
    using nodup upd by (simp add: putPrice_def getPrice_def)
  with assms(1,2) show ?thesis
    by (simp add: price_submit_def price_form_load_def empty_price_form_def)
qed

theorem price_editor_roundtrip_witness:
  "price_submit initDb (price_form_load initDb (empty_price_form (Some 2))) =
     ((price_form_load initDb (empty_price_form (Some 2)))\<lparr>prf_error := None, prf_message := msg_price_updated\<rparr>, initDb)"
proof -
  have 1: "getPrice 2 initDb = Some seed_price_adaty" by code_simp
  have "js_trim (price_name seed_price_adaty) \<noteq> []" "distinct (map price_id (db_prices initDb))"
    "distinct (map price_name (db_prices initDb))" by code_simp+
  from price_editor_roundtrip [OF 1 this] show ?thesis .
qed

end
