(* ===== verification/JsDate.thy ===== *)
theory JsDate
  imports ParseFloat
begin

text \<open>
  The language's \<open>Date\<close> as the report pages use it (ECMA-262, 21.4): a time value is
  an integer number of milliseconds since the epoch in UTC; local time is UTC plus the
  local time zone offset \<open>tz\<close> in minutes, a constant here (a zone without daylight
  saving time, as the application's UTC+5).  Days are numbered from the epoch and
  converted from and to the proleptic Gregorian calendar (\<open>days_from_civil\<close>,
  \<open>civil_from_days\<close>, months 1 to 12); the getters and setters work on local time,
  \<open>toISOString\<close> on UTC.  Months as arguments of the language are 0 to 11 and
  overflow into the next or the previous year.
\<close>

definition ms_per_day :: int where
  "ms_per_day = 86400000"

text \<open>Days since 1970-01-01 of a civil date (year, month 1..12, day).\<close>

definition days_from_civil :: "int \<Rightarrow> int \<Rightarrow> int \<Rightarrow> int" where
  "days_from_civil y m d =
     (let y' = (if m \<le> 2 then y - 1 else y);
          era = y' div 400;
          yoe = y' - era * 400;
          doy = (153 * (if 2 < m then m - 3 else m + 9) + 2) div 5 + d - 1;
          doe = yoe * 365 + yoe div 4 - yoe div 100 + doy
      in era * 146097 + doe - 719468)"

definition civil_from_days :: "int \<Rightarrow> int \<times> int \<times> int" where
  "civil_from_days z =
     (let z' = z + 719468;
          era = z' div 146097;
          doe = z' - era * 146097;
          yoe = (doe - doe div 1460 + doe div 36524 - doe div 146096) div 365;
          doy = doe - (365 * yoe + yoe div 4 - yoe div 100);
          mp = (5 * doy + 2) div 153;
          d = doy - (153 * mp + 2) div 5 + 1;
          m = (if mp < 10 then mp + 3 else mp - 9)
      in (yoe + era * 400 + (if m \<le> 2 then 1 else 0), m, d))"

text \<open>\<open>MakeDay(year, month, date)\<close> with a month 0..11 that may overflow.\<close>

definition make_day :: "int \<Rightarrow> int \<Rightarrow> int \<Rightarrow> int" where
  "make_day y m d = days_from_civil (y + m div 12) (m mod 12 + 1) 1 + d - 1"

definition local_time :: "int \<Rightarrow> int \<Rightarrow> int" where
  "local_time tz t = t + tz * 60000"

definition utc_of_local :: "int \<Rightarrow> int \<Rightarrow> int" where
  "utc_of_local tz l = l - tz * 60000"

text \<open>\<open>new Date(y, m, d)\<close>: local midnight of that day.\<close>

definition date_of_ymd :: "int \<Rightarrow> int \<Rightarrow> int \<Rightarrow> int \<Rightarrow> int" where
  "date_of_ymd tz y m d = utc_of_local tz (make_day y m d * ms_per_day)"

text \<open>\<open>d.setHours(h, mi, s, ms)\<close>.\<close>

definition set_hours :: "int \<Rightarrow> int \<Rightarrow> int \<Rightarrow> int \<Rightarrow> int \<Rightarrow> int \<Rightarrow> int" where
  "set_hours tz h mi s ms t =
     utc_of_local tz (local_time tz t div ms_per_day * ms_per_day + h * 3600000 + mi * 60000 + s * 1000 + ms)"

text \<open>The local year, month (0..11) and day of the month: \<open>getFullYear\<close>, \<open>getMonth\<close>, \<open>getDate\<close>.\<close>

definition local_ymd :: "int \<Rightarrow> int \<Rightarrow> int \<times> int \<times> int" where
  "local_ymd tz t = (case civil_from_days (local_time tz t div ms_per_day) of (y, m, d) \<Rightarrow> (y, m - 1, d))"

text \<open>\<open>d.setDate(n)\<close>: the same local month and time of day, day \<open>n\<close>.\<close>

definition set_date :: "int \<Rightarrow> int \<Rightarrow> int \<Rightarrow> int" where
  "set_date tz n t =
     (case local_ymd tz t of (y, m, _) \<Rightarrow>
        utc_of_local tz (make_day y m n * ms_per_day + local_time tz t mod ms_per_day))"

text \<open>
  \<open>d.toISOString().slice(0, 10)\<close>: the UTC date as \<open>YYYY-MM-DD\<close>; a year outside 0 to
  9999 is written with its sign and six digits (ECMA-262, 21.4.1.32), so the slice
  then ends in the month.  (The \<open>RangeError\<close> of a time value beyond
  \<open>8.64 * 10^15\<close> ms, which no clock reaches, is not modelled.)
\<close>

definition pad_digits :: "nat \<Rightarrow> nat \<Rightarrow> string" where
  "pad_digits w n = (let s = digits_of_nat n in replicate (w - length s) (CHR ''0'') @ s)"

definition iso_year :: "int \<Rightarrow> string" where
  "iso_year y =
     (if 0 \<le> y \<and> y \<le> 9999 then pad_digits 4 (nat y)
      else (if y < 0 then ''-'' else ''+'') @ pad_digits 6 (nat \<bar>y\<bar>))"

definition iso_date :: "int \<Rightarrow> string" where
  "iso_date t =
     (case civil_from_days (t div ms_per_day) of (y, m, d) \<Rightarrow>
        take 10 (iso_year y @ ''-'' @ pad_digits 2 (nat m) @ ''-'' @ pad_digits 2 (nat d)))"

definition day_string :: "int \<Rightarrow> string" where
  "day_string z = iso_date (z * ms_per_day)"

subsection \<open>The Gregorian calendar\<close>

text \<open>
  Leap years and month lengths, and the quantities \<open>civil_from_days\<close> computes within
  an era of 400 years (146097 days): \<open>yoe_of\<close> is its year of the era (years starting
  on March 1) of a day of the era, \<open>year_start\<close> the first day of a year of the era and
  \<open>year_end\<close> its last day, \<open>doe_index\<close> the numerator of \<open>yoe_of\<close>.  A date string
  \<open>YYYY-MM-DD\<close> is \<open>ymd_string\<close>; \<open>valid_ymd\<close> says it names a day of the calendar.
\<close>

definition leap_year :: "int \<Rightarrow> bool" where
  "leap_year y \<longleftrightarrow> y mod 4 = 0 \<and> (y mod 100 \<noteq> 0 \<or> y mod 400 = 0)"

definition days_in_month :: "int \<Rightarrow> int \<Rightarrow> int" where
  "days_in_month y m =
     (if m = 2 then (if leap_year y then 29 else 28)
      else if m \<in> {4, 6, 9, 11} then 30 else 31)"

definition yoe_of :: "int \<Rightarrow> int" where
  "yoe_of doe = (doe - doe div 1460 + doe div 36524 - doe div 146096) div 365"

definition year_start :: "int \<Rightarrow> int" where
  "year_start y = 365 * y + y div 4 - y div 100"

definition year_end :: "int \<Rightarrow> int" where
  "year_end y = (if y = 399 then 146096 else year_start (y + 1) - 1)"

definition doe_index :: "int \<Rightarrow> int" where
  "doe_index doe = doe - doe div 1460 + doe div 36524 - doe div 146096"

definition ymd_string :: "int \<Rightarrow> int \<Rightarrow> int \<Rightarrow> string" where
  "ymd_string y m d = take 10 (iso_year y @ ''-'' @ pad_digits 2 (nat m) @ ''-'' @ pad_digits 2 (nat d))"

definition valid_ymd :: "int \<Rightarrow> int \<Rightarrow> int \<Rightarrow> bool" where
  "valid_ymd y m d \<longleftrightarrow> 1 \<le> m \<and> m \<le> 12 \<and> 1 \<le> d \<and> d \<le> days_in_month y m"

subsection \<open>Day numbers of local times\<close>

lemma iso_date_day: "iso_date t = day_string (t div ms_per_day)"
  by (simp add: iso_date_def day_string_def ms_per_day_def)

lemma day_string_not_Nil [simp]: "day_string z \<noteq> []"
  by (simp add: day_string_def iso_date_def split: prod.split)

lemma div_day_shift:
  assumes "0 \<le> r" "r < ms_per_day"
  shows "(z * ms_per_day + r) div ms_per_day = z"
  using assms by (simp add: ms_per_day_def)

text \<open>
  East of Greenwich (\<open>0 < tz < 1440\<close>) local midnight of local day \<open>z\<close> lies on UTC
  day \<open>z - 1\<close>; the end of the local day lies on UTC day \<open>z\<close>.
\<close>

lemma iso_local_midnight:
  assumes "0 < tz" "tz < 1440"
  shows "iso_date (utc_of_local tz (z * ms_per_day)) = day_string (z - 1)"
proof -
  have e: "z * ms_per_day - tz * 60000 = (z - 1) * ms_per_day + (ms_per_day - tz * 60000)"
    by (simp add: algebra_simps)
  have "0 \<le> ms_per_day - tz * 60000" "ms_per_day - tz * 60000 < ms_per_day"
    using assms by (simp_all add: ms_per_day_def)
  then have "(z * ms_per_day - tz * 60000) div ms_per_day = z - 1"
    unfolding e by (rule div_day_shift)
  then show ?thesis
    by (simp add: iso_date_day utc_of_local_def)
qed

lemma iso_local_end_of_day:
  assumes "0 \<le> tz" "tz < 1440"
  shows "iso_date (utc_of_local tz (z * ms_per_day + 86399999)) = day_string z"
proof -
  have e: "z * ms_per_day + 86399999 - tz * 60000 = z * ms_per_day + (86399999 - tz * 60000)"
    by simp
  have "0 \<le> 86399999 - tz * 60000" "86399999 - tz * 60000 < ms_per_day"
    using assms by (simp_all add: ms_per_day_def)
  then have "(z * ms_per_day + 86399999 - tz * 60000) div ms_per_day = z"
    unfolding e by (rule div_day_shift)
  then show ?thesis
    by (simp add: iso_date_day utc_of_local_def)
qed

subsection \<open>Dates of \<open>civil_from_days\<close>\<close>

text \<open>
  Every day number is converted to a day of the calendar: the month is 1 to 12 and
  the day lies within the month, February 29 only in leap years.  The proof bounds
  the day of the year \<open>doy\<close> by 365 (364 outside leap years) through the monotonicity
  of \<open>doe_index\<close> and its values at the first days of the 400 years of an era, and
  then the month and day by the 366 possible \<open>doy\<close>.
\<close>

lemma div_bounds:
  fixes x k :: int
  assumes "0 < k"
  shows "k * (x div k) \<le> x" "x < k * (x div k) + k"
  using minus_mod_eq_mult_div [of x k] pos_mod_sign [OF assms, of x] pos_mod_bound [OF assms, of x]
  by linarith+

lemma sub_div_mono:
  fixes x y k :: int
  assumes "x \<le> y" "0 < k"
  shows "x - x div k \<le> y - y div k"
proof -
  define a b where "a = x div k" and "b = y div k"
  have y: "k * b \<le> y" and x: "x < k * a + k"
    using div_bounds [OF assms(2)] by (simp_all add: a_def b_def)
  have "b - a \<le> y - x"
  proof (cases "a < b")
    case True
    then have "b - a - 1 \<le> (b - a - 1) * k" using assms(2) by (simp add: mult_le_cancel_left1)
    moreover have "(b - a - 1) * k = k * b - k * a - k" by (simp add: algebra_simps)
    ultimately show ?thesis using x y by linarith
  qed (use assms in simp)
  then show ?thesis by (simp add: a_def b_def)
qed

lemma doe_index_mono:
  assumes "a \<le> b"
  shows "doe_index a \<le> doe_index b"
proof -
  have q: "n div 146096 = n div 36524 div 4" for n :: int
    using zdiv_zmult2_eq [of 4 n 36524] by simp
  have "a div 36524 - a div 36524 div 4 \<le> b div 36524 - b div 36524 div 4"
    by (rule sub_div_mono) (simp_all add: assms zdiv_mono1)
  moreover have "a - a div 1460 \<le> b - b div 1460"
    by (rule sub_div_mono) (simp_all add: assms)
  ultimately show ?thesis by (simp add: doe_index_def q)
qed

lemma year_table:
  "\<forall>y\<in>{0..399::int}. doe_index (year_start y) = 365 * y \<and> doe_index (year_end y) < 365 * y + 365 \<and>
     year_end y - year_start y = (if leap_year (y + 1) then 365 else 364)"
  by code_simp

lemma year_end_start: "0 < y \<Longrightarrow> y \<le> 399 \<Longrightarrow> year_end (y - 1) = year_start y - 1"
  by (simp add: year_end_def year_start_def)

lemma doy_bounds:
  assumes "0 \<le> doe" "doe \<le> 146096"
  shows "0 \<le> yoe_of doe \<and> yoe_of doe \<le> 399 \<and>
         year_start (yoe_of doe) \<le> doe \<and> doe \<le> year_end (yoe_of doe)"
proof -
  define y where "y = yoe_of doe"
  have y_div: "y = doe_index doe div 365" by (simp add: y_def yoe_of_def doe_index_def)
  have "doe_index 0 \<le> doe_index doe" "doe_index doe \<le> doe_index 146096"
    using assms by (simp_all add: doe_index_mono)
  moreover have "doe_index 0 = 0" "doe_index 146096 = 145999" by (simp_all add: doe_index_def)
  ultimately have x: "0 \<le> doe_index doe" "doe_index doe \<le> 145999" by simp_all
  have yb: "365 * y \<le> doe_index doe" "doe_index doe < 365 * y + 365"
    using div_bounds [of 365 "doe_index doe"] by (simp_all add: y_div)
  have y0: "0 \<le> y" using x(1) by (simp add: y_div)
  have y399: "y \<le> 399" using zdiv_mono1 [OF x(2), of 365] by (simp add: y_div)
  have tab: "doe_index (year_start y) = 365 * y" "doe_index (year_end y) < 365 * y + 365"
    using bspec [OF year_table, of y] y0 y399 by simp_all
  have lo: "year_start y \<le> doe"
  proof (rule ccontr)
    assume "\<not> year_start y \<le> doe"
    then have "0 < y" using assms by (cases "y = 0") (simp_all add: year_start_def)
    then have "doe \<le> year_end (y - 1)" using \<open>\<not> year_start y \<le> doe\<close> y399 by (simp add: year_end_start)
    then have "doe_index doe \<le> doe_index (year_end (y - 1))" by (rule doe_index_mono)
    also have "\<dots> < 365 * (y - 1) + 365" using bspec [OF year_table, of "y - 1"] \<open>0 < y\<close> y399 by simp
    finally have "doe_index doe < 365 * y" by simp
    then show False using yb by linarith
  qed
  have hi: "doe \<le> year_end y"
  proof (rule ccontr)
    assume "\<not> doe \<le> year_end y"
    then have "y \<noteq> 399" using assms by (auto simp: year_end_def)
    then have "year_start (y + 1) \<le> doe" using \<open>\<not> doe \<le> year_end y\<close> by (simp add: year_end_def)
    then have "doe_index (year_start (y + 1)) \<le> doe_index doe" by (rule doe_index_mono)
    moreover have "doe_index (year_start (y + 1)) = 365 * y + 365"
      using bspec [OF year_table, of "y + 1"] y0 y399 \<open>y \<noteq> 399\<close> by (simp add: distrib_left)
    ultimately show False using yb by linarith
  qed
  show ?thesis using y0 y399 lo hi by (simp add: y_def)
qed

lemma leap_year_era: "leap_year (x + era * 400) = leap_year x"
proof -
  have "(x + era * 400) mod 4 = x mod 4" using mod_mult_self1 [of x "era * 100" 4] by (simp add: mult.assoc)
  moreover have "(x + era * 400) mod 100 = x mod 100" using mod_mult_self1 [of x "era * 4" 100] by (simp add: mult.assoc)
  moreover have "(x + era * 400) mod 400 = x mod 400" by simp
  ultimately show ?thesis by (simp add: leap_year_def)
qed

lemma month_day_table:
  "\<forall>doy\<in>{0..365::int}. let mp = (5 * doy + 2) div 153; d = doy - (153 * mp + 2) div 5 + 1 in
     0 \<le> mp \<and> mp \<le> 11 \<and> 1 \<le> d \<and>
     d \<le> (if mp = 11 then doy - 336 else days_in_month 0 (if mp < 10 then mp + 3 else mp - 9))"
  by code_simp

lemma civil_from_days_valid:
  assumes "civil_from_days z = (y, m, d)"
  shows "1 \<le> m \<and> m \<le> 12 \<and> 1 \<le> d \<and> d \<le> days_in_month y m"
proof -
  define era where "era = (z + 719468) div 146097"
  define doe where "doe = z + 719468 - era * 146097"
  have doe_mod: "doe = (z + 719468) mod 146097"
    using minus_mod_eq_mult_div [of "z + 719468" 146097] by (simp add: doe_def era_def algebra_simps)
  then have "0 \<le> doe" "doe \<le> 146096" by simp_all
  define yoe where "yoe = yoe_of doe"
  define doy where "doy = doe - year_start yoe"
  have yb: "0 \<le> yoe" "yoe \<le> 399" "year_start yoe \<le> doe" "doe \<le> year_end yoe"
    using doy_bounds [OF \<open>0 \<le> doe\<close> \<open>doe \<le> 146096\<close>] by (simp_all add: yoe_def)
  have len: "year_end yoe - year_start yoe = (if leap_year (yoe + 1) then 365 else 364)"
    using bspec [OF year_table, of yoe] yb(1,2) by simp
  have doy: "0 \<le> doy" "doy \<le> 365" "doy \<le> (if leap_year (yoe + 1) then 365 else 364)"
    using yb len by (simp_all add: doy_def split: if_splits)
  define mp where "mp = (5 * doy + 2) div 153"
  have tab: "0 \<le> mp \<and> mp \<le> 11 \<and> 1 \<le> doy - (153 * mp + 2) div 5 + 1 \<and>
     doy - (153 * mp + 2) div 5 + 1 \<le> (if mp = 11 then doy - 336 else days_in_month 0 (if mp < 10 then mp + 3 else mp - 9))"
    using bspec [OF month_day_table, of doy] doy(1,2) by (simp only: atLeastAtMost_iff Let_def mp_def [symmetric] simp_thms)
  have civ: "civil_from_days z =
     (yoe + era * 400 + (if (if mp < 10 then mp + 3 else mp - 9) \<le> 2 then 1 else 0),
      (if mp < 10 then mp + 3 else mp - 9), doy - (153 * mp + 2) div 5 + 1)"
    unfolding civil_from_days_def Let_def era_def [symmetric] doe_def [symmetric] yoe_of_def [symmetric]
      yoe_def [symmetric] year_start_def [symmetric] doy_def [symmetric] mp_def [symmetric] ..
  have leap: "leap_year (yoe + era * 400 + 1) = leap_year (yoe + 1)"
    using leap_year_era [of "yoe + 1" era] by (simp add: algebra_simps)
  show ?thesis
  proof (cases "mp = 11")
    case True
    then show ?thesis using assms civ tab doy(3) leap by (auto simp: days_in_month_def split: if_splits)
  next
    case False
    then show ?thesis using assms civ tab by (auto simp: days_in_month_def split: if_splits)
  qed
qed

lemma iso_date_valid:
  "\<exists>y m d. iso_date t = ymd_string y m d \<and> valid_ymd y m d"
proof -
  obtain y m d where c: "civil_from_days (t div ms_per_day) = (y, m, d)" by (metis prod_cases3)
  then have "valid_ymd y m d" by (simp add: valid_ymd_def civil_from_days_valid)
  then show ?thesis using c by (auto simp: iso_date_def ymd_string_def)
qed

end
