(* ===== verification/ReportPages.thy ===== *)
theory ReportPages
  imports JsDate Reports FormValues
begin

text \<open>
  What the four report pages under \<open>src/client/src/pages/reports\<close> share.  Each page
  starts with the same helpers for the quick date ranges (\<open>getTodayRange\<close> to
  \<open>getQuarterRange\<close>, lines 11 to 80 of \<open>invoice/InvoiceReports.js\<close>, copied verbatim into
  the three other pages) and dispatches on the quick-select value in
  \<open>handleQuickDateSelect\<close>.  The clock and the time zone are parameters: \<open>now\<close> is the
  time value of \<open>new Date()\<close> (one value for the several calls of one handler) and
  \<open>tz\<close> the local offset in minutes.

  Each page fetches its report with \<open>fetchReport\<close>, called by a \<open>useEffect\<close> whenever a
  filter changes and by the refresh button.  The requests are asynchronous: a page may
  have several requests in flight, and their answers arrive in any order.  The
  generic \<open>report_view\<close> below is that part of every page's state, with the filters
  \<open>'f\<close>, the rows \<open>'r\<close> and the requests in flight, each with the answer the server
  gives to it (\<open>None\<close>: the request failed).  \<open>Number.prototype.toFixed(2)\<close> prints
  the totals.
\<close>

type_synonym date_range = "string \<times> string"

subsection \<open>Quick date ranges\<close>

definition end_of_day :: "int \<Rightarrow> int \<Rightarrow> int" where
  "end_of_day tz t = set_hours tz 23 59 59 999 t"

definition start_of_day :: "int \<Rightarrow> int \<Rightarrow> int" where
  "start_of_day tz t = set_hours tz 0 0 0 0 t"

definition range_of :: "int \<Rightarrow> int \<Rightarrow> date_range" where
  "range_of s e = (iso_date s, iso_date e)"

definition getTodayRange :: "int \<Rightarrow> int \<Rightarrow> date_range" where
  "getTodayRange tz now = range_of (start_of_day tz now) (end_of_day tz now)"

definition local_date :: "int \<Rightarrow> int \<Rightarrow> int" where
  "local_date tz t = snd (snd (local_ymd tz t))"

definition getYesterdayRange :: "int \<Rightarrow> int \<Rightarrow> date_range" where
  "getYesterdayRange tz now =
     (let yesterday = start_of_day tz (set_date tz (local_date tz now - 1) now)
      in range_of yesterday (end_of_day tz yesterday))"

definition getLast7DaysRange :: "int \<Rightarrow> int \<Rightarrow> date_range" where
  "getLast7DaysRange tz now =
     range_of (start_of_day tz (set_date tz (local_date tz now - 6) now)) (end_of_day tz now)"

definition getThisMonthRange :: "int \<Rightarrow> int \<Rightarrow> date_range" where
  "getThisMonthRange tz now =
     (case local_ymd tz now of (y, m, _) \<Rightarrow>
        range_of (date_of_ymd tz y m 1) (end_of_day tz (date_of_ymd tz y (m + 1) 0)))"

definition getLastMonthRange :: "int \<Rightarrow> int \<Rightarrow> date_range" where
  "getLastMonthRange tz now =
     (case local_ymd tz now of (y, m, _) \<Rightarrow>
        range_of (date_of_ymd tz y (m - 1) 1) (end_of_day tz (date_of_ymd tz y m 0)))"

definition getThisYearRange :: "int \<Rightarrow> int \<Rightarrow> date_range" where
  "getThisYearRange tz now =
     (case local_ymd tz now of (y, _, _) \<Rightarrow>
        range_of (date_of_ymd tz y 0 1) (end_of_day tz (date_of_ymd tz y 11 31)))"

definition getQuarterRange :: "int \<Rightarrow> int \<Rightarrow> int \<Rightarrow> date_range" where
  "getQuarterRange tz now q =
     (case local_ymd tz now of (year, _, _) \<Rightarrow>
        if q \<in> {1, 2, 3, 4}
        then (let startMonth = 3 * (q - 1); endMonth = startMonth + 2
              in range_of (date_of_ymd tz year startMonth 1)
                   (end_of_day tz (date_of_ymd tz year (endMonth + 1) 0)))
        else ('''', ''''))"

text \<open>The \<open>switch\<close> of \<open>handleQuickDateSelect\<close> on \<open>e.target.value\<close>.\<close>

definition quick_range :: "int \<Rightarrow> int \<Rightarrow> string \<Rightarrow> date_range" where
  "quick_range tz now period =
     (if period = ''today'' then getTodayRange tz now
      else if period = ''yesterday'' then getYesterdayRange tz now
      else if period = ''last7days'' then getLast7DaysRange tz now
      else if period = ''thisMonth'' then getThisMonthRange tz now
      else if period = ''lastMonth'' then getLastMonthRange tz now
      else if period = ''thisYear'' then getThisYearRange tz now
      else if period = ''q1'' then getQuarterRange tz now 1
      else if period = ''q2'' then getQuarterRange tz now 2
      else if period = ''q3'' then getQuarterRange tz now 3
      else if period = ''q4'' then getQuarterRange tz now 4
      else ('''', ''''))"

subsection \<open>\<open>toFixed(2)\<close>\<close>

text \<open>
  \<open>x.toFixed(2)\<close> (ECMA-262, 21.1.3.3): \<open>NaN\<close> and values of magnitude at least
  \<open>10^21\<close> print as \<open>String(x)\<close>; otherwise the sign, then the integer \<open>n\<close> nearest to
  \<open>100 |x|\<close> (the larger one on a tie) with two digits after the point.
\<close>

definition fixed2_digits :: "nat \<Rightarrow> string" where
  "fixed2_digits n =
     (let m = pad_digits 3 n; k = length m in take (k - 2) m @ ''.'' @ drop (k - 2) m)"

definition to_fixed2 :: "jsnum \<Rightarrow> string" where
  "to_fixed2 x =
     (case x of
        Fin q \<Rightarrow> if 10 ^ 21 \<le> \<bar>q\<bar> then number_to_string x
                 else (if q < 0 then ''-'' else '''') @ fixed2_digits (nat \<lfloor>\<bar>q\<bar> * 100 + 1 / 2\<rfloor>)
      | _ \<Rightarrow> number_to_string x)"

subsection \<open>Fetching a report\<close>

record ('f, 'a) report_view =
  rv_filters :: 'f
  rv_reportData :: 'a
  rv_loading :: bool
  rv_error :: "string option"
  rv_total :: jsnum
  rv_pending :: "('f \<times> 'a option) list"

definition report_view_init :: "'f \<Rightarrow> 'a \<Rightarrow> ('f, 'a) report_view" where
  "report_view_init f x =
     \<lparr>rv_filters = f, rv_reportData = x, rv_loading = False, rv_error = None, rv_total = 0,
      rv_pending = []\<rparr>"

text \<open>
  The first half of \<open>fetchReport\<close>: \<open>setLoading(true)\<close>, \<open>setError(null)\<close>, and the
  request with the current filters.  The server answers it from the database at hand
  (\<open>query\<close>).
\<close>

definition report_issue ::
  "('f \<Rightarrow> 'a option) \<Rightarrow> ('f, 'a) report_view \<Rightarrow> ('f, 'a) report_view" where
  "report_issue query v =
     v\<lparr>rv_loading := True, rv_error := None,
       rv_pending := rv_pending v @ [(rv_filters v, query (rv_filters v))]\<rparr>"

text \<open>
  The second half, when the answer of the \<open>i\<close>-th request in flight arrives:
  \<open>setReportData(res.data)\<close> and the total, or the error message of the catch; and
  \<open>setLoading(false)\<close> in \<open>finally\<close>.
\<close>

definition report_respond ::
  "('a \<Rightarrow> jsnum) \<Rightarrow> nat \<Rightarrow> ('f, 'a) report_view \<Rightarrow> ('f, 'a) report_view" where
  "report_respond totalOf i v =
     (if i < length (rv_pending v)
      then (let v' = v\<lparr>rv_pending := remove_at i (rv_pending v), rv_loading := False\<rparr>
            in case snd (rv_pending v ! i) of
                 Some rows \<Rightarrow> v'\<lparr>rv_reportData := rows, rv_total := totalOf rows\<rparr>
               | None \<Rightarrow> v'\<lparr>rv_error := Some http_500_message\<rparr>)
      else v)"

text \<open>
  A filter changes: \<open>setX(e.target.value)\<close>.  React re-renders and runs the effect
  on \<open>[startDate, endDate, ...]\<close> only when a value differs from the one before, and
  the effect fetches the report.
\<close>

definition report_set_filters ::
  "('f \<Rightarrow> 'a option) \<Rightarrow> 'f \<Rightarrow> ('f, 'a) report_view \<Rightarrow> ('f, 'a) report_view" where
  "report_set_filters query f v = (if f = rv_filters v then v else report_issue query (v\<lparr>rv_filters := f\<rparr>))"

text \<open>
  The view agrees with its filters: it shows the rows and the total the server gives
  for them, or the error when the server fails for them.  (A success does not clear the
  message of a failure that arrived before it: only \<open>fetchReport\<close> clears it.)
\<close>

definition report_consistent ::
  "('f \<Rightarrow> 'a option) \<Rightarrow> ('a \<Rightarrow> jsnum) \<Rightarrow> ('f, 'a) report_view \<Rightarrow> bool" where
  "report_consistent query totalOf v \<longleftrightarrow>
     (case query (rv_filters v) of
        Some rows \<Rightarrow> rv_reportData v = rows \<and> rv_total v = totalOf rows
      | None \<Rightarrow> rv_error v = Some http_500_message)"

text \<open>
  The invariant of a page whose answers arrive in the order of the requests: every
  request in flight carries the server's answer to its filters; the last one was sent
  with the current filters; with none in flight the view agrees with its filters.
\<close>

definition report_wf ::
  "('f \<Rightarrow> 'a option) \<Rightarrow> ('a \<Rightarrow> jsnum) \<Rightarrow> ('f, 'a) report_view \<Rightarrow> bool" where
  "report_wf query totalOf v \<longleftrightarrow>
     list_all (\<lambda>(f, a). a = query f) (rv_pending v) \<and>
     (if rv_pending v = [] then report_consistent query totalOf v
      else fst (last (rv_pending v)) = rv_filters v)"

text \<open>Every request in flight answered, first sent first answered.\<close>

definition report_drain :: "('a \<Rightarrow> jsnum) \<Rightarrow> ('f, 'a) report_view \<Rightarrow> ('f, 'a) report_view" where
  "report_drain totalOf v = (report_respond totalOf 0 ^^ length (rv_pending v)) v"

subsection \<open>Table cells\<close>

text \<open>
  A cell of a report table: text, \<open>new Date(s).toLocaleString()\<close> (kept unprinted),
  the items of a list \<open><ul>\<close> in the cell, or the figure \<open>renderProductImage(countOfSides, measurements)\<close>
  draws (an SVG, not modelled further).
\<close>

datatype cell = Text string | LocaleDateTime string | Items "string list" | Figure int measurements

datatype report_body = NoData string | Table "cell list list"

record report_screen =
  scr_total :: string
  scr_error :: "string option"
  scr_body :: report_body

definition money_text :: "jsnum \<Rightarrow> string" where
  "money_text x = to_fixed2 x @ '' m''"

definition msg_no_price :: string where
  "msg_no_price = ''Ne vybrana''"

definition int_text :: "int \<Rightarrow> string" where
  "int_text i = number_to_string (Fin (of_int i))"

definition msg_none :: string where
  "msg_none = ''Net''"

definition msg_no_report_data :: string where
  "msg_no_report_data = ''Net dannyh dlya otobrazheniya otcheta. Poprobujte izmenit filtry.''"

text \<open>
  The common part of the pages' markup: the total (\<open>totalOverallRevenue.toFixed(2)\<close>),
  the error, and either the message that there is nothing to show (no rows, not
  loading, no error) or the table of the rows.
\<close>

definition report_screen_of :: "('r \<Rightarrow> cell list) \<Rightarrow> ('f, 'r list) report_view \<Rightarrow> report_screen" where
  "report_screen_of cells v =
     \<lparr>scr_total = money_text (rv_total v),
      scr_error = rv_error v,
      scr_body = (if rv_reportData v = [] \<and> \<not> rv_loading v \<and> rv_error v = None
                  then NoData msg_no_report_data
                  else Table (map cells (rv_reportData v)))\<rparr>"

text \<open>\<open>parseFloat(v)\<close> of a number of a JSON answer that may be \<open>null\<close> (\<open>String(null)\<close> is \<open>'null'\<close>).\<close>

definition parse_float_json :: "jsnum option \<Rightarrow> jsnum" where
  "parse_float_json v = (case v of None \<Rightarrow> NaN | Some x \<Rightarrow> jsval_parse_float (VNum x))"

subsection \<open>The quick ranges east of Greenwich\<close>

lemma set_hours_day:
  "set_hours tz h mi sc ms t =
     utc_of_local tz ((local_time tz t div ms_per_day) * ms_per_day + (h * 3600000 + mi * 60000 + sc * 1000 + ms))"
  by (simp add: set_hours_def add.assoc)

text \<open>
  With the clock east of Greenwich (\<open>0 < tz < 1440\<close>) the range \<open>today\<close> runs from the
  date of the day before to the date of today (local day \<open>L\<close>).
\<close>

lemma getTodayRange_east:
  assumes "0 < tz" "tz < 1440"
  shows "getTodayRange tz now =
           (day_string (local_time tz now div ms_per_day - 1), day_string (local_time tz now div ms_per_day))"
  using iso_local_midnight [OF assms, of "local_time tz now div ms_per_day"]
        iso_local_end_of_day [of tz "local_time tz now div ms_per_day"] assms
  by (simp add: getTodayRange_def range_of_def start_of_day_def end_of_day_def set_hours_day)

text \<open>Every quick range is a pair of \<open>toISOString().slice(0, 10)\<close> of two time values.\<close>

lemma quick_range_iso:
  assumes "quick_range tz now p = (s, e)" "s \<noteq> []"
  shows "\<exists>a b. s = iso_date a \<and> e = iso_date b"
  using assms
  by (auto simp: quick_range_def getTodayRange_def getYesterdayRange_def getLast7DaysRange_def
      getThisMonthRange_def getLastMonthRange_def getThisYearRange_def getQuarterRange_def range_of_def
      Let_def split: if_splits prod.splits)

text \<open>
  Whatever the clock and the time zone, the two dates a quick range sends as
  \<open>startDate\<close> and \<open>endDate\<close> are \<open>YYYY-MM-DD\<close> strings of days of the calendar: the month
  arithmetic of \<open>getThisMonthRange\<close>, \<open>getLastMonthRange\<close> and \<open>getQuarterRange\<close>
  (month \<open>-1\<close> in January, month 12, day 0 for the last day of the previous month)
  never sends a month 0 or 13, a day 0 or a day past the end of its month.
\<close>

theorem quick_range_valid_dates:
  assumes "quick_range tz now p = (s, e)" "s \<noteq> []"
  shows "(\<exists>y m d. s = ymd_string y m d \<and> valid_ymd y m d) \<and> (\<exists>y m d. e = ymd_string y m d \<and> valid_ymd y m d)"
  using quick_range_iso [OF assms] iso_date_valid by metis

theorem quick_range_valid_dates_witness:
  "fst (quick_range 300 1735689600000 ''lastMonth'') = ''2024-11-30'' \<and>
   (\<exists>y m d. snd (quick_range 300 1735689600000 ''lastMonth'') = ymd_string y m d \<and> valid_ymd y m d)"
proof -
  have s: "fst (quick_range 300 1735689600000 ''lastMonth'') = ''2024-11-30''" by code_simp
  have "quick_range 300 1735689600000 ''lastMonth'' =
          (fst (quick_range 300 1735689600000 ''lastMonth''), snd (quick_range 300 1735689600000 ''lastMonth''))"
    by simp
  from quick_range_valid_dates [OF this] s show ?thesis by simp
qed

subsection \<open>The fetch machine\<close>

lemma report_wf_issue_any:
  assumes "list_all (\<lambda>(f, a). a = query f) (rv_pending v)"
  shows "report_wf query totalOf (report_issue query v)"
  using assms by (simp add: report_wf_def report_issue_def)

lemma report_wf_issue:
  assumes "report_wf query totalOf v"
  shows "report_wf query totalOf (report_issue query v)"
proof -
  have "list_all (\<lambda>(f, a). a = query f) (rv_pending v)"
    using assms by (simp add: report_wf_def)
  then show ?thesis by (rule report_wf_issue_any)
qed

lemma report_wf_set_filters:
  assumes "report_wf query totalOf v"
  shows "report_wf query totalOf (report_set_filters query f v)"
  using assms by (simp add: report_set_filters_def report_wf_def report_issue_def)

lemma report_wf_respond0:
  assumes "report_wf query totalOf v"
  shows "report_wf query totalOf (report_respond totalOf 0 v)"
proof (cases "rv_pending v")
  case Nil
  then show ?thesis using assms by (simp add: report_respond_def)
next
  case (Cons x xs)
  obtain f a where x: "x = (f, a)" by fastforce
  have a: "a = query f" and xs: "list_all (\<lambda>(f, a). a = query f) xs"
    using assms by (simp_all add: report_wf_def Cons x)
  show ?thesis
  proof (cases xs)
    case Nil
    have "f = rv_filters v" using assms by (simp add: report_wf_def Cons x Nil)
    then show ?thesis
      by (simp add: report_wf_def report_respond_def report_consistent_def remove_at_def Cons x Nil a Let_def
               split: option.split)
  next
    case (Cons y ys)
    have "fst (last xs) = rv_filters v" using assms by (simp add: report_wf_def \<open>rv_pending v = x # xs\<close> Cons)
    then show ?thesis
      using xs by (simp add: report_wf_def report_respond_def remove_at_def \<open>rv_pending v = x # xs\<close> Cons Let_def
                    split: option.split)
  qed
qed

lemma report_respond0_length:
  "length (rv_pending (report_respond totalOf 0 v)) = length (rv_pending v) - 1"
  by (simp add: report_respond_def remove_at_def Let_def split: option.split)

lemma report_wf_funpow:
  "report_wf query totalOf v \<Longrightarrow> report_wf query totalOf ((report_respond totalOf 0 ^^ n) v)"
  by (induction n) (simp_all add: report_wf_respond0)

lemma report_funpow_length:
  "length (rv_pending ((report_respond totalOf 0 ^^ n) v)) = length (rv_pending v) - n"
  by (induction n) (simp_all add: report_respond0_length)

text \<open>Answers that arrive in order leave the view agreeing with the current filters.\<close>

lemma report_drain_consistent:
  assumes "report_wf query totalOf v"
  shows "report_consistent query totalOf (report_drain totalOf v)"
proof -
  let ?w = "report_drain totalOf v"
  have "report_wf query totalOf ?w"
    unfolding report_drain_def using assms by (rule report_wf_funpow)
  moreover have "rv_pending ?w = []"
    using report_funpow_length [where totalOf = totalOf and n = "length (rv_pending v)" and v = v] by (simp add: report_drain_def)
  ultimately show ?thesis by (simp add: report_wf_def)
qed

end
