(* ===== verification/InvoiceReportsPage.thy ===== *)
theory InvoiceReportsPage
  imports ReportPages
begin

text \<open>
  The page \<open>src/client/src/pages/reports/invoice/InvoiceReports.js\<close>: the filters
  (dates, a customer name, a price tier), the report of \<open>GET /api/reports/invoices\<close>
  (\<open>Reports.getInvoiceReport\<close>) with its total revenue, and the state of the modal of
  an invoice's details.  A page is the record \<open>invoice_reports_page\<close>; every handler
  and every answer of a request is an event of \<open>invoice_reports_step\<close>, so that a run of
  the page is a list of events.  The tier select offers \<open>''\<close> and the ids of the
  tiers (\<open>value={price.id}\<close>); the server compares the text of the id with the integer
  column, which SQLite converts, so the filter is the id, \<open>None\<close> for \<open>''\<close>.
\<close>

record invoice_filters =
  if_startDate :: string
  if_endDate :: string
  if_customerNameSearch :: string
  if_paymentType :: "price_id option"

record invoice_reports_page =
  irp_view :: "(invoice_filters, invoice_report_row list) report_view"
  irp_availablePrices :: "price list"
  irp_showInvoiceDetailsModal :: bool
  irp_selectedInvoiceIdForDetails :: "entity_id option"

definition invoice_filters_init :: invoice_filters where
  "invoice_filters_init =
     \<lparr>if_startDate = [], if_endDate = [], if_customerNameSearch = [], if_paymentType = None\<rparr>"

text \<open>
  \<open>fetchReport\<close>: a parameter is sent only when it is not empty; the route reads an
  absent \<open>customerName\<close> as \<open>''\<close> and an absent date as no bound, so the strings go
  through as they are.
\<close>

definition invoice_reports_query :: "db \<Rightarrow> invoice_filters \<Rightarrow> invoice_report_row list option" where
  "invoice_reports_query d f =
     getInvoiceReport (if_customerNameSearch f) (if_startDate f) (if_endDate f) (if_paymentType f) d"

text \<open>\<open>res.data.reduce((sum, invoice) => sum + (parseFloat(invoice.totalAmount) || 0), 0)\<close>\<close>

definition invoice_reports_total :: "invoice_report_row list \<Rightarrow> jsnum" where
  "invoice_reports_total rows =
     foldl (\<lambda>sum r. sum + js_or (jsval_parse_float (VNum (ir_totalAmount (irr_invoice r)))) 0) 0 rows"

text \<open>The first render: the effects load the tiers (\<open>fetchPrices\<close>) and the report.\<close>

definition invoice_reports_mount :: "db \<Rightarrow> invoice_reports_page" where
  "invoice_reports_mount d =
     \<lparr>irp_view = report_issue (invoice_reports_query d) (report_view_init invoice_filters_init []),
      irp_availablePrices = getPrices [] d,
      irp_showInvoiceDetailsModal = False,
      irp_selectedInvoiceIdForDetails = None\<rparr>"

datatype invoice_reports_event =
    IRSetStartDate string
  | IRSetEndDate string
  | IRSetCustomerName string
  | IRSetPaymentType "price_id option"
  | IRQuickSelect int string
  | IRRefresh
  | IRRespond nat
  | IROpenDetails entity_id
  | IRCloseDetails

definition invoice_reports_filter ::
  "db \<Rightarrow> (invoice_filters \<Rightarrow> invoice_filters) \<Rightarrow> invoice_reports_page \<Rightarrow> invoice_reports_page" where
  "invoice_reports_filter d g p =
     p\<lparr>irp_view := report_set_filters (invoice_reports_query d) (g (rv_filters (irp_view p))) (irp_view p)\<rparr>"

text \<open>
  The handlers: the inputs' \<open>onChange\<close>, \<open>handleQuickDateSelect\<close> (at time \<open>now\<close>, both
  dates set in one render), the refresh button, the arrival of the answer of the
  \<open>i\<close>-th request in flight, \<open>handleOpenInvoiceDetailsModal\<close> and
  \<open>handleCloseInvoiceDetailsModal\<close>.
\<close>

fun invoice_reports_step ::
  "db \<Rightarrow> int \<Rightarrow> invoice_reports_event \<Rightarrow> invoice_reports_page \<Rightarrow> invoice_reports_page" where
  "invoice_reports_step d tz (IRSetStartDate s) p = invoice_reports_filter d (\<lambda>f. f\<lparr>if_startDate := s\<rparr>) p"
| "invoice_reports_step d tz (IRSetEndDate s) p = invoice_reports_filter d (\<lambda>f. f\<lparr>if_endDate := s\<rparr>) p"
| "invoice_reports_step d tz (IRSetCustomerName s) p =
     invoice_reports_filter d (\<lambda>f. f\<lparr>if_customerNameSearch := s\<rparr>) p"
| "invoice_reports_step d tz (IRSetPaymentType t) p =
     invoice_reports_filter d (\<lambda>f. f\<lparr>if_paymentType := t\<rparr>) p"
| "invoice_reports_step d tz (IRQuickSelect now period) p =
     (case quick_range tz now period of (s, e) \<Rightarrow>
        invoice_reports_filter d (\<lambda>f. f\<lparr>if_startDate := s, if_endDate := e\<rparr>) p)"
| "invoice_reports_step d tz IRRefresh p = p\<lparr>irp_view := report_issue (invoice_reports_query d) (irp_view p)\<rparr>"
| "invoice_reports_step d tz (IRRespond i) p =
     p\<lparr>irp_view := report_respond invoice_reports_total i (irp_view p)\<rparr>"
| "invoice_reports_step d tz (IROpenDetails i) p =
     p\<lparr>irp_selectedInvoiceIdForDetails := Some i, irp_showInvoiceDetailsModal := True\<rparr>"
| "invoice_reports_step d tz IRCloseDetails p =
     p\<lparr>irp_showInvoiceDetailsModal := False, irp_selectedInvoiceIdForDetails := None\<rparr>"

definition invoice_reports_run ::
  "db \<Rightarrow> int \<Rightarrow> invoice_reports_event list \<Rightarrow> invoice_reports_page \<Rightarrow> invoice_reports_page" where
  "invoice_reports_run d tz es p = foldl (\<lambda>q e. invoice_reports_step d tz e q) p es"

text \<open>An event that is not an answer, or the answer of the oldest request in flight.\<close>

fun in_order :: "invoice_reports_event \<Rightarrow> bool" where
  "in_order (IRRespond i) \<longleftrightarrow> i = 0"
| "in_order _ \<longleftrightarrow> True"

subsection \<open>The table\<close>

text \<open>A row: the id, the date, the customer (always there: the join is inner), the tier
  or the label \<open>msg_no_price\<close>, and \<open>parseFloat(invoice.totalAmount).toFixed(2)\<close>.\<close>

definition invoice_report_cells :: "invoice_report_row \<Rightarrow> cell list" where
  "invoice_report_cells r =
     [Text (digits_of_nat (ir_id (irr_invoice r))),
      LocaleDateTime (ir_createdAt (irr_invoice r)),
      Text (customer_name (irr_customer r)),
      Text (case irr_defaultPrice r of Some t \<Rightarrow> price_name t | None \<Rightarrow> msg_no_price),
      Text (money_text (jsval_parse_float (VNum (ir_totalAmount (irr_invoice r)))))]"

definition invoice_reports_screen :: "invoice_reports_page \<Rightarrow> report_screen" where
  "invoice_reports_screen p = report_screen_of invoice_report_cells (irp_view p)"

text \<open>A time on 2025-01-10, 09:00 UTC.\<close>

definition sample_now :: int where
  "sample_now = days_from_civil 2025 1 10 * ms_per_day + 9 * 3600000"

subsection \<open>Runs of the page\<close>

lemma invoice_reports_wf_mount:
  "report_wf (invoice_reports_query d) invoice_reports_total (irp_view (invoice_reports_mount d))"
  by (simp add: invoice_reports_mount_def report_wf_issue_any report_view_init_def)

lemma invoice_reports_wf_step:
  assumes "in_order e" "report_wf (invoice_reports_query d) invoice_reports_total (irp_view p)"
  shows "report_wf (invoice_reports_query d) invoice_reports_total (irp_view (invoice_reports_step d tz e p))"
  using assms
  by (cases e) (simp_all add: invoice_reports_filter_def report_wf_set_filters report_wf_issue
                 report_wf_respond0 split: prod.split)

lemma invoice_reports_wf_run:
  "list_all in_order es \<Longrightarrow> report_wf (invoice_reports_query d) invoice_reports_total (irp_view p) \<Longrightarrow>
   report_wf (invoice_reports_query d) invoice_reports_total (irp_view (invoice_reports_run d tz es p))"
  by (induction es arbitrary: p) (simp_all add: invoice_reports_run_def invoice_reports_wf_step)

lemma invoice_reports_run_answers:
  "irp_view (invoice_reports_run d tz (replicate n (IRRespond 0)) p) =
   (report_respond invoice_reports_total 0 ^^ n) (irp_view p)"
  by (induction n arbitrary: p) (simp_all add: invoice_reports_run_def funpow_Suc_right del: funpow.simps)

lemma invoice_reports_run_append:
  "invoice_reports_run d tz (es @ fs) p = invoice_reports_run d tz fs (invoice_reports_run d tz es p)"
  by (simp add: invoice_reports_run_def)

lemma getInvoiceReport_rows_date:
  assumes "getInvoiceReport name s e t d = Some rows" "r \<in> set rows"
  shows "date_where s e (ir_createdAt (irr_invoice r))"
  using assms by (auto simp: getInvoiceReport_def split: if_splits)

text \<open>
  C31. East of Greenwich the quick range \<open>today\<close> of the report pages misses today:
  an invoice whose \<open>createdAt\<close> falls on the local date of today (after the first
  \<open>tz\<close> minutes of the day, when the UTC date is the local one) is in no invoice report
  of that range, whatever the other filters.  The range is the UTC date of local
  midnight, the day before, to today's date, and \<open>BETWEEN\<close> compares the text of
  \<open>createdAt\<close> with the bare date, which sorts before every time of that day.
\<close>

theorem today_report_misses_today:
  assumes "0 < tz" "tz < 1440"
    and "quick_range tz now ''today'' = (s, e)"
    and "ir_createdAt i = day_string (local_time tz now div ms_per_day) @ rest" "rest \<noteq> []"
    and "getInvoiceReport name s e t d = Some rows"
  shows "i \<notin> irr_invoice ` set rows"
proof
  assume "i \<in> irr_invoice ` set rows"
  then obtain r where r: "r \<in> set rows" "irr_invoice r = i" by blast
  have "e = day_string (local_time tz now div ms_per_day)"
    using assms(3) getTodayRange_east [OF assms(1,2), of now] by (simp add: quick_range_def)
  then have "\<not> date_where s e (ir_createdAt i)"
    using assms(4,5) by (simp add: date_where_end_day)
  then show False
    using getInvoiceReport_rows_date [OF assms(6) r(1)] r(2) by simp
qed

text \<open>
  C32. Answers that arrive in the order of the requests settle the page: after any run
  of its handlers in which every answer is that of the oldest request in flight, once
  the remaining answers arrive in order the page shows the report and the total the
  server gives for the filters on screen (or the error when the server fails for them).
\<close>

theorem invoice_reports_settle:
  assumes "list_all in_order es"
  shows "report_consistent (invoice_reports_query d) invoice_reports_total
           (irp_view (invoice_reports_run d tz
              (es @ replicate (length (rv_pending (irp_view (invoice_reports_run d tz es (invoice_reports_mount d)))))
                      (IRRespond 0))
              (invoice_reports_mount d)))"
proof -
  let ?p = "invoice_reports_run d tz es (invoice_reports_mount d)"
  have "report_wf (invoice_reports_query d) invoice_reports_total (irp_view ?p)"
    using assms invoice_reports_wf_mount by (rule invoice_reports_wf_run)
  then have "report_consistent (invoice_reports_query d) invoice_reports_total
               (report_drain invoice_reports_total (irp_view ?p))"
    by (rule report_drain_consistent)
  then show ?thesis
    by (simp add: invoice_reports_run_append invoice_reports_run_answers report_drain_def)
qed

text \<open>
  C33. Answers that arrive out of order leave a stale report on screen.  On any
  database, in any time zone: the page is mounted (a request with no filters), a
  customer name is typed before that request is answered (a second request), and the
  answer of the second arrives first and that of the first last.  Nothing is in flight
  any more and the typed name is the filter on screen, but the table shows the rows of
  the report without filters.
\<close>

theorem invoice_reports_out_of_order:
  assumes "n \<noteq> []"
  shows "rv_pending (irp_view (invoice_reports_run d tz [IRSetCustomerName n, IRRespond 1, IRRespond 0]
                                (invoice_reports_mount d))) = [] \<and>
         if_customerNameSearch (rv_filters (irp_view (invoice_reports_run d tz
             [IRSetCustomerName n, IRRespond 1, IRRespond 0] (invoice_reports_mount d)))) = n \<and>
         Some (rv_reportData (irp_view (invoice_reports_run d tz [IRSetCustomerName n, IRRespond 1, IRRespond 0]
                                         (invoice_reports_mount d)))) =
           invoice_reports_query d invoice_filters_init"
  using assms
  by (simp add: invoice_reports_run_def invoice_reports_mount_def invoice_reports_filter_def
      report_set_filters_def report_issue_def report_respond_def report_view_init_def invoice_filters_init_def
      remove_at_def invoice_reports_query_def getInvoiceReport_def sql_literal_ok_def Let_def)

theorem today_report_misses_today_witness:
  "hd (db_invoices db_shared_extra) \<notin>
     irr_invoice ` set (the (getInvoiceReport [] ''2025-01-09'' ''2025-01-10'' None db_shared_extra))"
proof -
  have q: "quick_range 300 sample_now ''today'' = (''2025-01-09'', ''2025-01-10'')"
    and c: "ir_createdAt (hd (db_invoices db_shared_extra)) =
            day_string (local_time 300 sample_now div ms_per_day) @ '' 09:00:00.000 +00:00''"
    and r: "getInvoiceReport [] ''2025-01-09'' ''2025-01-10'' None db_shared_extra =
            Some (the (getInvoiceReport [] ''2025-01-09'' ''2025-01-10'' None db_shared_extra))"
    by code_simp+
  show ?thesis
    using today_report_misses_today [OF _ _ q c _ r] by simp
qed

theorem invoice_reports_settle_witness:
  "report_consistent (invoice_reports_query db_shared_extra) invoice_reports_total
     (irp_view (invoice_reports_run db_shared_extra 300
        ([IRSetCustomerName ''zzz'', IRQuickSelect sample_now ''today'', IRRespond 0] @
         replicate (length (rv_pending (irp_view (invoice_reports_run db_shared_extra 300
                     [IRSetCustomerName ''zzz'', IRQuickSelect sample_now ''today'', IRRespond 0]
                     (invoice_reports_mount db_shared_extra)))))
           (IRRespond 0))
        (invoice_reports_mount db_shared_extra)))"
  by (rule invoice_reports_settle) simp

theorem invoice_reports_out_of_order_witness:
  "map (ir_id \<circ> irr_invoice)
     (rv_reportData (irp_view (invoice_reports_run db_shared_extra 0 [IRSetCustomerName ''zzz'', IRRespond 1, IRRespond 0]
                                (invoice_reports_mount db_shared_extra)))) = [1] \<and>
   invoice_reports_query db_shared_extra
     (rv_filters (irp_view (invoice_reports_run db_shared_extra 0 [IRSetCustomerName ''zzz'', IRRespond 1, IRRespond 0]
                              (invoice_reports_mount db_shared_extra)))) = Some []"
proof -
  have r: "Some (rv_reportData (irp_view (invoice_reports_run db_shared_extra 0
              [IRSetCustomerName ''zzz'', IRRespond 1, IRRespond 0] (invoice_reports_mount db_shared_extra)))) =
           invoice_reports_query db_shared_extra invoice_filters_init"
    and f: "if_customerNameSearch (rv_filters (irp_view (invoice_reports_run db_shared_extra 0
              [IRSetCustomerName ''zzz'', IRRespond 1, IRRespond 0] (invoice_reports_mount db_shared_extra)))) = ''zzz''"
    using invoice_reports_out_of_order [of "''zzz''" db_shared_extra 0] by simp_all
  have q: "map_option (map (ir_id \<circ> irr_invoice)) (invoice_reports_query db_shared_extra invoice_filters_init) = Some [1]"
    and z: "invoice_reports_query db_shared_extra
              (rv_filters (irp_view (invoice_reports_run db_shared_extra 0
                 [IRSetCustomerName ''zzz'', IRRespond 1, IRRespond 0] (invoice_reports_mount db_shared_extra)))) = Some []"
    by code_simp+
  show ?thesis using q z unfolding r [symmetric] by simp
qed

end
