(* ===== verification/SalesReportPages.thy ===== *)
theory SalesReportPages
  imports ReportPages
begin

text \<open>
  The three sales report pages under \<open>src/client/src/pages/reports\<close>:
  \<open>products/ProductDetailedSalesReports.js\<close>, \<open>extraProducts/ExtraProductSalesReports.js\<close>
  and \<open>customers/CustomerSalesReports.js\<close>.  Their state and handlers are the same code
  with other names: the dates and a name search as filters, the report with its total,
  and the dialog of one entity's individual sales, opened with the dates of the
  filters at that moment (\<open>handleOpenIndividualSales\<close>) and closed with everything
  reset.  \<open>sales_page\<close> and \<open>sales_step\<close> are that shared code, over the request
  \<open>query\<close> and the total \<open>totalOf\<close> of a page; each page instantiates them with its
  report route of \<open>Reports\<close>, its \<open>reduce\<close> and its table row.
\<close>

record sales_filters =
  sf_startDate :: string
  sf_endDate :: string
  sf_nameSearch :: string

record 'r sales_page =
  sp_view :: "(sales_filters, 'r list) report_view"
  sp_showIndividualSales :: bool
  sp_selectedIdForSales :: "entity_id option"
  sp_startDateForIndividualSales :: string
  sp_endDateForIndividualSales :: string

definition sales_filters_init :: sales_filters where
  "sales_filters_init = \<lparr>sf_startDate = [], sf_endDate = [], sf_nameSearch = []\<rparr>"

text \<open>The first render: the state's initial values and the effect's first \<open>fetchReport\<close>.\<close>

definition sales_mount :: "(sales_filters \<Rightarrow> 'r list option) \<Rightarrow> 'r sales_page" where
  "sales_mount query =
     \<lparr>sp_view = report_issue query (report_view_init sales_filters_init []),
      sp_showIndividualSales = False, sp_selectedIdForSales = None,
      sp_startDateForIndividualSales = [], sp_endDateForIndividualSales = []\<rparr>"

datatype sales_event =
    SSetStartDate string
  | SSetEndDate string
  | SSetNameSearch string
  | SQuickSelect int string
  | SRefresh
  | SRespond nat
  | SOpenIndividualSales entity_id
  | SCloseIndividualSales

definition sales_filter ::
  "(sales_filters \<Rightarrow> 'r list option) \<Rightarrow> (sales_filters \<Rightarrow> sales_filters) \<Rightarrow> 'r sales_page \<Rightarrow> 'r sales_page" where
  "sales_filter query g p =
     p\<lparr>sp_view := report_set_filters query (g (rv_filters (sp_view p))) (sp_view p)\<rparr>"

fun sales_step ::
  "(sales_filters \<Rightarrow> 'r list option) \<Rightarrow> ('r list \<Rightarrow> jsnum) \<Rightarrow> int \<Rightarrow> sales_event \<Rightarrow>
   'r sales_page \<Rightarrow> 'r sales_page" where
  "sales_step query totalOf tz (SSetStartDate s) p = sales_filter query (\<lambda>f. f\<lparr>sf_startDate := s\<rparr>) p"
| "sales_step query totalOf tz (SSetEndDate s) p = sales_filter query (\<lambda>f. f\<lparr>sf_endDate := s\<rparr>) p"
| "sales_step query totalOf tz (SSetNameSearch s) p = sales_filter query (\<lambda>f. f\<lparr>sf_nameSearch := s\<rparr>) p"
| "sales_step query totalOf tz (SQuickSelect now period) p =
     (case quick_range tz now period of (s, e) \<Rightarrow>
        sales_filter query (\<lambda>f. f\<lparr>sf_startDate := s, sf_endDate := e\<rparr>) p)"
| "sales_step query totalOf tz SRefresh p = p\<lparr>sp_view := report_issue query (sp_view p)\<rparr>"
| "sales_step query totalOf tz (SRespond i) p = p\<lparr>sp_view := report_respond totalOf i (sp_view p)\<rparr>"
| "sales_step query totalOf tz (SOpenIndividualSales k) p =
     p\<lparr>sp_selectedIdForSales := Some k,
       sp_startDateForIndividualSales := sf_startDate (rv_filters (sp_view p)),
       sp_endDateForIndividualSales := sf_endDate (rv_filters (sp_view p)),
       sp_showIndividualSales := True\<rparr>"
| "sales_step query totalOf tz SCloseIndividualSales p =
     p\<lparr>sp_showIndividualSales := False, sp_selectedIdForSales := None,
       sp_startDateForIndividualSales := [], sp_endDateForIndividualSales := []\<rparr>"

definition sales_run ::
  "(sales_filters \<Rightarrow> 'r list option) \<Rightarrow> ('r list \<Rightarrow> jsnum) \<Rightarrow> int \<Rightarrow> sales_event list \<Rightarrow>
   'r sales_page \<Rightarrow> 'r sales_page" where
  "sales_run query totalOf tz es p = foldl (\<lambda>q e. sales_step query totalOf tz e q) p es"

subsection \<open>Products (\<open>ProductDetailedSalesReports.js\<close>)\<close>

definition product_reports_query :: "db \<Rightarrow> sales_filters \<Rightarrow> product_sales list option" where
  "product_reports_query d f = getProductReport (sf_nameSearch f) (sf_startDate f) (sf_endDate f) d"

text \<open>\<open>res.data.reduce((sum, item) => sum + parseFloat(item.totalWithExtraProducts), 0)\<close>: no \<open>|| 0\<close>.\<close>

definition product_reports_total :: "product_sales list \<Rightarrow> jsnum" where
  "product_reports_total rows =
     foldl (\<lambda>sum r. sum + jsval_parse_float (VNum (ps_totalWithExtraProducts r))) 0 rows"

definition product_reports_mount :: "db \<Rightarrow> product_sales sales_page" where
  "product_reports_mount d = sales_mount (product_reports_query d)"

definition product_reports_step :: "db \<Rightarrow> int \<Rightarrow> sales_event \<Rightarrow> product_sales sales_page \<Rightarrow> product_sales sales_page" where
  "product_reports_step d tz = sales_step (product_reports_query d) product_reports_total tz"

definition product_extra_text :: "extra_sales \<Rightarrow> string" where
  "product_extra_text ep =
     xp_name (es_extraProduct ep) @ '' (Kol-vo: '' @ to_fixed2 (es_quantity ep) @
     '', Summa: '' @ to_fixed2 (es_total ep) @ '' m)''"

definition product_report_cells :: "product_sales \<Rightarrow> cell list" where
  "product_report_cells r =
     (let p = ps_product r
      in [Text (digits_of_nat (pr_id p)), Text (pr_name p), Text (pr_barcode p),
          Text (to_fixed2 (pr_price p)), Text (pr_measure p), Text (int_text (pr_countOfSides p)),
          Text (to_fixed2 (ps_quantity r)), Text (money_text (ps_totalByUnit r)),
          Text (money_text (ps_totalWithExtraProducts r)),
          (if ps_extraProducts r \<noteq> [] then Items (map product_extra_text (ps_extraProducts r))
           else Text msg_none)])"

definition product_reports_screen :: "product_sales sales_page \<Rightarrow> report_screen" where
  "product_reports_screen p = report_screen_of product_report_cells (sp_view p)"

subsection \<open>Extra products (\<open>ExtraProductSalesReports.js\<close>)\<close>

text \<open>The route's \<open>totalQuantity\<close> and \<open>totalPrice\<close> are \<open>es_quantity\<close> and \<open>es_total\<close>.\<close>

definition extra_reports_query :: "db \<Rightarrow> sales_filters \<Rightarrow> extra_sales list option" where
  "extra_reports_query d f = getExtraProductReport (sf_nameSearch f) (sf_startDate f) (sf_endDate f) d"

definition extra_reports_total :: "extra_sales list \<Rightarrow> jsnum" where
  "extra_reports_total rows =
     foldl (\<lambda>sum r. sum + js_or (jsval_parse_float (VNum (es_total r))) 0) 0 rows"

definition extra_reports_mount :: "db \<Rightarrow> extra_sales sales_page" where
  "extra_reports_mount d = sales_mount (extra_reports_query d)"

definition extra_reports_step :: "db \<Rightarrow> int \<Rightarrow> sales_event \<Rightarrow> extra_sales sales_page \<Rightarrow> extra_sales sales_page" where
  "extra_reports_step d tz = sales_step (extra_reports_query d) extra_reports_total tz"

definition extra_report_cells :: "extra_sales \<Rightarrow> cell list" where
  "extra_report_cells r =
     (let x = es_extraProduct r
      in [Text (digits_of_nat (xp_id x)), Text (xp_name x), Text (to_fixed2 (xp_price x)),
          Text (xp_measure x), Text (xp_calculationType x), Text (to_fixed2 (es_quantity r)),
          Text (money_text (es_total r))])"

definition extra_reports_screen :: "extra_sales sales_page \<Rightarrow> report_screen" where
  "extra_reports_screen p = report_screen_of extra_report_cells (sp_view p)"

subsection \<open>Customers (\<open>CustomerSalesReports.js\<close>)\<close>

text \<open>\<open>totalSales\<close> is a \<open>SUM\<close> without \<open>coalesce\<close>: \<open>null\<close> for a customer with no invoice in the range.\<close>

definition customer_reports_query :: "db \<Rightarrow> sales_filters \<Rightarrow> customer_sales list option" where
  "customer_reports_query d f = getCustomerReport (sf_nameSearch f) (sf_startDate f) (sf_endDate f) d"

definition customer_total_sales :: "customer_sales \<Rightarrow> jsnum" where
  "customer_total_sales r = js_or (parse_float_json (cs_totalSales r)) 0"

definition customer_reports_total :: "customer_sales list \<Rightarrow> jsnum" where
  "customer_reports_total rows = foldl (\<lambda>sum r. sum + customer_total_sales r) 0 rows"

definition customer_reports_mount :: "db \<Rightarrow> customer_sales sales_page" where
  "customer_reports_mount d = sales_mount (customer_reports_query d)"

definition customer_reports_step ::
  "db \<Rightarrow> int \<Rightarrow> sales_event \<Rightarrow> customer_sales sales_page \<Rightarrow> customer_sales sales_page" where
  "customer_reports_step d tz = sales_step (customer_reports_query d) customer_reports_total tz"

definition customer_report_cells :: "customer_sales \<Rightarrow> cell list" where
  "customer_report_cells r =
     (let c = cs_customer r
      in [Text (digits_of_nat (customer_id c)), Text (customer_name c), Text (phoneNumber c),
          Text (address c),
          Text (case cs_defaultPrice r of Some t \<Rightarrow> price_name t | None \<Rightarrow> msg_no_price),
          Text (money_text (customer_total_sales r))])"

definition customer_reports_screen :: "customer_sales sales_page \<Rightarrow> report_screen" where
  "customer_reports_screen p = report_screen_of customer_report_cells (sp_view p)"

end
