(* ===== verification/ReportsTabs.thy ===== *)
theory ReportsTabs
  imports InvoiceReportsPage SalesReportPages
begin

text \<open>
  \<open>src/client/src/pages/reports/ReportsPage.js\<close>: the state \<open>activeReportPage\<close> selects the
  report page on screen (\<open>renderActiveReport\<close>).  A tab button sets it; React renders
  another component type in its place, so the page on screen is unmounted, its state
  and the answers of its requests in flight are dropped, and the new page mounts with
  empty filters and its first request.  Pressing the active tab sets the same value:
  nothing renders again and the page keeps its state.  An event of the page on screen
  is delivered to it; an event of another page cannot occur.
\<close>

datatype mounted_report =
    InvoiceReportsOn invoice_reports_page
  | ProductReportsOn "product_sales sales_page"
  | CustomerReportsOn "customer_sales sales_page"
  | ExtraReportsOn "extra_sales sales_page"

record reports_page =
  rp_activeReportPage :: string
  rp_mounted :: mounted_report

text \<open>\<open>renderActiveReport\<close>: the page of a tab, mounted anew.\<close>

definition renderActiveReport :: "db \<Rightarrow> string \<Rightarrow> mounted_report" where
  "renderActiveReport d tab =
     (if tab = ''productSalesReports'' then ProductReportsOn (product_reports_mount d)
      else if tab = ''customerSalesReports'' then CustomerReportsOn (customer_reports_mount d)
      else if tab = ''extraProductSalesReports'' then ExtraReportsOn (extra_reports_mount d)
      else InvoiceReportsOn (invoice_reports_mount d))"

text \<open>The component a tab renders: React keeps the mounted page when it stays the same.\<close>

definition report_kind :: "string \<Rightarrow> nat" where
  "report_kind tab =
     (if tab = ''productSalesReports'' then 1
      else if tab = ''customerSalesReports'' then 2
      else if tab = ''extraProductSalesReports'' then 3
      else 0)"

definition reports_page_mount :: "db \<Rightarrow> reports_page" where
  "reports_page_mount d =
     \<lparr>rp_activeReportPage = ''invoiceReports'', rp_mounted = renderActiveReport d ''invoiceReports''\<rparr>"

datatype reports_event =
    SetActiveReportPage string
  | InvoiceEvent invoice_reports_event
  | SalesEvent sales_event

fun mounted_step :: "db \<Rightarrow> int \<Rightarrow> reports_event \<Rightarrow> mounted_report \<Rightarrow> mounted_report" where
  "mounted_step d tz (InvoiceEvent e) (InvoiceReportsOn p) = InvoiceReportsOn (invoice_reports_step d tz e p)"
| "mounted_step d tz (SalesEvent e) (ProductReportsOn p) = ProductReportsOn (product_reports_step d tz e p)"
| "mounted_step d tz (SalesEvent e) (CustomerReportsOn p) = CustomerReportsOn (customer_reports_step d tz e p)"
| "mounted_step d tz (SalesEvent e) (ExtraReportsOn p) = ExtraReportsOn (extra_reports_step d tz e p)"
| "mounted_step d tz _ m = m"

text \<open>
  The tabs pass the four names of \<open>renderActiveReport\<close>; an unknown name shows the
  invoice reports, as its \<open>default\<close> does.  Setting the active name again changes
  nothing; a name that renders the same component keeps the page mounted.
\<close>

fun reports_page_step :: "db \<Rightarrow> int \<Rightarrow> reports_event \<Rightarrow> reports_page \<Rightarrow> reports_page" where
  "reports_page_step d tz (SetActiveReportPage tab) p =
     (if tab = rp_activeReportPage p then p
      else if report_kind tab = report_kind (rp_activeReportPage p) then p\<lparr>rp_activeReportPage := tab\<rparr>
      else \<lparr>rp_activeReportPage = tab, rp_mounted = renderActiveReport d tab\<rparr>)"
| "reports_page_step d tz e p = p\<lparr>rp_mounted := mounted_step d tz e (rp_mounted p)\<rparr>"

definition reports_page_run :: "db \<Rightarrow> int \<Rightarrow> reports_event list \<Rightarrow> reports_page \<Rightarrow> reports_page" where
  "reports_page_run d tz es p = foldl (\<lambda>q e. reports_page_step d tz e q) p es"

end
