(* ===== verification/ReportDialogs.thy ===== *)
theory ReportDialogs
  imports ReportPages CatalogRoutes
begin

text \<open>
  The dialogs of the report pages: \<open>invoice/InvoiceDetails.js\<close> (one invoice with its
  items, opened from every report table that lists invoices),
  \<open>products/ProductIndividualSales.js\<close> and \<open>extraProducts/ExtraProductIndividualSales.js\<close>
  (one entity's sales in the dates of the page).  A dialog is a component that stays
  mounted; its props are its filters, and its effect runs when they change: with the
  dialog closed or no id it sets the data to \<open>null\<close>, otherwise it requests
  \<open>GET /api/reports/.../:id\<close> (\<open>Reports.getInvoiceDetail\<close>, \<open>getProductSales\<close>,
  \<open>getExtraProductSales\<close>) as \<open>fetchReport\<close> does, through \<open>report_issue\<close> and
  \<open>report_respond\<close>.  An answer \<open>null\<close> (no such row) is \<open>Some None\<close>.  Rendering an
  item whose product was deleted throws (\<open>item.product.countOfSides\<close>): the view of the
  details is \<open>Inl\<close> of the \<open>TypeError\<close>'s message then.
\<close>

definition dialog_props_change ::
  "('f \<Rightarrow> bool) \<Rightarrow> ('f \<Rightarrow> 'a option option) \<Rightarrow> 'f \<Rightarrow> ('f, 'a option) report_view \<Rightarrow>
   ('f, 'a option) report_view" where
  "dialog_props_change enabled query f v =
     (if f = rv_filters v then v
      else if enabled f then report_issue query (v\<lparr>rv_filters := f\<rparr>)
      else v\<lparr>rv_filters := f, rv_reportData := None\<rparr>)"

definition dialog_mount ::
  "('f \<Rightarrow> bool) \<Rightarrow> ('f \<Rightarrow> 'a option option) \<Rightarrow> 'f \<Rightarrow> ('f, 'a option) report_view" where
  "dialog_mount enabled query f =
     (if enabled f then report_issue query (report_view_init f None) else report_view_init f None)"

record 'c dialog_screen =
  ds_loading :: bool
  ds_error :: "string option"
  ds_content :: "'c option"

text \<open>\<open>if (!isOpen) return null\<close>; the loading line, the error, and the content when neither.\<close>

definition dialog_screen_of ::
  "bool \<Rightarrow> ('a \<Rightarrow> 'c) \<Rightarrow> ('f, 'a option) report_view \<Rightarrow> 'c dialog_screen option" where
  "dialog_screen_of isOpen content v =
     (if \<not> isOpen then None
      else Some \<lparr>ds_loading = rv_loading v, ds_error = rv_error v,
                 ds_content = (if \<not> rv_loading v \<and> rv_error v = None
                               then map_option content (rv_reportData v) else None)\<rparr>)"

definition no_total :: "'a \<Rightarrow> jsnum" where
  "no_total x = 0"

subsection \<open>\<open>InvoiceDetails.js\<close>\<close>

record details_props =
  dtp_invoiceId :: "entity_id option"
  dtp_isOpen :: bool

definition details_enabled :: "details_props \<Rightarrow> bool" where
  "details_enabled f \<longleftrightarrow> dtp_isOpen f \<and> dtp_invoiceId f \<noteq> None"

definition details_query :: "db \<Rightarrow> details_props \<Rightarrow> invoice_detail option option" where
  "details_query d f = (case dtp_invoiceId f of None \<Rightarrow> Some None | Some k \<Rightarrow> Some (getInvoiceDetail k d))"

definition details_closed :: details_props where
  "details_closed = \<lparr>dtp_invoiceId = None, dtp_isOpen = False\<rparr>"

definition msg_unknown :: string where
  "msg_unknown = ''Neizvestno''"

definition msg_unknown_extra :: string where
  "msg_unknown_extra = ''Neizvestnyj dop. element''"

definition msg_no_items :: string where
  "msg_no_items = ''V etom schete net pozicij.''"

text \<open>\<open>{extra.extraProduct ? name : ...} ({calculatedQuantity} x {unit.toFixed(2)} = {total.toFixed(2)} m)\<close>\<close>

definition detail_extra_text :: "extra_row \<times> extra_product_row option \<Rightarrow> string" where
  "detail_extra_text xe =
     (case xe of (x, p) \<Rightarrow>
        (case p of Some r \<Rightarrow> xp_name r | None \<Rightarrow> msg_unknown_extra) @ '' ('' @
        number_to_string (xr_calculatedQuantity x) @ '' x '' @ to_fixed2 (xr_calculatedUnitPrice x) @
        '' = '' @ to_fixed2 (xr_calculatedTotalPrice x) @ '' m)'')"

text \<open>
  The rows of one item: its cells, and a second row with the list of its extra items
  when it has some.  The first cell guards \<open>item.product\<close>, the figure and the
  quantity cell read \<open>item.product.countOfSides\<close> and \<open>item.product.measure\<close> unguarded.
\<close>

definition detail_item_rows ::
  "item_row \<times> product_row option \<times> (extra_row \<times> extra_product_row option) list \<Rightarrow> string + cell list list" where
  "detail_item_rows e =
     (case e of (it, p, xs) \<Rightarrow>
        (case p of
           None \<Rightarrow> Inl (null_read_message ''countOfSides'')
         | Some r \<Rightarrow>
             Inr ([Text (pr_name r), Figure (pr_countOfSides r) (itr_measurements it),
                   Text (number_to_string (itr_quantity it) @ '' '' @ pr_measure r),
                   Text (money_text (jsval_parse_float (VNum (itr_calculatedPricePerUnit it)))),
                   Text (money_text (jsval_parse_float (VNum (itr_totalItemPrice it)))),
                   Text (if itr_notes it = [] then msg_none else itr_notes it)] #
                  (if xs \<noteq> [] then [ [Items (map detail_extra_text xs)] ] else []))))"

record detail_content =
  dc_id :: entity_id
  dc_customer :: string
  dc_contact :: "(string \<times> string) option"
  dc_date :: cell
  dc_price :: string
  dc_total :: string
  dc_items :: report_body

definition detail_content_of :: "invoice_detail \<Rightarrow> report_body \<Rightarrow> detail_content" where
  "detail_content_of det body =
     (let i = id_invoice det
      in \<lparr>dc_id = ir_id i,
          dc_customer = (case id_customer det of Some c \<Rightarrow> customer_name c | None \<Rightarrow> msg_unknown),
          dc_contact = map_option (\<lambda>c. (phoneNumber c, address c)) (id_customer det),
          dc_date = LocaleDateTime (ir_createdAt i),
          dc_price = (case id_defaultPrice det of Some t \<Rightarrow> price_name t | None \<Rightarrow> msg_no_price),
          dc_total = money_text (jsval_parse_float (VNum (ir_totalAmount i))),
          dc_items = body\<rparr>)"

text \<open>The items' rows in order; the first item that throws makes the whole render throw.\<close>

fun detail_rows :: "(item_row \<times> product_row option \<times> (extra_row \<times> extra_product_row option) list) list \<Rightarrow>
                    string + cell list list" where
  "detail_rows [] = Inr []"
| "detail_rows (e # es) =
     (case detail_item_rows e of Inl m \<Rightarrow> Inl m
      | Inr rs \<Rightarrow> (case detail_rows es of Inl m \<Rightarrow> Inl m | Inr rss \<Rightarrow> Inr (rs @ rss)))"

definition invoice_detail_content :: "invoice_detail \<Rightarrow> string + detail_content" where
  "invoice_detail_content det =
     (if id_items det = [] then Inr (detail_content_of det (NoData msg_no_items))
      else (case detail_rows (id_items det) of Inl m \<Rightarrow> Inl m
            | Inr rows \<Rightarrow> Inr (detail_content_of det (Table rows))))"

text \<open>\<open>if (!isOpen) return null\<close>, else the loading line, the error and the details,
  whose rendering may throw.\<close>

definition invoice_details_screen ::
  "(details_props, invoice_detail option) report_view \<Rightarrow> string + detail_content dialog_screen option" where
  "invoice_details_screen v =
     (if \<not> dtp_isOpen (rv_filters v) then Inr None
      else (case (if \<not> rv_loading v \<and> rv_error v = None then rv_reportData v else None) of
              None \<Rightarrow> Inr (Some \<lparr>ds_loading = rv_loading v, ds_error = rv_error v, ds_content = None\<rparr>)
            | Some det \<Rightarrow>
                (case invoice_detail_content det of
                   Inl m \<Rightarrow> Inl m
                 | Inr c \<Rightarrow> Inr (Some \<lparr>ds_loading = rv_loading v, ds_error = rv_error v, ds_content = Some c\<rparr>))))"

datatype details_event = DProps details_props | DRespond nat

fun details_step ::
  "db \<Rightarrow> details_event \<Rightarrow> (details_props, invoice_detail option) report_view \<Rightarrow>
   (details_props, invoice_detail option) report_view" where
  "details_step d (DProps f) v = dialog_props_change details_enabled (details_query d) f v"
| "details_step d (DRespond i) v = report_respond no_total i v"

subsection \<open>The individual sales dialogs\<close>

record dialog_props =
  dp_id :: "entity_id option"
  dp_startDate :: string
  dp_endDate :: string
  dp_isOpen :: bool

definition sales_dialog_enabled :: "dialog_props \<Rightarrow> bool" where
  "sales_dialog_enabled f \<longleftrightarrow> dp_isOpen f \<and> dp_id f \<noteq> None"

record 'a sales_dialog =
  sd_view :: "(dialog_props, 'a option) report_view"
  sd_showInvoiceDetailsModal :: bool
  sd_selectedInvoiceIdForDetails :: "entity_id option"
  sd_details :: "(details_props, invoice_detail option) report_view"

definition sales_dialog_mount ::
  "db \<Rightarrow> (dialog_props \<Rightarrow> 'a option option) \<Rightarrow> dialog_props \<Rightarrow> 'a sales_dialog" where
  "sales_dialog_mount d query f =
     \<lparr>sd_view = dialog_mount sales_dialog_enabled query f,
      sd_showInvoiceDetailsModal = False, sd_selectedInvoiceIdForDetails = None,
      sd_details = dialog_mount details_enabled (details_query d) details_closed\<rparr>"

text \<open>
  The events of a dialog: new props from the page, the answer of a request in flight,
  \<open>handleOpenInvoiceDetailsModal(sale.invoiceId)\<close> (the id may be \<open>null\<close>),
  \<open>handleCloseInvoiceDetailsModal\<close>, and an answer to the nested details dialog, whose
  props are \<open>selectedInvoiceIdForDetails\<close> and \<open>showInvoiceDetailsModal\<close>.
\<close>

datatype sales_dialog_event =
    SDProps dialog_props
  | SDRespond nat
  | SDOpenInvoice "entity_id option"
  | SDCloseInvoice
  | SDDetailsRespond nat

fun sales_dialog_step ::
  "db \<Rightarrow> (dialog_props \<Rightarrow> 'a option option) \<Rightarrow> sales_dialog_event \<Rightarrow> 'a sales_dialog \<Rightarrow> 'a sales_dialog" where
  "sales_dialog_step d query (SDProps f) p =
     p\<lparr>sd_view := dialog_props_change sales_dialog_enabled query f (sd_view p)\<rparr>"
| "sales_dialog_step d query (SDRespond i) p = p\<lparr>sd_view := report_respond no_total i (sd_view p)\<rparr>"
| "sales_dialog_step d query (SDOpenInvoice k) p =
     p\<lparr>sd_selectedInvoiceIdForDetails := k, sd_showInvoiceDetailsModal := True,
       sd_details := details_step d (DProps \<lparr>dtp_invoiceId = k, dtp_isOpen = True\<rparr>) (sd_details p)\<rparr>"
| "sales_dialog_step d query SDCloseInvoice p =
     p\<lparr>sd_showInvoiceDetailsModal := False, sd_selectedInvoiceIdForDetails := None,
       sd_details := details_step d (DProps details_closed) (sd_details p)\<rparr>"
| "sales_dialog_step d query (SDDetailsRespond i) p = p\<lparr>sd_details := details_step d (DRespond i) (sd_details p)\<rparr>"

record sales_content =
  sc_info :: "string list"
  sc_sales :: report_body

definition sales_dialog_screen ::
  "('a \<Rightarrow> sales_content) \<Rightarrow> 'a sales_dialog \<Rightarrow>
   sales_content dialog_screen option \<times> (string + detail_content dialog_screen option)" where
  "sales_dialog_screen content p =
     (dialog_screen_of (dp_isOpen (rv_filters (sd_view p))) content (sd_view p), invoice_details_screen (sd_details p))"

subsubsection \<open>\<open>ProductIndividualSales.js\<close>\<close>

type_synonym product_sales_answer = "product_row \<times> (item_row \<times> (extra_row \<times> extra_product_row option) list) list"

definition product_dialog_query :: "db \<Rightarrow> dialog_props \<Rightarrow> product_sales_answer option option" where
  "product_dialog_query d f =
     (case dp_id f of None \<Rightarrow> Some None | Some k \<Rightarrow> getProductSales k (dp_startDate f) (dp_endDate f) d)"

definition measurement_lines :: "measurements \<Rightarrow> string list" where
  "measurement_lines m = (case m of (a, b, c) \<Rightarrow> [''A: '' @ a, ''B: '' @ b, ''C: '' @ c])"

definition sale_extra_text :: "extra_row \<times> extra_product_row option \<Rightarrow> string" where
  "sale_extra_text xe =
     (case xe of (x, p) \<Rightarrow>
        (case p of Some r \<Rightarrow> if xp_name r = [] then msg_unknown else xp_name r | None \<Rightarrow> msg_unknown) @
        '' (Kol-vo: '' @ to_fixed2 (xr_calculatedQuantity x) @ '', Summa: '' @
        to_fixed2 (xr_calculatedTotalPrice x) @ '' m)'')"

definition product_sale_cells :: "item_row \<times> (extra_row \<times> extra_product_row option) list \<Rightarrow> cell list" where
  "product_sale_cells s =
     (case s of (it, xs) \<Rightarrow>
        [Text (digits_of_nat (itr_invoiceId it)), LocaleDateTime (itr_createdAt it),
         Items (measurement_lines (itr_measurements it)),
         Text (to_fixed2 (itr_quantity it)), Text (money_text (itr_calculatedPricePerUnit it)),
         Text (money_text (itr_totalItemPrice it)),
         Text (if itr_notes it = [] then msg_none else itr_notes it),
         (if xs \<noteq> [] then Items (map sale_extra_text xs) else Text msg_none)])"

definition msg_no_product_sales :: string where
  "msg_no_product_sales = ''Net zapisej o prodazhah dlya etogo produkta v vybrannom diapazone dat.''"

definition product_sales_content :: "product_sales_answer \<Rightarrow> sales_content" where
  "product_sales_content a =
     (case a of (r, sales) \<Rightarrow>
        \<lparr>sc_info = [pr_name r, digits_of_nat (pr_id r), pr_barcode r, money_text (pr_price r),
                    pr_measure r, int_text (pr_countOfSides r)],
         sc_sales = (if sales \<noteq> [] then Table (map product_sale_cells sales) else NoData msg_no_product_sales)\<rparr>)"

subsubsection \<open>\<open>ExtraProductIndividualSales.js\<close>\<close>

type_synonym extra_sales_answer = "extra_product_row \<times> (extra_row \<times> entity_id option) list"

definition extra_dialog_query :: "db \<Rightarrow> dialog_props \<Rightarrow> extra_sales_answer option option" where
  "extra_dialog_query d f =
     (case dp_id f of None \<Rightarrow> Some None | Some k \<Rightarrow> getExtraProductSales k (dp_startDate f) (dp_endDate f) d)"

definition extra_sale_cells :: "extra_row \<times> entity_id option \<Rightarrow> cell list" where
  "extra_sale_cells s =
     (case s of (x, k) \<Rightarrow>
        [Text (case k of Some i \<Rightarrow> digits_of_nat i | None \<Rightarrow> []), LocaleDateTime (xr_createdAt x),
         Text (to_fixed2 (xr_calculatedQuantity x)), Text (to_fixed2 (xr_calculatedUnitPrice x)),
         Text (money_text (xr_calculatedTotalPrice x)), Text (digits_of_nat (xr_invoiceItemId x))])"

definition msg_no_extra_sales :: string where
  "msg_no_extra_sales =
     ''Net zapisej o prodazhah dlya etogo dopolnitelnogo produkta v vybrannom diapazone dat.''"

definition extra_sales_content :: "extra_sales_answer \<Rightarrow> sales_content" where
  "extra_sales_content a =
     (case a of (x, sales) \<Rightarrow>
        \<lparr>sc_info = [xp_name x, digits_of_nat (xp_id x), to_fixed2 (xp_price x), xp_measure x,
                    xp_calculationType x],
         sc_sales = (if sales \<noteq> [] then Table (map extra_sale_cells sales) else NoData msg_no_extra_sales)\<rparr>)"

subsection \<open>Deleted products and the details of an invoice\<close>

lemma detail_rows_null_product:
  "\<exists>e \<in> set es. fst (snd e) = None \<Longrightarrow> detail_rows es = Inl (null_read_message ''countOfSides'')"
proof (induction es)
  case (Cons e es)
  obtain it p xs where e: "e = (it, p, xs)" by (cases e) blast
  show ?case
  proof (cases p)
    case None
    then show ?thesis by (simp add: e detail_item_rows_def)
  next
    case (Some r)
    then have "\<exists>e \<in> set es. fst (snd e) = None" using Cons.prems by (auto simp: e)
    then have "detail_rows es = Inl (null_read_message ''countOfSides'')" by (rule Cons.IH)
    then show ?thesis by (simp add: e Some detail_item_rows_def)
  qed
qed simp

lemma getInvoiceDetail_items:
  assumes "i \<in> set (db_invoices d)" "it \<in> set (db_items d)" "itr_invoiceId it = ir_id i"
  shows "\<exists>det. getInvoiceDetail (ir_id i) d = Some det \<and>
           (it, case itr_productId it of None \<Rightarrow> None | Some q \<Rightarrow> find (\<lambda>r. pr_id r = q) (db_products d),
            extras_of_item d it) \<in> set (id_items det)"
proof -
  have "find (\<lambda>j. ir_id j = ir_id i) (db_invoices d) \<noteq> None"
    using assms(1) by (auto simp: find_None_iff)
  then obtain j where j: "find (\<lambda>j. ir_id j = ir_id i) (db_invoices d) = Some j" by blast
  then have "ir_id j = ir_id i" by (auto dest: find_Some_iff [THEN iffD1])
  then show ?thesis using assms(2,3) by (simp add: getInvoiceDetail_def j)
qed

text \<open>
  A latent fault: \<open>DELETE /api/products/:id\<close> never commits (\<open>deleteProduct\<close>), but
  the delete it means to do (\<open>delete_product\<close>, the route with \<open>{ transaction }\<close>
  passed to \<open>destroy\<close>) would break the details of the invoices that sold the product:
  it sets the items' \<open>productId\<close> to \<open>NULL\<close> (\<open>ON DELETE SET NULL\<close>), the details route
  answers those items with \<open>product: null\<close>, and \<open>InvoiceDetails.js\<close> guards the
  product's name but reads \<open>item.product.countOfSides\<close> unguarded.
\<close>

lemma delete_product_invoice_details_crash:
  assumes "i \<in> set (db_invoices d)" "it \<in> set (db_items d)" "itr_invoiceId it = ir_id i"
    and "itr_productId it = Some p"
  shows "map_option invoice_detail_content (getInvoiceDetail (ir_id i) (delete_product p d)) =
           Some (Inl (null_read_message ''countOfSides''))"
proof -
  let ?d' = "delete_product p d"
  let ?it = "it\<lparr>itr_productId := None\<rparr>"
  have "?it \<in> set (db_items ?d')"
    using mem_update_where [OF assms(2), of "\<lambda>i. itr_productId i = Some p"] assms(4)
    by (simp add: delete_product_def)
  moreover have "i \<in> set (db_invoices ?d')" using assms(1) by (simp add: delete_product_def)
  moreover have "itr_invoiceId ?it = ir_id i" using assms(3) by simp
  ultimately obtain det where det: "getInvoiceDetail (ir_id i) ?d' = Some det"
      and e: "(?it, None, extras_of_item ?d' ?it) \<in> set (id_items det)"
    using getInvoiceDetail_items [of i ?d' ?it] by auto
  have "\<exists>e \<in> set (id_items det). fst (snd e) = None" using e by force
  then have "detail_rows (id_items det) = Inl (null_read_message ''countOfSides'')"
    by (rule detail_rows_null_product)
  moreover have "id_items det \<noteq> []" using e by auto
  ultimately show ?thesis by (simp add: det invoice_detail_content_def)
qed

end
