(* ===== verification/CatalogLists.thy ===== *)
theory CatalogLists
  imports ReportPages CatalogRoutes
begin

text \<open>
  The four catalog lists of \<open>src/client/src/list\<close> (\<open>ProductList.js\<close>,
  \<open>ExtraProductList.js\<close>, \<open>CustomerList.js\<close>, \<open>PriceList.js\<close>).  Each loads its rows
  when mounted and whenever the prop \<open>refreshTrigger\<close> changes (the fetch of
  \<open>ReportPages\<close>, \<open>report_view\<close>, with the trigger as its filter), and filters them on
  the client with \<open>toLowerCase().includes(searchTerm.toLowerCase())\<close>; the price list
  also sends the search term to the server, spliced into the URL
  (\<open>`${API_BASE_URL}/api/prices?q=${searchTerm}`\<close>), and fetches again on every change
  of it.  Characters are bytes: \<open>toLowerCase\<close> is modelled on ASCII letters
  (\<open>ascii_lower\<close>), which is exact for ASCII text, and a non-ASCII character is kept
  as its bytes.

  The URL path of the price list's search is modelled as the browser and Express do
  it: the URL parser cuts the fragment at \<open>#\<close> and percent-encodes in the query the
  bytes below \<open>!\<close>, from DEL on, and \<open>" < > '\<close> (\<open>browser_encode\<close>); Express's query
  parser (\<open>qs\<close>) splits the query at \<open>&\<close>, each part at its first \<open>=\<close>, reads \<open>+\<close> as a
  space and applies \<open>decodeURIComponent\<close>, keeping the text when that fails
  (\<open>qs_decode\<close>); several parameters \<open>q\<close> make an array, which the route's template
  literal joins with commas.  Bytes that are not valid UTF-8 are not distinguished.
\<close>

subsection \<open>The search term in the URL\<close>

definition hex_digit_char :: "nat \<Rightarrow> char" where
  "hex_digit_char k = ''0123456789ABCDEF'' ! k"

definition url_escaped :: "char \<Rightarrow> bool" where
  "url_escaped c \<longleftrightarrow> of_char c < (33 :: nat) \<or> 127 \<le> (of_char c :: nat) \<or> c \<in> set ''\"<>'' \<or> c = CHR 0x27"

definition pct_encode :: "char \<Rightarrow> string" where
  "pct_encode c =
     [CHR ''%'', hex_digit_char (of_char c div 16), hex_digit_char (of_char c mod 16)]"

definition browser_encode :: "string \<Rightarrow> string" where
  "browser_encode s = concat (map (\<lambda>c. if url_escaped c then pct_encode c else [c]) s)"

text \<open>\<open>decodeURIComponent\<close>: \<open>None\<close> for a \<open>%\<close> not followed by two hexadecimal digits.\<close>

fun uri_decode :: "string \<Rightarrow> string option" where
  "uri_decode [] = Some []"
| "uri_decode (c # s) =
     (if c = CHR ''%'' then
        (case s of a # b # r \<Rightarrow>
           if is_hex_digit a \<and> is_hex_digit b
           then map_option (\<lambda>t. char_of (16 * hex_value a + hex_value b) # t) (uri_decode r) else None
         | _ \<Rightarrow> None)
      else map_option (\<lambda>t. c # t) (uri_decode s))"

text \<open>The query string parser reads \<open>+\<close> as a space before it decodes.\<close>

definition plus_to_space :: "string \<Rightarrow> string" where
  "plus_to_space s = map (\<lambda>c. if c = CHR ''+'' then CHR '' '' else c) s"

definition qs_decode :: "string \<Rightarrow> string" where
  "qs_decode s =
     (let s' = plus_to_space s
      in case uri_decode s' of Some t \<Rightarrow> t | None \<Rightarrow> s')"

fun split_on :: "char \<Rightarrow> string \<Rightarrow> string list" where
  "split_on c [] = [[]]"
| "split_on c (d # s) = (if d = c then [] # split_on c s else (case split_on c s of w # ws \<Rightarrow> (d # w) # ws))"

definition query_param :: "string \<Rightarrow> string \<times> string" where
  "query_param part = (takeWhile (\<lambda>c. c \<noteq> CHR ''='') part, drop 1 (dropWhile (\<lambda>c. c \<noteq> CHR ''='') part))"

text \<open>An array in a template literal: \<open>Array.prototype.join\<close> with commas.\<close>

fun join_commas :: "string list \<Rightarrow> string" where
  "join_commas [] = []"
| "join_commas [v] = v"
| "join_commas (v # w # vs) = v @ '','' @ join_commas (w # vs)"

text \<open>
  \<open>req.query.q\<close> of the request \<open>/api/prices?q=${searchTerm}\<close>, as the route's template
  literal reads it.
\<close>

definition price_search_q :: "string \<Rightarrow> string" where
  "price_search_q term =
     (let parts = split_on (CHR ''&'') (browser_encode (''q='' @ takeWhile (\<lambda>c. c \<noteq> CHR ''#'') term));
          vals = map (\<lambda>p. qs_decode (snd (query_param p)))
                   (filter (\<lambda>p. qs_decode (fst (query_param p)) = ''q'') parts)
      in join_commas vals)"

subsection \<open>The list components\<close>

text \<open>\<open>s.toLowerCase().includes(t.toLowerCase())\<close>\<close>

definition js_includes_ci :: "string \<Rightarrow> string \<Rightarrow> bool" where
  "js_includes_ci s t \<longleftrightarrow> sublist (map ascii_lower t) (map ascii_lower s)"

record ('f, 'a) list_comp =
  lc_view :: "('f, 'a) report_view"
  lc_searchTerm :: string

text \<open>The first render: \<open>loading\<close> is \<open>true\<close> and the effect fetches.\<close>

definition list_mount :: "('f \<Rightarrow> 'a option) \<Rightarrow> 'f \<Rightarrow> 'a \<Rightarrow> ('f, 'a) list_comp" where
  "list_mount query f x =
     \<lparr>lc_view = report_issue query ((report_view_init f x)\<lparr>rv_loading := True\<rparr>), lc_searchTerm = []\<rparr>"

datatype list_screen = ListLoading | ListError string | ListEmpty | ListItems "string list list"

text \<open>\<open>loading ? ... : error ? ... : filtered.length === 0 ? ... : <ul>...</ul>\<close>\<close>

definition list_screen_of :: "string \<Rightarrow> 'r list \<Rightarrow> ('r \<Rightarrow> string list) \<Rightarrow> ('f, 'a) report_view \<Rightarrow> list_screen" where
  "list_screen_of msg rows item v =
     (if rv_loading v then ListLoading
      else case rv_error v of Some e \<Rightarrow> ListError (msg @ e)
           | None \<Rightarrow> if rows = [] then ListEmpty else ListItems (map item rows))"

definition msg_list_load_failed :: string where
  "msg_list_load_failed = ''Oshibka pri zagruzke dannyh: ''"

text \<open>The list's \<open>setSearchTerm\<close> (no fetch: only the price list fetches on it).\<close>

definition list_set_search :: "db \<Rightarrow> string \<Rightarrow> ('f, 'a) list_comp \<Rightarrow> ('f, 'a) list_comp" where
  "list_set_search d t l = l\<lparr>lc_searchTerm := t\<rparr>"

text \<open>The answer of the \<open>i\<close>-th request of the list: \<open>setX(response.data)\<close> or \<open>setError\<close>.\<close>

definition list_respond :: "nat \<Rightarrow> ('f, 'a) list_comp \<Rightarrow> ('f, 'a) list_comp" where
  "list_respond i l = l\<lparr>lc_view := report_respond (\<lambda>_. 0) i (lc_view l)\<rparr>"

subsubsection \<open>\<open>ProductList.js\<close>\<close>

type_synonym product_list_data = "product list \<times> price list \<times> extra_product_row list"

text \<open>\<open>Promise.all\<close> of \<open>GET /api/products\<close>, \<open>/api/prices\<close> and \<open>/api/extraproducts\<close>; the
  client's \<open>map(e => e.extraPrice)\<close> and \<open>map(e => e.extraProductsConnection)\<close> take
  the join rows, which \<open>product\<close> already holds.\<close>

definition product_list_query :: "db \<Rightarrow> bool \<Rightarrow> product_list_data option" where
  "product_list_query d trig = Some (getProducts [] d, getPrices [] d, getExtraProducts [] d)"

definition product_list_filter :: "string \<Rightarrow> product list \<Rightarrow> product list" where
  "product_list_filter term ps =
     filter (\<lambda>p. js_includes_ci (product_name p) term \<or> js_includes_ci (barcode p) term \<or>
                 js_includes_ci (product_measure p) term) ps"

definition getPriceNameById :: "price list \<Rightarrow> price_id \<Rightarrow> string" where
  "getPriceNameById prices k =
     (case find (\<lambda>p. price_id p = k) prices of Some p \<Rightarrow> price_name p
      | None \<Rightarrow> ''Neizvestnaya cena (ID: '' @ digits_of_nat k @ '')'')"

definition getExtraProductNameById :: "extra_product_row list \<Rightarrow> entity_id \<Rightarrow> string" where
  "getExtraProductNameById xs k =
     (case find (\<lambda>x. xp_id x = k) xs of Some x \<Rightarrow> xp_name x
      | None \<Rightarrow> ''Neizvestnyj Extra Product (ID: '' @ digits_of_nat k @ '')'')"

definition product_list_item :: "price list \<Rightarrow> extra_product_row list \<Rightarrow> product \<Rightarrow> string list" where
  "product_list_item prices xs p =
     [product_name p @ '' (ID: '' @ digits_of_nat (product_id p) @ '')'',
      ''Shtrih-kod: '' @ barcode p @ '' | Cena: '' @ number_to_string (product_price p) @
      '' | Ed. izm.: '' @ product_measure p @ '' | Storon: '' @ int_text (countOfSides p)] @
     (if extraPrices p \<noteq> [] then
        ''Dopolnitelnye ceny:'' #
        map (\<lambda>(k, v). getPriceNameById prices k @ '': '' @ number_to_string v) (extraPrices p)
      else []) @
     (if extraProducts p \<noteq> [] then
        ''Vlozhennye Extra Products:'' #
        map (\<lambda>e. getExtraProductNameById xs (ep_id e) @ '' (ID: '' @ digits_of_nat (ep_id e) @ '')'')
          (extraProducts p)
      else [])"

definition product_list_screen :: "(bool, product_list_data) list_comp \<Rightarrow> list_screen" where
  "product_list_screen l =
     (case rv_reportData (lc_view l) of (ps, prices, xs) \<Rightarrow>
        list_screen_of msg_list_load_failed (product_list_filter (lc_searchTerm l) ps)
          (product_list_item prices xs) (lc_view l))"

subsubsection \<open>\<open>ExtraProductList.js\<close>\<close>

text \<open>\<open>GET /api/extraproducts\<close> answers the rows without \<open>include\<close>: an item has no
  \<open>extraPrices\<close>, and the list's section of tier prices is never rendered.\<close>

definition extra_list_query :: "db \<Rightarrow> bool \<Rightarrow> (extra_product_row list \<times> price list) option" where
  "extra_list_query d trig = Some (getExtraProducts [] d, getPrices [] d)"

definition extra_list_filter :: "string \<Rightarrow> extra_product_row list \<Rightarrow> extra_product_row list" where
  "extra_list_filter term xs =
     filter (\<lambda>x. js_includes_ci (xp_name x) term \<or> js_includes_ci (xp_calculationType x) term) xs"

definition extra_list_item :: "extra_product_row \<Rightarrow> string list" where
  "extra_list_item x =
     [xp_name x @ '' (ID: '' @ digits_of_nat (xp_id x) @ '')'',
      ''Cena: '' @ number_to_string (xp_price x) @ '' | Tip rascheta: '' @ xp_calculationType x]"

definition extra_list_screen :: "(bool, extra_product_row list \<times> price list) list_comp \<Rightarrow> list_screen" where
  "extra_list_screen l =
     list_screen_of ''Oshibka pri zagruzke spiska \"Extra Products\" ili cen: ''
       (extra_list_filter (lc_searchTerm l) (fst (rv_reportData (lc_view l)))) extra_list_item (lc_view l)"

subsubsection \<open>\<open>CustomerList.js\<close>\<close>

definition customer_list_query :: "db \<Rightarrow> bool \<Rightarrow> (customer list \<times> price list) option" where
  "customer_list_query d trig = Some (getCustomers [] d, getPrices [] d)"

text \<open>\<open>customer.address && ...\<close>: an empty address does not match.\<close>

definition customer_list_filter :: "string \<Rightarrow> customer list \<Rightarrow> customer list" where
  "customer_list_filter term cs =
     filter (\<lambda>c. js_includes_ci (customer_name c) term \<or> js_includes_ci (phoneNumber c) term \<or>
                 (address c \<noteq> [] \<and> js_includes_ci (address c) term)) cs"

definition price_name_or_unknown :: "price list \<Rightarrow> price_id \<Rightarrow> string" where
  "price_name_or_unknown prices k =
     (case find (\<lambda>p. price_id p = k) prices of Some p \<Rightarrow> price_name p | None \<Rightarrow> ''Neizvestnaya cena'')"

definition customer_list_item :: "price list \<Rightarrow> customer \<Rightarrow> string list" where
  "customer_list_item prices c =
     [customer_name c @ '' ('' @ phoneNumber c @ '')'',
      address c @ (case defaultPriceId c of Some k \<Rightarrow> '' (Cena: '' @ price_name_or_unknown prices k @ '')''
                    | None \<Rightarrow> [])]"

definition customer_list_screen :: "(bool, customer list \<times> price list) list_comp \<Rightarrow> list_screen" where
  "customer_list_screen l =
     (case rv_reportData (lc_view l) of (cs, prices) \<Rightarrow>
        list_screen_of ''Oshibka pri zagruzke spiska klientov ili cen: ''
          (customer_list_filter (lc_searchTerm l) cs) (customer_list_item prices) (lc_view l))"

subsubsection \<open>\<open>PriceList.js\<close>\<close>

text \<open>The effect runs on \<open>[refreshTrigger, searchTerm]\<close>: both are the filter of the fetch.\<close>

definition price_list_query :: "db \<Rightarrow> bool \<times> string \<Rightarrow> price list option" where
  "price_list_query d f = Some (getPrices (price_search_q (snd f)) d)"

definition price_list_filter :: "string \<Rightarrow> price list \<Rightarrow> price list" where
  "price_list_filter term ps = filter (\<lambda>p. js_includes_ci (price_name p) term) ps"

definition price_list_item :: "price \<Rightarrow> string list" where
  "price_list_item p = [price_name p @ '' (ID: '' @ digits_of_nat (price_id p) @ '')'']"

definition price_list_screen :: "(bool \<times> string, price list) list_comp \<Rightarrow> list_screen" where
  "price_list_screen l =
     list_screen_of ''Oshibka pri zagruzke spiska cen: ''
       (price_list_filter (lc_searchTerm l) (rv_reportData (lc_view l))) price_list_item (lc_view l)"

text \<open>\<open>onChange={(e) => setSearchTerm(e.target.value)}\<close>: the price list fetches again.\<close>

definition price_list_search :: "db \<Rightarrow> string \<Rightarrow> (bool \<times> string, price list) list_comp \<Rightarrow> (bool \<times> string, price list) list_comp" where
  "price_list_search d t l =
     l\<lparr>lc_searchTerm := t,
       lc_view := report_set_filters (price_list_query d) (fst (rv_filters (lc_view l)), t) (lc_view l)\<rparr>"

text \<open>A tier named \<open>A+B\<close> in the seeded database.\<close>

definition db_plus_tier :: db where
  "db_plus_tier = initDb\<lparr>db_prices := db_prices initDb @ [\<lparr>price_id = 3, price_name = ''A+B''\<rparr>], seq_price := 3\<rparr>"

subsection \<open>Plain search terms reach the server unchanged\<close>

lemma hex_digit_char_props:
  assumes "k < 16"
  shows "is_hex_digit (hex_digit_char k) \<and> hex_value (hex_digit_char k) = k"
proof -
  have "k \<in> set [0..<16]" using assms by simp
  then show ?thesis
    by (simp add: upt_rec hex_digit_char_def is_hex_digit_def hex_value_def is_digit_def digit_value_def)
      (elim disjE; simp)
qed

lemma browser_encode_Cons:
  "browser_encode (c # s) = (if url_escaped c then pct_encode c else [c]) @ browser_encode s"
  by (simp add: browser_encode_def)

lemma hex_digit_char_mem: "k < 16 \<Longrightarrow> hex_digit_char k \<in> set ''0123456789ABCDEF''"
  unfolding hex_digit_char_def by (rule nth_mem) (simp add: eval_nat_numeral)

lemma of_char_hex_bounds: "(of_char c :: nat) div 16 < 16" "(of_char c :: nat) mod 16 < 16"
  using less_mult_imp_div_less [of "of_char c" 16 16] nat_of_char_less_256 [of c] by simp_all

lemma browser_encode_absent:
  assumes "x \<notin> set s" "x \<noteq> CHR ''%''" "x \<notin> set ''0123456789ABCDEF''"
  shows "x \<notin> set (browser_encode s)"
  using assms
proof (induction s)
  case (Cons c s)
  have "x \<noteq> hex_digit_char (of_char c div 16)" "x \<noteq> hex_digit_char (of_char c mod 16)"
    using hex_digit_char_mem [OF of_char_hex_bounds(1)] hex_digit_char_mem [OF of_char_hex_bounds(2)]
      Cons.prems(3) by blast+
  then show ?case using Cons by (simp add: browser_encode_Cons pct_encode_def)
qed (simp add: browser_encode_def)

lemma uri_decode_encode: "CHR ''%'' \<notin> set s \<Longrightarrow> uri_decode (browser_encode s) = Some s"
proof (induction s)
  case Nil
  then show ?case by (simp add: browser_encode_def)
next
  case (Cons c s)
  let ?n = "of_char c :: nat"
  note n = of_char_hex_bounds [of c]
  have "char_of (16 * (?n div 16) + ?n mod 16) = c"
    by (metis char_of_char div_mult_mod_eq mult.commute)
  note hex = hex_digit_char_props [OF n(1)] hex_digit_char_props [OF n(2)]
  have c: "c \<noteq> CHR ''%''" and IH: "uri_decode (browser_encode s) = Some s" using Cons by auto
  show ?case
  proof (cases "url_escaped c")
    case True
    then show ?thesis using hex IH \<open>char_of _ = c\<close> by (simp add: browser_encode_Cons pct_encode_def)
  next
    case False
    then show ?thesis using c IH by (simp add: browser_encode_Cons)
  qed
qed

text \<open>Decoding what the browser sent reads each \<open>+\<close> of the term as a space.\<close>

lemma qs_decode_encode: "CHR ''%'' \<notin> set s \<Longrightarrow> qs_decode (browser_encode s) = plus_to_space s"
proof -
  assume s: "CHR ''%'' \<notin> set s"
  have "uri_decode (plus_to_space (browser_encode s)) = Some (plus_to_space s)"
    using s
  proof (induction s)
    case Nil
    then show ?case by (simp add: browser_encode_def plus_to_space_def)
  next
    case (Cons c s)
    let ?n = "of_char c :: nat"
    note n = of_char_hex_bounds [of c]
    have "char_of (16 * (?n div 16) + ?n mod 16) = c"
      by (metis char_of_char div_mult_mod_eq mult.commute)
    note hex = hex_digit_char_props [OF n(1)] hex_digit_char_props [OF n(2)]
    have "hex_digit_char (?n div 16) \<noteq> CHR ''+''" "hex_digit_char (?n mod 16) \<noteq> CHR ''+''"
      using hex_digit_char_mem [OF n(1)] hex_digit_char_mem [OF n(2)] by auto
    moreover have "url_escaped c \<Longrightarrow> c \<noteq> CHR ''+''" by (auto simp: url_escaped_def)
    moreover have c: "c \<noteq> CHR ''%''" and IH: "uri_decode (plus_to_space (browser_encode s)) = Some (plus_to_space s)"
      using Cons by auto
    ultimately show ?case
      using hex \<open>char_of _ = c\<close>
      by (cases "url_escaped c") (auto simp: browser_encode_Cons pct_encode_def plus_to_space_def)
  qed
  then show ?thesis by (simp add: qs_decode_def)
qed

lemma split_on_absent: "c \<notin> set s \<Longrightarrow> split_on c s = [s]"
  by (induction s) auto

text \<open>
  A search term without \<open>%\<close>, \<open>&\<close> and \<open>#\<close> arrives as \<open>req.query.q\<close> with each
  \<open>+\<close> read as a space; without \<open>+\<close> either, as typed.
\<close>

lemma price_search_q_plus:
  assumes "CHR ''%'' \<notin> set t" "CHR ''&'' \<notin> set t" "CHR ''#'' \<notin> set t"
  shows "price_search_q t = plus_to_space t"
proof -
  have tw: "takeWhile (\<lambda>c. c \<noteq> CHR ''#'') t = t" using assms(3) by (auto simp: takeWhile_eq_all_conv)
  have enc: "browser_encode (''q='' @ t) = ''q='' @ browser_encode t"
    by (simp add: browser_encode_Cons url_escaped_def)
  have "CHR ''&'' \<notin> set (browser_encode t)"
    using browser_encode_absent assms(2) by simp
  then have amp: "CHR ''&'' \<notin> set (''q='' @ browser_encode t)" by simp
  have qp: "query_param (CHR ''q'' # CHR ''='' # browser_encode t) = (''q'', browser_encode t)"
    by (simp add: query_param_def)
  have parts: "split_on (CHR ''&'') (browser_encode (''q='' @ takeWhile (\<lambda>c. c \<noteq> CHR ''#'') t)) =
                 [''q='' @ browser_encode t]"
    unfolding tw enc by (rule split_on_absent [OF amp])
  have "qs_decode ''q'' = ''q''" by (simp add: qs_decode_def plus_to_space_def)
  then show ?thesis
    unfolding price_search_q_def Let_def parts by (simp add: qp qs_decode_encode [OF assms(1)])
qed

lemma price_search_q_plain:
  assumes "CHR ''%'' \<notin> set t" "CHR ''+'' \<notin> set t" "CHR ''&'' \<notin> set t" "CHR ''#'' \<notin> set t"
  shows "price_search_q t = t"
  using price_search_q_plus [OF assms(1,3,4)] assms(2)
  by (auto simp: plus_to_space_def intro!: map_idI)

lemma price_list_filter_like:
  "price_list_filter t (filter (\<lambda>r. like_search t (price_name r)) ps) = price_list_filter t ps"
  unfolding price_list_filter_def js_includes_ci_def
  by (induction ps) (auto dest: like_search_of_sublist)

text \<open>
  C16. The price list's search agrees with its specification for plain terms: for a
  term without \<open>%\<close>, \<open>+\<close>, \<open>&\<close> and \<open>#\<close>, the tiers the list shows from the server's
  answer to its request are exactly the tiers whose name contains the term, ASCII
  letters compared without case.  The server's \<open>LIKE\<close> can only widen the search
  (\<open>_\<close> is a wildcard there), and the client's filter narrows it back.
\<close>

theorem price_list_search_equiv:
  assumes "CHR ''%'' \<notin> set t" "CHR ''+'' \<notin> set t" "CHR ''&'' \<notin> set t" "CHR ''#'' \<notin> set t"
  shows "price_list_filter t (getPrices (price_search_q t) d) =
           filter (\<lambda>p. sublist (map ascii_lower t) (map ascii_lower (price_name p))) (db_prices d)"
proof -
  have "price_list_filter t (getPrices (price_search_q t) d) = price_list_filter t (db_prices d)"
    by (simp add: price_search_q_plain [OF assms] getPrices_def price_list_filter_like)
  then show ?thesis by (simp add: price_list_filter_def js_includes_ci_def)
qed

text \<open>
  C7. A \<open>+\<close> in the price list's search term is sent unencoded, and the server reads
  it as a space.  For every term without \<open>%\<close>, \<open>&\<close> and \<open>#\<close>, the list shows
  exactly the tiers whose name contains the term and also matches the term with its
  \<open>+\<close> read as spaces.  So when no tier name contains a space, a term with a \<open>+\<close>
  shows nothing, whatever the tiers are called.
\<close>

theorem price_list_plus_search:
  assumes "CHR ''%'' \<notin> set t" "CHR ''&'' \<notin> set t" "CHR ''#'' \<notin> set t"
  shows "price_list_filter t (getPrices (price_search_q t) d) =
           filter (\<lambda>p. js_includes_ci (price_name p) t \<and> like_search (plus_to_space t) (price_name p))
             (db_prices d) \<and>
         (CHR ''+'' \<in> set t \<longrightarrow> (\<forall>p \<in> set (db_prices d). CHR '' '' \<notin> set (price_name p)) \<longrightarrow>
            price_list_filter t (getPrices (price_search_q t) d) = [])"
proof
  show eq: "price_list_filter t (getPrices (price_search_q t) d) =
              filter (\<lambda>p. js_includes_ci (price_name p) t \<and> like_search (plus_to_space t) (price_name p))
                (db_prices d)"
    by (simp add: price_search_q_plus [OF assms] getPrices_def price_list_filter_def conj_commute)
  show "CHR ''+'' \<in> set t \<longrightarrow> (\<forall>p \<in> set (db_prices d). CHR '' '' \<notin> set (price_name p)) \<longrightarrow>
          price_list_filter t (getPrices (price_search_q t) d) = []"
  proof (intro impI)
    assume "CHR ''+'' \<in> set t" and ns: "\<forall>p \<in> set (db_prices d). CHR '' '' \<notin> set (price_name p)"
    then have "CHR '' '' \<in> set (CHR ''%'' # plus_to_space t @ ''%'')" by (force simp: plus_to_space_def)
    then have "\<not> like_search (plus_to_space t) (price_name p)" if "p \<in> set (db_prices d)" for p
      using ns that like_match_space unfolding like_search_def by blast
    then show "price_list_filter t (getPrices (price_search_q t) d) = []"
      unfolding eq by (simp add: filter_empty_conv)
  qed
qed

theorem price_list_plus_search_witness:
  "price_list_filter ''A+B'' (getPrices (price_search_q ''A+B'') db_plus_tier) = [] \<and>
   filter (\<lambda>p. js_includes_ci (price_name p) ''A+B'') (db_prices db_plus_tier) \<noteq> []"
proof -
  have ns: "\<forall>p \<in> set (db_prices db_plus_tier). CHR '' '' \<notin> set (price_name p)"
    and nonempty: "filter (\<lambda>p. js_includes_ci (price_name p) ''A+B'') (db_prices db_plus_tier) \<noteq> []"
    by code_simp+
  have "CHR ''%'' \<notin> set ''A+B''" "CHR ''&'' \<notin> set ''A+B''" "CHR ''#'' \<notin> set ''A+B''" "CHR ''+'' \<in> set ''A+B''"
    by simp_all
  with price_list_plus_search [of "''A+B''" db_plus_tier] ns nonempty show ?thesis by blast
qed

theorem price_list_search_equiv_witness:
  "price_list_filter ''dil'' (getPrices (price_search_q ''dil'') initDb) =
     filter (\<lambda>p. sublist (map ascii_lower ''dil'') (map ascii_lower (price_name p))) (db_prices initDb)"
  by (rule price_list_search_equiv) simp_all

end
