(* ===== verification/CardPages.thy ===== *)
theory CardPages
  imports CatalogLists SimpleEditors ProductEditor ExtraProductEditor
begin

text \<open>
  The card pages of \<open>src/client/src/pages/cards\<close>: \<open>PricePage.js\<close>,
  \<open>CustomerPage.js\<close>, \<open>ProductPage.js\<close> and \<open>ExtraProductPage.js\<close> are one piece of
  code with four names.  Each holds \<open>selectedId\<close>, \<open>isEditorOpen\<close> and
  \<open>refreshListTrigger\<close>, renders its list with the trigger as the prop
  \<open>refreshTrigger\<close>, and while the editor is open renders its editor with the selected
  id as prop; the editor calls \<open>onSaveSuccess\<close> after a successful save, and the page
  then toggles the trigger and closes the editor.  \<open>card_page\<close> and \<open>card_handle\<close> are
  that code over two interfaces: an editor (\<open>editor_iface\<close>: its initial state for an
  id prop, the effect on the id, its handlers, and when it calls \<open>onSaveSuccess\<close>) and a
  list (\<open>list_iface\<close>: its request and its filters).  \<open>card_render\<close> is the render
  that follows a handler: a closed editor is unmounted, a newly opened one mounts and
  loads, a new id makes the open one load again, and a new trigger makes the list fetch.
  \<open>CardsPage\<close> of \<open>index.js\<close> switches between the four pages, remounting on a switch.

  React may render between the state updates of one handler (they follow an \<open>await\<close>);
  every handler sets the same final state whether the updates are batched or not, and
  the effects run on the final values, so one render per handler is modelled.
\<close>

subsection \<open>The interfaces of the children\<close>

record ('e, 'v) editor_iface =
  ei_init :: "entity_id option \<Rightarrow> 'e"
  ei_load :: "db \<Rightarrow> 'e \<Rightarrow> 'e"
  ei_set_id :: "entity_id option \<Rightarrow> 'e \<Rightarrow> 'e"
  ei_id :: "'e \<Rightarrow> entity_id option"
  ei_handle :: "db \<Rightarrow> 'e \<Rightarrow> 'v \<Rightarrow> ('e \<times> db) option"
  ei_saved :: "'v \<Rightarrow> 'e \<Rightarrow> bool"

record ('f, 'a) list_iface =
  li_query :: "db \<Rightarrow> 'f \<Rightarrow> 'a option"
  li_trigger :: "'f \<Rightarrow> bool"
  li_set_trigger :: "bool \<Rightarrow> 'f \<Rightarrow> 'f"
  li_search :: "db \<Rightarrow> string \<Rightarrow> ('f, 'a) list_comp \<Rightarrow> ('f, 'a) list_comp"

subsection \<open>A card page\<close>

record ('e, 'f, 'a) card_page =
  cp_selectedId :: "entity_id option"
  cp_isEditorOpen :: bool
  cp_refreshListTrigger :: bool
  cp_list :: "('f, 'a) list_comp"
  cp_editor :: "'e option"

definition card_mount :: "('f, 'a) list_iface \<Rightarrow> db \<Rightarrow> 'f \<Rightarrow> 'a \<Rightarrow> ('e, 'f, 'a) card_page" where
  "card_mount li d f x =
     \<lparr>cp_selectedId = None, cp_isEditorOpen = False, cp_refreshListTrigger = False,
      cp_list = list_mount (li_query li d) f x, cp_editor = None\<rparr>"

text \<open>
  The render after a handler moved the page's state from that of \<open>p\<close> to that of
  \<open>q\<close>: \<open>{isEditorOpen && <Editor id={selectedId} .../>}\<close> and
  \<open><List refreshTrigger={refreshListTrigger} .../>\<close>, with the effects they run.
\<close>

definition card_render ::
  "('e, 'v) editor_iface \<Rightarrow> ('f, 'a) list_iface \<Rightarrow> db \<Rightarrow> ('e, 'f, 'a) card_page \<Rightarrow>
   ('e, 'f, 'a) card_page \<Rightarrow> ('e, 'f, 'a) card_page" where
  "card_render ei li d p q =
     q\<lparr>cp_editor :=
         (if \<not> cp_isEditorOpen q then None
          else if \<not> cp_isEditorOpen p then Some (ei_load ei d (ei_init ei (cp_selectedId q)))
          else if cp_selectedId q \<noteq> cp_selectedId p
          then map_option (\<lambda>e. ei_load ei d (ei_set_id ei (cp_selectedId q) e)) (cp_editor q)
          else cp_editor q),
       cp_list := (lc_view_update (\<lambda>v. report_set_filters (li_query li d)
                     (li_set_trigger li (cp_refreshListTrigger q) (rv_filters v)) v) (cp_list q))\<rparr>"

definition handleCloseEditor :: "('e, 'f, 'a) card_page \<Rightarrow> ('e, 'f, 'a) card_page" where
  "handleCloseEditor p = p\<lparr>cp_isEditorOpen := False, cp_selectedId := None\<rparr>"

definition handleSaveSuccess :: "('e, 'f, 'a) card_page \<Rightarrow> ('e, 'f, 'a) card_page" where
  "handleSaveSuccess p = handleCloseEditor (p\<lparr>cp_refreshListTrigger := \<not> cp_refreshListTrigger p\<rparr>)"

datatype 'v card_event =
    CreateNew
  | Edit entity_id
  | CloseEditor
  | EditorEvent 'v
  | Delete entity_id bool
  | ListSearch string
  | ListRespond nat

text \<open>
  \<open>handleDelete\<close>: \<open>window.confirm\<close> (the event's flag), the \<open>DELETE\<close> route
  (\<open>del\<close>: the new database and whether the request succeeded), then on success the
  trigger and, when the deleted row is the selected one, \<open>handleCloseEditor\<close>; a
  failure only alerts.  \<open>None\<close> when the editor's handler throws.
\<close>

fun card_handle ::
  "('e, 'v) editor_iface \<Rightarrow> ('f, 'a) list_iface \<Rightarrow> (entity_id \<Rightarrow> db \<Rightarrow> db \<times> bool) \<Rightarrow> db \<Rightarrow>
   'v card_event \<Rightarrow> ('e, 'f, 'a) card_page \<Rightarrow> (('e, 'f, 'a) card_page \<times> db) option" where
  "card_handle ei li del d CreateNew p =
     Some (card_render ei li d p (p\<lparr>cp_selectedId := None, cp_isEditorOpen := True\<rparr>), d)"
| "card_handle ei li del d (Edit k) p =
     Some (card_render ei li d p (p\<lparr>cp_selectedId := Some k, cp_isEditorOpen := True\<rparr>), d)"
| "card_handle ei li del d CloseEditor p = Some (card_render ei li d p (handleCloseEditor p), d)"
| "card_handle ei li del d (EditorEvent ev) p =
     (case cp_editor p of
        None \<Rightarrow> Some (p, d)
      | Some e \<Rightarrow>
          (case ei_handle ei d e ev of
             None \<Rightarrow> None
           | Some (e', d') \<Rightarrow>
               (let q = p\<lparr>cp_editor := Some e'\<rparr>
                in if ei_saved ei ev e' then Some (card_render ei li d' q (handleSaveSuccess q), d')
                   else Some (q, d'))))"
| "card_handle ei li del d (Delete k confirmed) p =
     (if \<not> confirmed then Some (p, d)
      else case del k d of
        (d', False) \<Rightarrow> Some (p, d')
      | (d', True) \<Rightarrow>
          (let q = p\<lparr>cp_refreshListTrigger := \<not> cp_refreshListTrigger p\<rparr>
           in Some (card_render ei li d' p (if cp_selectedId p = Some k then handleCloseEditor q else q), d')))"
| "card_handle ei li del d (ListSearch t) p = Some (p\<lparr>cp_list := li_search li d t (cp_list p)\<rparr>, d)"
| "card_handle ei li del d (ListRespond i) p = Some (p\<lparr>cp_list := list_respond i (cp_list p)\<rparr>, d)"

fun card_run ::
  "('e, 'v) editor_iface \<Rightarrow> ('f, 'a) list_iface \<Rightarrow> (entity_id \<Rightarrow> db \<Rightarrow> db \<times> bool) \<Rightarrow> db \<Rightarrow>
   'v card_event list \<Rightarrow> ('e, 'f, 'a) card_page \<Rightarrow> (('e, 'f, 'a) card_page \<times> db) option" where
  "card_run ei li del d [] p = Some (p, d)"
| "card_run ei li del d (ev # evs) p =
     (case card_handle ei li del d ev p of
        None \<Rightarrow> None
      | Some (p', d') \<Rightarrow> card_run ei li del d' evs p')"

text \<open>
  The page's well-formedness: the editor is mounted exactly while \<open>isEditorOpen\<close> and
  edits the selected row, a closed page has no selection, and the list's filters carry
  the page's trigger.
\<close>

definition card_inv :: "('e, 'v) editor_iface \<Rightarrow> ('f, 'a) list_iface \<Rightarrow> ('e, 'f, 'a) card_page \<Rightarrow> bool" where
  "card_inv ei li p \<longleftrightarrow>
     (case cp_editor p of
        None \<Rightarrow> \<not> cp_isEditorOpen p \<and> cp_selectedId p = None
      | Some e \<Rightarrow> cp_isEditorOpen p \<and> ei_id ei e = cp_selectedId p) \<and>
     li_trigger li (rv_filters (lc_view (cp_list p))) = cp_refreshListTrigger p"

subsection \<open>The four pages\<close>

text \<open>The editors of \<open>src/client/src/edit\<close>; each calls \<open>onSaveSuccess\<close> at the end of a
  \<open>handleSubmit\<close> that set no error.\<close>

definition price_editor_iface :: "(price_form, price_editor_event) editor_iface" where
  "price_editor_iface =
     \<lparr>ei_init = empty_price_form, ei_load = price_form_load, ei_set_id = (\<lambda>k f. f\<lparr>prf_priceId := k\<rparr>),
      ei_id = prf_priceId, ei_handle = (\<lambda>d f ev. Some (price_editor_handle d f ev)),
      ei_saved = (\<lambda>ev f. ev = PSubmit \<and> prf_error f = None)\<rparr>"

definition customer_editor_iface :: "(customer_form, customer_editor_event) editor_iface" where
  "customer_editor_iface =
     \<lparr>ei_init = empty_customer_form, ei_load = customer_form_load,
      ei_set_id = (\<lambda>k f. f\<lparr>cf_customerId := k\<rparr>), ei_id = cf_customerId, ei_handle = customer_editor_handle,
      ei_saved = (\<lambda>ev f. ev = CSubmit \<and> cf_error f = None)\<rparr>"

definition product_editor_iface :: "(product_form, product_editor_event) editor_iface" where
  "product_editor_iface =
     \<lparr>ei_init = empty_product_form, ei_load = product_form_load,
      ei_set_id = (\<lambda>k f. f\<lparr>pf_productId := k\<rparr>), ei_id = pf_productId, ei_handle = product_editor_handle,
      ei_saved = (\<lambda>ev f. ev = SubmitProduct \<and> pf_error f = None)\<rparr>"

definition extra_editor_iface :: "(extra_form, extra_editor_event) editor_iface" where
  "extra_editor_iface =
     \<lparr>ei_init = empty_extra_form, ei_load = extra_form_load,
      ei_set_id = (\<lambda>k f. f\<lparr>xf_extraProductId := k\<rparr>), ei_id = xf_extraProductId, ei_handle = extra_editor_handle,
      ei_saved = (\<lambda>ev f. ev = XSubmit \<and> xf_error f = None)\<rparr>"

text \<open>The lists of \<open>CatalogLists\<close>: the trigger is their filter, with the search term
  for the price list.\<close>

definition price_list_iface :: "(bool \<times> string, price list) list_iface" where
  "price_list_iface =
     \<lparr>li_query = price_list_query, li_trigger = fst, li_set_trigger = (\<lambda>b f. (b, snd f)),
      li_search = price_list_search\<rparr>"

definition trigger_list_iface :: "(db \<Rightarrow> bool \<Rightarrow> 'a option) \<Rightarrow> (bool, 'a) list_iface" where
  "trigger_list_iface query =
     \<lparr>li_query = query, li_trigger = id, li_set_trigger = (\<lambda>b f. b), li_search = list_set_search\<rparr>"

text \<open>\<open>axios.delete(`http://localhost:5000/api/.../${id}`)\<close>: \<open>destroy\<close> answers a count,
  and only the product route can fail.\<close>

definition price_delete :: "entity_id \<Rightarrow> db \<Rightarrow> db \<times> bool" where
  "price_delete k d = (fst (deletePrice k d), True)"

definition customer_delete :: "entity_id \<Rightarrow> db \<Rightarrow> db \<times> bool" where
  "customer_delete k d = (fst (deleteCustomer k d), True)"

definition extra_delete :: "entity_id \<Rightarrow> db \<Rightarrow> db \<times> bool" where
  "extra_delete k d = (fst (deleteExtraProduct k d), True)"

definition product_delete :: "entity_id \<Rightarrow> db \<Rightarrow> db \<times> bool" where
  "product_delete k d = (case deleteProduct k d of (d', Inl _) \<Rightarrow> (d', False) | (d', Inr _) \<Rightarrow> (d', True))"

type_synonym price_page = "(price_form, bool \<times> string, price list) card_page"
type_synonym customer_page = "(customer_form, bool, customer list \<times> price list) card_page"
type_synonym product_page = "(product_form, bool, product_list_data) card_page"
type_synonym extra_page = "(extra_form, bool, extra_product_row list \<times> price list) card_page"

definition price_page_mount :: "db \<Rightarrow> price_page" where
  "price_page_mount d = card_mount price_list_iface d (False, []) []"

definition price_page_step :: "db \<Rightarrow> price_editor_event card_event \<Rightarrow> price_page \<Rightarrow> (price_page \<times> db) option" where
  "price_page_step = card_handle price_editor_iface price_list_iface price_delete"

definition customer_page_mount :: "db \<Rightarrow> customer_page" where
  "customer_page_mount d = card_mount (trigger_list_iface customer_list_query) d False ([], [])"

definition customer_page_step ::
  "db \<Rightarrow> customer_editor_event card_event \<Rightarrow> customer_page \<Rightarrow> (customer_page \<times> db) option" where
  "customer_page_step = card_handle customer_editor_iface (trigger_list_iface customer_list_query) customer_delete"

definition product_page_mount :: "db \<Rightarrow> product_page" where
  "product_page_mount d = card_mount (trigger_list_iface product_list_query) d False ([], [], [])"

definition product_page_step ::
  "db \<Rightarrow> product_editor_event card_event \<Rightarrow> product_page \<Rightarrow> (product_page \<times> db) option" where
  "product_page_step = card_handle product_editor_iface (trigger_list_iface product_list_query) product_delete"

definition extra_page_mount :: "db \<Rightarrow> extra_page" where
  "extra_page_mount d = card_mount (trigger_list_iface extra_list_query) d False ([], [])"

definition extra_page_step ::
  "db \<Rightarrow> extra_editor_event card_event \<Rightarrow> extra_page \<Rightarrow> (extra_page \<times> db) option" where
  "extra_page_step = card_handle extra_editor_iface (trigger_list_iface extra_list_query) extra_delete"

subsection \<open>\<open>CardsPage\<close> (\<open>index.js\<close>)\<close>

datatype mounted_card =
    PricesOn price_page
  | CustomersOn customer_page
  | ProductsOn product_page
  | ExtraProductsOn extra_page

record cards_page =
  cdp_activePage :: string
  cdp_mounted :: mounted_card

definition renderActivePage :: "db \<Rightarrow> string \<Rightarrow> mounted_card" where
  "renderActivePage d page =
     (if page = ''prices'' then PricesOn (price_page_mount d)
      else if page = ''customers'' then CustomersOn (customer_page_mount d)
      else if page = ''products'' then ProductsOn (product_page_mount d)
      else if page = ''extraproducts'' then ExtraProductsOn (extra_page_mount d)
      else PricesOn (price_page_mount d))"

text \<open>The component a name renders: the page stays mounted when it is the same.\<close>

definition card_kind :: "string \<Rightarrow> nat" where
  "card_kind page =
     (if page = ''customers'' then 1 else if page = ''products'' then 2
      else if page = ''extraproducts'' then 3 else 0)"

definition cards_page_mount :: "db \<Rightarrow> cards_page" where
  "cards_page_mount d = \<lparr>cdp_activePage = ''customers'', cdp_mounted = renderActivePage d ''customers''\<rparr>"

datatype cards_event =
    SetActivePage string
  | PriceCardEvent "price_editor_event card_event"
  | CustomerCardEvent "customer_editor_event card_event"
  | ProductCardEvent "product_editor_event card_event"
  | ExtraCardEvent "extra_editor_event card_event"

fun mounted_card_step :: "db \<Rightarrow> cards_event \<Rightarrow> mounted_card \<Rightarrow> (mounted_card \<times> db) option" where
  "mounted_card_step d (PriceCardEvent e) (PricesOn p) = map_option (apfst PricesOn) (price_page_step d e p)"
| "mounted_card_step d (CustomerCardEvent e) (CustomersOn p) =
     map_option (apfst CustomersOn) (customer_page_step d e p)"
| "mounted_card_step d (ProductCardEvent e) (ProductsOn p) = map_option (apfst ProductsOn) (product_page_step d e p)"
| "mounted_card_step d (ExtraCardEvent e) (ExtraProductsOn p) =
     map_option (apfst ExtraProductsOn) (extra_page_step d e p)"
| "mounted_card_step d _ m = Some (m, d)"

fun cards_page_step :: "db \<Rightarrow> cards_event \<Rightarrow> cards_page \<Rightarrow> (cards_page \<times> db) option" where
  "cards_page_step d (SetActivePage page) p =
     Some (if page = cdp_activePage p then p
           else if card_kind page = card_kind (cdp_activePage p) then p\<lparr>cdp_activePage := page\<rparr>
           else \<lparr>cdp_activePage = page, cdp_mounted = renderActivePage d page\<rparr>, d)"
| "cards_page_step d e p = map_option (apfst (\<lambda>m. p\<lparr>cdp_mounted := m\<rparr>)) (mounted_card_step d e (cdp_mounted p))"

subsection \<open>The well-formedness of the cards page\<close>

text \<open>The page of \<open>CardsPage\<close> on screen is the one of its active tab, and it is a
  well-formed card page.\<close>

definition mounted_kind :: "mounted_card \<Rightarrow> nat" where
  "mounted_kind m = (case m of PricesOn _ \<Rightarrow> 0 | CustomersOn _ \<Rightarrow> 1 | ProductsOn _ \<Rightarrow> 2 | ExtraProductsOn _ \<Rightarrow> 3)"

definition cards_inv :: "cards_page \<Rightarrow> bool" where
  "cards_inv p \<longleftrightarrow>
     mounted_kind (cdp_mounted p) = card_kind (cdp_activePage p) \<and>
     (case cdp_mounted p of
        PricesOn q \<Rightarrow> card_inv price_editor_iface price_list_iface q
      | CustomersOn q \<Rightarrow> card_inv customer_editor_iface (trigger_list_iface customer_list_query) q
      | ProductsOn q \<Rightarrow> card_inv product_editor_iface (trigger_list_iface product_list_query) q
      | ExtraProductsOn q \<Rightarrow> card_inv extra_editor_iface (trigger_list_iface extra_list_query) q)"

fun cards_run :: "db \<Rightarrow> cards_event list \<Rightarrow> cards_page \<Rightarrow> (cards_page \<times> db) option" where
  "cards_run d [] p = Some (p, d)"
| "cards_run d (e # es) p =
     (case cards_page_step d e p of None \<Rightarrow> None | Some (p', d') \<Rightarrow> cards_run d' es p')"

subsection \<open>Sample runs\<close>

definition sample_price_page :: price_page where
  "sample_price_page =
     (case card_run price_editor_iface price_list_iface price_delete initDb
             [CreateNew, EditorEvent (PSetName ''Opt'')] (price_page_mount initDb) of
        Some (p, _) \<Rightarrow> p | None \<Rightarrow> price_page_mount initDb)"

definition sample_extra_page :: extra_page where
  "sample_extra_page =
     (case card_run extra_editor_iface (trigger_list_iface extra_list_query) extra_delete initDb
             [CreateNew, EditorEvent (XSetName ''Zer''), EditorEvent (XSetPrice ''5''),
              EditorEvent (XSetMeasure ''m''), EditorEvent (XSetCalculationType ''a'')]
             (extra_page_mount initDb) of
        Some (p, _) \<Rightarrow> p | None \<Rightarrow> extra_page_mount initDb)"

definition sample_cards_run :: "cards_event list" where
  "sample_cards_run =
     [SetActivePage ''prices'', PriceCardEvent CreateNew, PriceCardEvent (EditorEvent (PSetName ''Opt'')),
      PriceCardEvent (EditorEvent PSubmit), PriceCardEvent (ListRespond 0), SetActivePage ''products'',
      ProductCardEvent (Edit 1), ProductCardEvent (Delete 1 True)]"

subsection \<open>Properties\<close>

lemma report_set_filters_filters [simp]: "rv_filters (report_set_filters query f v) = f"
  by (simp add: report_set_filters_def report_issue_def)

lemma report_respond_filters [simp]: "rv_filters (report_respond totalOf i v) = rv_filters v"
  by (simp add: report_respond_def Let_def split: option.split)

lemma card_inv_closed:
  "card_inv ei li p \<Longrightarrow> \<not> cp_isEditorOpen p \<Longrightarrow> cp_editor p = None \<and> cp_selectedId p = None"
  by (auto simp: card_inv_def split: option.splits)

lemma card_inv_open:
  "card_inv ei li p \<Longrightarrow> cp_isEditorOpen p \<Longrightarrow> \<exists>e. cp_editor p = Some e \<and> ei_id ei e = cp_selectedId p"
  by (auto simp: card_inv_def split: option.splits)

lemma card_render_inv:
  assumes init: "\<And>k. ei_id ei (ei_init ei k) = k"
    and load: "\<And>d e. ei_id ei (ei_load ei d e) = ei_id ei e"
    and set_id: "\<And>k e. ei_id ei (ei_set_id ei k e) = k"
    and trig: "\<And>b f. li_trigger li (li_set_trigger li b f) = b"
    and closed: "\<not> cp_isEditorOpen q \<Longrightarrow> cp_selectedId q = None"
    and kept: "cp_isEditorOpen p \<Longrightarrow> cp_isEditorOpen q \<Longrightarrow>
                 \<exists>e. cp_editor q = Some e \<and> ei_id ei e = cp_selectedId p"
  shows "card_inv ei li (card_render ei li d p q)"
proof (cases "cp_isEditorOpen q \<and> cp_isEditorOpen p")
  case True
  then obtain e where "cp_editor q = Some e" "ei_id ei e = cp_selectedId p" using kept by blast
  then show ?thesis using True by (simp add: card_inv_def card_render_def load set_id trig)
next
  case False
  then show ?thesis using closed by (auto simp: card_inv_def card_render_def init load trig)
qed


lemma card_handle_inv:
  assumes init: "\<And>k. ei_id ei (ei_init ei k) = k"
    and load: "\<And>d e. ei_id ei (ei_load ei d e) = ei_id ei e"
    and set_id: "\<And>k e. ei_id ei (ei_set_id ei k e) = k"
    and handle: "\<And>d e ev e' d'. ei_handle ei d e ev = Some (e', d') \<Longrightarrow> ei_id ei e' = ei_id ei e"
    and trig: "\<And>b f. li_trigger li (li_set_trigger li b f) = b"
    and search: "\<And>d t l. li_trigger li (rv_filters (lc_view (li_search li d t l))) =
                           li_trigger li (rv_filters (lc_view l))"
    and inv: "card_inv ei li p"
    and step: "card_handle ei li del d ev p = Some (p', d')"
  shows "card_inv ei li p'"
proof -
  note render = card_render_inv [OF init load set_id trig]
  note closed = card_inv_closed [OF inv] and opened = card_inv_open [OF inv]
  show ?thesis
  proof (cases ev)
    case CreateNew
    then have "p' = card_render ei li d p (p\<lparr>cp_selectedId := None, cp_isEditorOpen := True\<rparr>)"
      using step by auto
    then show ?thesis by (simp only:) (rule render; use opened in simp)
  next
    case (Edit k)
    then have "p' = card_render ei li d p (p\<lparr>cp_selectedId := Some k, cp_isEditorOpen := True\<rparr>)"
      using step by auto
    then show ?thesis by (simp only:) (rule render; use opened in simp)
  next
    case CloseEditor
    then have "p' = card_render ei li d p (handleCloseEditor p)" using step by auto
    then show ?thesis by (simp only:) (rule render; simp add: handleCloseEditor_def)
  next
    case (EditorEvent v)
    show ?thesis
    proof (cases "cp_editor p")
      case None
      then show ?thesis using step inv EditorEvent by simp
    next
      case (Some e)
      then obtain e1 d1 where h: "ei_handle ei d e v = Some (e1, d1)"
        using step EditorEvent by (auto split: option.splits)
      have is_open: "cp_isEditorOpen p" and id: "ei_id ei e1 = cp_selectedId p"
        using inv Some handle [OF h] by (simp_all add: card_inv_def)
      let ?q = "p\<lparr>cp_editor := Some e1\<rparr>"
      show ?thesis
      proof (cases "ei_saved ei v e1")
        case True
        then have "p' = card_render ei li d1 ?q (handleSaveSuccess ?q)"
          using step EditorEvent Some h by (auto simp: Let_def)
        then show ?thesis
          by (simp only:) (rule render; simp add: handleSaveSuccess_def handleCloseEditor_def)
      next
        case False
        then have "p' = ?q" using step EditorEvent Some h by (auto simp: Let_def)
        then show ?thesis using inv Some is_open id by (simp add: card_inv_def)
      qed
    qed
  next
    case (Delete k confirmed)
    show ?thesis
    proof (cases "confirmed \<and> snd (del k d)")
      case True
      let ?q = "p\<lparr>cp_refreshListTrigger := \<not> cp_refreshListTrigger p\<rparr>"
      have "p' = card_render ei li (fst (del k d)) p (if cp_selectedId p = Some k then handleCloseEditor ?q else ?q)"
        using step Delete True by (cases "del k d") (auto simp: Let_def)
      then show ?thesis
        by (simp only:) (rule render; use closed opened in \<open>auto simp: handleCloseEditor_def\<close>)
    next
      case False
      then have "p' = p" using step Delete by (cases "del k d") (auto split: if_splits)
      then show ?thesis using inv by simp
    qed
  next
    case (ListSearch t)
    then show ?thesis using step inv search by (auto simp: card_inv_def split: option.splits)
  next
    case (ListRespond i)
    then show ?thesis using step inv by (auto simp: card_inv_def list_respond_def split: option.splits)
  qed
qed


lemma card_run_inv:
  assumes init: "\<And>k. ei_id ei (ei_init ei k) = k"
    and load: "\<And>d e. ei_id ei (ei_load ei d e) = ei_id ei e"
    and set_id: "\<And>k e. ei_id ei (ei_set_id ei k e) = k"
    and handle: "\<And>d e ev e' d'. ei_handle ei d e ev = Some (e', d') \<Longrightarrow> ei_id ei e' = ei_id ei e"
    and trig: "\<And>b f. li_trigger li (li_set_trigger li b f) = b"
    and search: "\<And>d t l. li_trigger li (rv_filters (lc_view (li_search li d t l))) =
                           li_trigger li (rv_filters (lc_view l))"
  shows "card_inv ei li p \<Longrightarrow> card_run ei li del d evs p = Some (p', d') \<Longrightarrow> card_inv ei li p'"
proof (induction evs arbitrary: p d)
  case Nil
  then show ?case by simp
next
  case (Cons ev evs)
  then obtain p1 d1 where s: "card_handle ei li del d ev p = Some (p1, d1)"
    and r: "card_run ei li del d1 evs p1 = Some (p', d')"
    by (auto split: option.splits)
  have "card_inv ei li p1" by (rule card_handle_inv [OF init load set_id handle trig search Cons.prems(1) s])
  then show ?case using Cons.IH r by blast
qed

lemma card_mount_inv: "li_trigger li f = False \<Longrightarrow> card_inv ei li (card_mount li d f x)"
  by (simp add: card_inv_def card_mount_def list_mount_def report_issue_def report_view_init_def)

lemma product_submit_id:
  "product_submit d f = Some (f', d') \<Longrightarrow> pf_productId f' = pf_productId f"
  unfolding product_submit_def Let_def
  by (auto simp: clear_product_form_def split: sum.splits option.splits prod.splits)

lemma product_editor_handle_id:
  assumes that: "product_editor_handle d f ev = Some (f', d')"
  shows "pf_productId f' = pf_productId f"
proof (cases ev)
  case SubmitProduct
  then show ?thesis using that by (simp add: product_submit_id)
next
  case (ChangeExtraPrice i fld v)
  then show ?thesis using that by (cases "change_price_row i fld v (pf_extraPrices f)") (auto simp: handleExtraPriceChange_def split: sum.splits)
next
  case (ChangeExtraProduct i v)
  then show ?thesis using that by (auto simp: handleExtraProductChange_def Let_def split: if_splits)
next
  case AddExtraPrice
  then show ?thesis using that by (auto simp: handleAddExtraPrice_def split: option.splits)
next
  case AddExtraProduct
  then show ?thesis using that by (auto simp: handleAddExtraProduct_def Let_def split: list.splits)
qed (use that in \<open>auto simp: handleRemoveExtraPrice_def handleRemoveExtraProduct_def\<close>)

lemma product_editor_iface_id:
  "ei_id product_editor_iface (ei_init product_editor_iface k) = k"
  "ei_id product_editor_iface (ei_load product_editor_iface d e) = ei_id product_editor_iface e"
  "ei_id product_editor_iface (ei_set_id product_editor_iface k e) = k"
  "ei_handle product_editor_iface d e ev = Some (e', d') \<Longrightarrow> ei_id product_editor_iface e' = ei_id product_editor_iface e"
  by (auto simp: product_editor_iface_def empty_product_form_def product_form_load_def Let_def
        clear_product_form_def product_editor_handle_id split: option.splits)

lemma price_submit_id: "price_submit d f = (f', d') \<Longrightarrow> prf_priceId f' = prf_priceId f"
  unfolding price_submit_def Let_def by (auto split: sum.splits option.splits prod.splits if_splits)

lemma price_editor_iface_id:
  "ei_id price_editor_iface (ei_init price_editor_iface k) = k"
  "ei_id price_editor_iface (ei_load price_editor_iface d e) = ei_id price_editor_iface e"
  "ei_id price_editor_iface (ei_set_id price_editor_iface k e) = k"
  "ei_handle price_editor_iface d e ev = Some (e', d') \<Longrightarrow> ei_id price_editor_iface e' = ei_id price_editor_iface e"
  by (cases ev; auto simp: price_editor_iface_def empty_price_form_def price_form_load_def price_submit_id
        split: option.splits)+

lemma customer_submit_id: "customer_submit d f = Some (f', d') \<Longrightarrow> cf_customerId f' = cf_customerId f"
  unfolding customer_submit_def Let_def
  by (auto simp: clear_customer_form_def split: sum.splits option.splits prod.splits)

lemma customer_editor_iface_id:
  "ei_id customer_editor_iface (ei_init customer_editor_iface k) = k"
  "ei_id customer_editor_iface (ei_load customer_editor_iface d e) = ei_id customer_editor_iface e"
  "ei_id customer_editor_iface (ei_set_id customer_editor_iface k e) = k"
  "ei_handle customer_editor_iface d e ev = Some (e', d') \<Longrightarrow> ei_id customer_editor_iface e' = ei_id customer_editor_iface e"
  by (cases ev; auto simp: customer_editor_iface_def empty_customer_form_def customer_form_load_def Let_def
        clear_customer_form_def customer_submit_id split: option.splits)+

lemma extra_submit_id: "extra_submit d f = Some (f', d') \<Longrightarrow> xf_extraProductId f' = xf_extraProductId f"
  unfolding extra_submit_def Let_def
  by (auto simp: clear_extra_form_def split: sum.splits option.splits prod.splits)

lemma extra_editor_handle_id:
  assumes that: "extra_editor_handle d f ev = Some (f', d')"
  shows "xf_extraProductId f' = xf_extraProductId f"
proof (cases ev)
  case XSubmit
  then show ?thesis using that by (simp add: extra_submit_id)
next
  case (XChangeExtraPrice i fld v)
  then show ?thesis using that
    by (cases "change_price_row i fld v (xf_extraPrices f)") (auto split: sum.splits)
next
  case XAddExtraPrice
  then show ?thesis using that by (auto split: option.splits)
qed (use that in auto)

lemma extra_editor_iface_id:
  "ei_id extra_editor_iface (ei_init extra_editor_iface k) = k"
  "ei_id extra_editor_iface (ei_load extra_editor_iface d e) = ei_id extra_editor_iface e"
  "ei_id extra_editor_iface (ei_set_id extra_editor_iface k e) = k"
  "ei_handle extra_editor_iface d e ev = Some (e', d') \<Longrightarrow> ei_id extra_editor_iface e' = ei_id extra_editor_iface e"
  by (auto simp: extra_editor_iface_def empty_extra_form_def extra_form_load_def Let_def
        clear_extra_form_def extra_editor_handle_id split: option.splits)

lemma price_list_iface_trigger:
  "li_trigger price_list_iface (li_set_trigger price_list_iface b f) = b"
  "li_trigger price_list_iface (rv_filters (lc_view (li_search price_list_iface d t l))) =
     li_trigger price_list_iface (rv_filters (lc_view l))"
  by (simp_all add: price_list_iface_def price_list_search_def)

lemma trigger_list_iface_trigger:
  "li_trigger (trigger_list_iface q) (li_set_trigger (trigger_list_iface q) b f) = b"
  "li_trigger (trigger_list_iface q) (rv_filters (lc_view (li_search (trigger_list_iface q) d t l))) =
     li_trigger (trigger_list_iface q) (rv_filters (lc_view l))"
  by (simp_all add: trigger_list_iface_def list_set_search_def)

lemmas price_page_laws = price_editor_iface_id price_list_iface_trigger
lemmas customer_page_laws = customer_editor_iface_id trigger_list_iface_trigger
lemmas product_page_laws = product_editor_iface_id trigger_list_iface_trigger
lemmas extra_page_laws = extra_editor_iface_id trigger_list_iface_trigger

lemma renderActivePage_inv:
  "cards_inv \<lparr>cdp_activePage = page, cdp_mounted = renderActivePage d page\<rparr>"
  by (simp add: cards_inv_def renderActivePage_def mounted_kind_def card_kind_def price_page_mount_def
      customer_page_mount_def product_page_mount_def extra_page_mount_def card_mount_inv
      price_list_iface_def trigger_list_iface_def)

lemma mounted_card_step_inv:
  assumes "cards_inv p" "mounted_card_step d e (cdp_mounted p) = Some (m, d')"
  shows "cards_inv (p\<lparr>cdp_mounted := m\<rparr>)"
  using assms
  by (cases e; cases "cdp_mounted p";
      auto simp: cards_inv_def mounted_kind_def price_page_step_def customer_page_step_def
                 product_page_step_def extra_page_step_def
           intro: card_handle_inv [OF price_page_laws] card_handle_inv [OF customer_page_laws]
                  card_handle_inv [OF product_page_laws] card_handle_inv [OF extra_page_laws])

lemma cards_page_step_inv:
  assumes "cards_inv p" "cards_page_step d e p = Some (p', d')"
  shows "cards_inv p'"
proof (cases e)
  case (SetActivePage page)
  then show ?thesis using assms renderActivePage_inv [of page d]
    by (auto simp: cards_inv_def split: if_splits)
qed (use assms mounted_card_step_inv in auto)

lemma cards_run_inv: "cards_inv p \<Longrightarrow> cards_run d es p = Some (p', d') \<Longrightarrow> cards_inv p'"
  by (induction d es p rule: cards_run.induct) (auto split: option.splits dest: cards_page_step_inv)



lemma report_drain_Cons:
  "rv_pending v = x # xs \<Longrightarrow> report_drain t v = report_drain t (report_respond t 0 v)"
  by (simp add: report_drain_def report_respond_def Let_def remove_at_def funpow_Suc_right
         split: option.split del: funpow.simps)

lemma report_drain_last:
  "rv_pending v = xs \<Longrightarrow> xs \<noteq> [] \<Longrightarrow> snd (last xs) = Some a \<Longrightarrow>
     rv_reportData (report_drain t v) = a \<and> \<not> rv_loading (report_drain t v)"
proof (induction xs arbitrary: v)
  case Nil
  then show ?case by simp
next
  case (Cons x xs)
  let ?w = "report_respond t 0 v"
  have w: "rv_pending ?w = xs" using Cons.prems(1)
    by (simp add: report_respond_def Let_def remove_at_def split: option.split)
  show ?case
  proof (cases "xs = []")
    case True
    then have "report_drain t ?w = ?w" using w by (simp add: report_drain_def)
    then show ?thesis using Cons.prems True
      by (simp add: report_drain_Cons [OF Cons.prems(1)] report_respond_def Let_def)
  next
    case False
    then show ?thesis using Cons.IH [OF w] Cons.prems by (simp add: report_drain_Cons [OF Cons.prems(1)])
  qed
qed

lemma report_set_filters_new:
  "f \<noteq> rv_filters v \<Longrightarrow>
     rv_pending (report_set_filters query f v) = rv_pending v @ [(f, query f)]"
  by (simp add: report_set_filters_def report_issue_def)

text \<open>
  The cards page is well-formed in every state a run of events reaches from its
  mount: the page on screen is the one its active tab names; an editor is mounted
  exactly while \<open>isEditorOpen\<close> and edits the selected row, a closed page has no
  selection, and the list's \<open>refreshTrigger\<close> filter is the page's trigger.
\<close>

theorem cards_page_wf:
  "cards_run d es (cards_page_mount d) = Some (p, d') \<Longrightarrow> cards_inv p"
  unfolding cards_page_mount_def by (erule cards_run_inv [OF renderActivePage_inv])

theorem cards_page_wf_witness:
  "case cards_run initDb sample_cards_run (cards_page_mount initDb) of
     Some (p, d') \<Rightarrow> cards_inv p | None \<Rightarrow> False"
proof -
  have "cards_run initDb sample_cards_run (cards_page_mount initDb) \<noteq> None" by code_simp
  then obtain p d' where r: "cards_run initDb sample_cards_run (cards_page_mount initDb) = Some (p, d')"
    by auto
  show ?thesis using cards_page_wf [OF r] r by simp
qed

text \<open>
  C13. A successful save in the price page closes the editor and makes the list fetch
  again: once the list's answers arrive in the order of its requests, it holds the
  server's answer for the database after the save, and is no longer loading.
\<close>

theorem price_page_save_refreshes:
  assumes inv: "card_inv price_editor_iface price_list_iface p" and ed: "cp_editor p = Some e"
    and submit: "price_submit d e = (e', d')" and ok: "prf_error e' = None"
  shows "\<exists>p'. price_page_step d (EditorEvent PSubmit) p = Some (p', d') \<and>
           \<not> cp_isEditorOpen p' \<and> cp_editor p' = None \<and>
           rv_reportData (report_drain (\<lambda>_. 0) (lc_view (cp_list p'))) =
             getPrices (price_search_q (snd (rv_filters (lc_view (cp_list p))))) d' \<and>
           \<not> rv_loading (report_drain (\<lambda>_. 0) (lc_view (cp_list p')))"
proof -
  let ?v = "lc_view (cp_list p)"
  let ?f = "(\<not> cp_refreshListTrigger p, snd (rv_filters ?v))"
  let ?q = "p\<lparr>cp_editor := Some e'\<rparr>"
  let ?p' = "card_render price_editor_iface price_list_iface d' ?q (handleSaveSuccess ?q)"
  have step: "price_page_step d (EditorEvent PSubmit) p = Some (?p', d')"
    using ed submit ok by (simp add: price_page_step_def price_editor_iface_def Let_def)
  have trig: "fst (rv_filters ?v) = cp_refreshListTrigger p"
    using inv by (simp add: card_inv_def price_list_iface_def)
  have neq: "?f \<noteq> rv_filters ?v" using trig by (cases "rv_filters ?v") auto
  have "rv_pending (lc_view (cp_list ?p')) = rv_pending ?v @ [(?f, price_list_query d' ?f)]"
    by (simp add: card_render_def handleSaveSuccess_def handleCloseEditor_def
                  price_list_iface_def report_set_filters_new [OF neq])
  then have "rv_reportData (report_drain (\<lambda>_. 0) (lc_view (cp_list ?p'))) = getPrices (price_search_q (snd ?f)) d' \<and>
             \<not> rv_loading (report_drain (\<lambda>_. 0) (lc_view (cp_list ?p')))"
    by (rule report_drain_last) (simp_all add: price_list_query_def)
  moreover have "\<not> cp_isEditorOpen ?p' \<and> cp_editor ?p' = None"
    by (simp add: card_render_def handleSaveSuccess_def handleCloseEditor_def)
  ultimately show ?thesis using step by auto
qed

theorem price_page_save_refreshes_witness:
  "\<exists>p'. price_page_step initDb (EditorEvent PSubmit) sample_price_page =
          Some (p', snd (price_submit initDb (the (cp_editor sample_price_page)))) \<and>
        \<not> cp_isEditorOpen p' \<and> cp_editor p' = None \<and>
        rv_reportData (report_drain (\<lambda>_. 0) (lc_view (cp_list p'))) =
          getPrices (price_search_q (snd (rv_filters (lc_view (cp_list sample_price_page)))))
            (snd (price_submit initDb (the (cp_editor sample_price_page)))) \<and>
        \<not> rv_loading (report_drain (\<lambda>_. 0) (lc_view (cp_list p')))"
  by (rule price_page_save_refreshes
        [of sample_price_page "the (cp_editor sample_price_page)" initDb
            "fst (price_submit initDb (the (cp_editor sample_price_page)))"
            "snd (price_submit initDb (the (cp_editor sample_price_page)))"]) code_simp+

text \<open>
  C14. In the extra-product page the measure the editor keeps after a creation (C34)
  never reaches the next creation: the page closes the editor on \<open>onSaveSuccess\<close>, and
  the next \<open>handleCreateNew\<close> mounts a fresh editor, whose load clears the measure.
\<close>

theorem extra_page_create_resets_measure:
  assumes inv: "card_inv extra_editor_iface (trigger_list_iface extra_list_query) p"
    and ed: "cp_editor p = Some e" and submit: "extra_submit d e = Some (e', d')" and ok: "xf_error e' = None"
  shows "\<exists>p' p''. extra_page_step d (EditorEvent XSubmit) p = Some (p', d') \<and>
           extra_page_step d' CreateNew p' = Some (p'', d') \<and>
           cp_editor p'' = Some (extra_form_load d' (empty_extra_form None)) \<and>
           xf_measure (extra_form_load d' (empty_extra_form None)) = []"
proof -
  let ?q = "p\<lparr>cp_editor := Some e'\<rparr>"
  let ?p' = "card_render extra_editor_iface (trigger_list_iface extra_list_query) d' ?q (handleSaveSuccess ?q)"
  have step: "extra_page_step d (EditorEvent XSubmit) p = Some (?p', d')"
    using ed submit ok by (simp add: extra_page_step_def extra_editor_iface_def Let_def)
  have closed: "\<not> cp_isEditorOpen ?p'"
    by (simp add: card_render_def handleSaveSuccess_def handleCloseEditor_def)
  obtain p'' where create: "extra_page_step d' CreateNew ?p' = Some (p'', d')"
    and "cp_editor p'' = Some (extra_form_load d' (empty_extra_form None))"
    using closed by (simp add: extra_page_step_def card_render_def extra_editor_iface_def)
  moreover have "xf_measure (extra_form_load d' (empty_extra_form None)) = []"
    by (simp add: extra_form_load_def empty_extra_form_def clear_extra_form_def Let_def)
  ultimately show ?thesis using step by blast
qed

theorem extra_page_create_resets_measure_witness:
  "\<exists>p' p''. extra_page_step initDb (EditorEvent XSubmit) sample_extra_page =
              Some (p', snd (the (extra_submit initDb (the (cp_editor sample_extra_page))))) \<and>
            extra_page_step (snd (the (extra_submit initDb (the (cp_editor sample_extra_page))))) CreateNew p' =
              Some (p'', snd (the (extra_submit initDb (the (cp_editor sample_extra_page))))) \<and>
            cp_editor p'' = Some (extra_form_load (snd (the (extra_submit initDb (the (cp_editor sample_extra_page)))))
                                   (empty_extra_form None)) \<and>
            xf_measure (extra_form_load (snd (the (extra_submit initDb (the (cp_editor sample_extra_page)))))
                         (empty_extra_form None)) = []"
  by (rule extra_page_create_resets_measure
        [of sample_extra_page "the (cp_editor sample_extra_page)" initDb
            "fst (the (extra_submit initDb (the (cp_editor sample_extra_page))))"
            "snd (the (extra_submit initDb (the (cp_editor sample_extra_page))))"]) code_simp+

end
