(* ===== verification/SearchDialogs.thy ===== *)
theory SearchDialogs
  imports CatalogLists InvoiceEditor
begin

text \<open>
  The dialogs of the invoice page (\<open>src/client/src/pages/invoice\<close>):
  \<open>CustomerSearchDialog.js\<close>, \<open>PriceSearchDialog.js\<close> and \<open>ProductSearchDialog.js\<close>
  fetch their rows once, when mounted (an effect on \<open>[]\<close>), filter them on the client
  and call \<open>onSelect(id)\<close> with the id of the row clicked;
  \<open>ExtraProductSelectionDialog.js\<close> filters the extra products of the card it is
  given.  \<open>invoice_page\<close> composes them with the page model of \<open>InvoiceEditor\<close>: a
  dialog is mounted while its flag (\<open>isCustomerSearchOpen\<close>, ...) is set, covers the
  page with its overlay, and its \<open>onSelect\<close> is the page's handler
  (\<open>handleCustomerSelected\<close>, \<open>handleInvoicePriceSelected\<close>,
  \<open>handleProductSelectedFromDialog\<close>, \<open>handleAddExtraProductFromDialog\<close>), which looks
  the id up in the catalog the page loaded when it mounted and closes the dialog.
\<close>

subsection \<open>The dialogs\<close>

type_synonym 'a fetch_dialog = "(unit, 'a list) list_comp"

text \<open>The first render: \<open>loading\<close> is \<open>true\<close> and the effect on \<open>[]\<close> fetches.\<close>

definition dialog_mount :: "'a list option \<Rightarrow> 'a fetch_dialog" where
  "dialog_mount answer = list_mount (\<lambda>_. answer) () []"

datatype dialog_event = DSearch string | DRespond nat | DSelect nat | DClose

text \<open>\<open>setSearchTerm\<close> and the answer of the dialog's request.\<close>

fun fetch_dialog_step :: "dialog_event \<Rightarrow> 'a fetch_dialog \<Rightarrow> 'a fetch_dialog" where
  "fetch_dialog_step (DSearch t) l = l\<lparr>lc_searchTerm := t\<rparr>"
| "fetch_dialog_step (DRespond i) l = list_respond i l"
| "fetch_dialog_step _ l = l"

text \<open>
  The row clicked: the \<open><li onClick={() => onSelect(x.id)}>\<close> exist only when the
  list is shown, neither loading nor failed.
\<close>

definition dialog_select :: "('a \<Rightarrow> entity_id) \<Rightarrow> (string \<Rightarrow> 'a list \<Rightarrow> 'a list) \<Rightarrow> 'a fetch_dialog \<Rightarrow> nat \<Rightarrow> entity_id option" where
  "dialog_select key filt l j =
     (let rows = filt (lc_searchTerm l) (rv_reportData (lc_view l))
      in if \<not> rv_loading (lc_view l) \<and> rv_error (lc_view l) = None \<and> j < length rows
         then Some (key (rows ! j)) else None)"

subsubsection \<open>\<open>CustomerSearchDialog.js\<close>\<close>

definition customer_dialog_query :: "db \<Rightarrow> customer list option" where
  "customer_dialog_query d = Some (getCustomers [] d)"

definition customer_dialog_filter :: "string \<Rightarrow> customer list \<Rightarrow> customer list" where
  "customer_dialog_filter t cs =
     filter (\<lambda>c. js_includes_ci (customer_name c) t \<or> js_includes_ci (phoneNumber c) t) cs"

definition customer_dialog_item :: "customer \<Rightarrow> string list" where
  "customer_dialog_item c = [customer_name c @ '' ('' @ phoneNumber c @ '')'']"

definition customer_dialog_screen :: "customer fetch_dialog \<Rightarrow> list_screen" where
  "customer_dialog_screen l =
     list_screen_of ''Oshibka pri zagruzke klientov: ''
       (customer_dialog_filter (lc_searchTerm l) (rv_reportData (lc_view l))) customer_dialog_item (lc_view l)"

subsubsection \<open>\<open>PriceSearchDialog.js\<close>\<close>

definition price_dialog_query :: "db \<Rightarrow> price list option" where
  "price_dialog_query d = Some (getPrices [] d)"

definition price_dialog_filter :: "string \<Rightarrow> price list \<Rightarrow> price list" where
  "price_dialog_filter t ps = filter (\<lambda>p. js_includes_ci (price_name p) t) ps"

definition price_dialog_item :: "price \<Rightarrow> string list" where
  "price_dialog_item p = [price_name p @ '' (ID: '' @ digits_of_nat (price_id p) @ '')'']"

definition price_dialog_screen :: "price fetch_dialog \<Rightarrow> list_screen" where
  "price_dialog_screen l =
     list_screen_of ''Oshibka pri zagruzke cen: ''
       (price_dialog_filter (lc_searchTerm l) (rv_reportData (lc_view l))) price_dialog_item (lc_view l)"

subsubsection \<open>\<open>ProductSearchDialog.js\<close>\<close>

definition product_dialog_query :: "db \<Rightarrow> product list option" where
  "product_dialog_query d = Some (getProducts [] d)"

definition product_dialog_filter :: "string \<Rightarrow> product list \<Rightarrow> product list" where
  "product_dialog_filter t ps =
     filter (\<lambda>p. js_includes_ci (product_name p) t \<or> js_includes_ci (barcode p) t) ps"

definition product_dialog_item :: "product \<Rightarrow> string list" where
  "product_dialog_item p = [product_name p @ '' (Shtrih-kod: '' @ barcode p @ '')'']"

definition product_dialog_screen :: "product fetch_dialog \<Rightarrow> list_screen" where
  "product_dialog_screen l =
     list_screen_of ''Oshibka pri zagruzke produktov: ''
       (product_dialog_filter (lc_searchTerm l) (rv_reportData (lc_view l))) product_dialog_item (lc_view l)"

subsubsection \<open>\<open>ExtraProductSelectionDialog.js\<close>\<close>

text \<open>No request: the prop \<open>availableExtraProducts\<close> and the search term.\<close>

definition extra_dialog_filter :: "string \<Rightarrow> extra_product list \<Rightarrow> extra_product list" where
  "extra_dialog_filter t xs = filter (\<lambda>x. js_includes_ci (ep_name x) t) xs"

definition extra_dialog_item :: "extra_product \<Rightarrow> string list" where
  "extra_dialog_item x = [ep_name x @ '' (Tip: '' @ calculationType x @ '')'']"

definition extra_dialog_screen :: "extra_product list \<Rightarrow> string \<Rightarrow> list_screen" where
  "extra_dialog_screen xs t =
     (let rows = extra_dialog_filter t xs in if rows = [] then ListEmpty else ListItems (map extra_dialog_item rows))"

subsection \<open>The invoice page with its dialogs\<close>

record invoice_page =
  ip_editor :: editor
  ip_customerSearch :: "customer fetch_dialog option"
  ip_priceSearch :: "price fetch_dialog option"
  ip_productSearch :: "product fetch_dialog option"
  ip_extraSearch :: "string option"

definition invoice_page_mount :: "editor \<Rightarrow> invoice_page" where
  "invoice_page_mount s =
     \<lparr>ip_editor = s, ip_customerSearch = None, ip_priceSearch = None, ip_productSearch = None,
      ip_extraSearch = None\<rparr>"

definition search_closed :: "invoice_page \<Rightarrow> bool" where
  "search_closed p \<longleftrightarrow>
     ip_customerSearch p = None \<and> ip_priceSearch p = None \<and> ip_productSearch p = None \<and>
     ip_extraSearch p = None"

text \<open>No modal is shown: the measurement dialog is open while a card is edited.\<close>

definition no_dialog :: "invoice_page \<Rightarrow> bool" where
  "no_dialog p \<longleftrightarrow> search_closed p \<and> editingProductIndex (ip_editor p) = None"

text \<open>The page's own controls; the other events of \<open>editor_event\<close> are the dialogs' calls.\<close>

fun page_control :: "editor_event \<Rightarrow> bool" where
  "page_control (SelectCustomer _) = False"
| "page_control (SelectInvoicePrice _) = False"
| "page_control (SelectProductFromDialog _) = False"
| "page_control (OpenExtraDialog _) = False"
| "page_control (AddExtraFromDialog _) = False"
| "page_control _ = True"

text \<open>The controls of the measurement dialog.\<close>

fun measurement_control :: "editor_event \<Rightarrow> bool" where
  "measurement_control (ChangeMeasurement _ _) = True"
| "measurement_control CloseMeasurements = True"
| "measurement_control _ = False"

text \<open>A control of the page receives a click: no overlay covers it.\<close>

definition page_enabled :: "invoice_page \<Rightarrow> editor_event \<Rightarrow> bool" where
  "page_enabled p e \<longleftrightarrow>
     search_closed p \<and> page_control e \<and> (editingProductIndex (ip_editor p) = None \<or> measurement_control e)"

datatype page_event =
    OnPage editor_event
  | OpenCustomerSearch
  | CustomerDialog dialog_event
  | OpenPriceSearch
  | PriceDialog dialog_event
  | OpenProductSearch
  | ProductDialog dialog_event
  | OpenExtraSelection nat
  | ExtraDialog dialog_event

text \<open>
  An event of a fetching dialog: \<open>onClose\<close> unmounts it; a click calls the page's
  handler with the row's id (\<open>sel\<close>), which closes the dialog; the rest is the dialog's
  own state.
\<close>

definition fetch_dialog_event ::
  "('a \<Rightarrow> entity_id) \<Rightarrow> (string \<Rightarrow> 'a list \<Rightarrow> 'a list) \<Rightarrow> (entity_id \<Rightarrow> editor_event) \<Rightarrow> dialog_event \<Rightarrow>
   'a fetch_dialog \<Rightarrow> editor \<Rightarrow> ('a fetch_dialog option \<times> editor) option" where
  "fetch_dialog_event key filt sel e l s =
     (case e of
        DClose \<Rightarrow> Some (None, s)
      | DSelect j \<Rightarrow>
          (case dialog_select key filt l j of
             None \<Rightarrow> Some (Some l, s)
           | Some k \<Rightarrow> map_option (\<lambda>s'. (None, s')) (editor_step s (sel k)))
      | _ \<Rightarrow> Some (Some (fetch_dialog_step e l), s))"

text \<open>
  A click in the extra-product dialog: it lists \<open>addedProducts[current].extraProducts\<close>,
  which throws for a missing card, and calls \<open>handleAddExtraProductFromDialog\<close>, after
  which the page's effects run.
\<close>

definition extra_dialog_select :: "nat \<Rightarrow> string \<Rightarrow> invoice_page \<Rightarrow> invoice_page option" where
  "extra_dialog_select j t p =
     (let s = ip_editor p
      in case currentProductIndexForExtraProducts s of
           None \<Rightarrow> None
         | Some i \<Rightarrow>
             if i < length (addedProducts s) then
               (let rows = extra_dialog_filter t (extraProducts (card_product (addedProducts s ! i)))
                in if j < length rows
                   then map_option (\<lambda>s'. p\<lparr>ip_editor := s', ip_extraSearch := None\<rparr>)
                          (map_option (settle s) (handleAddExtraProductFromDialog (ep_id (rows ! j)) s))
                   else Some p)
             else None)"

text \<open>
  One event of the page.  While a dialog is open its overlay covers the page, whose
  controls then receive nothing (the measurement dialog's own fields and button
  excepted); the buttons open a dialog (the menu icon of a card only when the card has
  extra products).
\<close>

fun invoice_page_step :: "db \<Rightarrow> page_event \<Rightarrow> invoice_page \<Rightarrow> invoice_page option" where
  "invoice_page_step d (OnPage e) p =
     (if page_enabled p e
      then map_option (\<lambda>s. p\<lparr>ip_editor := s\<rparr>) (editor_step (ip_editor p) e) else Some p)"
| "invoice_page_step d OpenCustomerSearch p =
     Some (if no_dialog p then p\<lparr>ip_customerSearch := Some (dialog_mount (customer_dialog_query d))\<rparr> else p)"
| "invoice_page_step d (CustomerDialog e) p =
     (case ip_customerSearch p of
        None \<Rightarrow> Some p
      | Some l \<Rightarrow> map_option (\<lambda>(l', s). p\<lparr>ip_customerSearch := l', ip_editor := s\<rparr>)
                   (fetch_dialog_event customer_id customer_dialog_filter SelectCustomer e l (ip_editor p)))"
| "invoice_page_step d OpenPriceSearch p =
     Some (if no_dialog p then p\<lparr>ip_priceSearch := Some (dialog_mount (price_dialog_query d))\<rparr> else p)"
| "invoice_page_step d (PriceDialog e) p =
     (case ip_priceSearch p of
        None \<Rightarrow> Some p
      | Some l \<Rightarrow> map_option (\<lambda>(l', s). p\<lparr>ip_priceSearch := l', ip_editor := s\<rparr>)
                   (fetch_dialog_event price_id price_dialog_filter SelectInvoicePrice e l (ip_editor p)))"
| "invoice_page_step d OpenProductSearch p =
     Some (if no_dialog p then p\<lparr>ip_productSearch := Some (dialog_mount (product_dialog_query d))\<rparr> else p)"
| "invoice_page_step d (ProductDialog e) p =
     (case ip_productSearch p of
        None \<Rightarrow> Some p
      | Some l \<Rightarrow> map_option (\<lambda>(l', s). p\<lparr>ip_productSearch := l', ip_editor := s\<rparr>)
                   (fetch_dialog_event product_id product_dialog_filter SelectProductFromDialog e l (ip_editor p)))"
| "invoice_page_step d (OpenExtraSelection i) p =
     (let s = ip_editor p
      in if no_dialog p \<and> i < length (addedProducts s) \<and> extraProducts (card_product (addedProducts s ! i)) \<noteq> []
         then map_option (\<lambda>s'. p\<lparr>ip_editor := s', ip_extraSearch := Some []\<rparr>) (editor_step s (OpenExtraDialog i))
         else Some p)"
| "invoice_page_step d (ExtraDialog e) p =
     (case ip_extraSearch p of
        None \<Rightarrow> Some p
      | Some t \<Rightarrow>
          (case e of
             DSearch t' \<Rightarrow> Some (p\<lparr>ip_extraSearch := Some t'\<rparr>)
           | DRespond _ \<Rightarrow> Some p
           | DClose \<Rightarrow> Some (p\<lparr>ip_extraSearch := None\<rparr>)
           | DSelect j \<Rightarrow> extra_dialog_select j t p))"

fun invoice_page_run :: "db \<Rightarrow> page_event list \<Rightarrow> invoice_page \<Rightarrow> invoice_page option" where
  "invoice_page_run d [] p = Some p"
| "invoice_page_run d (e # es) p =
     (case invoice_page_step d e p of None \<Rightarrow> None | Some p' \<Rightarrow> invoice_page_run d es p')"

subsection \<open>Sample runs\<close>

text \<open>The page loaded from the seeded database, and a customer created after it loaded.\<close>

definition sample_loaded_editor :: editor where
  "sample_loaded_editor = editor_init (getCustomers [] initDb) (getPrices [] initDb) (getProducts [] initDb)"

definition sample_dialog_run :: "page_event list" where
  "sample_dialog_run =
     [OpenCustomerSearch, CustomerDialog (DRespond 0), CustomerDialog (DSearch ''aman''), CustomerDialog (DSelect 0),
      OpenProductSearch, ProductDialog (DRespond 0), ProductDialog (DSearch ''H-2''), ProductDialog (DSelect 0),
      OnPage (ChangeMeasurement FieldA ''3''), OnPage (ChangeMeasurement FieldB ''4''), OnPage CloseMeasurements,
      OpenExtraSelection 0, ExtraDialog (DSelect 0)]"

definition new_customer_body :: customer_body where
  "new_customer_body = \<lparr>cb_name = ''Merdan'', cb_phoneNumber = ''+99365000000'', cb_address = ''Mary'',
                         cb_defaultPriceId = None\<rparr>"

subsection \<open>Every call of a dialog is an event of the page model\<close>

lemma fetch_dialog_event_reachable:
  assumes "editor_reachable s" "fetch_dialog_event key filt sel e l s = Some (l', s')"
  shows "editor_reachable s'"
  using assms
  by (auto simp: fetch_dialog_event_def split: dialog_event.splits option.splits
           intro: editor_reachable.step)

lemma extra_dialog_select_event:
  assumes cur: "currentProductIndexForExtraProducts s = Some i" and i: "i < length (addedProducts s)"
    and xs: "xs = extraProducts (card_product (addedProducts s ! i))"
    and j: "j < length (extra_dialog_filter t xs)"
  shows "\<exists>k. map_option (settle s) (handleAddExtraProductFromDialog (ep_id (extra_dialog_filter t xs ! j)) s) =
             editor_step s (AddExtraFromDialog k)"
proof -
  have "extra_dialog_filter t xs ! j \<in> set xs"
    using j nth_mem [OF j] by (simp add: extra_dialog_filter_def)
  then obtain k where k: "k < length xs" "xs ! k = extra_dialog_filter t xs ! j"
    by (auto simp: in_set_conv_nth)
  have "editor_step s (AddExtraFromDialog k) =
          map_option (settle s) (handleAddExtraProductFromDialog (ep_id (xs ! k)) s)"
    using cur i k(1) xs by (simp add: editor_step_def)
  then show ?thesis using k(2) by (metis)
qed

lemma extra_dialog_select_reachable:
  assumes "editor_reachable (ip_editor p)" "extra_dialog_select j t p = Some p'"
  shows "editor_reachable (ip_editor p')"
proof (cases "ip_editor p' = ip_editor p")
  case False
  then obtain i s' where cur: "currentProductIndexForExtraProducts (ip_editor p) = Some i"
    and i: "i < length (addedProducts (ip_editor p))"
    and j: "j < length (extra_dialog_filter t (extraProducts (card_product (addedProducts (ip_editor p) ! i))))"
    and h: "map_option (settle (ip_editor p)) (handleAddExtraProductFromDialog
              (ep_id (extra_dialog_filter t (extraProducts (card_product (addedProducts (ip_editor p) ! i))) ! j))
              (ip_editor p)) = Some s'"
    and s': "ip_editor p' = s'"
    using assms(2) by (auto simp: extra_dialog_select_def Let_def split: option.splits if_splits)
  obtain k where "editor_step (ip_editor p) (AddExtraFromDialog k) = Some s'"
    using extra_dialog_select_event [OF cur i refl j] h by metis
  then show ?thesis using assms(1) s' by (auto intro: editor_reachable.step)
qed (use assms in simp)

lemma invoice_page_step_reachable:
  assumes "editor_reachable (ip_editor p)" "invoice_page_step d e p = Some p'"
  shows "editor_reachable (ip_editor p')"
proof (cases e)
  case (ExtraDialog x)
  then show ?thesis using assms extra_dialog_select_reachable
    by (auto split: option.splits dialog_event.splits)
qed (use assms in \<open>auto simp: Let_def split: if_splits option.splits prod.splits
                   intro: editor_reachable.step dest: fetch_dialog_event_reachable\<close>)

lemma invoice_page_run_reachable:
  "editor_reachable (ip_editor p) \<Longrightarrow> invoice_page_run d es p = Some p' \<Longrightarrow> editor_reachable (ip_editor p')"
  by (induction d es p rule: invoice_page_run.induct)
     (auto split: option.splits dest: invoice_page_step_reachable)

lemma sample_loaded_editor_reachable: "editor_reachable sample_loaded_editor"
  unfolding sample_loaded_editor_def by (rule editor_reachable.init) code_simp

text \<open>
  The dialogs refine the page model: every state the invoice page with its four
  dialogs reaches from a loaded page is a reachable state of the page model, whose
  every call the dialogs make is one of its events, so the page's invariant holds of
  it; in particular the total shown is the sum of the cards.
\<close>

theorem invoice_page_dialogs_refine:
  assumes "editor_reachable s" and "invoice_page_run d es (invoice_page_mount s) = Some p"
  shows "editor_reachable (ip_editor p) \<and> invoiceTotal (ip_editor p) = invoice_total (addedProducts (ip_editor p))"
proof -
  have r: "editor_reachable (ip_editor p)"
    using invoice_page_run_reachable [of "invoice_page_mount s"] assms by (simp add: invoice_page_mount_def)
  then show ?thesis using reachable_editor_inv [OF r] by (simp add: editor_inv_def)
qed

theorem invoice_page_dialogs_refine_witness:
  "case invoice_page_run initDb sample_dialog_run (invoice_page_mount sample_loaded_editor) of
     Some p \<Rightarrow> editor_reachable (ip_editor p) \<and> invoiceTotal (ip_editor p) = invoice_total (addedProducts (ip_editor p)) \<and>
               length (selectedExtraProducts (hd (addedProducts (ip_editor p)))) = 1
   | None \<Rightarrow> False"
proof -
  have "invoice_page_run initDb sample_dialog_run (invoice_page_mount sample_loaded_editor) \<noteq> None" by code_simp
  then obtain p where r: "invoice_page_run initDb sample_dialog_run (invoice_page_mount sample_loaded_editor) = Some p"
    by auto
  have "case invoice_page_run initDb sample_dialog_run (invoice_page_mount sample_loaded_editor) of
          Some p \<Rightarrow> length (selectedExtraProducts (hd (addedProducts (ip_editor p)))) = 1 | None \<Rightarrow> False"
    by code_simp
  then have "length (selectedExtraProducts (hd (addedProducts (ip_editor p)))) = 1" using r by simp
  then show ?thesis using invoice_page_dialogs_refine [OF sample_loaded_editor_reachable r] r by simp
qed

text \<open>
  The dialogs fetch their rows when opened, the page looks the id up in the catalog it
  loaded when it mounted: a customer created since then is listed by the dialog, and
  clicking it clears the selection (\<open>find\<close> gives \<open>undefined\<close>).
\<close>

lemma customer_dialog_stale_catalog:
  "case invoice_page_run (fst (postCustomer new_customer_body initDb))
          [OpenCustomerSearch, CustomerDialog (DRespond 0), CustomerDialog (DSelect 0),
           OpenCustomerSearch, CustomerDialog (DRespond 0), CustomerDialog (DSearch ''Merdan''),
           CustomerDialog (DSelect 0)]
          (invoice_page_mount sample_loaded_editor) of
     Some p \<Rightarrow> selectedCustomer (ip_editor p) = None \<and> ip_customerSearch p = None
   | None \<Rightarrow> False"
  by code_simp

text \<open>In a list of distinct keys, \<open>find\<close> by the key of a member gives that member.\<close>

lemma find_distinct_key:
  "distinct (map key xs) \<Longrightarrow> x \<in> set xs \<Longrightarrow> find (\<lambda>y. key y = key x) xs = Some x"
  by (induction xs) (auto simp: image_iff)

lemma settle_selectedCustomer: "selectedCustomer (settle old new) = selectedCustomer new"
  by (simp add: settle_def total_effect_def tier_effect_def customer_effect_def split: option.split)

text \<open>
  C30. What is clicked is what is selected.  When the customer dialog lists customers
  of the page's catalog (as it does on the loaded page, \<open>App\<close>), the customers have
  distinct ids, and the dialog shows its rows, a click on the \<open>j\<close>-th row shown
  selects exactly the customer that row shows, and closes the dialog: the rows shown
  and the row looked up go through the same filter, and the id the row passes finds
  that customer in the catalog.
\<close>

theorem customer_dialog_select_shown:
  assumes "ip_customerSearch p = Some l"
    and "set (rv_reportData (lc_view l)) \<subseteq> set (availableCustomers (ip_editor p))"
    and "distinct (map customer_id (availableCustomers (ip_editor p)))"
    and "customer_dialog_screen l = ListItems shown" "j < length shown"
  shows "\<exists>c p'. invoice_page_step d (CustomerDialog (DSelect j)) p = Some p' \<and>
           shown ! j = customer_dialog_item c \<and> selectedCustomer (ip_editor p') = Some c \<and>
           ip_customerSearch p' = None"
proof -
  let ?rows = "customer_dialog_filter (lc_searchTerm l) (rv_reportData (lc_view l))"
  have v: "\<not> rv_loading (lc_view l)" "rv_error (lc_view l) = None" and it: "shown = map customer_dialog_item ?rows"
    using assms(4) by (auto simp: customer_dialog_screen_def list_screen_of_def split: if_splits option.splits)
  then have j: "j < length ?rows" using assms(5) by simp
  define c where "c = ?rows ! j"
  have "c \<in> set (rv_reportData (lc_view l))"
    using nth_mem [OF j] by (simp add: c_def customer_dialog_filter_def)
  then have cat: "c \<in> set (availableCustomers (ip_editor p))" using assms(2) by blast
  have sel: "dialog_select customer_id customer_dialog_filter l j = Some (customer_id c)"
    using v j by (simp add: dialog_select_def c_def)
  let ?s = "ip_editor p"
  let ?p' = "p\<lparr>ip_customerSearch := None,
                ip_editor := settle ?s (handleCustomerSelected (customer_id c) ?s)\<rparr>"
  have step: "invoice_page_step d (CustomerDialog (DSelect j)) p = Some ?p'"
    using assms(1) sel by (simp add: fetch_dialog_event_def editor_step_def)
  have "selectedCustomer (ip_editor ?p') = Some c"
    using find_distinct_key [OF assms(3) cat]
    by (simp add: settle_selectedCustomer handleCustomerSelected_def)
  moreover have "shown ! j = customer_dialog_item c" using j by (simp add: it c_def)
  ultimately show ?thesis using step by auto
qed

theorem customer_dialog_select_shown_witness:
  "case invoice_page_run initDb [OpenCustomerSearch, CustomerDialog (DRespond 0), CustomerDialog (DSearch ''ser'')]
          (invoice_page_mount sample_loaded_editor) of
     Some p \<Rightarrow> (case ip_customerSearch p of
                 Some l \<Rightarrow> (case customer_dialog_screen l of
                              ListItems shown \<Rightarrow> 0 < length shown \<and>
                                (\<exists>c p'. invoice_page_step initDb (CustomerDialog (DSelect 0)) p = Some p' \<and>
                                   shown ! 0 = customer_dialog_item c \<and> selectedCustomer (ip_editor p') = Some c \<and>
                                   ip_customerSearch p' = None)
                            | _ \<Rightarrow> False)
               | None \<Rightarrow> False)
   | None \<Rightarrow> False"
proof -
  have "invoice_page_run initDb [OpenCustomerSearch, CustomerDialog (DRespond 0), CustomerDialog (DSearch ''ser'')]
          (invoice_page_mount sample_loaded_editor) \<noteq> None" by code_simp
  then obtain p where r: "invoice_page_run initDb [OpenCustomerSearch, CustomerDialog (DRespond 0),
        CustomerDialog (DSearch ''ser'')] (invoice_page_mount sample_loaded_editor) = Some p" by auto
  have "case invoice_page_run initDb [OpenCustomerSearch, CustomerDialog (DRespond 0), CustomerDialog (DSearch ''ser'')]
          (invoice_page_mount sample_loaded_editor) of
          Some p \<Rightarrow> (case ip_customerSearch p of
                      Some l \<Rightarrow> set (rv_reportData (lc_view l)) \<subseteq> set (availableCustomers (ip_editor p)) \<and>
                                distinct (map customer_id (availableCustomers (ip_editor p))) \<and>
                                (case customer_dialog_screen l of ListItems shown \<Rightarrow> 0 < length shown | _ \<Rightarrow> False)
                    | None \<Rightarrow> False)
        | None \<Rightarrow> False"
    by code_simp
  then obtain l shown where l: "ip_customerSearch p = Some l"
    and sub: "set (rv_reportData (lc_view l)) \<subseteq> set (availableCustomers (ip_editor p))"
    and dis: "distinct (map customer_id (availableCustomers (ip_editor p)))"
    and scr: "customer_dialog_screen l = ListItems shown" and n: "0 < length shown"
    using r by (auto split: option.splits list_screen.splits)
  show ?thesis using customer_dialog_select_shown [OF l sub dis scr n, of initDb] r l scr n by simp
qed

end
