(* ===== verification/App.thy ===== *)
theory App
  imports SearchDialogs CardPages ReportsTabs Server
begin

text \<open>
  \<open>src/client/src/App.js\<close>: the application shows one of three pages, the invoice page
  (\<open>CreateInvoice\<close>, with its dialogs: \<open>SearchDialogs\<close>), the cards page
  (\<open>CardPages\<close>) and the reports page (\<open>ReportsTabs\<close>), chosen by \<open>activePage\<close>; the
  navigation buttons of a page lead to the two others.  A page on another index is
  another element, so navigating unmounts the page on screen and mounts the new one,
  whose effects load its data from the server anew.  The database is the server's
  state, shared by all pages; the invoice page's \<open>handleCreateInvoice\<close> is composed
  with \<open>POST /api/invoices\<close> of \<open>Server\<close>, whose answer decides the page's next state.
\<close>

datatype app_page =
    CreateInvoiceOn invoice_page
  | CardsOn cards_page
  | ReportsOn reports_page

record app =
  app_activePage :: nat
  app_page :: app_page

text \<open>
  The invoice page once \<open>fetchAllInitialData\<close> has answered: the customers, tiers and
  products of the database (the loading phase, with the controls disabled, is not
  modelled).
\<close>

definition loaded_editor :: "db \<Rightarrow> editor" where
  "loaded_editor d = editor_init (getCustomers [] d) (getPrices [] d) (getProducts [] d)"

text \<open>\<open>pages[activePage].page\<close>, mounted.\<close>

definition render_app_page :: "db \<Rightarrow> nat \<Rightarrow> app_page" where
  "render_app_page d n =
     (if n = 0 then CreateInvoiceOn (invoice_page_mount (loaded_editor d))
      else if n = 1 then CardsOn (cards_page_mount d)
      else ReportsOn (reports_page_mount d))"

definition app_mount :: "db \<Rightarrow> app" where
  "app_mount d = \<lparr>app_activePage = 0, app_page = render_app_page d 0\<rparr>"

text \<open>
  The events: a navigation button (\<open>setActivePage(n)\<close>, only to another of the three
  pages), an event of the page on screen, and \<open>handleCreateInvoice\<close> with the server's
  clock.
\<close>

datatype app_event =
    Navigate nat
  | InvoicePageEvent page_event
  | CreateInvoiceAt string
  | CardsEvent cards_event
  | ReportsEvent reports_event

fun is_create_event :: "page_event \<Rightarrow> bool" where
  "is_create_event (OnPage (CreateInvoice _)) = True"
| "is_create_event _ = False"

text \<open>
  The answer of \<open>POST /api/invoices\<close> as \<open>handleCreateInvoice\<close> reads it:
  \<open>response.data.id\<close> of the stored invoice; an error, or a \<open>null\<close> answer whose
  \<open>.id\<close> throws, lands in the \<open>catch\<close>.
\<close>

definition post_answer :: "db_error + stored_invoice option \<Rightarrow> entity_id option" where
  "post_answer r = (case r of Inr (Some si) \<Rightarrow> Some (ir_id (si_invoice si)) | _ \<Rightarrow> None)"

text \<open>
  \<open>handleCreateInvoice\<close>: the request only when the page's validation passes
  (\<open>create_request\<close>), then the page handles the answer.
\<close>

definition app_create_invoice :: "string \<Rightarrow> db \<Rightarrow> invoice_page \<Rightarrow> (invoice_page \<times> db) option" where
  "app_create_invoice now d p =
     (case create_request (ip_editor p) of
        Inl _ \<Rightarrow> map_option (\<lambda>p'. (p', d)) (invoice_page_step d (OnPage (CreateInvoice None)) p)
      | Inr pl \<Rightarrow>
          (case postInvoice now pl d of
             (d', r) \<Rightarrow> map_option (\<lambda>p'. (p', d')) (invoice_page_step d' (OnPage (CreateInvoice (post_answer r))) p)))"

fun app_step :: "db \<Rightarrow> int \<Rightarrow> app_event \<Rightarrow> app \<Rightarrow> (app \<times> db) option" where
  "app_step d tz (Navigate n) a =
     Some (if n \<le> 2 \<and> n \<noteq> app_activePage a
           then \<lparr>app_activePage = n, app_page = render_app_page d n\<rparr> else a, d)"
| "app_step d tz (InvoicePageEvent e) a =
     (case app_page a of
        CreateInvoiceOn p \<Rightarrow>
          if is_create_event e then Some (a, d)
          else map_option (\<lambda>p'. (a\<lparr>app_page := CreateInvoiceOn p'\<rparr>, d)) (invoice_page_step d e p)
      | _ \<Rightarrow> Some (a, d))"
| "app_step d tz (CreateInvoiceAt now) a =
     (case app_page a of
        CreateInvoiceOn p \<Rightarrow>
          if page_enabled p (CreateInvoice None)
          then map_option (\<lambda>(p', d'). (a\<lparr>app_page := CreateInvoiceOn p'\<rparr>, d')) (app_create_invoice now d p)
          else Some (a, d)
      | _ \<Rightarrow> Some (a, d))"
| "app_step d tz (CardsEvent e) a =
     (case app_page a of
        CardsOn c \<Rightarrow> map_option (\<lambda>(c', d'). (a\<lparr>app_page := CardsOn c'\<rparr>, d')) (cards_page_step d e c)
      | _ \<Rightarrow> Some (a, d))"
| "app_step d tz (ReportsEvent e) a =
     (case app_page a of
        ReportsOn r \<Rightarrow> Some (a\<lparr>app_page := ReportsOn (reports_page_step d tz e r)\<rparr>, d)
      | _ \<Rightarrow> Some (a, d))"

fun app_run :: "db \<Rightarrow> int \<Rightarrow> app_event list \<Rightarrow> app \<Rightarrow> (app \<times> db) option" where
  "app_run d tz [] a = Some (a, d)"
| "app_run d tz (e # es) a =
     (case app_step d tz e a of None \<Rightarrow> None | Some (a', d') \<Rightarrow> app_run d' tz es a')"

text \<open>The invoice page, when on screen, works on the catalogs of the current database.\<close>

definition editor_catalog :: "editor \<Rightarrow> customer list \<times> price list \<times> product list" where
  "editor_catalog s = (availableCustomers s, availablePrices s, availableProducts s)"

definition db_catalog :: "db \<Rightarrow> customer list \<times> price list \<times> product list" where
  "db_catalog d = (getCustomers [] d, getPrices [] d, getProducts [] d)"

definition app_inv :: "db \<Rightarrow> app \<Rightarrow> bool" where
  "app_inv d a \<longleftrightarrow>
     (case app_page a of CreateInvoiceOn p \<Rightarrow> editor_catalog (ip_editor p) = db_catalog d | _ \<Rightarrow> True)"

text \<open>
  A sample session: on the cards page a customer is created, back on the invoice page
  the customer dialog finds and selects it.
\<close>

definition sample_app_run :: "app_event list" where
  "sample_app_run =
     [Navigate 1, CardsEvent (CustomerCardEvent CreateNew),
      CardsEvent (CustomerCardEvent (EditorEvent (CSetName ''Merdan''))),
      CardsEvent (CustomerCardEvent (EditorEvent (CSetPhoneNumber ''+99365000000''))),
      CardsEvent (CustomerCardEvent (EditorEvent (CSetAddress ''Mary''))),
      CardsEvent (CustomerCardEvent (EditorEvent CSubmit)),
      Navigate 0, InvoicePageEvent OpenCustomerSearch, InvoicePageEvent (CustomerDialog (DRespond 0)),
      InvoicePageEvent (CustomerDialog (DSearch ''Merdan'')), InvoicePageEvent (CustomerDialog (DSelect 0))]"

text \<open>
  The invariant: no operation of the invoice page changes the editor's catalogs, no
  operation of the server behind the invoice page changes the database's, and a
  freshly mounted invoice page loads those of the database.
\<close>

lemma editor_handle_catalog:
  assumes h: "editor_handle s e = Some t"
  shows "editor_catalog t = editor_catalog s"
proof (cases e)
  case (SelectInvoicePrice pid)
  with h show ?thesis
    by (auto simp: editor_catalog_def handleInvoicePriceSelected_def split: option.splits)
next
  case SearchBarcode
  with h show ?thesis
    by (auto simp: editor_catalog_def handleProductSearch_def addProductToInvoice_def Let_def
        split: option.splits if_splits)
next
  case (SelectProductFromDialog pid)
  with h show ?thesis
    by (auto simp: editor_catalog_def handleProductSelectedFromDialog_def addProductToInvoice_def
        split: option.splits)
next
  case (ChangeMeasurement f v)
  with h show ?thesis
    by (auto simp: editor_catalog_def handleMeasurementsChange_def Let_def split: option.splits if_splits)
next
  case (AddExtraFromDialog k)
  with h show ?thesis
    by (auto simp: editor_catalog_def handleAddExtraProductFromDialog_def Let_def split: option.splits if_splits)
next
  case (RemoveExtra k ei)
  with h show ?thesis
    by (auto simp: editor_catalog_def handleRemoveExtraProductFromCard_def Let_def split: option.splits if_splits)
next
  case (ChangeNote k v)
  with h show ?thesis by (auto simp: editor_catalog_def handleNoteChange_def split: if_splits)
next
  case (DuplicateCard k)
  with h show ?thesis by (auto simp: editor_catalog_def handleDuplicateProductCard_def split: if_splits)
next
  case (DropCard di oi)
  with h show ?thesis by (auto simp: editor_catalog_def handleDrop_def Let_def split: if_splits)
next
  case (CreateInvoice resp)
  with h show ?thesis
    by (auto simp: editor_catalog_def handleCreateInvoice_def split: sum.splits option.splits)
qed (use h in \<open>auto simp: editor_catalog_def handleCustomerSelected_def handleRemoveProductCard_def\<close>)

lemma settle_catalog: "editor_catalog (settle old new) = editor_catalog new"
  by (simp add: editor_catalog_def settle_def total_effect_def tier_effect_def customer_effect_def
      split: option.splits)

lemma editor_step_catalog: "editor_step s e = Some t \<Longrightarrow> editor_catalog t = editor_catalog s"
  by (auto simp: editor_step_def settle_catalog dest: editor_handle_catalog)

lemma fetch_dialog_event_catalog:
  "fetch_dialog_event key filt sel e l s = Some (l', s') \<Longrightarrow> editor_catalog s' = editor_catalog s"
  by (auto simp: fetch_dialog_event_def split: dialog_event.splits option.splits dest: editor_step_catalog)

lemma extra_dialog_select_catalog:
  assumes "extra_dialog_select j t p = Some p'"
  shows "editor_catalog (ip_editor p') = editor_catalog (ip_editor p)"
proof (cases "ip_editor p' = ip_editor p")
  case False
  then obtain i s' where cur: "currentProductIndexForExtraProducts (ip_editor p) = Some i"
    and i: "i < length (addedProducts (ip_editor p))"
    and j: "j < length (extra_dialog_filter t (extraProducts (card_product (addedProducts (ip_editor p) ! i))))"
    and h: "map_option (settle (ip_editor p)) (handleAddExtraProductFromDialog
              (ep_id (extra_dialog_filter t (extraProducts (card_product (addedProducts (ip_editor p) ! i))) ! j))
              (ip_editor p)) = Some s'"
    and s': "ip_editor p' = s'"
    using assms by (auto simp: extra_dialog_select_def Let_def split: option.splits if_splits)
  obtain k where "editor_step (ip_editor p) (AddExtraFromDialog k) = Some s'"
    using extra_dialog_select_event [OF cur i refl j] h by metis
  then show ?thesis using s' by (simp add: editor_step_catalog)
qed simp

lemma invoice_page_step_catalog:
  assumes "invoice_page_step d e p = Some p'"
  shows "editor_catalog (ip_editor p') = editor_catalog (ip_editor p)"
proof (cases e)
  case (ExtraDialog x)
  then show ?thesis using assms extra_dialog_select_catalog
    by (auto split: option.splits dialog_event.splits)
qed (use assms in \<open>auto simp: Let_def split: if_splits option.splits prod.splits
                   dest: editor_step_catalog fetch_dialog_event_catalog\<close>)

lemma postInvoice_catalog: "db_catalog (fst (postInvoice now pl d)) = db_catalog d"
proof (cases "payload_refs_ok d pl")
  case True
  then show ?thesis
    by (simp add: postInvoice_commit db_catalog_def getCustomers_def getPrices_def getProducts_def
        product_view_def extra_product_view_def)
next
  case False
  then show ?thesis using postInvoice_fail [OF False, of now] by auto
qed

lemma app_create_invoice_inv:
  assumes "app_create_invoice now d p = Some (p', d')"
  shows "editor_catalog (ip_editor p') = editor_catalog (ip_editor p) \<and> db_catalog d' = db_catalog d"
proof (cases "create_request (ip_editor p)")
  case (Inl m)
  then have "invoice_page_step d (OnPage (CreateInvoice None)) p = Some p'" "d' = d"
    using assms by (auto simp: app_create_invoice_def simp del: invoice_page_step.simps)
  then show ?thesis by (auto dest: invoice_page_step_catalog simp del: invoice_page_step.simps)
next
  case (Inr pl)
  obtain d1 r where post: "postInvoice now pl d = (d1, r)" by fastforce
  then have "invoice_page_step d1 (OnPage (CreateInvoice (post_answer r))) p = Some p'" "d' = d1"
    using assms Inr by (auto simp: app_create_invoice_def simp del: invoice_page_step.simps)
  moreover have "db_catalog d1 = db_catalog d" using postInvoice_catalog [of now pl d] post by simp
  ultimately show ?thesis by (auto dest: invoice_page_step_catalog simp del: invoice_page_step.simps)
qed

lemma render_app_page_inv: "app_inv d \<lparr>app_activePage = n, app_page = render_app_page d n\<rparr>"
  by (simp add: app_inv_def render_app_page_def invoice_page_mount_def loaded_editor_def editor_init_def
      editor_catalog_def db_catalog_def)

lemma app_step_inv:
  assumes "app_inv d a" "app_step d tz e a = Some (a', d')"
  shows "app_inv d' a'"
proof (cases e)
  case (Navigate n)
  then show ?thesis using assms render_app_page_inv [of d n] by (auto split: if_splits)
next
  case (InvoicePageEvent x)
  then show ?thesis using assms
    by (auto simp: app_inv_def split: app_page.splits if_splits dest: invoice_page_step_catalog)
next
  case (CreateInvoiceAt now)
  then show ?thesis using assms
    by (auto simp: app_inv_def split: app_page.splits if_splits prod.splits dest!: app_create_invoice_inv)
qed (use assms in \<open>auto simp: app_inv_def split: app_page.splits prod.splits\<close>)

lemma app_run_inv: "app_inv d a \<Longrightarrow> app_run d tz es a = Some (a', d') \<Longrightarrow> app_inv d' a'"
  by (induction d tz es a rule: app_run.induct) (auto split: option.splits dest: app_step_inv)

text \<open>
  C5. Within one run of the application, whatever the events (navigation, dialogs,
  card edits that add or change customers, tiers and products, invoices created
  through the server), whenever the invoice page is on screen its editor's
  customers, tiers and products are those of the current database: a page works on
  the data loaded when it was mounted, and every change of the catalog happens on
  another page, whose leaving remounts the invoice page.
\<close>

theorem app_invoice_catalog_current:
  "app_run d tz es (app_mount d) = Some (a, d') \<Longrightarrow> app_inv d' a"
  unfolding app_mount_def by (erule app_run_inv [OF render_app_page_inv])

theorem app_invoice_catalog_current_witness:
  "case app_run initDb 300 sample_app_run (app_mount initDb) of
     Some (a, d') \<Rightarrow> app_inv d' a \<and>
       (case app_page a of
          CreateInvoiceOn p \<Rightarrow> map_option customer_name (selectedCustomer (ip_editor p)) = Some ''Merdan''
        | _ \<Rightarrow> False)
   | None \<Rightarrow> False"
proof -
  have "app_run initDb 300 sample_app_run (app_mount initDb) \<noteq> None" by code_simp
  then obtain a d' where r: "app_run initDb 300 sample_app_run (app_mount initDb) = Some (a, d')" by auto
  have "case app_run initDb 300 sample_app_run (app_mount initDb) of
          Some (a, d') \<Rightarrow>
            (case app_page a of
               CreateInvoiceOn p \<Rightarrow> map_option customer_name (selectedCustomer (ip_editor p)) = Some ''Merdan''
             | _ \<Rightarrow> False)
        | None \<Rightarrow> False"
    by code_simp
  then show ?thesis using app_invoice_catalog_current [OF r] r by simp
qed

end
