(* ===== verification/Spec2Isabelle.thy ===== *)
theory Spec2Isabelle
  imports InvoiceEditor Reports ProductEditor ExtraProductEditor SimpleEditors ReportsTabs ReportDialogs CardPages SearchDialogs App
begin

text \<open>
  \<^bold>\<open>A verification library of the invoice application\<close> (an Electron desktop app
  of a React client, \<open>src/client/src\<close>, over an Express and Sequelize/SQLite server,
  \<open>src/server\<close>).  The client's invoice page prices products measured in up to three
  dimensions, under a price tier chosen per customer or per invoice, adds extra products
  whose quantity is a user formula of the measurements, and posts the invoice; the
  server stores it in one transaction.

  \<^bold>\<open>Theories and the code they model.\<close>
  \<^item> \<open>Prelude\<close>: the array operations the page uses on its card list
    (\<open>splice\<close> as \<open>remove_at\<close>/\<open>insert_at\<close>, \<open>filter((_, i) => i !== k)\<close> as
    \<open>filter_index\<close>) and generic lemmas on folds, multisets, \<open>find\<close> and \<open>zip\<close>.
  \<^item> \<open>JsNum\<close>: JavaScript numbers as \<open>Fin\<close> (an exact rational), \<open>PInf\<close>,
    \<open>NInf\<close> and \<open>NaN\<close>, with the operators of ECMA-262, \<open>ToBoolean\<close>, \<open>x || y\<close>
    and the passage through JSON (\<open>json_number\<close>: a non-finite number becomes
    \<open>null\<close>, read as 0).  Addition is a commutative monoid, so sums are \<open>sum_list\<close>.
  \<^item> \<open>ParseFloat\<close>: the language's \<open>parseFloat\<close> and \<open>Number::toString\<close>, and
    \<open>measure_value\<close> = \<open>parseFloat(x) || 0\<close>, which reads every measurement field.
  \<^item> \<open>Entities\<close>: the rows of \<open>src/server/db/model.js\<close> as the client receives
    them (\<open>price\<close>, \<open>customer\<close>, \<open>product\<close>, \<open>extra_product\<close>), the body of
    \<open>POST /api/invoices\<close> (\<open>invoice_payload\<close>), and the seed rows of \<open>initDb\<close>
    (\<open>src/server/index.js\<close>).
  \<^item> \<open>Formula\<close>: \<open>calculateExtraProductQuantity\<close> of
    \<open>src/client/src/pages/invoice/index.js\<close>: the textual substitution of the
    measurements into the formula (\<open>replace_all\<close>, \<open>substitute_formula\<close>) and
    \<open>eval\<close> of the result, modelled as a lexer (\<open>lex\<close>), a shunting-yard parser
    (\<open>parse_sy\<close>) and an evaluator (\<open>eval_expr\<close>) of the numeric fragment of
    strict-mode JavaScript: numerals, \<open>Infinity\<close>, unary and binary \<open>+ - * / %\<close>,
    parentheses and comments; every other token is a \<open>SyntaxError\<close> or a
    \<open>ReferenceError\<close>, which the \<open>catch\<close> turns into 0.
  \<^item> \<open>InvoiceLine\<close>: one product card of the invoice page:
    \<open>calculateProductQuantity\<close>, \<open>calculateProductCardPrice\<close> (the tier override
    found with \<open>find\<close>, \<open>tier_row\<close>), the extra products' prices, and the card
    updater of \<open>updateProductItem\<close> (\<open>recalculate_card\<close>); \<open>tier_price\<close> is the
    specification's tier contract.
  \<^item> \<open>InvoiceEditor\<close>: the invoice page as a state machine.  The record \<open>editor\<close>
    holds the page's \<open>useState\<close> variables; \<open>editor_event\<close> has one constructor
    per handler (\<open>handleCustomerSelected\<close>, \<open>handleProductSearch\<close>,
    \<open>handleMeasurementsChange\<close>, \<open>handleDrop\<close>, \<open>handleCreateInvoice\<close>, ...), and
    \<open>editor_handle\<close> applies it (None when the handler throws).  React runs the
    page's \<open>useEffect\<close>s after each render; \<open>settle\<close> runs them in the order they
    are declared (customer, then tier, then total), and \<open>editor_step\<close> is a handler
    followed by \<open>settle\<close>.  \<open>editor_reachable\<close> is the inductive set of states
    reached from \<open>editor_init\<close> (the loaded catalog); \<open>editor_inv\<close> is its invariant.
  \<^item> \<open>Server\<close>: \<open>POST /api/invoices\<close> of \<open>src/server/routes/invoice.js\<close> over
    the tables of \<open>model.js\<close>: each statement (\<open>insert_invoice\<close>,
    \<open>insert_items\<close>, \<open>insert_extra_items\<close>) may fail on a foreign key, and
    \<open>transaction\<close> commits all of them or none; \<open>read_invoice\<close> is the
    \<open>findByPk\<close> with its includes; \<open>initDb\<close> is the seed function's database (not called at startup).
  \<^item> \<open>Database\<close>: the tables of \<open>model.js\<close> as rows (\<open>product_row\<close>,
    \<open>join_price_row\<close>, \<open>invoice_row\<close>, ...) in the record \<open>db\<close> with one id sequence
    per table, the joins the routes answer (\<open>product_view\<close>, \<open>extra_product_view\<close>),
    \<open>Model.update\<close> and \<open>ON DELETE SET NULL\<close> as \<open>update_where\<close>, and SQLite's
    \<open>LIKE\<close> (\<open>like_match\<close>, ASCII case-insensitive, with the wildcards \<open>%\<close> and
    \<open>_\<close>) used by every list route as \<open>like_search\<close>.
  \<^item> \<open>CatalogRoutes\<close>: the routes of \<open>price.js\<close>, \<open>customer.js\<close>,
    \<open>extraproduct.js\<close> and \<open>product.js\<close>, each a function from the database to
    the new database and the answer (\<open>json\<close>) or the \<open>db_error\<close> that makes Express
    answer 500; deletes apply the schema's \<open>ON DELETE\<close> actions (\<open>delete_price\<close>,
    ...), except the product delete, whose \<open>destroy()\<close> runs outside its transaction
    on another connection of the database file and fails on the transaction's lock
    (\<open>SQLITE_BUSY\<close>, \<open>LockBusy\<close>): \<open>deleteProduct\<close> never changes the database.  \<open>api_request\<close> and \<open>api_step\<close> are the writes \<open>routes/index.js\<close> mounts,
    \<open>db_reachable\<close> the databases reached from the empty one the server starts
    from (\<open>empty_db\<close>: \<open>startServer\<close> leaves its call of \<open>initDb\<close> commented out, so
    \<open>initDb\<close> is only the sample database of the examples), and \<open>db_integrity\<close> the
    referential integrity of every foreign key.
  \<^item> \<open>Reports\<close>: the read-only routes of \<open>src/server/routes/reports\<close>: the product,
    extra-product, customer and invoice reports and their detail routes.  The date range
    is spliced into the SQL text and compared with the stored \<open>createdAt\<close> text
    (\<open>date_where\<close>, the lexicographic order of strings); \<open>SUM\<close> is \<open>sql_sum\<close>, \<open>NULL\<close>
    on no rows, and \<open>coalesce\<close>; the invoice report joins the customer as an inner join.
  \<^item> \<open>FormValues\<close>, \<open>PriceRows\<close>, \<open>ProductEditor\<close>, \<open>ExtraProductEditor\<close>,
    \<open>SimpleEditors\<close>: the catalog editors of \<open>src/client/src/edit\<close>.  A form value
    is a string or a number (\<open>jsval\<close>), with \<open>String()\<close>, \<open>parseInt\<close>, \<open>trim\<close>,
    \<open>===\<close> and SameValueZero; each editor is its form record, the load effect composed
    with the \<open>GET\<close> route, every handler of its rows (a handler that throws is
    \<open>None\<close>), and \<open>handleSubmit\<close>'s validation and request composed with the
    \<open>POST\<close>/\<open>PUT\<close> routes of \<open>CatalogRoutes\<close>.
  \<^item> \<open>JsDate\<close>: the language's \<open>Date\<close> as the report pages use it: time values in
    milliseconds, a fixed local offset \<open>tz\<close> in minutes, the civil calendar
    (\<open>days_from_civil\<close>, \<open>civil_from_days\<close>), \<open>setHours\<close>, \<open>setDate\<close>,
    \<open>new Date(y, m, d)\<close> and \<open>toISOString().slice(0, 10)\<close> (\<open>iso_date\<close>, with the
    six-digit signed year outside 0 to 9999).
  \<^item> \<open>ReportPages\<close>: what the report pages of \<open>src/client/src/pages/reports\<close> share:
    the quick date ranges (\<open>getTodayRange\<close> ... \<open>getQuarterRange\<close>, \<open>quick_range\<close>),
    \<open>toFixed(2)\<close>, the cells of a table, and the asynchronous \<open>fetchReport\<close> as a
    view with its requests in flight (\<open>report_view\<close>): \<open>report_issue\<close> sends one
    with the current filters, \<open>report_respond\<close> applies the answer of any one of
    them, \<open>report_set_filters\<close> is a filter change and the effect it triggers.
  \<^item> \<open>InvoiceReportsPage\<close>: \<open>invoice/InvoiceReports.js\<close>: its state, every handler and
    every answer as an event of \<open>invoice_reports_step\<close>, composed with
    \<open>Reports.getInvoiceReport\<close>; runs are lists of events (\<open>invoice_reports_run\<close>).
  \<^item> \<open>SalesReportPages\<close>: the product, extra-product and customer report pages, the
    same handler code (\<open>sales_step\<close>) instantiated with each page's route, total and
    table row.
  \<^item> \<open>ReportDialogs\<close>: \<open>InvoiceDetails.js\<close>, \<open>ProductIndividualSales.js\<close> and
    \<open>ExtraProductIndividualSales.js\<close>: dialogs whose effect runs on new props
    (\<open>dialog_props_change\<close>), the nested details dialog, and the details' rendering,
    which throws on an item whose product was deleted (\<open>invoice_detail_content\<close>).
  \<^item> \<open>ReportsTabs\<close>: \<open>ReportsPage.js\<close>: the active tab and the page it mounts; a
    switch to a tab of another component remounts it with empty filters.
  \<^item> \<open>CatalogLists\<close>: the lists of \<open>src/client/src/list\<close>: each fetches with the
    \<open>report_view\<close> machine on mount and on a new \<open>refreshTrigger\<close>, filters its rows with
    \<open>toLowerCase().includes(...)\<close> (\<open>js_includes_ci\<close>, on ASCII letters) and renders
    its items (\<open>product_list_screen\<close>, ...).  The price list also sends its search
    term spliced into the URL; \<open>price_search_q\<close> is the \<open>req.query.q\<close> the server
    reads, through the browser's percent-encoding (\<open>browser_encode\<close>) and Express's
    query parser (\<open>qs_decode\<close>, \<open>split_on\<close>), both modelled from their documented
    behaviour.
  \<^item> \<open>CardPages\<close>: the card pages of \<open>src/client/src/pages/cards\<close>, one generic page
    (\<open>card_page\<close>, \<open>card_handle\<close>) over an editor interface (\<open>editor_iface\<close>:
    mount, load on a new id prop, handlers, and when \<open>onSaveSuccess\<close> is called) and a
    list interface (\<open>list_iface\<close>: its request and its \<open>refreshTrigger\<close> filter),
    instantiated with the four editors and the four lists (\<open>price_page_step\<close>, ...);
    \<open>card_render\<close> is the render after a handler (unmount, mount and load, reload, list
    fetch); \<open>cards_page_step\<close> is \<open>index.js\<close>, whose tab switch remounts a page.
  \<^item> \<open>SearchDialogs\<close>: the four dialogs of the invoice page (customer, tier and product
    search, which fetch when opened, and the extra-product selection of a card), each
    with its filter, rows and \<open>onSelect\<close>, composed with the page model as
    \<open>invoice_page_step\<close>: a dialog's overlay blocks the page, and its call is the page's
    handler (\<open>fetch_dialog_event\<close>, \<open>extra_dialog_select\<close>).
  \<^item> \<open>App\<close>: \<open>src/client/src/App.js\<close>, the shell that shows one of the three
    pages by \<open>activePage\<close> (\<open>app\<close>, \<open>app_step\<close>): navigating mounts the new page
    (\<open>render_app_page\<close>; the invoice page as \<open>fetchAllInitialData\<close> loads it,
    \<open>loaded_editor\<close>), an event goes to the page on screen, and the invoice page's
    \<open>handleCreateInvoice\<close> is composed with the server's \<open>postInvoice\<close>
    (\<open>app_create_invoice\<close>, \<open>post_answer\<close>), one database shared by all pages.

  \<^bold>\<open>What is proved.\<close>
  The invoice page: reordering the cards keeps the total (C1); in every reachable
  state the shown total is the sum of the cards and every card is recomputed under the
  invoice's tier (C2); the quantity of a card (C3) and the tier price, which refines the
  tier contract (C4) but ignores an override of 0 (C12); the formula evaluation never
  yields NaN (C6); a sent invoice is validated and carries the sum of its items (C8,
  C9).  The application as a whole: whenever the invoice page is on screen its
  customers, tiers and products are those of the current database (C5), and a click in
  the customer dialog selects exactly the customer the clicked row shows (C30).  The
  invoice route is all or nothing (C10), stores what it is sent (C11) and fails exactly
  on a dangling foreign key (C15).  The list routes' \<open>LIKE\<close> search is substring
  search for plain queries (C17), but every \<open>_\<close> of a query is a wildcard (C18); for
  plain terms the price list shows exactly the tiers whose name contains the term
  (C16), but a \<open>+\<close> in a term reaches the server as a space, so when no tier name
  has a space such a search shows nothing (C7).  A product read back after \<open>PUT\<close>
  is the body sent (C19); the extra-product \<open>POST\<close> is not atomic (C20); stored
  amounts never change (C21).  The reports: a one-day range finds nothing (C22), a
  product's extra-product columns are global totals (C23), and deleting a customer
  drops their invoices from the invoice report (C24).  The editors: a product request
  is valid (C25) but the tier check compares strings with numbers (C26); the
  extra-product editor keeps the measure (C27) and half-stores an extra product with a
  stale tier (C28); saving a deleted customer reports success (C29).  The card pages:
  a successful save closes the editor and the list, once its answers arrive, holds the
  database after the save (C13), and the measure the editor keeps never reaches the
  next creation, because the page remounts the editor (C14).  The report pages: east
  of UTC the range \<open>today\<close> misses today's invoices (C31); answers in request order
  settle a page on its filters (C32), answers out of order leave the rows of an older
  request under the filters on screen (C33).

  Lemmas beside the claims: every database reached from the empty one has referential
  integrity (\<open>reachable_integrity\<close>); \<open>DELETE /api/products/:id\<close> never commits
  (\<open>deleteProduct_keeps_db\<close>), and the delete it means to do would make the details
  of the invoices that sold the product throw (\<open>delete_product_invoice_details_crash\<close>);
  the dialogs refine the page model (\<open>invoice_page_dialogs_refine\<close>); every day number
  is a day of the calendar (\<open>civil_from_days_valid\<close>).

  \<^bold>\<open>Bounds and fuel.\<close>  No definition uses fuel: the lexer terminates by the
  length of the input, the parser and evaluator by structural recursion, and the event
  runs (\<open>editor_run\<close>, \<open>invoice_reports_run\<close>, ...) by the length of the event list.
  Numbers are exact rationals: rounding to 53 bits, overflow to \<open>Infinity\<close> and
  \<open>-0\<close> are not modelled, so a property of a sum holds of the exact sum, and
  \<open>toFixed\<close> rounds the exact value.  The calendar conversion \<open>civil_from_days\<close> is
  bounded once for all day numbers: within an era of 400 years its day of the year is
  at most 365 (checked at the first days of the 400 years, \<open>year_table\<close>), and its
  month and day follow from the 366 days of a year (\<open>month_day_table\<close>).  The clock
  is a parameter of each quick-range
  event and the time zone a constant offset (no daylight saving time); the quick ranges
  are proved for \<open>0 < tz < 1440\<close> and evaluated for \<open>tz = 0\<close> and \<open>tz = 300\<close>.  The
  server answers a request from the database at hand when it is sent; the answers
  arrive in any order, one event each.

  \<^bold>\<open>Not modelled.\<close>  Styles and layout (JSX beyond the texts and cells shown),
  \<open>toLocaleString\<close> (a \<open>LocaleDateTime\<close> cell), the SVG of \<open>renderProductImage\<close>
  (a \<open>Figure\<close> cell), \<open>window.print\<close>, the Electron shell
  (\<open>src/electron-main.js\<close>), \<open>utils/image.js\<close>, the database
  configuration (\<open>src/server/db/conf.js\<close>),
  non-ASCII case mapping of \<open>toLowerCase\<close>, and \<open>CustomerIndividualSales\<close>, which
  \<open>CustomerSalesReports.js\<close> imports but the repository does not contain.  The
  invoice page's \<open>handleCreateInvoice\<close> alone takes the server's answer as a
  parameter; composed in \<open>App\<close> it is the answer of \<open>postInvoice\<close>.  The loading
  phase of the invoice page (controls disabled until \<open>fetchAllInitialData\<close>
  answers) and the \<open>InvoiceDetails\<close> modal it opens after a creation are not
  modelled in \<open>App\<close>.
\<close>

end
